(* ===== verification/Prelude.thy ===== *)
theory Prelude
  imports Main "HOL-Library.Word" "HOL-Library.Char_ord" "HOL-Library.List_Lexorder"
    "HOL-Library.Monad_Syntax"
begin

text \<open>
  Shared vocabulary of the development: the machine types the C++ client uses, the convention
  for uncaught C++ exceptions (\<open>None\<close>: the exception leaves the function; on the threads of
  this program nothing catches it, so the process ends), and generic facts on options, lists
  and little-endian byte strings that several components need.
\<close>

section \<open>Machine types\<close>

type_synonym byte = "8 word"
type_synonym u16 = "16 word"
type_synonym u32 = "32 word"
type_synonym u64 = "64 word"
type_synonym i32 = "32 word" \<comment> \<open>\<open>int32_t\<close> and \<open>int\<close>, read with \<open>sint\<close>\<close>
type_synonym addr = "64 word" \<comment> \<open>\<open>uintptr_t\<close> and \<open>size_t\<close> on x64\<close>

named_theorems model_defs \<open>definitions of handlers, unfolded together in branch proofs\<close>
named_theorems frame_simps \<open>which parts of the state an operation leaves alone\<close>

section \<open>Options as computations that may throw\<close>

lemma bind_eq_Some_conv' [simp]:
  "Option.bind m f = Some b \<longleftrightarrow> (\<exists>a. m = Some a \<and> f a = Some b)"
  by (cases m) auto

lemma bind_eq_None_conv' [simp]:
  "Option.bind m f = None \<longleftrightarrow> m = None \<or> (\<exists>a. m = Some a \<and> f a = None)"
  by (cases m) auto

text \<open>
  Partial correctness of a computation that may throw: \<open>ensures Q m\<close> says that \<open>m\<close> either throws
  or returns a value that satisfies \<open>Q\<close>. The rules follow the syntax of the handlers;
  \<open>ensures_seq\<close> is for a step that passes the state on, \<open>ensures_val\<close> for one that only
  computes a value.
\<close>

definition ensures :: "('a \<Rightarrow> bool) \<Rightarrow> 'a option \<Rightarrow> bool" where
  "ensures Q m \<longleftrightarrow> (\<forall>a. m = Some a \<longrightarrow> Q a)"

lemma ensuresD: "ensures Q m \<Longrightarrow> m = Some a \<Longrightarrow> Q a"
  by (simp add: ensures_def)

lemma ensures_Some: "Q a \<Longrightarrow> ensures Q (Some a)"
  by (simp add: ensures_def)

lemma ensures_None: "ensures Q None"
  by (simp add: ensures_def)

lemma ensures_seq: "ensures Q m \<Longrightarrow> (\<And>a. Q a \<Longrightarrow> ensures Q (f a)) \<Longrightarrow> ensures Q (Option.bind m f)"
  by (auto simp: ensures_def)

lemma ensures_val: "(\<And>a. m = Some a \<Longrightarrow> ensures Q (f a)) \<Longrightarrow> ensures Q (Option.bind m f)"
  by (auto simp: ensures_def)

lemma ensures_bind:
  "ensures P m \<Longrightarrow> (\<And>a. P a \<Longrightarrow> ensures Q (f a)) \<Longrightarrow> ensures Q (Option.bind m f)"
  by (auto simp: ensures_def)

lemma ensures_then_Some: "(\<And>a. Q (f a)) \<Longrightarrow> ensures Q (Option.bind m (\<lambda>a. Some (f a)))"
  by (auto simp: ensures_def)

lemma ensures_if: "(b \<Longrightarrow> ensures Q m) \<Longrightarrow> (\<not> b \<Longrightarrow> ensures Q n) \<Longrightarrow> ensures Q (if b then m else n)"
  by simp

lemma ensures_mono: "ensures P m \<Longrightarrow> (\<And>a. P a \<Longrightarrow> Q a) \<Longrightarrow> ensures Q m"
  by (simp add: ensures_def)

text \<open>Running a body over a list of items, stopping at the first exception.\<close>

fun foldM :: "('a \<Rightarrow> 's \<Rightarrow> 's option) \<Rightarrow> 'a list \<Rightarrow> 's \<Rightarrow> 's option" where
  "foldM f [] s = Some s"
| "foldM f (x # xs) s = Option.bind (f x s) (foldM f xs)"

lemma foldM_append: "foldM f (xs @ ys) s = Option.bind (foldM f xs s) (foldM f ys)"
proof (induction xs arbitrary: s)
  case Nil
  then show ?case by simp
next
  case (Cons x xs)
  then show ?case by (cases "f x s") auto
qed

lemma foldM_total: "(\<And>x s. f x s \<noteq> None) \<Longrightarrow> foldM f xs s \<noteq> None"
  by (induction xs arbitrary: s) fastforce+

lemma foldM_invariant:
  assumes "foldM f xs s = Some t" and "P s"
    and "\<And>x s t. x \<in> set xs \<Longrightarrow> P s \<Longrightarrow> f x s = Some t \<Longrightarrow> P t"
  shows "P t"
  using assms
proof (induction xs arbitrary: s)
  case Nil
  then show ?case by simp
next
  case (Cons x xs)
  from Cons.prems(1) obtain u where u: "f x s = Some u" and r: "foldM f xs u = Some t"
    by auto
  from Cons.prems(3) [OF _ Cons.prems(2) u] have "P u" by simp
  from Cons.IH [OF r this] Cons.prems(3) show ?case by (meson list.set_intros(2))
qed

lemma ensures_foldM:
  "Q s \<Longrightarrow> (\<And>x s. x \<in> set xs \<Longrightarrow> Q s \<Longrightarrow> ensures Q (f x s)) \<Longrightarrow> ensures Q (foldM f xs s)"
proof (induction xs arbitrary: s)
  case Nil
  then show ?case by (simp add: ensures_def)
next
  case (Cons x xs)
  have "ensures Q (f x s)" by (rule Cons.prems(2)) (simp_all add: Cons.prems(1))
  moreover have "ensures Q (foldM f xs t)" if "Q t" for t
    by (rule Cons.IH[OF that]) (simp add: Cons.prems(2))
  ultimately show ?case unfolding foldM.simps by (rule ensures_seq)
qed

section \<open>Little-endian byte strings\<close>

text \<open>
  \<open>memcpy\<close> of a \<open>T\<close> of \<open>n\<close> bytes on x64: byte \<open>i\<close> of the object is bits
  \<open>8 * i .. 8 * i + 7\<close> of its value.
\<close>

definition le_byte :: "'a::len word \<Rightarrow> nat \<Rightarrow> byte" where
  "le_byte w i = ucast (drop_bit (8 * i) w)"

definition to_le :: "nat \<Rightarrow> 'a::len word \<Rightarrow> byte list" where
  "to_le n w = map (le_byte w) [0..<n]"

fun of_le :: "byte list \<Rightarrow> 'a::len word" where
  "of_le [] = 0"
| "of_le (b # bs) = or (ucast b) (push_bit 8 (of_le bs))"

lemma length_to_le [simp]: "length (to_le n w) = n"
  by (simp add: to_le_def)

lemma nth_to_le [simp]: "i < n \<Longrightarrow> to_le n w ! i = le_byte w i"
  by (simp add: to_le_def)

lemma bit_of_le:
  "bit (of_le bs :: 'a::len word) k \<longleftrightarrow>
     k < LENGTH('a) \<and> k div 8 < length bs \<and> bit (bs ! (k div 8)) (k mod 8)"
proof (induction bs arbitrary: k)
  case Nil
  then show ?case by simp
next
  case (Cons b bs)
  show ?case
  proof (cases "k < 8")
    case True
    then show ?thesis
      by (auto simp: bit_or_iff bit_push_bit_iff bit_ucast_iff)
  next
    case False
    then have k: "k div 8 = Suc ((k - 8) div 8)" "k mod 8 = (k - 8) mod 8"
      by (auto simp: div_if mod_if)
    from False have "\<not> bit b k"
      using bit_imp_le_length [of b k] by auto
    with False k show ?thesis
      by (auto simp: bit_or_iff bit_push_bit_iff bit_ucast_iff Cons.IH)
  qed
qed

lemma of_le_to_le:
  assumes "LENGTH('a) = 8 * n"
  shows "of_le (to_le n w) = (w :: 'a::len word)"
proof (rule bit_word_eqI)
  fix k
  assume "k < LENGTH('a)"
  with assms have "k div 8 < n" by auto
  with \<open>k < LENGTH('a)\<close> show "bit (of_le (to_le n w) :: 'a word) k \<longleftrightarrow> bit w k"
    by (simp add: bit_of_le le_byte_def bit_ucast_iff bit_drop_bit_eq)
qed

lemma of_le_to_le_32 [simp]: "of_le (to_le 4 w) = (w :: 32 word)"
  by (rule of_le_to_le) simp

lemma of_le_to_le_64 [simp]: "of_le (to_le 8 w) = (w :: 64 word)"
  by (rule of_le_to_le) simp

lemma of_le_to_le_8 [simp]: "of_le (to_le 1 w) = (w :: 8 word)"
  by (rule of_le_to_le) simp

end
