(* ===== verification/Ws_Frame.thy ===== *)
theory Ws_Frame
  imports Prelude
begin

text \<open>
  The wire format of \<open>client/src/net/client.cpp\<close>: the frame \<open>SendFrame\<close> builds, the frame
  parser inside \<open>ReceiveLoop\<close>, and \<open>Base64\<close>. Sizes and lengths are 64-bit words, with the
  wrap-around of the C++ additions. The lemmas show that the parser inverts the encoder, that
  it consumes at least two bytes per frame (so the inner loop ends), and that a stream parses to
  the same messages however TCP cuts it.
\<close>

section \<open>Bytes and characters\<close>

definition byte_of_char :: "char \<Rightarrow> byte" where \<comment> \<open>\<open>static_cast<unsigned char>\<close>\<close>
  "byte_of_char c = word_of_nat (of_char c)"

definition char_of_byte :: "byte \<Rightarrow> char" where \<comment> \<open>\<open>static_cast<char>\<close>\<close>
  "char_of_byte b = char_of (unat b)"

lemma char_of_byte_of_char [simp]: "char_of_byte (byte_of_char c) = c"
proof -
  have "(of_char c :: nat) < 256" by simp
  then have "unat (word_of_nat (of_char c) :: byte) = of_char c"
    by (simp add: unat_of_nat)
  then show ?thesis by (simp add: char_of_byte_def byte_of_char_def)
qed

section \<open>\<open>SendFrame\<close>: client to server\<close>

definition frame_length_field :: "u64 \<Rightarrow> byte list" where
  "frame_length_field len =
     (if len < 126 then [or 0x80 (ucast len)]
      else if len \<le> 0xFFFF then
        [or 0x80 126, ucast (and (drop_bit 8 len) 0xFF), ucast (and len 0xFF)]
      else or 0x80 127 # map (\<lambda>i. ucast (and (drop_bit (i * 8) len) 0xFF)) [7, 6, 5, 4, 3, 2, 1, 0])"

definition mask_bytes :: "byte list \<Rightarrow> byte list \<Rightarrow> byte list" where
  "mask_bytes mk bs = map (\<lambda>i. xor (bs ! i) (mk ! (i mod 4))) [0..<length bs]"

text \<open>The bytes \<open>SendFrame\<close> hands to \<open>SendAll\<close>; \<open>mk\<close> is what \<open>std::random_device\<close> gave.\<close>

definition frame_bytes :: "byte list \<Rightarrow> string \<Rightarrow> byte list" where
  "frame_bytes mk payload =
     [0x81] @ frame_length_field (of_nat (length payload)) @ mk
     @ mask_bytes mk (map byte_of_char payload)"

section \<open>\<open>ReceiveLoop\<close>: server to client\<close>

text \<open>
  \<open>payload.resize(n)\<close> throws \<open>std::length_error\<close> when \<open>n\<close> exceeds \<open>max_size()\<close>,
  \<open>2^63 - 1\<close> for \<open>std::string\<close> on x64.
\<close>

definition string_max_size :: u64 where
  "string_max_size = 0x7FFFFFFFFFFFFFFF"

datatype frame_result =
    Incomplete                      \<comment> \<open>\<open>break\<close>: wait for more bytes\<close>
  | Frame byte string nat           \<comment> \<open>opcode, unmasked payload, bytes consumed\<close>
  | Oversize                        \<comment> \<open>\<open>resize\<close> throws\<close>

fun be_value :: "u64 \<Rightarrow> byte list \<Rightarrow> u64" where \<comment> \<open>\<open>payloadLen = (payloadLen << 8) | rx[...]\<close>\<close>
  "be_value acc [] = acc"
| "be_value acc (b # bs) = be_value (or (push_bit 8 acc) (ucast b)) bs"

text \<open>The length field: \<open>(payloadLen, headerLen)\<close>, or \<open>None\<close> for the first \<open>break\<close>s.\<close>

definition parse_length :: "byte list \<Rightarrow> (u64 \<times> nat) option" where
  "parse_length bs =
     (let len7 = and (bs ! 1) 0x7F
      in if len7 = 126 then
           (if length bs < 4 then None
            else Some (or (push_bit 8 (ucast (bs ! 2))) (ucast (bs ! 3)), 4))
         else if len7 = 127 then
           (if length bs < 10 then None else Some (be_value 0 (take 8 (drop 2 bs)), 10))
         else Some (ucast len7, 2))"

text \<open>One pass of \<open>while (rx.size() - pos >= 2)\<close> on \<open>bs\<close>, the bytes from \<open>pos\<close> on.\<close>

definition parse_frame :: "byte list \<Rightarrow> frame_result" where
  "parse_frame bs =
     (if length bs < 2 then Incomplete
      else
        let b0 = bs ! 0; b1 = bs ! 1;
            opcode = and b0 0x0F;
            masked = (and b1 0x80 \<noteq> 0)
        in case parse_length bs of
             None \<Rightarrow> Incomplete
           | Some (payloadLen, headerLen) \<Rightarrow>
               if masked \<and> length bs < headerLen + 4 then Incomplete
               else
                 let mk = (if masked then take 4 (drop headerLen bs) else [0, 0, 0, 0]);
                     headerLen = (if masked then headerLen + 4 else headerLen)
                 in if (of_nat (length bs) :: u64) < of_nat headerLen + payloadLen then Incomplete
                    else if string_max_size < payloadLen then Oversize
                    else
                      let body = take (unat payloadLen) (drop headerLen bs);
                          body = (if masked then mask_bytes mk body else body)
                      in Frame opcode (map char_of_byte body) (headerLen + unat payloadLen))"

text \<open>What the loop does with a complete frame.\<close>

datatype ws_event =
    EvMessage string   \<comment> \<open>opcode 0, 1 or 2: handed to \<open>DeserializePacket\<close>\<close>
  | EvPing string      \<comment> \<open>opcode 9: answered with \<open>SendFrame(payload)\<close>\<close>

datatype rx_end = RxMore | RxClose | RxThrow

definition frame_events :: "byte \<Rightarrow> string \<Rightarrow> ws_event list" where
  "frame_events opcode payload =
     (if opcode = 9 then [EvPing payload]
      else if opcode = 1 \<or> opcode = 2 \<or> opcode = 0 then [EvMessage payload]
      else [])"

lemma parse_length_bounds:
  "parse_length bs = Some (n, h) \<Longrightarrow> 2 \<le> length bs \<Longrightarrow> 2 \<le> h \<and> h \<le> length bs"
  by (auto simp: parse_length_def Let_def split: if_splits)

lemma parse_frame_consumed:
  "parse_frame bs = Frame op p n \<Longrightarrow> 2 \<le> n \<and> 2 \<le> length bs"
  by (auto simp: parse_frame_def Let_def split: if_splits option.splits
      dest!: parse_length_bounds)

text \<open>
  The whole inner loop: events in order, why it stopped, and the bytes kept for the next
  \<open>recv\<close>. On a close frame the function returns before \<open>rx.erase\<close>.
\<close>

function parse_stream :: "byte list \<Rightarrow> ws_event list \<times> rx_end \<times> byte list" where
  "parse_stream bs =
     (case parse_frame bs of
        Incomplete \<Rightarrow> ([], RxMore, bs)
      | Oversize \<Rightarrow> ([], RxThrow, bs)
      | Frame opcode payload n \<Rightarrow>
          if opcode = 8 then ([], RxClose, bs)
          else (case parse_stream (drop n bs) of
                  (evs, e, rest) \<Rightarrow> (frame_events opcode payload @ evs, e, rest)))"
  by pat_completeness auto
termination
  by (relation "measure length") (auto dest!: parse_frame_consumed)

declare parse_stream.simps [simp del]

section \<open>The parser inverts the encoder\<close>


lemma mask_7F: "(0x7F :: byte) = Bit_Operations.mask 7"
  by (simp add: mask_eq_exp_minus_1)

lemma mask_FF: "(0xFF :: u64) = Bit_Operations.mask 8"
  by (simp add: mask_eq_exp_minus_1)

lemma ucast_and_FF: "(ucast (and x 0xFF) :: byte) = ucast (x :: u64)"
  unfolding mask_FF by (rule bit_word_eqI) (auto simp: bit_simps)

lemma bit_80: "bit (0x80 :: byte) n \<longleftrightarrow> n = 7"
proof -
  have "(0x80 :: byte) = 2 ^ 7" by simp
  then show ?thesis by (simp only: bit_exp_iff) auto
qed

lemma be_value_bytes:
  "be_value acc (map (\<lambda>i. ucast (and (drop_bit (i * 8) w) 0xFF)) (rev [0..<k]))
     = or (push_bit (k * 8) acc) (take_bit (k * 8) (w :: u64))"
proof (induction k arbitrary: acc)
  case 0
  then show ?case by simp
next
  case (Suc k)
  have "or (push_bit (k * 8) (or (push_bit 8 acc) (ucast (ucast (drop_bit (k * 8) w) :: byte))))
          (take_bit (k * 8) w)
      = or (push_bit (Suc k * 8) acc) (take_bit (Suc k * 8) w)"
  proof (rule bit_word_eqI)
    fix n assume "n < LENGTH(64)"
    moreover have "n - k * 8 - 8 = n - (8 + k * 8)" by simp
    ultimately show "bit (or (push_bit (k * 8) (or (push_bit 8 acc)
        (ucast (ucast (drop_bit (k * 8) w) :: byte)))) (take_bit (k * 8) w)) n
      = bit (or (push_bit (Suc k * 8) acc) (take_bit (Suc k * 8) w)) n"
      by (auto simp: bit_simps)
  qed
  with Suc.IH show ?case by (simp add: ucast_and_FF)
qed

lemma byte_or_80: "and (or 0x80 x) 0x7F = and (x :: byte) 0x7F"
  by (simp add: bit.conj_disj_distrib2)

lemma byte_or_80_flag: "and (or 0x80 (x :: byte)) 0x80 \<noteq> 0"
proof
  assume "and (or 0x80 (x :: byte)) 0x80 = 0"
  then have "bit (and (or 0x80 (x :: byte)) 0x80) 7 = bit (0 :: byte) 7" by simp
  then show False by (simp add: bit_simps bit_80)
qed

lemma take_bit_word_eq_self_byte: "(x :: byte) < 128 \<Longrightarrow> take_bit 7 x = x"
  by (simp add: word_unat_eq_iff word_less_nat_alt unsigned_take_bit_eq take_bit_nat_eq_self)

lemma byte_and_7F: "(x :: byte) < 128 \<Longrightarrow> and x 0x7F = x"
  unfolding mask_7F by (simp flip: take_bit_eq_mask add: take_bit_word_eq_self_byte)

text \<open>The length field the encoder writes, read back.\<close>

lemma ucast_small: "(n :: u64) < 256 \<Longrightarrow> ucast (ucast n :: byte) = n"
  by (simp add: word_unat_eq_iff word_less_nat_alt unsigned_ucast_eq unsigned_take_bit_eq
      take_bit_nat_eq_self)

lemma unat_ucast_byte: "(n :: u64) < 256 \<Longrightarrow> unat (ucast n :: byte) = unat n"
  by (simp add: word_less_nat_alt unsigned_ucast_eq take_bit_nat_eq_self)


lemma frame_length_field_len:
  "length (frame_length_field len) = (if len < 126 then 1 else if len \<le> 0xFFFF then 3 else 9)"
  by (simp add: frame_length_field_def)

lemma frame_length_field_flag: "and (hd (frame_length_field len)) 0x80 \<noteq> 0"
  unfolding frame_length_field_def using byte_or_80_flag[of "ucast len"] by simp

lemma parse_length_small:
  assumes "len < 126"
  shows "parse_length (b0 # frame_length_field len @ rest) = Some (len, 2)"
proof -
  from assms have "(ucast len :: byte) < 128"
    by (simp add: word_less_nat_alt unat_ucast_byte)
  then have 1: "and (or 0x80 (ucast len)) 0x7F = (ucast len :: byte)"
    by (simp only: byte_or_80 byte_and_7F)
  from assms have "unat (ucast len :: byte) = unat len" "unat len < 126"
    by (simp_all add: word_less_nat_alt unat_ucast_byte)
  then have "(ucast len :: byte) \<noteq> 126" "(ucast len :: byte) \<noteq> 127" by auto
  moreover have "ucast (ucast len :: byte) = len"
    using assms by (simp add: ucast_small word_less_nat_alt)
  ultimately show ?thesis
    using assms by (simp add: parse_length_def frame_length_field_def Let_def 1)
qed

lemma be16: "len \<le> 0xFFFF \<Longrightarrow>
    or (push_bit 8 (ucast (ucast (and (drop_bit 8 len) 0xFF) :: byte)))
       (ucast (ucast (and len 0xFF) :: byte)) = (len :: u64)"
proof -
  assume "len \<le> 0xFFFF"
  then have len: "take_bit 16 len = len"
    by (simp add: word_unat_eq_iff word_le_nat_alt unsigned_take_bit_eq take_bit_nat_eq_self)
  have "or (push_bit 8 (ucast (ucast (drop_bit 8 len) :: byte))) (ucast (ucast len :: byte))
      = take_bit 16 len"
    by (rule bit_word_eqI) (auto simp: bit_simps)
  with len show ?thesis by (simp add: ucast_and_FF)
qed

lemma parse_length_encoded:
  "parse_length (b0 # frame_length_field len @ rest) = Some (len, Suc (length (frame_length_field len)))"
proof -
  consider "len < 126" | "\<not> len < 126" "len \<le> 0xFFFF" | "\<not> len < 126" "\<not> len \<le> 0xFFFF" by blast
  then show ?thesis
  proof cases
    case 1
    then show ?thesis by (simp add: parse_length_small frame_length_field_len)
  next
    case 2
    then show ?thesis
      by (simp add: parse_length_def frame_length_field_def Let_def be16)
  next
    case 3
    have rv: "[7, 6, 5, 4, 3, 2, 1, 0] = rev [0..<8]" by (simp add: upt_rec)
    have "be_value 0 (map (\<lambda>i. ucast (and (drop_bit (i * 8) len) 0xFF)) (rev [0..<8])) = len"
      using take_bit_length_eq[of len] by (subst be_value_bytes) simp
    with 3 show ?thesis
      by (simp add: parse_length_def frame_length_field_def Let_def rv [symmetric])
  qed
qed

lemma mask_bytes_twice: "mask_bytes mk (mask_bytes mk bs) = bs"
proof (rule nth_equalityI)
  fix i assume "i < length (mask_bytes mk (mask_bytes mk bs))"
  then have "i < length bs" by (simp add: mask_bytes_def)
  then show "mask_bytes mk (mask_bytes mk bs) ! i = bs ! i"
    by (simp add: mask_bytes_def xor.assoc)
qed (simp add: mask_bytes_def)

lemma length_mask_bytes [simp]: "length (mask_bytes mk bs) = length bs"
  by (simp add: mask_bytes_def)

lemma char_of_byte_comp [simp]: "char_of_byte \<circ> byte_of_char = id"
  by (simp add: fun_eq_iff)

lemma frame_bytes_parts:
  "frame_bytes mk payload = 0x81 # frame_length_field (of_nat (length payload)) @ mk
     @ mask_bytes mk (map byte_of_char payload)"
  by (simp add: frame_bytes_def)

lemma length_frame_bytes:
  "length (frame_bytes mk payload) =
     Suc (length (frame_length_field (of_nat (length payload)))) + length mk + length payload"
  by (simp add: frame_bytes_parts)

lemma unat_of_nat_u64: "l < 2 ^ 64 \<Longrightarrow> unat (of_nat l :: u64) = l"
  by (simp add: unat_of_nat take_bit_nat_eq_self)

lemma parse_frame_encoded:
  assumes mk: "length mk = 4" and len: "length payload + length rest < 2 ^ 62"
  shows "parse_frame (frame_bytes mk payload @ rest) = Frame 1 payload (length (frame_bytes mk payload))"
proof -
  let ?len = "of_nat (length payload) :: u64"
  let ?f = "frame_length_field ?len"
  let ?h = "Suc (length ?f)"
  let ?body = "mask_bytes mk (map byte_of_char payload)"
  let ?bs = "0x81 # ?f @ (mk @ ?body @ rest)"
  have ul: "unat ?len = length payload" using len by (simp add: unat_of_nat)
  have f: "?f \<noteq> []" "length ?f \<le> 9" by (auto simp: frame_length_field_def)
  then have hd: "(?f @ xs) ! 0 = hd ?f" for xs by (simp add: hd_conv_nth nth_append)
  have pl: "parse_length ?bs = Some (?len, ?h)" by (rule parse_length_encoded)
  have d1: "drop ?h ?bs = mk @ ?body @ rest" by simp
  have "drop (?h + 4) ?bs = drop 4 (drop ?h ?bs)" by (simp only: drop_drop add.commute)
  then have drops: "drop ?h ?bs = mk @ ?body @ rest" "drop (?h + 4) ?bs = ?body @ rest"
    using mk d1 by (simp_all only: d1) simp
  have "length ?bs < 2 ^ 64" using len mk f by simp
  then have "unat (of_nat (length ?bs) :: u64) = length ?bs"
    by (rule unat_of_nat_u64)
  moreover have "unat (of_nat (?h + 4) + ?len :: u64) = ?h + 4 + length payload"
    using len f ul by (simp add: unat_word_ariths unat_of_nat)
  moreover have "?h + 4 + length payload \<le> length ?bs" using mk by simp
  ultimately have nlt: "\<not> (of_nat (length ?bs) :: u64) < of_nat (?h + 4) + ?len"
    by (simp only: word_less_nat_alt not_less)
  have nmax: "\<not> string_max_size < ?len"
    using len ul by (simp add: string_max_size_def word_less_nat_alt)
  have "parse_frame ?bs = Frame (and 0x81 0x0F)
      (map char_of_byte (mask_bytes mk (take (length payload) (?body @ rest)))) (?h + 4 + length payload)"
    unfolding parse_frame_def Let_def pl
    using f hd frame_length_field_flag[of ?len] mk drops nlt nmax ul by simp
  moreover have "(and 0x81 0x0F :: byte) = 1" by simp
  ultimately show ?thesis
    using mk by (simp add: frame_bytes_parts mask_bytes_twice)
qed

lemma parse_length_append:
  "parse_length xs = Some r \<Longrightarrow> 2 \<le> length xs \<Longrightarrow> parse_length (xs @ ys) = Some r"
  by (auto simp: parse_length_def Let_def nth_append split: if_splits)

lemma parse_length_header: "parse_length xs = Some (n, h) \<Longrightarrow> h \<le> 10"
  by (auto simp: parse_length_def Let_def split: if_splits)

lemma u64_fits:
  assumes "\<not> (of_nat l :: u64) < of_nat h + n" "\<not> string_max_size < n" "l < 2 ^ 63" "h \<le> 14"
  shows "h + unat n \<le> l"
proof -
  have n: "unat n < 2 ^ 63" using assms(2) by (simp add: string_max_size_def word_less_nat_alt)
  then have "unat (of_nat h + n) = h + unat n"
    using assms(4) by (simp add: unat_word_ariths unat_of_nat)
  moreover have "unat (of_nat l :: u64) = l" using assms(3) by (simp add: unat_of_nat)
  ultimately show ?thesis using assms(1) by (simp add: word_less_nat_alt)
qed

text \<open>Once a prefix decides a frame, more bytes do not change it.\<close>

lemma parse_frame_append:
  assumes "parse_frame xs \<noteq> Incomplete" "length xs + length ys < 2 ^ 63"
  shows "parse_frame (xs @ ys) = parse_frame xs"
proof -
  from assms(1) have l2: "2 \<le> length xs" by (auto simp: parse_frame_def split: if_splits)
  from assms(1) l2 obtain n h where pl: "parse_length xs = Some (n, h)"
    by (auto simp: parse_frame_def Let_def split: option.splits)
  then have hb: "h \<le> 10" "2 \<le> h" "h \<le> length xs"
    using parse_length_header parse_length_bounds l2 by blast+
  have pl': "parse_length (xs @ ys) = Some (n, h)" using pl l2 by (rule parse_length_append)
  have nth: "(xs @ ys) ! 0 = xs ! 0" "(xs @ ys) ! Suc 0 = xs ! Suc 0"
    using l2 by (auto simp: nth_append)
  define m where "m \<longleftrightarrow> and (xs ! 1) 0x80 \<noteq> 0"
  define h' where "h' = (if m then h + 4 else h)"
  from assms(1) l2 have mh: "m \<Longrightarrow> h + 4 \<le> length xs"
    by (auto simp: parse_frame_def Let_def pl m_def not_less split: if_splits)
  have h': "h' \<le> 14" "h' \<le> length xs" using hb mh by (auto simp: h'_def)
  have tk: "m \<Longrightarrow> take 4 (drop h (xs @ ys)) = take 4 (drop h xs)" using mh by simp
  from assms(1) l2 have fit: "\<not> (of_nat (length xs) :: u64) < of_nat h' + n"
    by (auto simp: parse_frame_def Let_def pl m_def h'_def split: if_splits)
  have l64: "length xs < 2 ^ 64" "length (xs @ ys) < 2 ^ 64" using assms(2) by simp_all
  have wle: "(of_nat (length xs) :: u64) \<le> of_nat (length (xs @ ys))"
    by (simp only: word_le_nat_alt unat_of_nat_u64[OF l64(1)] unat_of_nat_u64[OF l64(2)]) simp
  then have fit': "\<not> (of_nat (length (xs @ ys)) :: u64) < of_nat h' + n"
    using fit by (meson le_less_trans not_le)
  have body: "take (unat n) (drop h' (xs @ ys)) = take (unat n) (drop h' xs)"
    if "\<not> string_max_size < n"
    using u64_fits[OF fit that] assms(2) h' by simp
  have eq: "parse_frame zs =
      (if string_max_size < n then Oversize
       else Frame (and (xs ! 0) 0x0F)
         (map char_of_byte (if m then mask_bytes (take 4 (drop h xs)) (take (unat n) (drop h' xs))
                            else take (unat n) (drop h' xs))) (h' + unat n))"
    if "zs = xs \<or> zs = xs @ ys" for zs
    using that l2 pl pl' nth mh fit fit' tk body
    by (auto simp: parse_frame_def Let_def h'_def m_def)
  show ?thesis using eq[of xs] eq[of "xs @ ys"] by simp
qed

lemma parse_frame_consumed_le:
  assumes "parse_frame xs = Frame op p n" "length xs < 2 ^ 63"
  shows "n \<le> length xs"
proof -
  from assms(1) have l2: "2 \<le> length xs" by (auto simp: parse_frame_def split: if_splits)
  from assms(1) l2 obtain m h where pl: "parse_length xs = Some (m, h)"
    by (auto simp: parse_frame_def Let_def split: option.splits)
  define h' where "h' = (if and (xs ! 1) 0x80 \<noteq> 0 then h + 4 else h)"
  have "\<not> (of_nat (length xs) :: u64) < of_nat h' + m" "\<not> string_max_size < m" "n = h' + unat m"
    using assms(1) l2 by (auto simp: parse_frame_def Let_def pl h'_def split: if_splits)
  moreover have "h' \<le> 14" using parse_length_header[OF pl] by (simp add: h'_def)
  ultimately show ?thesis using u64_fits assms(2) by blast
qed

text \<open>Resuming with the bytes kept from before gives what the whole stream gives.\<close>

lemma parse_stream_append:
  assumes "length xs + length ys < 2 ^ 63"
  shows "parse_stream (xs @ ys) =
    (case parse_stream xs of
       (evs, RxMore, rest) \<Rightarrow>
         (case parse_stream (rest @ ys) of (evs', e, rest') \<Rightarrow> (evs @ evs', e, rest'))
     | (evs, e, rest) \<Rightarrow> (evs, e, rest @ ys))"
  using assms
proof (induction xs rule: parse_stream.induct)
  case (1 xs)
  show ?case
  proof (cases "parse_frame xs")
    case Incomplete
    then show ?thesis
      by (simp add: parse_stream.simps[of xs] split: prod.splits)
  next
    case Oversize
    with "1.prems" have "parse_frame (xs @ ys) = Oversize" by (simp add: parse_frame_append)
    with Oversize show ?thesis
      by (simp add: parse_stream.simps[of xs] parse_stream.simps[of "xs @ ys"])
  next
    case (Frame op p n)
    with "1.prems" have f: "parse_frame (xs @ ys) = Frame op p n" by (simp add: parse_frame_append)
    show ?thesis
    proof (cases "op = 8")
      case True
      with Frame f show ?thesis
        by (simp add: parse_stream.simps[of xs] parse_stream.simps[of "xs @ ys"])
    next
      case False
      have n: "n \<le> length xs" using Frame "1.prems" by (simp add: parse_frame_consumed_le)
      then have "parse_stream (drop n xs @ ys) = (case parse_stream (drop n xs) of
          (evs, RxMore, rest) \<Rightarrow>
            (case parse_stream (rest @ ys) of (evs', e, rest') \<Rightarrow> (evs @ evs', e, rest'))
        | (evs, e, rest) \<Rightarrow> (evs, e, rest @ ys))"
        using "1.IH"[OF Frame False] "1.prems" by simp
      with False f Frame n show ?thesis
        by (simp add: parse_stream.simps[of xs] parse_stream.simps[of "xs @ ys"]
            split: prod.splits rx_end.splits)
    qed
  qed
qed


section \<open>\<open>Base64\<close> and \<open>RandomKey\<close>\<close>

text \<open>
  \<open>val\<close> is an \<open>int\<close>: 32 bits, shifted left with wrap-around and right arithmetically. \<open>bits\<close>
  stays between -6 and 7 and is an unbounded integer here.
\<close>

definition b64_tbl :: string where
  "b64_tbl = ''ABCDEFGHIJKLMNOPQRSTUVWXYZabcdefghijklmnopqrstuvwxyz0123456789+/''"

definition b64_char :: "i32 \<Rightarrow> char" where
  "b64_char v = b64_tbl ! unat (and v 0x3F)"

function b64_drain :: "i32 \<Rightarrow> int \<Rightarrow> string \<Rightarrow> string \<times> int" where \<comment> \<open>\<open>while (bits >= 0)\<close>\<close>
  "b64_drain val bits out =
     (if 0 \<le> bits then b64_drain val (bits - 6) (out @ [b64_char (signed_drop_bit (nat bits) val)])
      else (out, bits))"
  by pat_completeness auto
termination by (relation "measure (\<lambda>(_, bits, _). nat (bits + 6))") auto

declare b64_drain.simps [simp del]

fun b64_loop :: "i32 \<Rightarrow> int \<Rightarrow> string \<Rightarrow> byte list \<Rightarrow> i32 \<times> int \<times> string" where
  "b64_loop val bits out [] = (val, bits, out)"
| "b64_loop val bits out (d # ds) =
     (let val = push_bit 8 val + ucast d;
          (out, bits) = b64_drain val (bits + 8) out
      in b64_loop val bits out ds)"

definition Base64 :: "byte list \<Rightarrow> string" where
  "Base64 data =
     (let (val, bits, out) = b64_loop 0 (-6) [] data;
          out = (if -6 < bits then out @ [b64_char (signed_drop_bit (nat (bits + 8)) (push_bit 8 val))]
                 else out)
      in out @ replicate ((4 - length out mod 4) mod 4) (CHR ''=''))"

text \<open>\<open>rd\<close>: the low bytes of the sixteen values \<open>std::random_device\<close> gives.\<close>

definition RandomKey :: "byte list \<Rightarrow> string" where
  "RandomKey rd = Base64 (take 16 rd)"

text \<open>RFC 4648: three bytes make four characters, a shorter tail is padded.\<close>

definition sextet :: "byte \<Rightarrow> char" where
  "sextet b = b64_tbl ! unat b"

fun base64_spec :: "byte list \<Rightarrow> string" where
  "base64_spec [] = []"
| "base64_spec [a] =
     [sextet (drop_bit 2 a), sextet (push_bit 4 (and a 3)), CHR ''='', CHR ''='']"
| "base64_spec [a, b] =
     [sextet (drop_bit 2 a), sextet (or (push_bit 4 (and a 3)) (drop_bit 4 b)),
      sextet (push_bit 2 (and b 15)), CHR ''='']"
| "base64_spec (a # b # c # ds) =
     [sextet (drop_bit 2 a), sextet (or (push_bit 4 (and a 3)) (drop_bit 4 b)),
      sextet (or (push_bit 2 (and b 15)) (drop_bit 6 c)), sextet (and c 63)] @ base64_spec ds"

text \<open>\<open>val\<close> with one more byte at its low end; the addition of the loop carries nowhere.\<close>

definition b64_push :: "i32 \<Rightarrow> byte \<Rightarrow> i32" where
  "b64_push v d = or (push_bit 8 v) (ucast d)"

lemma add_low_byte: "push_bit 8 (v :: i32) + ucast (d :: byte) = b64_push v d"
  unfolding b64_push_def
  by (rule disjunctive_add) (auto simp: bit_simps dest: bit_imp_le_length)

lemma b64_char_eqI:
  assumes "\<And>n. n < 6 \<Longrightarrow> bit v n \<longleftrightarrow> bit (b :: byte) n" "\<And>n. 6 \<le> n \<Longrightarrow> \<not> bit b n"
  shows "b64_char v = sextet b"
proof -
  have m: "(0x3F :: i32) = Bit_Operations.mask 6" by (simp add: mask_eq_exp_minus_1)
  have "and v 0x3F = ucast b"
    unfolding m
  proof (rule bit_word_eqI)
    fix n assume "n < LENGTH(32)"
    then show "bit (and v (Bit_Operations.mask 6)) n = bit (ucast b :: i32) n"
      using assms by (cases "n < 6") (auto simp: bit_simps)
  qed
  moreover have "unat (ucast b :: i32) = unat b"
  proof -
    have "unat b < 2 ^ 32" using unsigned_less[of b, where ?'a = nat] by simp
    then show ?thesis by (simp add: unsigned_ucast_eq take_bit_nat_eq_self)
  qed
  ultimately show ?thesis by (simp add: b64_char_def sextet_def)
qed

lemma low_masks: "(3 :: byte) = Bit_Operations.mask 2" "(15 :: byte) = Bit_Operations.mask 4"
  "(63 :: byte) = Bit_Operations.mask 6"
  by (simp_all add: mask_eq_exp_minus_1)

lemma b64_drain_ge: "0 \<le> bits \<Longrightarrow>
    b64_drain v bits out = b64_drain v (bits - 6) (out @ [b64_char (signed_drop_bit (nat bits) v)])"
  by (subst b64_drain.simps) simp

lemma b64_drain_neg: "bits < 0 \<Longrightarrow> b64_drain v bits out = (out, bits)"
  by (subst b64_drain.simps) simp

lemma b64_drain_steps:
  "b64_drain v 2 out = (out @ [b64_char (signed_drop_bit 2 v)], -4)"
  "b64_drain v 4 out = (out @ [b64_char (signed_drop_bit 4 v)], -2)"
  "b64_drain v 6 out = (out @ [b64_char (signed_drop_bit 6 v), b64_char v], -6)"
  by (simp_all add: b64_drain_ge b64_drain_neg)

lemma b64_groups:
  "b64_char (signed_drop_bit 2 (b64_push v a)) = sextet (drop_bit 2 a)"
  "b64_char (signed_drop_bit 4 (b64_push (b64_push v a) b))
     = sextet (or (push_bit 4 (and a 3)) (drop_bit 4 b))"
  "b64_char (signed_drop_bit 6 (b64_push (b64_push v b) c))
     = sextet (or (push_bit 2 (and b 15)) (drop_bit 6 c))"
  "b64_char (b64_push v c) = sextet (and c 63)"
  "b64_char (signed_drop_bit 4 (push_bit 8 (b64_push v a))) = sextet (push_bit 4 (and a 3))"
  "b64_char (signed_drop_bit 6 (push_bit 8 (b64_push v b))) = sextet (push_bit 2 (and b 15))"
  unfolding b64_push_def low_masks
  by (rule b64_char_eqI; auto simp: bit_simps dest: bit_imp_le_length)+

lemma b64_loop_out: "b64_loop v bits out ds =
    (case b64_loop v bits [] ds of (v', bits', o') \<Rightarrow> (v', bits', out @ o'))"
proof -
  have d: "b64_drain v b (p @ q) = (case b64_drain v b q of (o', b') \<Rightarrow> (p @ o', b'))" for v b p q
    by (induction v b q rule: b64_drain.induct) (simp add: b64_drain.simps)
  have "b64_loop v bits (out @ q) ds =
    (case b64_loop v bits q ds of (v', bits', o') \<Rightarrow> (v', bits', out @ o'))" for q
  proof (induction ds arbitrary: v bits q)
    case (Cons x ds)
    then show ?case by (simp add: Let_def d split: prod.splits)
  qed simp
  from this[of "[]"] show ?thesis by simp
qed

lemma replicate_2: "replicate 2 c = [c, c]"
  by (simp add: numeral_2_eq_2)

lemma mod4_shift: "(5 + n) mod 4 = Suc n mod (4 :: nat)"
  by presburger

text \<open>From a group boundary the loop produces the specified text, whatever \<open>val\<close> holds.\<close>

lemma b64_from_boundary:
  "(let (val, bits, out) = b64_loop v (-6) [] ds;
        out = (if -6 < bits then out @ [b64_char (signed_drop_bit (nat (bits + 8)) (push_bit 8 val))]
               else out)
    in out @ replicate ((4 - length out mod 4) mod 4) (CHR ''='')) = base64_spec ds
   \<and> length (base64_spec ds) mod 4 = 0"
proof (induction ds arbitrary: v rule: base64_spec.induct)
  case 1
  then show ?case by simp
next
  case (2 a)
  then show ?case by (simp add: Let_def replicate_2 add_low_byte b64_drain_steps b64_groups)
next
  case (3 a b)
  then show ?case by (simp add: Let_def add_low_byte b64_drain_steps b64_groups)
next
  case (4 a b c ds)
  have sp: "b64_loop v (-6) [] (a # b # c # ds) =
     (case b64_loop (b64_push (b64_push (b64_push v a) b) c) (-6) [] ds of (v', bits', o') \<Rightarrow> (v', bits',
        [sextet (drop_bit 2 a), sextet (or (push_bit 4 (and a 3)) (drop_bit 4 b)),
         sextet (or (push_bit 2 (and b 15)) (drop_bit 6 c)), sextet (and c 63)] @ o'))"
    by (simp add: Let_def add_low_byte b64_drain_steps b64_groups) 
      (subst b64_loop_out, simp)
  show ?case
    using "4.IH"[of "b64_push (b64_push (b64_push v a) b) c"]
    unfolding sp by (auto simp: Let_def mod4_shift split: prod.splits if_splits)
qed

lemma length_base64_spec: "length (base64_spec ds) = 4 * ((length ds + 2) div 3)"
proof (induction ds rule: base64_spec.induct)
  case (4 a b c ds)
  have "(length (a # b # c # ds) + 2) div 3 = (length ds + 2) div 3 + 1"
    using div_add_self2[of 3 "length ds + 2"] by (simp add: add.commute)
  with 4 show ?case by (simp del: One_nat_def)
qed simp_all

text \<open>C38: \<open>Base64\<close> computes the RFC 4648 encoding of every byte string: the 32-bit accumulator
  may overflow, but the characters depend on its low bits only.\<close>

lemma Base64_correct: "Base64 data = base64_spec data"
  using b64_from_boundary[of 0 data] by (simp add: Base64_def)

text \<open>C22: the frame parser of \<open>ReceiveLoop\<close> inverts the frame builder of \<open>SendFrame\<close>: for every
  payload and every mask, whatever follows in the buffer, it returns the payload, the text
  opcode, and the length of the frame; all three encodings of the length are covered.\<close>

lemma frame_round_trip:
  assumes "length mk = 4" and "length payload + length rest < 2 ^ 62"
  shows "parse_frame (frame_bytes mk payload @ rest) = Frame 1 payload (length (frame_bytes mk payload))"
  using assms by (rule parse_frame_encoded)

lemma frame_round_trip_witness:
  "parse_frame (frame_bytes [1, 2, 3, 4] ''hello'' @ [0x81]) = Frame 1 ''hello'' (length (frame_bytes [1, 2, 3, 4] ''hello''))"
  by (rule frame_round_trip) simp_all

text \<open>
  The bound check adds two 64-bit values that may wrap: a frame header that announces
  \<open>2^64 - 1\<close> bytes makes \<open>headerLen + payloadLen\<close> equal 9, the check passes, and \<open>resize\<close>
  is asked for \<open>2^64 - 1\<close> bytes.
\<close>

definition huge_frame :: "byte list" where
  "huge_frame = [0x82, 127, 0xFF, 0xFF, 0xFF, 0xFF, 0xFF, 0xFF, 0xFF, 0xFF]"

text \<open>C40: ten bytes from the server end the process: a frame whose 64-bit length makes the sum
  \<open>headerLen + payloadLen\<close> wrap passes the bound check and reaches \<open>payload.resize\<close> with an
  impossible size, whatever bytes follow it.\<close>

lemma huge_frame_throws:
  assumes "length rest < 2 ^ 62"
  shows "parse_stream (huge_frame @ rest) = ([], RxThrow, huge_frame @ rest)"
proof -
  have pl: "parse_length huge_frame = Some (0xFFFFFFFFFFFFFFFF, 10)"
    by (simp add: parse_length_def huge_frame_def Let_def)
  have "parse_frame huge_frame = Oversize"
    unfolding parse_frame_def Let_def pl
    by (simp add: huge_frame_def string_max_size_def)
  moreover have "length huge_frame = 10" by (simp add: huge_frame_def)
  ultimately have "parse_frame (huge_frame @ rest) = Oversize"
    using parse_frame_append[of huge_frame rest] assms by simp
  then show ?thesis by (simp add: parse_stream.simps[of "huge_frame @ rest"])
qed

lemma huge_frame_throws_witness:
  "parse_stream (huge_frame @ [0]) = ([], RxThrow, huge_frame @ [0])"
  by (rule huge_frame_throws) simp

end
