(* ===== verification/Float32.thy ===== *)
theory Float32
  imports Prelude "HOL-Library.Log_Nat"
begin

text \<open>
  The C++ type \<open>float\<close> on x64: IEEE-754 binary32 held as its 32 bits, which is also what the
  client copies in and out of the game's memory. A finite value is an integer number of units
  of \<open>2^-149\<close> (\<open>f32_num\<close>), so comparisons are integer comparisons, and addition,
  subtraction and multiplication round that exact integer to 24 significant bits, to nearest,
  ties to even. NaN results follow SSE: the first NaN operand, quieted, or the default NaN.
  The last section covers the few places where the client computes in \<open>double\<close>: its doubles
  are whole milliseconds, exact below \<open>2^53\<close>, and only quotients of them are rounded.
\<close>

type_synonym f32 = "32 word"

section \<open>Fields and classes\<close>

definition f32_abs_bits :: "f32 \<Rightarrow> nat" where
  "f32_abs_bits x = unat x mod 2 ^ 31"

definition f32_neg :: "f32 \<Rightarrow> bool" where
  "f32_neg x \<longleftrightarrow> 2 ^ 31 \<le> unat x"

definition f32_inf_bits :: nat where
  "f32_inf_bits = 2139095040" \<comment> \<open>\<open>0x7F800000\<close>\<close>

definition f32_is_nan :: "f32 \<Rightarrow> bool" where
  "f32_is_nan x \<longleftrightarrow> f32_inf_bits < f32_abs_bits x"

definition f32_is_inf :: "f32 \<Rightarrow> bool" where
  "f32_is_inf x \<longleftrightarrow> f32_abs_bits x = f32_inf_bits"

definition f32_isfinite :: "f32 \<Rightarrow> bool" where \<comment> \<open>\<open>std::isfinite\<close>\<close>
  "f32_isfinite x \<longleftrightarrow> f32_abs_bits x < f32_inf_bits"

text \<open>The magnitude in units of \<open>2^-149\<close>; infinity gets \<open>2^277\<close>, above every finite value.\<close>

definition f32_mag_of_bits :: "nat \<Rightarrow> nat" where
  "f32_mag_of_bits u =
     (if u div 2 ^ 23 = 0 then u mod 2 ^ 23
      else (2 ^ 23 + u mod 2 ^ 23) * 2 ^ (u div 2 ^ 23 - 1))"

definition f32_num :: "f32 \<Rightarrow> int" where
  "f32_num x = (if f32_neg x then - int (f32_mag_of_bits (f32_abs_bits x))
                else int (f32_mag_of_bits (f32_abs_bits x)))"

section \<open>Comparison, absolute value, \<open>std::min\<close> and \<open>std::max\<close>\<close>

definition f32_lt :: "f32 \<Rightarrow> f32 \<Rightarrow> bool" where
  "f32_lt a b \<longleftrightarrow> \<not> f32_is_nan a \<and> \<not> f32_is_nan b \<and> f32_num a < f32_num b"

definition f32_le :: "f32 \<Rightarrow> f32 \<Rightarrow> bool" where
  "f32_le a b \<longleftrightarrow> \<not> f32_is_nan a \<and> \<not> f32_is_nan b \<and> f32_num a \<le> f32_num b"

definition f32_eq :: "f32 \<Rightarrow> f32 \<Rightarrow> bool" where
  "f32_eq a b \<longleftrightarrow> \<not> f32_is_nan a \<and> \<not> f32_is_nan b \<and> f32_num a = f32_num b"

definition f32_fabs :: "f32 \<Rightarrow> f32" where
  "f32_fabs x = word_of_nat (f32_abs_bits x)"

definition f32_max :: "f32 \<Rightarrow> f32 \<Rightarrow> f32" where \<comment> \<open>\<open>(a < b) ? b : a\<close>\<close>
  "f32_max a b = (if f32_lt a b then b else a)"

definition f32_min :: "f32 \<Rightarrow> f32 \<Rightarrow> f32" where \<comment> \<open>\<open>(b < a) ? b : a\<close>\<close>
  "f32_min a b = (if f32_lt b a then b else a)"

section \<open>Rounding to nearest, ties to even\<close>

definition rne :: "nat \<Rightarrow> nat \<Rightarrow> nat" where
  "rne n d = (let q = n div d; r = n mod d
              in if 2 * r < d \<or> (2 * r = d \<and> even q) then q else q + 1)"

text \<open>
  \<open>n / d\<close> is a magnitude in units of \<open>2^-149\<close>. The significand is scaled so that it has 24 bits
  (fewer in the subnormal range); since a significand \<open>m\<close> at shift \<open>sh\<close> has the bits
  \<open>sh * 2^23 + m\<close>, a carry out of the significand moves to the next binade by itself.
\<close>

definition f32_round_bits :: "nat \<Rightarrow> nat \<Rightarrow> nat" where
  "f32_round_bits n d =
     (let sh = floorlog 2 (n div d) - 24
      in min f32_inf_bits (sh * 2 ^ 23 + rne n (d * 2 ^ sh)))"

definition f32_pack :: "bool \<Rightarrow> nat \<Rightarrow> f32" where
  "f32_pack neg u = word_of_nat (if neg then 2 ^ 31 + u else u)"

definition f32_of_units :: "int \<Rightarrow> nat \<Rightarrow> f32" where
  "f32_of_units s d = f32_pack (s < 0) (f32_round_bits (nat \<bar>s\<bar>) d)"

section \<open>Arithmetic\<close>

definition f32_default_nan :: f32 where
  "f32_default_nan = 4290772992" \<comment> \<open>\<open>0xFFC00000\<close>\<close>

definition f32_quiet :: "f32 \<Rightarrow> f32" where
  "f32_quiet x = or x 4194304" \<comment> \<open>\<open>0x00400000\<close>\<close>

definition f32_flip :: "f32 \<Rightarrow> f32" where
  "f32_flip x = f32_pack (\<not> f32_neg x) (f32_abs_bits x)"

definition f32_add_num :: "f32 \<Rightarrow> f32 \<Rightarrow> f32" where \<comment> \<open>neither operand a NaN\<close>
  "f32_add_num a b =
     (if f32_is_inf a then
        (if f32_is_inf b \<and> f32_neg a \<noteq> f32_neg b then f32_default_nan else a)
      else if f32_is_inf b then b
      else if f32_num a + f32_num b = 0 then f32_pack (f32_neg a \<and> f32_neg b) 0
      else f32_of_units (f32_num a + f32_num b) 1)"

definition f32_add :: "f32 \<Rightarrow> f32 \<Rightarrow> f32" where
  "f32_add a b =
     (if f32_is_nan a then f32_quiet a else if f32_is_nan b then f32_quiet b
      else f32_add_num a b)"

definition f32_sub :: "f32 \<Rightarrow> f32 \<Rightarrow> f32" where
  "f32_sub a b =
     (if f32_is_nan a then f32_quiet a else if f32_is_nan b then f32_quiet b
      else f32_add_num a (f32_flip b))"

definition f32_mul :: "f32 \<Rightarrow> f32 \<Rightarrow> f32" where
  "f32_mul a b =
     (if f32_is_nan a then f32_quiet a else if f32_is_nan b then f32_quiet b
      else if f32_is_inf a \<or> f32_is_inf b then
        (if f32_num a = 0 \<or> f32_num b = 0 then f32_default_nan
         else f32_pack (f32_neg a \<noteq> f32_neg b) f32_inf_bits)
      else f32_pack (f32_neg a \<noteq> f32_neg b)
             (f32_round_bits (nat \<bar>f32_num a\<bar> * nat \<bar>f32_num b\<bar>) (2 ^ 149)))"

definition f32_div :: "f32 \<Rightarrow> f32 \<Rightarrow> f32" where
  "f32_div a b =
     (let neg = (f32_neg a \<noteq> f32_neg b)
      in if f32_is_nan a then f32_quiet a else if f32_is_nan b then f32_quiet b
         else if f32_is_inf a then
           (if f32_is_inf b then f32_default_nan else f32_pack neg f32_inf_bits)
         else if f32_is_inf b then f32_pack neg 0
         else if f32_num b = 0 then
           (if f32_num a = 0 then f32_default_nan else f32_pack neg f32_inf_bits)
         else f32_pack neg (f32_round_bits (nat \<bar>f32_num a\<bar> * 2 ^ 149) (nat \<bar>f32_num b\<bar>)))"

definition f32_of_int :: "int \<Rightarrow> f32" where \<comment> \<open>\<open>static_cast<float>\<close> of an integer\<close>
  "f32_of_int i = f32_of_units (i * 2 ^ 149) 1"

text \<open>
  The literals of the client. Each is the binary32 value the compiler stores; the decimal ones
  are the nearest value.
\<close>

abbreviation (input) f32_0 :: f32 where "f32_0 \<equiv> 0"
abbreviation (input) f32_1 :: f32 where "f32_1 \<equiv> 1065353216"        \<comment> \<open>\<open>1.f\<close>\<close>
abbreviation (input) f32_2 :: f32 where "f32_2 \<equiv> 1073741824"        \<comment> \<open>\<open>2.f\<close>\<close>
abbreviation (input) f32_3 :: f32 where "f32_3 \<equiv> 1077936128"        \<comment> \<open>\<open>3.f\<close>\<close>
abbreviation (input) f32_5 :: f32 where "f32_5 \<equiv> 1084227584"        \<comment> \<open>\<open>5.0f\<close>\<close>
abbreviation (input) f32_10 :: f32 where "f32_10 \<equiv> 1092616192"      \<comment> \<open>\<open>10.f\<close>\<close>
abbreviation (input) f32_100 :: f32 where "f32_100 \<equiv> 1120403456"    \<comment> \<open>\<open>100.f\<close>\<close>
abbreviation (input) f32_neg1 :: f32 where "f32_neg1 \<equiv> 3212836864"  \<comment> \<open>\<open>-1.f\<close>\<close>
abbreviation (input) f32_0_01 :: f32 where "f32_0_01 \<equiv> 1008981770"  \<comment> \<open>\<open>0.01f\<close>\<close>
abbreviation (input) f32_0_02 :: f32 where "f32_0_02 \<equiv> 1017370378"  \<comment> \<open>\<open>0.02f\<close>\<close>
abbreviation (input) f32_0_5 :: f32 where "f32_0_5 \<equiv> 1056964608"    \<comment> \<open>\<open>0.5f\<close>\<close>
abbreviation (input) f32_1e5 :: f32 where "f32_1e5 \<equiv> 1203982336"    \<comment> \<open>\<open>100000.f\<close>\<close>
abbreviation (input) f32_1e6 :: f32 where "f32_1e6 \<equiv> 1232348160"    \<comment> \<open>\<open>1000000.f\<close>\<close>

section \<open>Doubles: quotients of whole milliseconds, narrowed to \<open>float\<close>\<close>

text \<open>
  \<open>f64_div n d\<close> is the binary64 quotient of two positive integers below \<open>2^53\<close>, as an exact
  fraction (numerator and power-of-two denominator): 53 significant bits, ties to even. Such a
  quotient is neither subnormal nor infinite.
\<close>

definition f64_div :: "nat \<Rightarrow> nat \<Rightarrow> nat \<times> nat" where
  "f64_div n d =
     (let s = 53 + floorlog 2 d;
          sh = floorlog 2 (n * 2 ^ s div d) - 53
      in (rne (n * 2 ^ s) (d * 2 ^ sh) * 2 ^ sh, 2 ^ s))"

definition f32_of_frac :: "nat \<times> nat \<Rightarrow> f32" where
  "f32_of_frac q = f32_pack False (f32_round_bits (fst q * 2 ^ 149) (snd q))"

text \<open>\<open>static_cast<float>(std::min(1.0, n / d))\<close> for positive whole \<open>n\<close>, \<open>d\<close>.\<close>

definition f32_min1_quot :: "nat \<Rightarrow> nat \<Rightarrow> f32" where
  "f32_min1_quot n d =
     (let q = f64_div n d in if fst q < snd q then f32_of_frac q else f32_1)"

text \<open>\<open>static_cast<float>(n / d)\<close> for whole \<open>n\<close> of either sign.\<close>

definition f32_quot :: "int \<Rightarrow> nat \<Rightarrow> f32" where
  "f32_quot n d =
     (if n = 0 then f32_0
      else if n < 0 then f32_flip (f32_of_frac (f64_div (nat (- n)) d))
      else f32_of_frac (f64_div (nat n) d))"


section \<open>Facts about rounding and comparison\<close>

lemma rne_mult [simp]: "0 < d \<Longrightarrow> rne (k * d) d = k"
  by (simp add: rne_def Let_def)

lemma rne_le:
  assumes "n \<le> k * d" "0 < d"
  shows "rne n d \<le> k"
proof (cases "n div d < k")
  case True
  then show ?thesis by (simp add: rne_def Let_def)
next
  case False
  with assms have "n div d = k"
    by (metis div_le_mono div_mult_self_is_m le_antisym not_le)
  with assms have "n = k * d"
    by (metis le_antisym mult.commute times_div_less_eq_dividend)
  with assms show ?thesis by simp
qed

lemma rne_ge:
  assumes "k * d \<le> n" "0 < d"
  shows "k \<le> rne n d"
proof -
  from assms have "k \<le> n div d" by (simp add: less_eq_div_iff_mult_less_eq)
  then show ?thesis by (simp add: rne_def Let_def)
qed

lemma rne_mono:
  assumes "n \<le> n'" "0 < d"
  shows "rne n d \<le> rne n' d"
proof (cases "n div d = n' div d")
  case True
  with assms(1) have "n mod d \<le> n' mod d"
    by (metis add_le_cancel_left div_mult_mod_eq)
  with True show ?thesis by (auto simp: rne_def Let_def)
next
  case False
  with assms have "n div d < n' div d" by (meson div_le_mono le_neq_implies_less)
  then have "Suc (n div d) \<le> n' div d" by simp
  then show ?thesis by (auto simp: rne_def Let_def)
qed

lemma floorlog2_less_pow: "n < 2 ^ k \<Longrightarrow> floorlog 2 n \<le> k"
  by (cases "n = 0") (auto intro: floorlog_leI simp: floorlog_eq_zero_iff)

lemma floorlog2_lt: "n < 2 ^ floorlog 2 n"
  using floorlog_bounds[of n 2] by (cases "n = 0") auto

lemma floorlog2_ge: "0 < n \<Longrightarrow> 2 ^ (floorlog 2 n - 1) \<le> n"
  using floorlog_bounds[of n 2] by auto

lemma floorlog2_eq:
  assumes "2 ^ k \<le> n" "n < 2 ^ Suc k"
  shows "floorlog 2 n = Suc k"
proof (rule antisym)
  show "floorlog 2 n \<le> Suc k" using assms(2) by (rule floorlog2_less_pow)
  show "Suc k \<le> floorlog 2 n"
  proof (rule ccontr)
    assume "\<not> ?thesis"
    then have "(2::nat) ^ floorlog 2 n \<le> 2 ^ k" by simp
    with floorlog2_lt[of n] assms(1) show False by simp
  qed
qed

definition f32_sh :: "nat \<Rightarrow> nat" where "f32_sh q = floorlog 2 q - 24"

lemma f32_sh_mono: "q \<le> q' \<Longrightarrow> f32_sh q \<le> f32_sh q'"
  by (simp add: f32_sh_def diff_le_mono floorlog_mono)

lemma f32_sig_upper:
  assumes "0 < d"
  shows "rne n (d * 2 ^ f32_sh (n div d)) \<le> 2 ^ 24"
proof (rule rne_le)
  let ?q = "n div d"
  have "?q < 2 ^ (24 + f32_sh ?q)"
    using floorlog2_lt[of ?q] by (rule less_le_trans) (simp add: f32_sh_def)
  then have "n < 2 ^ (24 + f32_sh ?q) * d"
    using assms by (simp add: div_less_iff_less_mult)
  then show "n \<le> 2 ^ 24 * (d * 2 ^ f32_sh ?q)"
    by (simp add: power_add mult_ac)
qed (use assms in simp)

lemma f32_sig_lower:
  assumes "0 < d" "0 < f32_sh (n div d)"
  shows "2 ^ 23 \<le> rne n (d * 2 ^ f32_sh (n div d))"
proof (rule rne_ge)
  let ?q = "n div d"
  from assms(2) have "24 < floorlog 2 ?q" by (simp add: f32_sh_def)
  then have q0: "0 < ?q" and e: "floorlog 2 ?q - 1 = 23 + f32_sh ?q"
    by (auto simp: f32_sh_def floorlog_def split: if_splits)
  from floorlog2_ge[OF q0] have "2 ^ (23 + f32_sh ?q) \<le> ?q" by (simp only: e)
  then have "2 ^ (23 + f32_sh ?q) * d \<le> n"
    using assms(1) by (simp add: less_eq_div_iff_mult_less_eq)
  then show "2 ^ 23 * (d * 2 ^ f32_sh ?q) \<le> n"
    by (simp add: power_add mult_ac)
qed (use assms in simp)

lemma f32_round_bits_sh:
  "f32_round_bits n d =
     min f32_inf_bits (f32_sh (n div d) * 2 ^ 23 + rne n (d * 2 ^ f32_sh (n div d)))"
  by (simp add: f32_round_bits_def f32_sh_def Let_def)

text \<open>Rounding is monotone.\<close>

lemma f32_round_bits_mono:
  assumes "n \<le> n'" "0 < d"
  shows "f32_round_bits n d \<le> f32_round_bits n' d"
proof -
  let ?s = "f32_sh (n div d)" and ?s' = "f32_sh (n' div d)"
  from assms have le: "?s \<le> ?s'" by (simp add: f32_sh_mono div_le_mono)
  have "?s * 2 ^ 23 + rne n (d * 2 ^ ?s) \<le> ?s' * 2 ^ 23 + rne n' (d * 2 ^ ?s')"
  proof (cases "?s = ?s'")
    case True
    with assms show ?thesis by (simp add: rne_mono)
  next
    case False
    with le have lt: "Suc ?s \<le> ?s'" by simp
    then have "Suc ?s * 2 ^ 23 \<le> ?s' * 2 ^ 23" by (rule mult_le_mono1)
    moreover from lt have "2 ^ 23 \<le> rne n' (d * 2 ^ ?s')"
      using f32_sig_lower[OF assms(2), of n'] by simp
    ultimately show ?thesis using f32_sig_upper[OF assms(2), of n] by simp
  qed
  then show ?thesis unfolding f32_round_bits_sh by (rule min.mono [OF order_refl])
qed

lemma pred_mult_add: "2 \<le> e \<Longrightarrow> (e - 1) * p + (p + m) = e * p + (m :: nat)"
  by (cases e) auto

text \<open>A value that is representable is its own rounding.\<close>

lemma f32_round_bits_exact:
  assumes "u \<le> f32_inf_bits" "0 < d"
  shows "f32_round_bits (f32_mag_of_bits u * d) d = u"
proof (cases "u < 2 ^ 24")
  case True
  have mag: "f32_mag_of_bits u = u"
  proof (cases "u < 2 ^ 23")
    case True
    then show ?thesis by (simp add: f32_mag_of_bits_def)
  next
    case False
    with True have "u div 2 ^ 23 = 1" by simp
    then show ?thesis by (simp add: f32_mag_of_bits_def minus_div_mult_eq_mod [symmetric])
  qed
  from floorlog2_less_pow[OF True] have "f32_sh u = 0" by (simp add: f32_sh_def)
  with mag assms show ?thesis by (simp add: f32_round_bits_sh)
next
  case False
  let ?e = "u div 2 ^ 23" and ?m = "u mod 2 ^ 23"
  have "(2::nat) ^ 24 div 2 ^ 23 \<le> ?e" using False by (intro div_le_mono) simp
  then have e: "2 \<le> ?e" by simp
  have mag: "f32_mag_of_bits u = (2 ^ 23 + ?m) * 2 ^ (?e - 1)"
    using e by (simp add: f32_mag_of_bits_def)
  have "floorlog 2 (2 ^ 23 + ?m) = Suc 23"
    by (rule floorlog2_eq) auto
  then have "floorlog 2 (f32_mag_of_bits u) = 24 + (?e - 1)"
    using mag by (simp add: floorlog_power)
  then have sh: "f32_sh (f32_mag_of_bits u) = ?e - 1" by (simp add: f32_sh_def)
  have "rne (f32_mag_of_bits u * d) (d * 2 ^ (?e - 1)) = 2 ^ 23 + ?m"
    using rne_mult[of "d * 2 ^ (?e - 1)" "2 ^ 23 + ?m"] assms(2) mag by (simp add: mult_ac)
  moreover have "(?e - 1) * 2 ^ 23 + (2 ^ 23 + ?m) = u"
    using pred_mult_add[OF e, of "2 ^ 23" ?m] by (simp only: div_mult_mod_eq)
  ultimately show ?thesis using assms sh by (simp add: f32_round_bits_sh)
qed

lemma f32_round_bits_le_inf: "f32_round_bits n d \<le> f32_inf_bits"
  by (simp add: f32_round_bits_def Let_def)

lemma f32_round_bits_0 [simp]: "f32_round_bits 0 d = 0"
  by (auto simp: f32_round_bits_def Let_def rne_def floorlog_def)

lemma f32_mag_of_bits_0 [simp]: "f32_mag_of_bits 0 = 0"
  by (simp add: f32_mag_of_bits_def)

lemma f32_mag_le_iff:
  assumes "u \<le> f32_inf_bits" "v \<le> f32_inf_bits"
  shows "f32_mag_of_bits u \<le> f32_mag_of_bits v \<longleftrightarrow> u \<le> v"
proof -
  have le: "u \<le> v" if "f32_mag_of_bits u \<le> f32_mag_of_bits v"
    "u \<le> f32_inf_bits" "v \<le> f32_inf_bits" for u v
    using f32_round_bits_mono[OF that(1), of 1] f32_round_bits_exact[of _ 1] that(2,3) by simp
  show ?thesis
  proof
    assume "u \<le> v"
    show "f32_mag_of_bits u \<le> f32_mag_of_bits v"
    proof (rule ccontr)
      assume n: "\<not> ?thesis"
      then have "v \<le> u" using le[of v u] assms by simp
      with \<open>u \<le> v\<close> n show False by simp
    qed
  qed (use le assms in blast)
qed

lemma f32_mag_eq_iff:
  "u \<le> f32_inf_bits \<Longrightarrow> v \<le> f32_inf_bits \<Longrightarrow> f32_mag_of_bits u = f32_mag_of_bits v \<longleftrightarrow> u = v"
  by (metis f32_mag_le_iff le_antisym order_refl)

lemma f32_abs_bits_less: "f32_abs_bits x < 2 ^ 31"
  by (simp add: f32_abs_bits_def)

lemma unat_f32_pack: "u < 2 ^ 31 \<Longrightarrow> unat (f32_pack neg u) = (if neg then 2 ^ 31 + u else u)"
  by (simp add: f32_pack_def unat_of_nat)

lemma f32_abs_bits_pack [simp]: "u < 2 ^ 31 \<Longrightarrow> f32_abs_bits (f32_pack neg u) = u"
  by (simp add: f32_abs_bits_def unat_f32_pack mod_if)

lemma f32_neg_pack [simp]: "u < 2 ^ 31 \<Longrightarrow> f32_neg (f32_pack neg u) = neg"
  by (simp add: f32_neg_def unat_f32_pack)

lemma f32_pack_fields: "f32_pack (f32_neg x) (f32_abs_bits x) = x"
proof -
  have "unat x < 2 ^ 32" using unsigned_less[of x, where ?'a = nat] by simp
  then have "(if f32_neg x then 2 ^ 31 + f32_abs_bits x else f32_abs_bits x) = unat x"
    by (auto simp: f32_neg_def f32_abs_bits_def le_mod_geq)
  then show ?thesis by (simp add: f32_pack_def)
qed

lemma f32_inf_bits_less: "f32_inf_bits < 2 ^ 31"
  by (simp add: f32_inf_bits_def)

lemma f32_round_bits_less: "f32_round_bits n d < 2 ^ 31"
  using f32_round_bits_le_inf f32_inf_bits_less by (rule le_less_trans)

lemma f32_num_pack [simp]:
  "u < 2 ^ 31 \<Longrightarrow>
   f32_num (f32_pack neg u) = (if neg then - int (f32_mag_of_bits u) else int (f32_mag_of_bits u))"
  by (simp add: f32_num_def)

lemma f32_num_0 [simp]: "f32_num 0 = 0"
  by (simp add: f32_num_def f32_abs_bits_def f32_neg_def)

lemma f32_not_nan_0 [simp]: "\<not> f32_is_nan 0"
  by (simp add: f32_is_nan_def f32_abs_bits_def)

lemma f32_num_1 [simp]: "f32_num f32_1 = 2 ^ 149"
  by (simp add: f32_num_def f32_abs_bits_def f32_neg_def f32_mag_of_bits_def)

lemma f32_not_nan_1 [simp]: "\<not> f32_is_nan f32_1"
  by (simp add: f32_is_nan_def f32_abs_bits_def f32_inf_bits_def)

lemma f32_fields_flip [simp]:
  "f32_abs_bits (f32_flip x) = f32_abs_bits x" "f32_neg (f32_flip x) = (\<not> f32_neg x)"
  "f32_num (f32_flip x) = - f32_num x"
  using f32_abs_bits_less[of x] by (simp_all add: f32_flip_def f32_num_def)

lemma f32_class_flip [simp]:
  "f32_is_nan (f32_flip x) = f32_is_nan x" "f32_is_inf (f32_flip x) = f32_is_inf x"
  by (simp_all add: f32_is_nan_def f32_is_inf_def)

lemma f32_isfinite_iff: "f32_isfinite x \<longleftrightarrow> \<not> f32_is_nan x \<and> \<not> f32_is_inf x"
  by (auto simp: f32_isfinite_def f32_is_nan_def f32_is_inf_def)

lemma f32_of_units_class [simp]: "\<not> f32_is_nan (f32_of_units s d)"
  using f32_round_bits_le_inf f32_round_bits_less
  by (simp add: f32_of_units_def f32_is_nan_def not_less)

lemma f32_num_of_units:
  "f32_num (f32_of_units s d) =
     (if s < 0 then - int (f32_mag_of_bits (f32_round_bits (nat (- s)) d))
      else int (f32_mag_of_bits (f32_round_bits (nat s) d)))"
  using f32_round_bits_less by (simp add: f32_of_units_def)

lemma f32_num_of_units_exact:
  assumes "\<not> f32_is_nan x"
  shows "f32_num (f32_of_units (f32_num x) 1) = f32_num x"
proof -
  from assms have "f32_abs_bits x \<le> f32_inf_bits" by (simp add: f32_is_nan_def)
  from f32_round_bits_exact[OF this, of 1] show ?thesis
    by (auto simp: f32_num_of_units f32_num_def[of x])
qed

lemma f32_num_of_units_le:
  assumes "s \<le> f32_num x" "\<not> f32_is_nan x"
  shows "f32_num (f32_of_units s 1) \<le> f32_num x"
proof -
  from assms(2) have b: "f32_abs_bits x \<le> f32_inf_bits" by (simp add: f32_is_nan_def)
  let ?m = "f32_mag_of_bits (f32_abs_bits x)"
  have ex: "f32_round_bits ?m 1 = f32_abs_bits x" using f32_round_bits_exact[OF b, of 1] by simp
  show ?thesis
  proof (cases "s < 0")
    case neg: True
    show ?thesis
    proof (cases "f32_neg x")
      case True
      with assms(1) have "?m \<le> nat (- s)" by (simp add: f32_num_def nat_le_iff le_nat_iff)
      then have "f32_round_bits ?m 1 \<le> f32_round_bits (nat (- s)) 1"
        by (rule f32_round_bits_mono) simp
      then have "?m \<le> f32_mag_of_bits (f32_round_bits (nat (- s)) 1)"
        using ex b f32_round_bits_le_inf by (simp add: f32_mag_le_iff)
      with neg True show ?thesis by (simp add: f32_num_of_units f32_num_def[of x])
    next
      case False
      with neg show ?thesis by (simp add: f32_num_of_units f32_num_def[of x])
    qed
  next
    case False
    with assms(1) have nn: "\<not> f32_neg x \<or> ?m = 0" by (auto simp: f32_num_def[of x] split: if_splits)
    with False assms(1) have "nat s \<le> ?m"
      by (auto simp: f32_num_def[of x] nat_le_iff split: if_splits)
    then have "f32_round_bits (nat s) 1 \<le> f32_round_bits ?m 1"
      by (rule f32_round_bits_mono) simp
    then have "f32_mag_of_bits (f32_round_bits (nat s) 1) \<le> ?m"
      using ex b f32_round_bits_le_inf by (simp add: f32_mag_le_iff)
    with False nn show ?thesis
      using assms(1) by (auto simp: f32_num_of_units f32_num_def[of x] split: if_splits)
  qed
qed

text \<open>Subtracting a nonnegative amount never raises a finite value.\<close>

lemma f32_sub_le:
  assumes "f32_isfinite a" "\<not> f32_is_nan b" "0 \<le> f32_num b"
  shows "f32_num (f32_sub a b) \<le> f32_num a \<and> \<not> f32_is_nan (f32_sub a b)"
proof -
  from assms(1) have a: "\<not> f32_is_nan a" "\<not> f32_is_inf a" by (simp_all add: f32_isfinite_iff)
  show ?thesis
  proof (cases "f32_is_inf b")
    case True
    then have ab: "f32_abs_bits b = f32_inf_bits" by (simp add: f32_is_inf_def)
    then have "\<not> f32_neg b" using assms(3)
      by (auto simp: f32_num_def f32_inf_bits_def f32_mag_of_bits_def)
    then have "f32_neg (f32_flip b)" by simp
    have "f32_abs_bits a \<le> f32_inf_bits" using a by (simp add: f32_is_nan_def)
    then have "f32_mag_of_bits (f32_abs_bits a) \<le> f32_mag_of_bits f32_inf_bits"
      by (simp add: f32_mag_le_iff)
    then have "f32_num (f32_flip b) \<le> f32_num a"
      using \<open>\<not> f32_neg b\<close> ab by (auto simp: f32_num_def)
    then show ?thesis using a True assms(2) by (simp add: f32_sub_def f32_add_num_def)
  next
    case False
    then have eq: "f32_sub a b = (if f32_num a - f32_num b = 0
        then f32_pack (f32_neg a \<and> \<not> f32_neg b) 0 else f32_of_units (f32_num a - f32_num b) 1)"
      using a assms(2) by (simp add: f32_sub_def f32_add_num_def)
    have "f32_num (f32_of_units (f32_num a - f32_num b) 1) \<le> f32_num a"
      using assms(3) a(1) by (intro f32_num_of_units_le) auto
    moreover have "\<not> f32_is_nan (f32_pack z 0)" for z by (simp add: f32_is_nan_def)
    ultimately show ?thesis using eq assms(3) by auto
  qed
qed

text \<open>\<open>std::min(1.f, std::max(0.f, x))\<close> lands in \<open>[0, 1]\<close> for every \<open>x\<close>, NaN included.\<close>

definition f32_unit :: "f32 \<Rightarrow> bool" where
  "f32_unit x \<longleftrightarrow> f32_le f32_0 x \<and> f32_le x f32_1"

lemma f32_max_0_nonneg [simp]: "f32_le 0 (f32_max 0 x)"
  by (auto simp: f32_max_def f32_le_def f32_lt_def)

lemma f32_min_1_unit: "f32_le f32_0 x \<Longrightarrow> f32_unit (f32_min f32_1 x)"
  by (auto simp: f32_unit_def f32_min_def f32_le_def f32_lt_def)

lemma f32_clamp_unit [simp]: "f32_unit (f32_min f32_1 (f32_max f32_0 x))"
  by (rule f32_min_1_unit) simp

lemma f32_unit_1 [simp]: "f32_unit f32_1"
  by (simp add: f32_unit_def f32_le_def)

lemma f32_of_frac_not_nan [simp]: "\<not> f32_is_nan (f32_of_frac q)"
  using f32_round_bits_less f32_round_bits_le_inf
  by (simp add: f32_of_frac_def f32_is_nan_def not_less)

lemma f32_of_frac_nonneg: "f32_le 0 (f32_of_frac q)"
proof -
  have "0 \<le> f32_num (f32_of_frac q)"
    using f32_round_bits_less by (simp add: f32_of_frac_def)
  then show ?thesis by (simp add: f32_le_def)
qed

lemma f32_of_frac_le_1:
  assumes "fst q \<le> snd q" "0 < snd q"
  shows "f32_le (f32_of_frac q) f32_1"
proof -
  have "f32_round_bits (fst q * 2 ^ 149) (snd q) \<le> f32_round_bits (snd q * 2 ^ 149) (snd q)"
    using assms by (intro f32_round_bits_mono) simp_all
  also have "\<dots> = 1065353216"
    using f32_round_bits_exact[of 1065353216 "snd q"] assms(2)
    by (simp add: f32_inf_bits_def f32_mag_of_bits_def mult.commute)
  finally have "f32_mag_of_bits (f32_round_bits (fst q * 2 ^ 149) (snd q)) \<le> f32_mag_of_bits 1065353216"
    using f32_round_bits_le_inf by (subst f32_mag_le_iff) (simp_all add: f32_inf_bits_def)
  also have "\<dots> = 2 ^ 149" by (simp add: f32_mag_of_bits_def)
  finally have "f32_num (f32_of_frac q) \<le> 2 ^ 149"
    using f32_round_bits_less by (simp add: f32_of_frac_def)
  then show ?thesis by (simp add: f32_le_def)
qed

lemma f32_min1_quot_unit: "f32_unit (f32_min1_quot n d)"
  by (auto simp: f32_min1_quot_def Let_def f32_unit_def [of "f32_of_frac _"]
      f32_of_frac_nonneg f32_of_frac_le_1)

text \<open>Interpolating between two equal finite values stays put, for any finite weight.\<close>

lemma f32_sub_same:
  assumes "f32_isfinite a" "f32_isfinite b" "f32_num a = f32_num b"
  shows "\<exists>z. f32_sub b a = f32_pack z 0"
  using assms by (auto simp: f32_sub_def f32_add_num_def f32_isfinite_iff)

lemma f32_mul_zero:
  assumes "f32_isfinite t"
  shows "\<exists>z'. f32_mul (f32_pack z 0) t = f32_pack z' 0"
  using assms
  by (auto simp: f32_mul_def f32_isfinite_iff f32_is_nan_def f32_is_inf_def f32_inf_bits_def)

lemma f32_add_zero:
  assumes "f32_isfinite a"
  shows "f32_eq (f32_add a (f32_pack z 0)) a"
proof -
  have z: "\<not> f32_is_nan (f32_pack b 0)" "\<not> f32_is_inf (f32_pack b 0)" "f32_num (f32_pack b 0) = 0" for b
    by (simp_all add: f32_is_nan_def f32_is_inf_def f32_inf_bits_def)
  from assms have a: "\<not> f32_is_nan a" "\<not> f32_is_inf a" by (simp_all add: f32_isfinite_iff)
  then have "f32_add a (f32_pack z 0) =
      (if f32_num a = 0 then f32_pack (f32_neg a \<and> f32_neg (f32_pack z 0)) 0
       else f32_of_units (f32_num a) 1)"
    by (simp add: f32_add_def f32_add_num_def z)
  then show ?thesis using a z f32_num_of_units_exact[OF a(1)] by (auto simp: f32_eq_def)
qed

text \<open>Evaluation: the bit length of a big literal, 64 and then 8 bits at a time.\<close>

lemma floorlog_div: "2 ^ k \<le> n \<Longrightarrow> floorlog 2 n = k + floorlog 2 (n div 2 ^ k)"
proof (induction k arbitrary: n)
  case (Suc k)
  then have "2 ^ k \<le> n div 2" by auto
  moreover from this have "0 < n" by (cases n) simp_all
  ultimately show ?case using Suc.IH[of "n div 2"]
    by (simp add: compute_floorlog[of 2 n] div_mult2_eq)
qed simp

lemma floorlog_2:
  "floorlog 2 n = (if 18446744073709551616 \<le> n then 64 + floorlog 2 (n div 18446744073709551616)
     else if 256 \<le> n then 8 + floorlog 2 (n div 256) else if 1 \<le> n then 1 + floorlog 2 (n div 2) else 0)"
  using floorlog_div[of 64 n] floorlog_div[of 8 n] compute_floorlog[of 2 n] by (simp add: not_le)

lemmas f32_eval = f32_of_int_def f32_of_units_def f32_pack_def f32_round_bits_def rne_def
  floorlog_2 f32_inf_bits_def f32_add_def f32_mul_def f32_sub_def f32_num_def
  f32_mag_of_bits_def f32_abs_bits_def f32_neg_def f32_is_nan_def f32_is_inf_def
  f32_add_num_def f32_flip_def f32_lt_def f32_le_def f32_eq_def f32_isfinite_def

end
