(* ===== verification/Json_Lib.thy ===== *)
theory Json_Lib
  imports Prelude Float32
begin

text \<open>
  The interface of \<open>nlohmann::json\<close>, which is fetched at build time and is no part of the
  repository: a record of the operations the client calls, over an unspecified type \<open>'j\<close> of
  documents. Every definition that handles JSON takes such a record. An operation that may
  throw returns \<open>None\<close>. What the library documents of them is the locale \<open>json_laws\<close>; only
  the properties that need it assume it.
\<close>

record 'j json_lib =
  \<comment> \<open>building\<close>
  j_null :: 'j
  j_bool :: "bool \<Rightarrow> 'j"
  j_int :: "int \<Rightarrow> 'j" \<comment> \<open>from any integer type\<close>
  j_f32 :: "f32 \<Rightarrow> 'j"
  j_f64 :: "int \<Rightarrow> 'j" \<comment> \<open>from a \<open>double\<close> with a whole value\<close>
  j_str :: "string \<Rightarrow> 'j"
  j_arr :: "'j list \<Rightarrow> 'j"
  j_obj :: "(string \<times> 'j) list \<Rightarrow> 'j" \<comment> \<open>brace list of key/value pairs\<close>
  j_set :: "'j \<Rightarrow> string \<Rightarrow> 'j \<Rightarrow> 'j" \<comment> \<open>\<open>j[k] = v\<close> on a null or an object\<close>
  \<comment> \<open>inspecting\<close>
  j_is_object :: "'j \<Rightarrow> bool"
  j_is_array :: "'j \<Rightarrow> bool"
  j_is_string :: "'j \<Rightarrow> bool"
  j_is_boolean :: "'j \<Rightarrow> bool"
  j_contains :: "'j \<Rightarrow> string \<Rightarrow> bool"
  j_at :: "'j \<Rightarrow> string \<Rightarrow> 'j" \<comment> \<open>\<open>j[k]\<close> of a key that is present\<close>
  j_elems :: "'j \<Rightarrow> 'j list" \<comment> \<open>range-for\<close>
  \<comment> \<open>\<open>get<T>()\<close>\<close>
  get_bool :: "'j \<Rightarrow> bool option"
  get_i32 :: "'j \<Rightarrow> i32 option"
  get_u32 :: "'j \<Rightarrow> u32 option"
  get_u64 :: "'j \<Rightarrow> u64 option"
  get_f32 :: "'j \<Rightarrow> f32 option"
  get_str :: "'j \<Rightarrow> string option"
  get_i32s :: "'j \<Rightarrow> i32 list option"
  \<comment> \<open>\<open>value(k, default)\<close>\<close>
  value_bool :: "'j \<Rightarrow> string \<Rightarrow> bool \<Rightarrow> bool option"
  value_i32 :: "'j \<Rightarrow> string \<Rightarrow> i32 \<Rightarrow> i32 option"
  value_u32 :: "'j \<Rightarrow> string \<Rightarrow> u32 \<Rightarrow> u32 option"
  value_u64 :: "'j \<Rightarrow> string \<Rightarrow> u64 \<Rightarrow> u64 option"
  value_f32 :: "'j \<Rightarrow> string \<Rightarrow> f32 \<Rightarrow> f32 option"
  value_str :: "'j \<Rightarrow> string \<Rightarrow> string \<Rightarrow> string option"
  \<comment> \<open>text\<close>
  j_parse :: "string \<Rightarrow> 'j option"
  j_dump :: "'j \<Rightarrow> string option"

text \<open>
  The documented behaviour the client relies on. \<open>get_f32 (j_f32 x)\<close> is stated for finite \<open>x\<close>:
  the library stores a float as a double, which is exact, but writes NaN and infinities as
  \<open>null\<close>.
\<close>

locale json_laws =
  fixes J :: "'j json_lib"
  assumes obj_object: "j_is_object J (j_obj J fs)"
    and contains_obj: "j_contains J (j_obj J fs) k \<longleftrightarrow> k \<in> fst ` set fs"
    and at_obj: "distinct (map fst fs) \<Longrightarrow> map_of fs k = Some v \<Longrightarrow> j_at J (j_obj J fs) k = v"
    and set_object: "j_is_object J j \<or> j = j_null J \<Longrightarrow> j_is_object J (j_set J j k v)"
    and contains_set: "j_is_object J j \<or> j = j_null J \<Longrightarrow>
      j_contains J (j_set J j k v) k' \<longleftrightarrow> k' = k \<or> j_contains J j k'"
    and at_set: "j_is_object J j \<or> j = j_null J \<Longrightarrow>
      j_at J (j_set J j k v) k' = (if k' = k then v else j_at J j k')"
    and contains_object: "j_contains J j k \<Longrightarrow> j_is_object J j"
    and null_contains: "\<not> j_contains J (j_null J) k"
    and str_string: "j_is_string J (j_str J s)"
    and bool_boolean: "j_is_boolean J (j_bool J b)"
    and arr_array: "j_is_array J (j_arr J xs)"
    and elems_arr: "j_elems J (j_arr J xs) = xs"
    and get_bool_bool: "get_bool J (j_bool J b) = Some b"
    and get_i32_int: "get_i32 J (j_int J (sint (i :: i32))) = Some i"
    and get_u32_int: "get_u32 J (j_int J (uint (u :: u32))) = Some u"
    and get_u64_int: "get_u64 J (j_int J (uint (w :: u64))) = Some w"
    and get_f32_f32: "f32_isfinite x \<Longrightarrow> get_f32 J (j_f32 J x) = Some x"
    and get_str_str: "get_str J (j_str J s) = Some s"
    and get_i32s_arr: "get_i32s J (j_arr J (map (\<lambda>i. j_int J (sint i)) is)) = Some is"
    and value_bool_eq: "value_bool J j k b =
      (if \<not> j_is_object J j then None else if j_contains J j k then get_bool J (j_at J j k) else Some b)"
    and value_i32_eq: "value_i32 J j k i =
      (if \<not> j_is_object J j then None else if j_contains J j k then get_i32 J (j_at J j k) else Some i)"
    and value_u32_eq: "value_u32 J j k u =
      (if \<not> j_is_object J j then None else if j_contains J j k then get_u32 J (j_at J j k) else Some u)"
    and value_u64_eq: "value_u64 J j k w =
      (if \<not> j_is_object J j then None else if j_contains J j k then get_u64 J (j_at J j k) else Some w)"
    and value_f32_eq: "value_f32 J j k x =
      (if \<not> j_is_object J j then None else if j_contains J j k then get_f32 J (j_at J j k) else Some x)"
    and value_str_eq: "value_str J j k s =
      (if \<not> j_is_object J j then None else if j_contains J j k then get_str J (j_at J j k) else Some s)"
begin

lemmas value_eqs = value_bool_eq value_i32_eq value_u32_eq value_u64_eq value_f32_eq value_str_eq
lemmas get_eqs = get_bool_bool get_i32_int get_u32_int get_u64_int get_f32_f32 get_str_str get_i32s_arr
lemmas obj_eqs = obj_object contains_obj at_obj
lemmas set_eqs = set_object contains_set at_set null_contains

end

section \<open>A concrete instance\<close>

text \<open>
  A tree of JSON values that satisfies the laws, so that statements about any lawful library
  can be evaluated on concrete documents. The text format stays a parameter.
\<close>

datatype jv = JNull | JBool bool | JInt int | JF32 f32 | JF64 int | JStr string
  | JArr "jv list" | JObj "(string \<times> jv) list"

fun jv_contains :: "jv \<Rightarrow> string \<Rightarrow> bool" where
  "jv_contains (JObj fs) k = (k \<in> fst ` set fs)"
| "jv_contains _ k = False"

fun jv_at :: "jv \<Rightarrow> string \<Rightarrow> jv" where
  "jv_at (JObj fs) k = (case map_of fs k of None \<Rightarrow> JNull | Some v \<Rightarrow> v)"
| "jv_at _ k = JNull"

fun jv_set :: "jv \<Rightarrow> string \<Rightarrow> jv \<Rightarrow> jv" where
  "jv_set (JObj fs) k v = JObj ((k, v) # fs)"
| "jv_set _ k v = JObj [(k, v)]"

fun jv_elems :: "jv \<Rightarrow> jv list" where
  "jv_elems (JArr xs) = xs"
| "jv_elems _ = []"

fun jv_bool :: "jv \<Rightarrow> bool option" where
  "jv_bool (JBool b) = Some b"
| "jv_bool _ = None"

fun jv_word :: "jv \<Rightarrow> 'a::len word option" where
  "jv_word (JInt i) = Some (word_of_int i)"
| "jv_word (JF64 i) = Some (word_of_int i)"
| "jv_word _ = None"

fun jv_f32 :: "jv \<Rightarrow> f32 option" where
  "jv_f32 (JF32 x) = Some x"
| "jv_f32 (JInt i) = Some (f32_of_int i)"
| "jv_f32 (JF64 i) = Some (f32_of_int i)"
| "jv_f32 _ = None"

fun jv_str :: "jv \<Rightarrow> string option" where
  "jv_str (JStr s) = Some s"
| "jv_str _ = None"

fun jv_words :: "jv \<Rightarrow> i32 list option" where
  "jv_words (JArr xs) = those (map jv_word xs)"
| "jv_words _ = None"

definition jv_value :: "(jv \<Rightarrow> 'a option) \<Rightarrow> jv \<Rightarrow> string \<Rightarrow> 'a \<Rightarrow> 'a option" where
  "jv_value g j k d =
     (case j of JObj _ \<Rightarrow> if jv_contains j k then g (jv_at j k) else Some d | _ \<Rightarrow> None)"

definition jv_lib :: "(string \<Rightarrow> jv option) \<Rightarrow> (jv \<Rightarrow> string option) \<Rightarrow> jv json_lib" where
  "jv_lib parse dump = \<lparr>
     j_null = JNull, j_bool = JBool, j_int = JInt, j_f32 = JF32, j_f64 = JF64, j_str = JStr,
     j_arr = JArr, j_obj = JObj, j_set = jv_set,
     j_is_object = (\<lambda>j. case j of JObj _ \<Rightarrow> True | _ \<Rightarrow> False),
     j_is_array = (\<lambda>j. case j of JArr _ \<Rightarrow> True | _ \<Rightarrow> False),
     j_is_string = (\<lambda>j. case j of JStr _ \<Rightarrow> True | _ \<Rightarrow> False),
     j_is_boolean = (\<lambda>j. case j of JBool _ \<Rightarrow> True | _ \<Rightarrow> False),
     j_contains = jv_contains, j_at = jv_at, j_elems = jv_elems,
     get_bool = jv_bool, get_i32 = jv_word, get_u32 = jv_word, get_u64 = jv_word,
     get_f32 = jv_f32, get_str = jv_str, get_i32s = jv_words,
     value_bool = jv_value jv_bool, value_i32 = jv_value jv_word, value_u32 = jv_value jv_word,
     value_u64 = jv_value jv_word, value_f32 = jv_value jv_f32, value_str = jv_value jv_str,
     j_parse = parse, j_dump = dump\<rparr>"

lemma jv_words_ints: "jv_words (JArr (map (\<lambda>i. JInt (sint i)) is)) = Some is"
  by (induction "is") auto

lemma jv_contains_object: "jv_contains j k \<Longrightarrow> \<exists>fs. j = JObj fs"
  by (cases j) auto

interpretation jt: json_laws "jv_lib parse dump" for parse dump
  by unfold_locales
    (auto simp: jv_lib_def jv_value_def jv_words_ints simp del: jv_words.simps
      dest!: jv_contains_object split: jv.splits)

end
