(* ===== verification/Protocol.thy ===== *)
theory Protocol
  imports Json_Lib
begin

text \<open>
  \<open>client/src/net/protocol.{h,cpp}\<close>: packet types and their wire names, the envelope
  \<open>{"t": name, "d": payload}\<close>, and the gameplay state that rides on a \<open>STATE_UPDATE\<close>. The
  lemmas show that the name table is a bijection between the 24 types and their names, and that
  the envelope round-trips.
\<close>

section \<open>Packet types\<close>

definition PROTOCOL_VERSION :: int where
  "PROTOCOL_VERSION = 1"

datatype PacketType =
    HANDSHAKE | HANDSHAKE_ACK | JOIN_REQUEST | JOIN_ACK | JOIN_DENIED | PLAYER_JOIN
  | PLAYER_LEAVE | STATE_UPDATE | ANIMATION_UPDATE | RPC_CALL | RPC_RESULT | CHAT
  | HOST_REASSIGN | PING | PONG | KICK | SERVER_INFO | LOOT_TAKEN | CUTSCENE_START
  | CUTSCENE_END | PUZZLE_START | PUZZLE_TOKEN | PUZZLE_PASS | PUZZLE_END | UNKNOWN

definition kTable :: "(PacketType \<times> string) list" where
  "kTable = [
     (HANDSHAKE, ''HANDSHAKE''), (HANDSHAKE_ACK, ''HANDSHAKE_ACK''),
     (JOIN_REQUEST, ''JOIN_REQUEST''), (JOIN_ACK, ''JOIN_ACK''), (JOIN_DENIED, ''JOIN_DENIED''),
     (PLAYER_JOIN, ''PLAYER_JOIN''), (PLAYER_LEAVE, ''PLAYER_LEAVE''),
     (STATE_UPDATE, ''STATE_UPDATE''), (ANIMATION_UPDATE, ''ANIMATION_UPDATE''),
     (RPC_CALL, ''RPC_CALL''), (RPC_RESULT, ''RPC_RESULT''), (CHAT, ''CHAT''),
     (HOST_REASSIGN, ''HOST_REASSIGN''), (PING, ''PING''), (PONG, ''PONG''), (KICK, ''KICK''),
     (SERVER_INFO, ''SERVER_INFO''), (LOOT_TAKEN, ''LOOT_TAKEN''),
     (CUTSCENE_START, ''CUTSCENE_START''), (CUTSCENE_END, ''CUTSCENE_END''),
     (PUZZLE_START, ''PUZZLE_START''), (PUZZLE_TOKEN, ''PUZZLE_TOKEN''),
     (PUZZLE_PASS, ''PUZZLE_PASS''), (PUZZLE_END, ''PUZZLE_END'')]"

fun name_of_type :: "(PacketType \<times> string) list \<Rightarrow> PacketType \<Rightarrow> string" where
  "name_of_type [] t = ''UNKNOWN''"
| "name_of_type ((ty, nm) # es) t = (if ty = t then nm else name_of_type es t)"

fun type_of_name :: "(PacketType \<times> string) list \<Rightarrow> string \<Rightarrow> PacketType" where
  "type_of_name [] s = UNKNOWN"
| "type_of_name ((ty, nm) # es) s = (if s = nm then ty else type_of_name es s)"

definition PacketTypeToString :: "PacketType \<Rightarrow> string" where
  "PacketTypeToString t = name_of_type kTable t"

definition PacketTypeFromString :: "string \<Rightarrow> PacketType" where
  "PacketTypeFromString s = type_of_name kTable s"

section \<open>The envelope\<close>

definition SerializePacket :: "'j json_lib \<Rightarrow> PacketType \<Rightarrow> 'j \<Rightarrow> string option" where
  "SerializePacket J ty payload =
     (let packet = j_set J (j_null J) ''t'' (j_str J (PacketTypeToString ty));
          packet = j_set J packet ''d'' payload
      in j_dump J packet)"

text \<open>The \<open>catch (...)\<close> turns every failure into \<open>(UNKNOWN, null)\<close>.\<close>

definition DeserializePacket :: "'j json_lib \<Rightarrow> string \<Rightarrow> PacketType \<times> 'j" where
  "DeserializePacket J raw =
     (case j_parse J raw of
        None \<Rightarrow> (UNKNOWN, j_null J)
      | Some j \<Rightarrow>
          if \<not> j_is_object J j \<or> \<not> j_contains J j ''t'' then (UNKNOWN, j_null J)
          else case get_str J (j_at J j ''t'') of
            None \<Rightarrow> (UNKNOWN, j_null J)
          | Some s \<Rightarrow>
              (PacketTypeFromString s,
               if j_contains J j ''d'' then j_at J j ''d'' else j_obj J []))"

section \<open>Gameplay state\<close>

text \<open>\<open>enum TraversalMode\<close>: its enumerators as the \<open>int\<close> values the code compares.\<close>

definition TM_NONE :: i32 where "TM_NONE = 0"
definition TM_CLIMBING :: i32 where "TM_CLIMBING = 1"
definition TM_VAULTING :: i32 where "TM_VAULTING = 2"
definition TM_LEDGE_GRAB :: i32 where "TM_LEDGE_GRAB = 3"
definition TM_WALL_RUN :: i32 where "TM_WALL_RUN = 4"
definition TM_SLIDE :: i32 where "TM_SLIDE = 5"
definition TM_ROLL :: i32 where "TM_ROLL = 6"
definition TM_JUMP :: i32 where "TM_JUMP = 7"
definition TM_FALL :: i32 where "TM_FALL = 8"
definition TM_LAND :: i32 where "TM_LAND = 9"

lemmas TM_defs = TM_NONE_def TM_CLIMBING_def TM_VAULTING_def TM_LEDGE_GRAB_def TM_WALL_RUN_def
  TM_SLIDE_def TM_ROLL_def TM_JUMP_def TM_FALL_def TM_LAND_def

record TraversalState =
  tv_mode :: i32
  tv_anim_id :: i32
  tv_anim_time :: f32
  tv_target_x :: f32
  tv_target_y :: f32
  tv_target_z :: f32
  tv_progress :: f32
  tv_present :: bool

definition TraversalState_init :: TraversalState where
  "TraversalState_init = \<lparr>tv_mode = TM_NONE, tv_anim_id = 0, tv_anim_time = f32_0,
     tv_target_x = f32_0, tv_target_y = f32_0, tv_target_z = f32_0, tv_progress = f32_0,
     tv_present = False\<rparr>"

record PlayerStatePacket =
  traversal :: TraversalState
  skill_id :: i32
  skill_phase :: i32
  skill_anim_id :: i32
  skill_target_x :: f32
  skill_target_y :: f32
  skill_target_z :: f32
  skill_target_entity :: i32
  skill_present :: bool
  active_vfx :: "i32 list"
  vfx_present :: bool
  status_flags :: u32
  buff_ids :: "i32 list"
  status_present :: bool
  weapon_id :: i32
  weapon_stance :: i32
  off_hand_id :: i32
  equipment_present :: bool
  is_mounted :: bool
  mount_entity_id :: i32
  mount_anim_id :: i32
  mount_anim_time :: f32
  mount_x :: f32
  mount_y :: f32
  mount_z :: f32
  mount_present :: bool
  dodge_x :: f32
  dodge_y :: f32
  dodge_present :: bool
  is_dead :: bool
  respawn_x :: f32
  respawn_y :: f32
  respawn_z :: f32
  respawn_present :: bool
  death_present :: bool
  interaction_type :: i32
  interaction_entity_id :: i32
  interaction_present :: bool

definition PlayerStatePacket_init :: PlayerStatePacket where
  "PlayerStatePacket_init = \<lparr>traversal = TraversalState_init,
     skill_id = 0, skill_phase = 0, skill_anim_id = 0,
     skill_target_x = f32_0, skill_target_y = f32_0, skill_target_z = f32_0,
     skill_target_entity = 0, skill_present = False,
     active_vfx = [], vfx_present = False,
     status_flags = 0, buff_ids = [], status_present = False,
     weapon_id = 0, weapon_stance = 0, off_hand_id = 0, equipment_present = False,
     is_mounted = False, mount_entity_id = 0, mount_anim_id = 0, mount_anim_time = f32_0,
     mount_x = f32_0, mount_y = f32_0, mount_z = f32_0, mount_present = False,
     dodge_x = f32_0, dodge_y = f32_0, dodge_present = False,
     is_dead = False, respawn_x = f32_0, respawn_y = f32_0, respawn_z = f32_0,
     respawn_present = False, death_present = False,
     interaction_type = 0, interaction_entity_id = 0, interaction_present = False\<rparr>"

section \<open>Facts\<close>

lemma type_of_name_of_type: "PacketTypeFromString (PacketTypeToString t) = t"
  by (cases t) (simp_all add: PacketTypeFromString_def PacketTypeToString_def kTable_def)

lemma type_of_name_mem: "type_of_name es s \<noteq> UNKNOWN \<Longrightarrow> (type_of_name es s, s) \<in> set es"
  by (induction es s rule: type_of_name.induct) (auto split: if_splits)

lemma name_of_type_mem:
  "distinct (map fst es) \<Longrightarrow> (t, nm) \<in> set es \<Longrightarrow> name_of_type es t = nm"
  by (induction es t rule: name_of_type.induct) force+

lemma distinct_kTable: "distinct (map fst kTable)"
  by (simp add: kTable_def)

lemma name_of_known:
  assumes "PacketTypeFromString s \<noteq> UNKNOWN"
  shows "PacketTypeToString (PacketTypeFromString s) = s"
proof -
  have "(PacketTypeFromString s, s) \<in> set kTable"
    using type_of_name_mem assms unfolding PacketTypeFromString_def .
  with distinct_kTable show ?thesis by (simp add: name_of_type_mem PacketTypeToString_def)
qed

context json_laws
begin

lemma deserialize_serialize:
  assumes s: "SerializePacket J ty payload = Some raw"
    and parsed: "\<And>j. j_dump J j = Some raw \<Longrightarrow> j_parse J raw = Some j"
  shows "DeserializePacket J raw = (ty, payload)"
proof -
  let ?p = "j_set J (j_set J (j_null J) ''t'' (j_str J (PacketTypeToString ty))) ''d'' payload"
  from s have "j_dump J ?p = Some raw" by (simp add: SerializePacket_def Let_def)
  then have "j_parse J raw = Some ?p" by (rule parsed)
  then show ?thesis
    by (simp add: DeserializePacket_def set_eqs get_str_str type_of_name_of_type)
qed

end

text \<open>The table of wire names is a bijection: every packet type is recovered from its name, and
  a name that is understood is the name of exactly that type.\<close>

lemma packet_names_bijective:
  "PacketTypeFromString (PacketTypeToString t) = t
   \<and> (PacketTypeFromString s \<noteq> UNKNOWN \<longrightarrow> PacketTypeToString (PacketTypeFromString s) = s)"
  using type_of_name_of_type name_of_known by blast

lemma packet_names_bijective_witness:
  "PacketTypeFromString (PacketTypeToString CHAT) = CHAT
   \<and> PacketTypeToString (PacketTypeFromString ''PING'') = ''PING''"
proof -
  have "PacketTypeFromString ''PING'' = PING"
    by (simp add: PacketTypeFromString_def kTable_def)
  with packet_names_bijective[of CHAT "''PING''"] show ?thesis by simp
qed

text \<open>A packet survives the wire: with a JSON library that keeps its documented laws and whose
  parser inverts its printer on the text at hand, \<open>DeserializePacket\<close> returns the type and the
  payload that \<open>SerializePacket\<close> was given.\<close>

lemma packet_round_trip:
  assumes "json_laws J" and "SerializePacket J ty payload = Some raw"
    and "\<And>j. j_dump J j = Some raw \<Longrightarrow> j_parse J raw = Some j"
  shows "DeserializePacket J raw = (ty, payload)"
  using json_laws.deserialize_serialize[OF assms] .

lemma packet_round_trip_witness:
  "DeserializePacket
     (jv_lib (\<lambda>s. if s = ''m'' then Some (JObj [(''d'', JInt 3), (''t'', JStr ''CHAT'')]) else None)
       (\<lambda>j. if j = JObj [(''d'', JInt 3), (''t'', JStr ''CHAT'')] then Some ''m'' else None)) ''m''
   = (CHAT, JInt 3)"
  by (rule packet_round_trip[OF jt.json_laws_axioms])
     (simp_all add: jv_lib_def SerializePacket_def PacketTypeToString_def kTable_def split: if_splits)

end
