(* ===== verification/Ws_Client.thy ===== *)
theory Ws_Client
  imports Ws_Frame Protocol "HOL-Library.Sublist"
begin

text \<open>
  \<open>client/src/net/client.{h,cpp}\<close>: the WebSocket client. The socket is a value \<open>sock_env\<close> of
  answers, indexed by the number of socket calls made so far (so every schedule of partial
  sends, receives and errors is one such value), and a record \<open>sock_io\<close> that counts the calls
  and collects what was sent. The worker thread owns the socket; other threads only append to
  the queue, under its mutex, so each operation below is one atomic step on the shared record.
\<close>

section \<open>The socket\<close>

datatype recv_answer =
    RecvData "byte list"  \<comment> \<open>\<open>n > 0\<close>\<close>
  | RecvEnd               \<comment> \<open>\<open>n == 0\<close>\<close>
  | RecvError i32         \<comment> \<open>\<open>n < 0\<close>, with \<open>WSAGetLastError()\<close>\<close>

record sock_env =
  send_ans :: "nat \<Rightarrow> int"            \<comment> \<open>what the \<open>k\<close>-th call, a \<open>send\<close>, returns\<close>
  recv_ans :: "nat \<Rightarrow> recv_answer"    \<comment> \<open>what the \<open>k\<close>-th call, a \<open>recv\<close>, returns\<close>
  rd_ans :: "nat \<Rightarrow> nat \<Rightarrow> byte"      \<comment> \<open>the random bytes drawn before the \<open>k\<close>-th call\<close>
  tcp_ans :: "nat \<Rightarrow> u64 option"      \<comment> \<open>\<open>getaddrinfo\<close>, \<open>socket\<close>, \<open>connect\<close> over all addresses\<close>

record sock_io =
  io_step :: nat
  io_out :: "byte list"

definition WSAEWOULDBLOCK :: i32 where "WSAEWOULDBLOCK = 10035"
definition INVALID_SOCKET :: u64 where "INVALID_SOCKET = - 1"

text \<open>\<open>sent\<close> is the position in \<open>data\<close>; every round sends at least one byte.\<close>

function send_from :: "sock_env \<Rightarrow> byte list \<Rightarrow> nat \<Rightarrow> sock_io \<Rightarrow> bool \<times> sock_io" where
  "send_from E data sent io =
     (if sent < length data then
        let n = send_ans E (io_step io); io = io\<lparr>io_step := Suc (io_step io)\<rparr>
        in if n \<le> 0 then (False, io)
           else send_from E data (sent + nat n)
                  (io\<lparr>io_out := io_out io @ take (nat n) (drop sent data)\<rparr>)
      else (True, io))"
  by pat_completeness auto
termination by (relation "measure (\<lambda>(_, data, sent, _). length data - sent)") auto

declare send_from.simps [simp del]

definition SendAll :: "sock_env \<Rightarrow> byte list \<Rightarrow> sock_io \<Rightarrow> bool \<times> sock_io" where
  "SendAll E data io = send_from E data 0 io"

definition SendFrame :: "sock_env \<Rightarrow> string \<Rightarrow> sock_io \<Rightarrow> bool \<times> sock_io" where
  "SendFrame E payload io =
     SendAll E (frame_bytes (map (rd_ans E (io_step io)) [0..<4]) payload) io"

section \<open>The client record and its queue\<close>

record WsClient =
  ws_host :: string
  ws_port :: u16
  ws_running :: bool
  ws_connected :: bool
  ws_sock :: u64
  sendQueue :: "string list"

definition WsClient_init :: WsClient where
  "WsClient_init = \<lparr>ws_host = [], ws_port = 0, ws_running = False, ws_connected = False,
     ws_sock = INVALID_SOCKET, sendQueue = []\<rparr>"

definition IsConnected :: "WsClient \<Rightarrow> bool" where
  "IsConnected w = ws_connected w"

definition CloseSocket :: "WsClient \<Rightarrow> WsClient" where
  "CloseSocket w = (if ws_sock w \<noteq> INVALID_SOCKET then w\<lparr>ws_sock := INVALID_SOCKET\<rparr> else w)"

definition Disconnect :: "WsClient \<Rightarrow> WsClient" where
  "Disconnect w = CloseSocket (w\<lparr>ws_running := False\<rparr>)"

text \<open>\<open>Connect\<close> up to the start of the worker thread, the previous one having been joined.\<close>

definition Connect :: "string \<Rightarrow> u16 \<Rightarrow> WsClient \<Rightarrow> WsClient" where
  "Connect host port w =
     (let w = Disconnect w; w = w\<lparr>ws_host := host\<rparr>; w = w\<lparr>ws_port := port\<rparr>
      in w\<lparr>ws_running := True\<rparr>)"

definition Send :: "'j json_lib \<Rightarrow> PacketType \<Rightarrow> 'j \<Rightarrow> WsClient \<Rightarrow> WsClient option" where
  "Send J ty payload w =
     do { frame \<leftarrow> SerializePacket J ty payload;
          Some (w\<lparr>sendQueue := sendQueue w @ [frame]\<rparr>) }"

fun send_frames :: "sock_env \<Rightarrow> string list \<Rightarrow> sock_io \<Rightarrow> sock_io" where
  "send_frames E [] io = io"
| "send_frames E (p # ps) io = send_frames E ps (snd (SendFrame E p io))"

definition FlushSendQueue :: "sock_env \<Rightarrow> WsClient \<times> sock_io \<Rightarrow> WsClient \<times> sock_io" where
  "FlushSendQueue E st =
     (let (w, io) = st; local = sendQueue w; w = w\<lparr>sendQueue := []\<rparr>
      in (w, send_frames E local io))"

section \<open>\<open>ReceiveLoop\<close>\<close>

text \<open>The callback \<open>onPacket_\<close> works on the client record and the rest \<open>'a\<close> of the program.\<close>

type_synonym ('j, 'a) on_packet = "PacketType \<Rightarrow> 'j \<Rightarrow> WsClient \<times> 'a \<Rightarrow> (WsClient \<times> 'a) option"
type_synonym 'a rx_state = "sock_io \<times> WsClient \<times> 'a"

definition handle_event ::
  "sock_env \<Rightarrow> 'j json_lib \<Rightarrow> ('j, 'a) on_packet \<Rightarrow> ws_event \<Rightarrow> 'a rx_state \<Rightarrow> 'a rx_state option" where
  "handle_event E J onPacket ev st =
     (let (io, wa) = st
      in case ev of
           EvPing payload \<Rightarrow> Some (snd (SendFrame E payload io), wa)
         | EvMessage payload \<Rightarrow>
             (let (ty, d) = DeserializePacket J payload
              in if ty \<noteq> UNKNOWN then do { wa \<leftarrow> onPacket ty d wa; Some (io, wa) } else Some (io, wa)))"

datatype 'a loop_result =
    Again "byte list" "'a rx_state"  \<comment> \<open>next iteration, with \<open>rx\<close>\<close>
  | Return bool "'a rx_state"
  | Crash                            \<comment> \<open>an exception leaves the thread: \<open>std::terminate\<close>\<close>

text \<open>
  Parsing and dispatching alternate in the code; the frames in \<open>rx\<close> do not depend on what the
  callbacks do, so the events are computed first and dispatched in order.
\<close>

definition dispatch_rx ::
  "sock_env \<Rightarrow> 'j json_lib \<Rightarrow> ('j, 'a) on_packet \<Rightarrow> byte list \<Rightarrow> 'a rx_state \<Rightarrow> 'a loop_result" where
  "dispatch_rx E J onPacket rx st =
     (let (evs, e, rest) = parse_stream rx
      in case foldM (handle_event E J onPacket) evs st of
           None \<Rightarrow> Crash
         | Some st \<Rightarrow>
             (case e of RxMore \<Rightarrow> Again rest st | RxClose \<Rightarrow> Return True st | RxThrow \<Rightarrow> Crash))"

definition receive_iter ::
  "sock_env \<Rightarrow> 'j json_lib \<Rightarrow> ('j, 'a) on_packet \<Rightarrow> byte list \<Rightarrow> 'a rx_state \<Rightarrow> 'a loop_result" where
  "receive_iter E J onPacket rx st =
     (let (io, w, a) = st
      in if \<not> ws_running w then Return True st
         else
           let (w, io) = FlushSendQueue E (w, io);
               n = recv_ans E (io_step io);
               io = io\<lparr>io_step := Suc (io_step io)\<rparr>
           in case n of
                RecvData bs \<Rightarrow> dispatch_rx E J onPacket (rx @ bs) (io, w, a)
              | RecvEnd \<Rightarrow> Return True (io, w, a)
              | RecvError err \<Rightarrow>
                  if err \<noteq> WSAEWOULDBLOCK then Return False (io, w, a)
                  else dispatch_rx E J onPacket rx (io, w, a))"

text \<open>The loop runs as long as the connection does: \<open>fuel\<close> bounds the iterations.\<close>

fun ReceiveLoop ::
  "nat \<Rightarrow> sock_env \<Rightarrow> 'j json_lib \<Rightarrow> ('j, 'a) on_packet \<Rightarrow> byte list \<Rightarrow> 'a rx_state \<Rightarrow> 'a loop_result" where
  "ReceiveLoop 0 E J onPacket rx st = Again rx st"
| "ReceiveLoop (Suc fuel) E J onPacket rx st =
     (case receive_iter E J onPacket rx st of
        Again rx st \<Rightarrow> ReceiveLoop fuel E J onPacket rx st
      | r \<Rightarrow> r)"

section \<open>\<open>Handshake\<close> and \<open>DoConnectOnce\<close>\<close>

fun starts_with :: "string \<Rightarrow> string \<Rightarrow> bool" where
  "starts_with [] s = True"
| "starts_with (c # cs) [] = False"
| "starts_with (c # cs) (d # ds) = (c = d \<and> starts_with cs ds)"

fun str_contains :: "string \<Rightarrow> string \<Rightarrow> bool" where \<comment> \<open>\<open>s.find(p) != npos\<close>\<close>
  "str_contains p [] = (p = [])"
| "str_contains p (c # cs) = (starts_with p (c # cs) \<or> str_contains p cs)"

definition CRLF :: string where "CRLF = [CHR 0x0D, CHR 0x0A]"

fun dec_digits :: "nat \<Rightarrow> string \<Rightarrow> string" where
  "dec_digits n acc =
     (let acc = char_of (48 + n mod 10) # acc in if n < 10 then acc else dec_digits (n div 10) acc)"

definition to_string :: "nat \<Rightarrow> string" where \<comment> \<open>\<open>std::to_string\<close> of a non-negative value\<close>
  "to_string n = dec_digits n []"

definition handshake_request :: "WsClient \<Rightarrow> string \<Rightarrow> string" where
  "handshake_request w key =
     ''GET / HTTP/1.1'' @ CRLF
     @ ''Host: '' @ ws_host w @ '':'' @ to_string (unat (ws_port w)) @ CRLF
     @ ''Upgrade: websocket'' @ CRLF
     @ ''Connection: Upgrade'' @ CRLF
     @ ''Sec-WebSocket-Key: '' @ key @ CRLF
     @ ''Sec-WebSocket-Version: 13'' @ CRLF @ CRLF"

text \<open>A \<open>recv\<close> that delivers data delivers 1 to 512 bytes.\<close>

function read_headers :: "sock_env \<Rightarrow> string \<Rightarrow> sock_io \<Rightarrow> string option \<times> sock_io" where
  "read_headers E resp io =
     (if str_contains (CRLF @ CRLF) resp then (Some resp, io)
      else
        let n = recv_ans E (io_step io); io = io\<lparr>io_step := Suc (io_step io)\<rparr>
        in case n of
             RecvData bs \<Rightarrow>
               (if bs = [] then (None, io)
                else
                  let resp = resp @ map char_of_byte (take 512 bs)
                  in if 8192 < length resp then (None, io) else read_headers E resp io)
           | _ \<Rightarrow> (None, io))"
  by pat_completeness auto
termination
  by (relation "measure (\<lambda>(_, resp, _). 8193 - length resp)")
     (auto simp: neq_Nil_conv)

declare read_headers.simps [simp del]

definition Handshake :: "sock_env \<Rightarrow> WsClient \<Rightarrow> sock_io \<Rightarrow> bool \<times> sock_io" where
  "Handshake E w io =
     (let key = RandomKey (map (rd_ans E (io_step io)) [0..<16]);
          (ok, io) = SendAll E (map byte_of_char (handshake_request w key)) io
      in if \<not> ok then (False, io)
         else case read_headers E [] io of
                (None, io) \<Rightarrow> (False, io)
              | (Some resp, io) \<Rightarrow> (str_contains ''101'' resp, io))"

text \<open>
  One connection. \<open>Inl\<close>: the thread still runs when the fuel is used up, or it crashed;
  \<open>Inr\<close>: the returned value, with the state after the callbacks.
\<close>

definition DoConnectOnce ::
  "nat \<Rightarrow> sock_env \<Rightarrow> 'j json_lib \<Rightarrow> ('j, 'a) on_packet \<Rightarrow> (WsClient \<times> 'a \<Rightarrow> (WsClient \<times> 'a) option)
    \<Rightarrow> (WsClient \<times> 'a \<Rightarrow> WsClient \<times> 'a) \<Rightarrow> 'a rx_state \<Rightarrow> 'a loop_result" where
  "DoConnectOnce fuel E J onPacket onConnected onDisconnected st =
     (let (io, w, a) = st; r = tcp_ans E (io_step io); io = io\<lparr>io_step := Suc (io_step io)\<rparr>
      in case r of
           None \<Rightarrow> Return False (io, w, a)
         | Some s \<Rightarrow>
             (let w = w\<lparr>ws_sock := s\<rparr>; (ok, io) = Handshake E w io
              in if \<not> ok then Return False (io, CloseSocket w, a)
                 else case onConnected (w\<lparr>ws_connected := True\<rparr>, a) of
                        None \<Rightarrow> Crash
                      | Some wa \<Rightarrow>
                          (case ReceiveLoop fuel E J onPacket [] (io, wa) of
                             Return clean (io, w, a) \<Rightarrow>
                               (let (w, a) = onDisconnected (w\<lparr>ws_connected := False\<rparr>, a)
                                in Return clean (io, CloseSocket w, a))
                           | r \<Rightarrow> r)))"

section \<open>\<open>WorkerLoop\<close>: the reconnect schedule\<close>

definition initial_backoff :: int where "initial_backoff = 500"
definition kMaxBackoff :: int where "kMaxBackoff = 30000"

definition next_backoff :: "int \<Rightarrow> int" where
  "next_backoff b = (if kMaxBackoff < b * 2 then kMaxBackoff else b * 2)"

text \<open>Each entry of the list is what one \<open>DoConnectOnce\<close> returned, the loop still running
  after it; the result is the delay waited after each, as logged.\<close>

fun worker_delays :: "int \<Rightarrow> bool list \<Rightarrow> int list" where
  "worker_delays backoffMs [] = []"
| "worker_delays backoffMs (clean # rest) =
     (let backoffMs = (if clean then initial_backoff else backoffMs)
      in backoffMs # worker_delays (next_backoff backoffMs) rest)"

text \<open>The wait itself sleeps 100 ms at a time; \<open>run k\<close> is \<open>running_\<close> before the \<open>k\<close>-th sleep.\<close>

function sleeps :: "(nat \<Rightarrow> bool) \<Rightarrow> int \<Rightarrow> int \<Rightarrow> nat \<Rightarrow> nat" where
  "sleeps run backoffMs waited k =
     (if waited < backoffMs \<and> run k then sleeps run backoffMs (waited + 100) (Suc k) else k)"
  by pat_completeness auto
termination by (relation "measure (\<lambda>(_, b, waited, _). nat (b - waited))") auto

declare sleeps.simps [simp del]

section \<open>Sending\<close>

lemma send_from_out:
  assumes "send_from E data sent io = (ok, io')" "sent \<le> length data"
  shows "\<exists>k. io_out io' = io_out io @ take k (drop sent data) \<and> (ok \<longleftrightarrow> length data - sent \<le> k)"
  using assms
proof (induction E data sent io rule: send_from.induct)
  case (1 E data sent io)
  let ?n = "send_ans E (io_step io)" and ?io = "io\<lparr>io_step := Suc (io_step io)\<rparr>"
  show ?case
  proof (cases "sent < length data")
    case False
    with "1.prems" show ?thesis
      by (intro exI[of _ 0]) (auto simp: send_from.simps[of E data sent])
  next
    case True
    note lt = this
    show ?thesis
    proof (cases "?n \<le> 0")
      case True
      with lt "1.prems" show ?thesis
        by (intro exI[of _ 0]) (auto simp: send_from.simps[of E data sent] Let_def)
    next
      case False
      let ?io2 = "?io\<lparr>io_out := io_out ?io @ take (nat ?n) (drop sent data)\<rparr>"
      have step: "send_from E data (sent + nat ?n) ?io2 = (ok, io')"
        using lt False "1.prems"(1) by (simp add: send_from.simps[of E data sent] Let_def)
      show ?thesis
      proof (cases "sent + nat ?n \<le> length data")
        case True
        from "1.IH"[OF lt refl refl False step True] obtain k where
          k: "io_out io' = io_out ?io2 @ take k (drop (sent + nat ?n) data)"
             "ok \<longleftrightarrow> length data - (sent + nat ?n) \<le> k" by blast
        have "take (nat ?n) (drop sent data) @ take k (drop (sent + nat ?n) data)
            = take (nat ?n + k) (drop sent data)"
          by (simp add: take_add) (simp only: add.commute)
        with k True show ?thesis by (intro exI[of _ "nat ?n + k"]) auto
      next
        case past: False
        with step have "ok" "io' = ?io2" by (auto simp: send_from.simps[of E data "sent + nat ?n"])
        with past show ?thesis by (intro exI[of _ "nat ?n"]) auto
      qed
    qed
  qed
qed

text \<open>\<open>SendAll\<close> under every schedule of partial sends and errors: the bytes that
  reach the socket are always a prefix of the data, and the function returns \<open>true\<close> exactly when
  they are all of it.\<close>

lemma SendAll_prefix:
  "\<exists>sent. io_out (snd (SendAll E data io)) = io_out io @ sent \<and> prefix sent data
     \<and> (fst (SendAll E data io) \<longleftrightarrow> sent = data)"
proof -
  obtain ok io' where r: "SendAll E data io = (ok, io')" by force
  from send_from_out[of E data 0 io ok io'] r obtain k where
    k: "io_out io' = io_out io @ take k data" "ok \<longleftrightarrow> length data \<le> k"
    by (auto simp: SendAll_def)
  show ?thesis
    using k r by (intro exI[of _ "take k data"]) (auto simp: take_is_prefix dest: take_all_iff[THEN iffD1])
qed

text \<open>A socket whose \<open>send\<close> always accepts something.\<close>

definition accepting :: "sock_env \<Rightarrow> bool" where
  "accepting E \<longleftrightarrow> (\<forall>k. 0 < send_ans E k)"

lemma send_from_ok: "accepting E \<Longrightarrow> fst (send_from E data sent io)"
  by (induction E data sent io rule: send_from.induct)
     (subst send_from.simps, auto simp: Let_def accepting_def simp flip: not_less)

lemma SendAll_accepting:
  assumes "accepting E"
  shows "io_out (snd (SendAll E data io)) = io_out io @ data"
proof -
  obtain ok io' where r: "SendAll E data io = (ok, io')" by force
  have ok using send_from_ok[OF assms, of data 0 io] r by (simp add: SendAll_def)
  with send_from_out[of E data 0 io ok io'] r show ?thesis by (auto simp: SendAll_def)
qed

lemma parse_stream_frames:
  assumes "length p + length rest < 2 ^ 62" "length mk = 4"
  shows "parse_stream (frame_bytes mk p @ rest) =
    (case parse_stream rest of (evs, e, r) \<Rightarrow> (EvMessage p # evs, e, r))"
  using parse_frame_encoded[OF assms(2,1)]
  by (simp add: parse_stream.simps[of "frame_bytes mk p @ rest"] frame_events_def split: prod.splits)

lemma parse_stream_Nil [simp]: "parse_stream [] = ([], RxMore, [])"
  by (simp add: parse_stream.simps[of "[]"] parse_frame_def)

lemma frame_bytes_length: "length mk = 4 \<Longrightarrow> length (frame_bytes mk p) \<le> length p + 14"
  by (simp add: length_frame_bytes frame_length_field_len)

lemma send_frames_wire:
  assumes "accepting E" "sum_list (map (\<lambda>p. length p + 14) ps) < 2 ^ 62"
  shows "\<exists>wire. io_out (send_frames E ps io) = io_out io @ wire
    \<and> length wire \<le> sum_list (map (\<lambda>p. length p + 14) ps)
    \<and> parse_stream wire = (map EvMessage ps, RxMore, [])"
  using assms(2)
proof (induction ps arbitrary: io)
  case Nil
  then show ?case by simp
next
  case (Cons p ps)
  let ?mk = "map (rd_ans E (io_step io)) [0..<4]"
  let ?io = "snd (SendFrame E p io)"
  have out: "io_out ?io = io_out io @ frame_bytes ?mk p"
    using assms(1) by (simp add: SendFrame_def SendAll_accepting)
  from Cons obtain wire where w: "io_out (send_frames E ps ?io) = io_out ?io @ wire"
    "length wire \<le> sum_list (map (\<lambda>p. length p + 14) ps)"
    "parse_stream wire = (map EvMessage ps, RxMore, [])" by fastforce
  have "length p + length wire < 2 ^ 62" using w(2) Cons.prems by simp
  then have "parse_stream (frame_bytes ?mk p @ wire) = (EvMessage p # map EvMessage ps, RxMore, [])"
    using w(3) by (simp add: parse_stream_frames)
  moreover have "length (frame_bytes ?mk p) \<le> length p + 14" by (rule frame_bytes_length) simp
  ultimately show ?case
    using out w by (intro exI[of _ "frame_bytes ?mk p @ wire"]) simp
qed

text \<open>The queue reaches the peer in order and unchanged: after \<open>FlushSendQueue\<close> on a socket
  that accepts bytes, however few at a time, the bytes sent parse to exactly the queued packets,
  first queued first, and the queue is empty.\<close>

lemma flush_delivers_queue:
  assumes "accepting E" "sum_list (map (\<lambda>p. length p + 14) (sendQueue w)) < 2 ^ 62"
    and "FlushSendQueue E (w, io) = (w', io')"
  shows "sendQueue w' = [] \<and> (\<exists>wire. io_out io' = io_out io @ wire
    \<and> parse_stream wire = (map EvMessage (sendQueue w), RxMore, []))"
  using send_frames_wire[OF assms(1,2), of io] assms(3)
  by (auto simp: FlushSendQueue_def Let_def)

section \<open>Receiving\<close>

text \<open>C7: TCP may cut the byte stream anywhere: dispatching a block of received bytes has the
  outcome of dispatching its first part and then, with the bytes that part left over, the
  second, whatever the callback does; this holds for messages, pings, the close frame, an
  oversized frame and an exception of the callback.\<close>

lemma dispatch_rx_split:
  assumes "length xs + length ys < 2 ^ 63"
  shows "dispatch_rx E J onPacket (xs @ ys) st =
    (case dispatch_rx E J onPacket xs st of
       Again rest st' \<Rightarrow> dispatch_rx E J onPacket (rest @ ys) st'
     | r \<Rightarrow> r)"
proof -
  obtain evs e rest where p: "parse_stream xs = (evs, e, rest)" by (metis prod_cases3)
  note app = parse_stream_append[OF assms]
  show ?thesis
  proof (cases e)
    case RxMore
    with p app show ?thesis
      by (auto simp: dispatch_rx_def Let_def foldM_append split: prod.splits option.splits)
  qed (use p app in \<open>auto simp: dispatch_rx_def Let_def split: option.splits\<close>)
qed

section \<open>Reconnecting\<close>

lemma worker_delays_failures:
  "b \<ge> 500 \<Longrightarrow> b \<le> 30000 \<Longrightarrow>
    worker_delays b (replicate n False) = map (\<lambda>k. min 30000 (b * 2 ^ k)) [0..<n]"
proof (induction n arbitrary: b)
  case 0
  then show ?case by simp
next
  case (Suc n)
  let ?b = "next_backoff b"
  have b: "?b = min 30000 (b * 2)" "500 \<le> ?b" "?b \<le> 30000"
    using Suc.prems by (auto simp: next_backoff_def kMaxBackoff_def)
  have "min 30000 (?b * 2 ^ k) = min 30000 (b * 2 ^ Suc k)" for k
  proof (cases "b * 2 \<le> 30000")
    case False
    have one: "(1 :: int) \<le> 2 ^ k" by simp
    have "15000 * 1 \<le> b * 2 ^ k" using False one by (intro mult_mono) auto
    then have "30000 \<le> b * 2 ^ Suc k" "30000 \<le> ?b * 2 ^ k"
      using False b(1) one by simp_all
    then show ?thesis by simp
  qed (use b in simp)
  then have "map (\<lambda>k. min 30000 (?b * 2 ^ k)) [0..<n]
      = map (\<lambda>k. min 30000 (b * 2 ^ k)) (map Suc [0..<n])" by simp
  moreover have "[0..<Suc n] = 0 # map Suc [0..<n]" using upt_conv_Cons[of 0 "Suc n"] map_Suc_upt[of 0 n] by simp
  ultimately show ?case using Suc.IH[OF b(2,3)] Suc.prems by simp
qed

lemma worker_delays_append:
  "\<exists>b'. worker_delays b (rs @ qs) = worker_delays b rs @ worker_delays b' qs"
  by (induction rs arbitrary: b) (auto simp: Let_def)

lemma length_worker_delays [simp]: "length (worker_delays b rs) = length rs"
  by (induction rs arbitrary: b) (auto simp: Let_def)

text \<open>The reconnect schedule: whatever happened before, the delays after a clean session and
  \<open>n\<close> failed attempts are 500 ms doubled each time and capped at 30 s.\<close>

lemma backoff_schedule:
  "drop (length rs) (worker_delays b (rs @ True # replicate n False))
     = map (\<lambda>k. min 30000 (500 * 2 ^ k)) [0..<Suc n]"
proof -
  obtain b' where b: "worker_delays b (rs @ True # replicate n False)
      = worker_delays b rs @ worker_delays b' (True # replicate n False)"
    using worker_delays_append by blast
  have "worker_delays b' (True # replicate n False) = worker_delays 500 (replicate (Suc n) False)"
    by (simp add: initial_backoff_def)
  also have "\<dots> = map (\<lambda>k. min 30000 (500 * 2 ^ k)) [0..<Suc n]"
    by (rule worker_delays_failures) simp_all
  finally show ?thesis using b by simp
qed

lemma next_backoff_range: "500 \<le> b \<Longrightarrow> b \<le> 30000 \<Longrightarrow> 500 \<le> next_backoff b \<and> next_backoff b \<le> 30000"
  by (simp add: next_backoff_def kMaxBackoff_def)

lemma worker_delays_bounds:
  "500 \<le> b \<Longrightarrow> b \<le> 30000 \<Longrightarrow> d \<in> set (worker_delays b rs) \<Longrightarrow> 500 \<le> d \<and> d \<le> 30000"
proof (induction rs arbitrary: b)
  case (Cons r rs)
  let ?b = "if r then initial_backoff else b"
  have b: "500 \<le> ?b" "?b \<le> 30000" using Cons.prems by (simp_all add: initial_backoff_def)
  from Cons.prems(3) have "d = ?b \<or> d \<in> set (worker_delays (next_backoff ?b) rs)"
    by (simp add: Let_def)
  with b Cons.IH[of "next_backoff ?b"] next_backoff_range[OF b] show ?case by auto
qed simp

section \<open>Pings, the handshake, and concrete runs\<close>

text \<open>A socket that sends seven bytes at a time, and a JSON library, to evaluate on.\<close>

definition demo_env :: sock_env where
  "demo_env = \<lparr>send_ans = (\<lambda>_. 7), recv_ans = (\<lambda>_. RecvError WSAEWOULDBLOCK),
     rd_ans = (\<lambda>k i. of_nat (3 * k + i)), tcp_ans = (\<lambda>_. Some 5)\<rparr>"

definition demo_io :: sock_io where
  "demo_io = \<lparr>io_step = 0, io_out = []\<rparr>"

definition demo_json :: "jv json_lib" where
  "demo_json = jv_lib (\<lambda>_. None) (\<lambda>_. Some ''{}'')"

lemma accepting_demo: "accepting demo_env"
  by (simp add: accepting_def demo_env_def)

lemma json_laws_demo: "json_laws demo_json"
  unfolding demo_json_def by (rule jt.json_laws_axioms)

lemma flush_delivers_queue_witness:
  "\<exists>wire. io_out (snd (FlushSendQueue demo_env (WsClient_init\<lparr>sendQueue := [''ab'', ''c'']\<rparr>, demo_io)))
      = [] @ wire
    \<and> parse_stream wire = ([EvMessage ''ab'', EvMessage ''c''], RxMore, [])"
  using flush_delivers_queue[OF accepting_demo, of "WsClient_init\<lparr>sendQueue := [''ab'', ''c'']\<rparr>" demo_io
      "fst (FlushSendQueue demo_env (WsClient_init\<lparr>sendQueue := [''ab'', ''c'']\<rparr>, demo_io))"
      "snd (FlushSendQueue demo_env (WsClient_init\<lparr>sendQueue := [''ab'', ''c'']\<rparr>, demo_io))"]
  by (simp add: demo_io_def)

lemma dispatch_rx_split_witness:
  "dispatch_rx demo_env demo_json (\<lambda>_ _ s. Some s) ([0x89] @ [0x00]) (demo_io, WsClient_init, ()) =
    (case dispatch_rx demo_env demo_json (\<lambda>_ _ s. Some s) [0x89] (demo_io, WsClient_init, ()) of
       Again rest st' \<Rightarrow> dispatch_rx demo_env demo_json (\<lambda>_ _ s. Some s) (rest @ [0x00]) st'
     | r \<Rightarrow> r)"
  by (rule dispatch_rx_split) simp

text \<open>A ping frame is answered, but not with a pong: what \<open>ReceiveLoop\<close> sends for a ping with
  payload \<open>p\<close> is a text message with payload \<open>p\<close>, as its peer parses it.\<close>

lemma ping_answered_with_text:
  assumes "accepting E" "length p < 2 ^ 62"
  shows "\<exists>io' wire. handle_event E J onPacket (EvPing p) (io, wa) = Some (io', wa)
    \<and> io_out io' = io_out io @ wire \<and> parse_stream wire = ([EvMessage p], RxMore, [])"
proof -
  let ?mk = "map (rd_ans E (io_step io)) [0..<4]"
  have "parse_stream (frame_bytes ?mk p @ []) = ([EvMessage p], RxMore, [])"
    using assms(2) by (subst parse_stream_frames) simp_all
  then show ?thesis
    using assms(1) by (simp add: handle_event_def SendFrame_def SendAll_accepting)
qed

lemma ping_answered_with_text_witness:
  "\<exists>io' wire. handle_event demo_env demo_json (\<lambda>_ _ s. Some s) (EvPing ''x'') (demo_io, WsClient_init, ())
      = Some (io', WsClient_init, ())
    \<and> io_out io' = io_out demo_io @ wire \<and> parse_stream wire = ([EvMessage ''x''], RxMore, [])"
  by (rule ping_answered_with_text) (simp_all add: accepting_demo)

lemma Handshake_sent:
  assumes "Handshake E w io = (True, io')"
  shows "\<exists>io1. SendAll E (map byte_of_char (handshake_request w
      (RandomKey (map (rd_ans E (io_step io)) [0..<16])))) io = (True, io1)"
  using assms by (auto simp: Handshake_def Let_def split: prod.splits if_splits)

text \<open>The headers read: at most 8192 characters are accepted, and they contain the blank line.\<close>

lemma read_headers_bound:
  "read_headers E resp io = (Some r, io') \<Longrightarrow> length resp \<le> 8192 \<Longrightarrow>
     length r \<le> 8192 \<and> str_contains (CRLF @ CRLF) r"
proof (induction E resp io rule: read_headers.induct)
  case (1 E resp io)
  show ?case
  proof (cases "str_contains (CRLF @ CRLF) resp")
    case True
    with 1 show ?thesis by (simp add: read_headers.simps[of E resp])
  next
    case False
    note nf = this
    show ?thesis
    proof (cases "recv_ans E (io_step io)")
      case (RecvData bs)
      let ?resp = "resp @ map char_of_byte (take 512 bs)"
      consider "bs = []" | "bs \<noteq> []" "8192 < length ?resp" | "bs \<noteq> []" "\<not> 8192 < length ?resp"
        by blast
      then show ?thesis
      proof cases
        case 3
        with "1.prems"(1) nf RecvData
        have "read_headers E ?resp (io\<lparr>io_step := Suc (io_step io)\<rparr>) = (Some r, io')"
          by (simp add: read_headers.simps[of E resp] Let_def)
        from "1.IH"[OF nf refl refl RecvData 3(1) refl 3(2) this] 3(2) show ?thesis by simp
      qed (use "1.prems"(1) nf RecvData in \<open>simp_all add: read_headers.simps[of E resp] Let_def\<close>)
    qed (use 1 nf in \<open>auto simp: read_headers.simps[of E resp] Let_def\<close>)
  qed
qed

text \<open>A handshake that succeeds has sent exactly the upgrade request, with a fresh
  base64 key, and has read an answer of at most 8192 characters that ends its headers and
  contains "101".\<close>

lemma handshake_success:
  assumes "Handshake E w io = (True, io')"
  shows "\<exists>resp io1 io2. SendAll E (map byte_of_char (handshake_request w
      (RandomKey (map (rd_ans E (io_step io)) [0..<16])))) io = (True, io1)
    \<and> read_headers E [] io1 = (Some resp, io2) \<and> io2 = io'
    \<and> length resp \<le> 8192 \<and> str_contains (CRLF @ CRLF) resp \<and> str_contains ''101'' resp"
proof -
  obtain io1 where s: "SendAll E (map byte_of_char (handshake_request w
      (RandomKey (map (rd_ans E (io_step io)) [0..<16])))) io = (True, io1)"
    using Handshake_sent[OF assms] by blast
  then obtain resp io2 where r: "read_headers E [] io1 = (Some resp, io2)" "io2 = io'"
    "str_contains ''101'' resp"
    using assms by (auto simp: Handshake_def Let_def split: prod.splits option.splits)
  with s read_headers_bound[OF r(1)] show ?thesis by auto
qed

definition demo_answer :: string where
  "demo_answer = ''HTTP/1.1 101 X'' @ CRLF @ CRLF"

definition demo_server :: sock_env where
  "demo_server = demo_env\<lparr>send_ans := (\<lambda>_. 4096), recv_ans := (\<lambda>_. RecvData (map byte_of_char demo_answer))\<rparr>"

lemma recv_demo_server: "recv_ans demo_server k = RecvData (map byte_of_char demo_answer)"
  by (simp add: demo_server_def)

lemma handshake_demo: "fst (Handshake demo_server WsClient_init demo_io)"
proof -
  let ?req = "map byte_of_char (handshake_request WsClient_init (RandomKey (map (rd_ans demo_server 0) [0..<16])))"
  have "accepting demo_server" by (simp add: accepting_def demo_server_def)
  then obtain io1 where s: "SendAll demo_server ?req demo_io = (True, io1)"
    using send_from_ok[of demo_server ?req 0 demo_io] by (cases "SendAll demo_server ?req demo_io") (simp add: SendAll_def)
  have len: "length demo_answer \<le> 512" by (simp add: demo_answer_def CRLF_def)
  have c: "str_contains (CRLF @ CRLF) demo_answer" "str_contains ''101'' demo_answer"
    by (simp_all add: demo_answer_def CRLF_def)
  have "\<not> str_contains (CRLF @ CRLF) []" by (simp add: CRLF_def)
  moreover have "demo_answer \<noteq> []" by (simp add: demo_answer_def)
  ultimately have "fst (read_headers demo_server [] io1) = Some demo_answer"
    using len c by (simp add: read_headers.simps[of demo_server "[]"] read_headers.simps[of demo_server demo_answer]
        recv_demo_server Let_def)
  with s c show ?thesis
    by (auto simp: Handshake_def demo_io_def Let_def split: prod.splits option.splits)
qed

lemma handshake_success_witness:
  "\<exists>resp io1 io2. SendAll demo_server (map byte_of_char (handshake_request WsClient_init
      (RandomKey (map (rd_ans demo_server (io_step demo_io)) [0..<16])))) demo_io = (True, io1)
    \<and> read_headers demo_server [] io1 = (Some resp, io2) \<and> io2 = snd (Handshake demo_server WsClient_init demo_io)
    \<and> length resp \<le> 8192 \<and> str_contains (CRLF @ CRLF) resp \<and> str_contains ''101'' resp"
  by (rule handshake_success) (use handshake_demo in \<open>simp add: prod_eq_iff\<close>)

end
