(* ===== verification/Std_Map.thy ===== *)
theory Std_Map
  imports Prelude
begin

text \<open>
  \<open>std::map\<close>: a list of key/value pairs in strictly increasing key order (the order in which a
  range-for visits them; for \<open>std::string\<close> keys the lexicographic order on unsigned bytes, the
  order of \<open>List_Lexorder\<close> over \<open>Char_ord\<close>). The locale \<open>kv_map\<close> is the contract the
  sync systems rely on; it is interpreted on these operations.
\<close>

type_synonym ('k, 'v) smap = "('k \<times> 'v) list"

definition smap_find :: "'k \<Rightarrow> ('k, 'v) smap \<Rightarrow> 'v option" where \<comment> \<open>\<open>find(k)\<close>\<close>
  "smap_find k m = map_of m k"

definition smap_get :: "'v \<Rightarrow> 'k \<Rightarrow> ('k, 'v) smap \<Rightarrow> 'v" where \<comment> \<open>\<open>m[k]\<close>, value-initialised\<close>
  "smap_get d k m = (case smap_find k m of None \<Rightarrow> d | Some v \<Rightarrow> v)"

fun smap_put :: "'k::linorder \<Rightarrow> 'v \<Rightarrow> ('k, 'v) smap \<Rightarrow> ('k, 'v) smap" where
  "smap_put k v [] = [(k, v)]"
| "smap_put k v ((a, b) # m) =
     (if k < a then (k, v) # (a, b) # m
      else if k = a then (k, v) # m
      else (a, b) # smap_put k v m)"

fun smap_erase :: "'k::linorder \<Rightarrow> ('k, 'v) smap \<Rightarrow> ('k, 'v) smap" where
  "smap_erase k [] = []"
| "smap_erase k ((a, b) # m) = (if k = a then m else (a, b) # smap_erase k m)"

definition smap_wf :: "('k::linorder, 'v) smap \<Rightarrow> bool" where
  "smap_wf m \<longleftrightarrow> sorted_wrt (<) (map fst m)"

locale kv_map =
  fixes empty :: "'m"
    and find :: "'k \<Rightarrow> 'm \<Rightarrow> 'v option"
    and put :: "'k \<Rightarrow> 'v \<Rightarrow> 'm \<Rightarrow> 'm"
    and erase :: "'k \<Rightarrow> 'm \<Rightarrow> 'm"
    and wf_map :: "'m \<Rightarrow> bool"
  assumes find_empty: "find k empty = None"
    and find_put: "find k (put k' v m) = (if k = k' then Some v else find k m)"
    and find_erase: "wf_map m \<Longrightarrow> find k (erase k' m) = (if k = k' then None else find k m)"
    and wf_empty: "wf_map empty"
    and wf_put: "wf_map m \<Longrightarrow> wf_map (put k v m)"
    and wf_erase: "wf_map m \<Longrightarrow> wf_map (erase k m)"
begin

lemma find_put_same [simp]: "find k (put k v m) = Some v"
  by (simp add: find_put)

lemma find_put_other: "k \<noteq> k' \<Longrightarrow> find k (put k' v m) = find k m"
  by (simp add: find_put)

lemma erase_put: "wf_map m \<Longrightarrow> find k' (erase k (put k v m)) = find k' (erase k m)"
  by (simp add: find_erase find_put wf_put)

text \<open>A property of every stored value survives storing a value that has it, and erasing.\<close>

lemma all_put:
  assumes "\<And>k v. find k m = Some v \<Longrightarrow> P v" "P v'" "find k (put k' v' m) = Some v"
  shows "P v"
  using assms by (auto simp: find_put split: if_splits)

lemma all_erase:
  assumes "wf_map m" "\<And>k v. find k m = Some v \<Longrightarrow> P v" "find k (erase k' m) = Some v"
  shows "P v"
  using assms by (auto simp: find_erase split: if_splits)

end

lemma smap_wf_Nil [simp]: "smap_wf []"
  by (simp add: smap_wf_def)

lemma smap_wf_Cons: "smap_wf (p # m) \<longleftrightarrow> smap_wf m \<and> (\<forall>q \<in> set m. fst p < fst q)"
  by (auto simp: smap_wf_def)

lemma map_of_smap_put: "map_of (smap_put k v m) = (map_of m)(k \<mapsto> v)"
  by (induction k v m rule: smap_put.induct) auto

lemma fst_set_smap_put: "fst ` set (smap_put k v m) = insert k (fst ` set m)"
  by (induction k v m rule: smap_put.induct) auto

lemma smap_wf_put: "smap_wf m \<Longrightarrow> smap_wf (smap_put k v m)"
proof (induction k v m rule: smap_put.induct)
  case (2 k v a b m)
  from "2.prems" have wf: "smap_wf m" and lt: "\<forall>q \<in> set m. a < fst q"
    by (simp_all add: smap_wf_Cons)
  consider "k < a" | "k = a" | "a < k" by (rule linorder_cases)
  then show ?case
  proof cases
    case 1
    then have "\<forall>q \<in> set m. k < fst q" using lt by (meson less_trans)
    with 1 wf lt show ?thesis by (simp add: smap_wf_Cons)
  next
    case 2
    with wf lt show ?thesis by (simp add: smap_wf_Cons)
  next
    case 3
    have "fst q \<in> insert k (fst ` set m)" if "q \<in> set (smap_put k v m)" for q
      using that fst_set_smap_put[of k v m] by blast
    then have "\<forall>q \<in> set (smap_put k v m). a < fst q" using 3 lt by fastforce
    moreover from 3 have "\<not> k < a" "k \<noteq> a" by auto
    ultimately show ?thesis using "2.IH" wf by (simp add: smap_wf_Cons)
  qed
qed (simp add: smap_wf_Cons)

lemma set_smap_erase_subset: "set (smap_erase k m) \<subseteq> set m"
  by (induction k m rule: smap_erase.induct) auto

lemma smap_wf_erase: "smap_wf m \<Longrightarrow> smap_wf (smap_erase k m)"
proof (induction k m rule: smap_erase.induct)
  case (2 k a b m)
  then show ?case using set_smap_erase_subset[of k m] by (auto simp: smap_wf_Cons)
qed simp

lemma map_of_smap_erase: "smap_wf m \<Longrightarrow> map_of (smap_erase k m) = (map_of m)(k := None)"
proof (induction k m rule: smap_erase.induct)
  case (2 k a b m)
  have "map_of m a = None" using "2.prems" by (force simp: smap_wf_Cons map_of_eq_None_iff)
  with 2 show ?case by (auto simp: smap_wf_Cons fun_eq_iff)
qed (simp add: fun_eq_iff)

interpretation sm: kv_map "[]" smap_find smap_put smap_erase smap_wf
  by unfold_locales
    (auto simp: smap_find_def map_of_smap_put map_of_smap_erase smap_wf_put smap_wf_erase)

lemma smap_wf_distinct: "smap_wf m \<Longrightarrow> distinct (map fst m)"
  by (induction m) (auto simp: smap_wf_Cons)

lemma smap_find_mem: "smap_wf m \<Longrightarrow> smap_find k m = Some v \<longleftrightarrow> (k, v) \<in> set m"
  by (simp add: smap_find_def smap_wf_distinct)

lemma smap_get_put [simp]: "smap_get d k (smap_put k v m) = v"
  by (simp add: smap_get_def)

text \<open>A range-for that updates every value in place keeps the keys.\<close>

lemma smap_wf_map_values: "smap_wf (map (\<lambda>(k, v). (k, f k v)) m) = smap_wf m"
  by (simp add: smap_wf_def comp_def case_prod_beta)

lemma smap_find_map_values:
  "smap_find k (map (\<lambda>(k, v). (k, f k v)) m) = map_option (f k) (smap_find k m)"
  by (induction m) (auto simp: smap_find_def)

lemma set_smap_put: "set (smap_put k v m) \<subseteq> insert (k, v) (set m)"
  by (induction k v m rule: smap_put.induct) auto

end
