(* ===== verification/Offsets.thy ===== *)
theory Offsets
  imports Prelude
begin

text \<open>
  \<open>client/src/game/offsets.h\<close>: the game memory layout found at run time. Zero means "not found".
\<close>

record GameOffsets =
  playerBasePtr :: addr
  entityListPtr :: addr
  inventoryArrayPtr :: addr
  itemCountPtr :: addr
  itemUseFn :: addr
  attackTriggerFn :: addr
  skillTriggerFn :: addr
  cutsceneFn :: addr
  cinematicFlagPtr :: addr
  puzzleInputFn :: addr
  puzzleTriggerFn :: addr
  offPositionX :: u32
  offVelocityX :: u32
  offRotationYaw :: u32
  offRotationPitch :: u32
  offHealth :: u32
  offMaxHealth :: u32
  offAnimId :: u32
  offAnimTime :: u32
  offMoveFlags :: u32
  offCombatFlags :: u32
  offBlendWeight :: u32
  offEntityId :: u32
  traversalFlagsOffset :: u32
  traversalTargetPosOffset :: u32
  skillComponentOffset :: u32
  vfxComponentOffset :: u32
  statusComponentOffset :: u32
  equipmentComponentOffset :: u32
  mountEntityPtrOffset :: u32
  dodgeComponentOffset :: u32
  itemStride :: u32
  offItemId :: u32
  offItemQuantity :: u32
  offItemDurability :: u32
  offItemFlags :: u32
  offItemNameHash :: u32

text \<open>The value of \<open>g_offsets\<close> when the library is loaded: every field 0.\<close>

definition GameOffsets_init :: GameOffsets where
  "GameOffsets_init = \<lparr>
     playerBasePtr = 0, entityListPtr = 0, inventoryArrayPtr = 0, itemCountPtr = 0,
     itemUseFn = 0, attackTriggerFn = 0, skillTriggerFn = 0, cutsceneFn = 0,
     cinematicFlagPtr = 0, puzzleInputFn = 0, puzzleTriggerFn = 0,
     offPositionX = 0, offVelocityX = 0, offRotationYaw = 0, offRotationPitch = 0,
     offHealth = 0, offMaxHealth = 0, offAnimId = 0, offAnimTime = 0, offMoveFlags = 0,
     offCombatFlags = 0, offBlendWeight = 0, offEntityId = 0,
     traversalFlagsOffset = 0, traversalTargetPosOffset = 0,
     skillComponentOffset = 0, vfxComponentOffset = 0, statusComponentOffset = 0,
     equipmentComponentOffset = 0, mountEntityPtrOffset = 0, dodgeComponentOffset = 0,
     itemStride = 0, offItemId = 0, offItemQuantity = 0, offItemDurability = 0,
     offItemFlags = 0, offItemNameHash = 0\<rparr>"

definition playerLayoutResolved :: "GameOffsets \<Rightarrow> bool" where
  "playerLayoutResolved g \<longleftrightarrow>
     playerBasePtr g \<noteq> 0 \<and> offPositionX g \<noteq> 0 \<and> offHealth g \<noteq> 0 \<and> offAnimId g \<noteq> 0"

definition inventoryResolved :: "GameOffsets \<Rightarrow> bool" where
  "inventoryResolved g \<longleftrightarrow> inventoryArrayPtr g \<noteq> 0 \<and> itemCountPtr g \<noteq> 0 \<and> itemStride g \<noteq> 0"

definition MULTIPLAYER_BEACON_ID :: i32 where
  "MULTIPLAYER_BEACON_ID = 0xCD4D50"

definition MULTIPLAYER_BEACON_NAME_HASH :: u32 where
  "MULTIPLAYER_BEACON_NAME_HASH = 0xB3AC0411"

end
