(* ===== verification/Memory.thy ===== *)
theory Memory
  imports Offsets Float32
begin

text \<open>
  \<open>client/src/game/memory.{h,cpp}\<close>: guarded access to the game's memory. The process is the
  bytes it holds and the answers of the operating system, which are data of the model: what
  \<open>VirtualQuery\<close> says of an address, and whether a \<open>memcpy\<close> under SEH completes (\<open>None\<close>) or
  traps after some bytes (\<open>Some k\<close>). For a write the answer already accounts for the
  \<open>VirtualProtect\<close> call before it, whose effect the second call undoes; page protections are
  not otherwise part of the state.
\<close>

section \<open>The process\<close>

record mbi = \<comment> \<open>the fields of \<open>MEMORY_BASIC_INFORMATION\<close> the code reads\<close>
  BaseAddress :: addr
  RegionSize :: u64
  State :: u32
  Protect :: u32

record vm =
  vm_bytes :: "addr \<Rightarrow> byte"
  vm_query :: "addr \<Rightarrow> mbi option"
  vm_rd_trap :: "addr \<Rightarrow> nat \<Rightarrow> nat option"
  vm_wr_trap :: "addr \<Rightarrow> nat \<Rightarrow> nat option"

definition MEM_COMMIT :: u32 where "MEM_COMMIT = 0x1000"
definition PAGE_GUARD :: u32 where "PAGE_GUARD = 0x100"

text \<open>
  \<open>PAGE_READONLY | PAGE_READWRITE | PAGE_EXECUTE_READ | PAGE_EXECUTE_READWRITE |
  PAGE_WRITECOPY | PAGE_EXECUTE_WRITECOPY\<close>
\<close>

definition readable_mask :: u32 where
  "readable_mask = or 0x02 (or 0x04 (or 0x20 (or 0x40 (or 0x08 0x80))))"

definition IsReadable :: "vm \<Rightarrow> addr \<Rightarrow> u64 \<Rightarrow> bool" where
  "IsReadable m a sz =
     (if a = 0 then False
      else case vm_query m a of
        None \<Rightarrow> False
      | Some i \<Rightarrow>
          if State i \<noteq> MEM_COMMIT then False
          else if and (Protect i) readable_mask = 0 then False
          else if and (Protect i) PAGE_GUARD \<noteq> 0 then False
          else a + sz \<le> BaseAddress i + RegionSize i)"

section \<open>Raw copies\<close>

definition load_bytes :: "(addr \<Rightarrow> byte) \<Rightarrow> addr \<Rightarrow> nat \<Rightarrow> byte list" where
  "load_bytes b a n = map (\<lambda>i. b (a + of_nat i)) [0..<n]"

definition store_bytes :: "(addr \<Rightarrow> byte) \<Rightarrow> addr \<Rightarrow> byte list \<Rightarrow> (addr \<Rightarrow> byte)" where
  "store_bytes b a bs = (\<lambda>x. if unat (x - a) < length bs then bs ! unat (x - a) else b x)"

definition SafeReadRaw :: "vm \<Rightarrow> addr \<Rightarrow> byte list \<Rightarrow> bool \<times> byte list" where
  "SafeReadRaw m a out =
     (if \<not> IsReadable m a (of_nat (length out)) then (False, out)
      else case vm_rd_trap m a (length out) of
        None \<Rightarrow> (True, load_bytes (vm_bytes m) a (length out))
      | Some k \<Rightarrow> (False, take k (load_bytes (vm_bytes m) a (length out)) @ drop k out))"

definition SafeWriteRaw :: "vm \<Rightarrow> addr \<Rightarrow> byte list \<Rightarrow> bool \<times> vm" where
  "SafeWriteRaw m a bs =
     (if a = 0 then (False, m)
      else case vm_wr_trap m a (length bs) of
        None \<Rightarrow> (True, m\<lparr>vm_bytes := store_bytes (vm_bytes m) a bs\<rparr>)
      | Some k \<Rightarrow> (False, m\<lparr>vm_bytes := store_bytes (vm_bytes m) a (take k bs)\<rparr>))"

text \<open>\<open>SafeRead<T>\<close> and \<open>SafeWrite<T>\<close> for a \<open>T\<close> of \<open>n\<close> bytes.\<close>

definition SafeRead :: "nat \<Rightarrow> vm \<Rightarrow> addr \<Rightarrow> 'a::len word" where
  "SafeRead n m a = of_le (snd (SafeReadRaw m a (replicate n 0)))"

definition SafeWrite :: "nat \<Rightarrow> vm \<Rightarrow> addr \<Rightarrow> 'a::len word \<Rightarrow> vm" where
  "SafeWrite n m a v = snd (SafeWriteRaw m a (to_le n v))"

section \<open>Typed accessors\<close>

record Vec3 =
  vec_x :: f32
  vec_y :: f32
  vec_z :: f32

definition Vec3_zero :: Vec3 where
  "Vec3_zero = \<lparr>vec_x = f32_0, vec_y = f32_0, vec_z = f32_0\<rparr>"

definition GetLocalPlayerBase :: "vm \<Rightarrow> GameOffsets \<Rightarrow> addr" where
  "GetLocalPlayerBase m g = (if playerBasePtr g = 0 then 0 else SafeRead 8 m (playerBasePtr g))"

definition ReadFloat :: "vm \<Rightarrow> addr \<Rightarrow> u32 \<Rightarrow> f32" where
  "ReadFloat m base offset = (if base = 0 then f32_0 else SafeRead 4 m (base + ucast offset))"

definition WriteFloat :: "vm \<Rightarrow> addr \<Rightarrow> u32 \<Rightarrow> f32 \<Rightarrow> vm" where
  "WriteFloat m base offset v = (if base = 0 then m else SafeWrite 4 m (base + ucast offset) v)"

definition ReadInt :: "vm \<Rightarrow> addr \<Rightarrow> u32 \<Rightarrow> i32" where
  "ReadInt m base offset = (if base = 0 then 0 else SafeRead 4 m (base + ucast offset))"

definition WriteInt :: "vm \<Rightarrow> addr \<Rightarrow> u32 \<Rightarrow> i32 \<Rightarrow> vm" where
  "WriteInt m base offset v = (if base = 0 then m else SafeWrite 4 m (base + ucast offset) v)"

definition ReadU32 :: "vm \<Rightarrow> addr \<Rightarrow> u32 \<Rightarrow> u32" where
  "ReadU32 m base offset = (if base = 0 then 0 else SafeRead 4 m (base + ucast offset))"

definition WriteU32 :: "vm \<Rightarrow> addr \<Rightarrow> u32 \<Rightarrow> u32 \<Rightarrow> vm" where
  "WriteU32 m base offset v = (if base = 0 then m else SafeWrite 4 m (base + ucast offset) v)"

definition ReadU64 :: "vm \<Rightarrow> addr \<Rightarrow> u32 \<Rightarrow> u64" where
  "ReadU64 m base offset = (if base = 0 then 0 else SafeRead 8 m (base + ucast offset))"

definition ReadVec3 :: "vm \<Rightarrow> addr \<Rightarrow> u32 \<Rightarrow> Vec3" where
  "ReadVec3 m base offset =
     (if base = 0 then Vec3_zero
      else \<lparr>vec_x = SafeRead 4 m (base + ucast offset + 0),
            vec_y = SafeRead 4 m (base + ucast offset + 4),
            vec_z = SafeRead 4 m (base + ucast offset + 8)\<rparr>)"

definition WriteVec3 :: "vm \<Rightarrow> addr \<Rightarrow> u32 \<Rightarrow> Vec3 \<Rightarrow> vm" where
  "WriteVec3 m base offset v =
     (if base = 0 then m
      else let m1 = SafeWrite 4 m (base + ucast offset + 0) (vec_x v);
               m2 = SafeWrite 4 m1 (base + ucast offset + 4) (vec_y v)
           in SafeWrite 4 m2 (base + ucast offset + 8) (vec_z v))"

section \<open>Facts\<close>

text \<open>Two byte ranges, modulo \<open>2^64\<close>, that share no byte.\<close>

definition separate :: "addr \<Rightarrow> nat \<Rightarrow> addr \<Rightarrow> nat \<Rightarrow> bool" where
  "separate a n b m \<longleftrightarrow> n \<le> unat (b - a) \<and> m \<le> unat (a - b)"

lemma separate_sym: "separate a n b m = separate b m a n"
  by (auto simp: separate_def)

lemma unat_add_offset:
  fixes a :: addr
  assumes "i < 2 ^ 64"
  shows "unat (a + of_nat i - a) = i"
  using assms by (simp add: unat_of_nat)

lemma unat_plus_of_nat: "unat (d :: addr) + j < 2 ^ 64 \<Longrightarrow> unat (d + of_nat j) = unat d + j"
  by (simp add: unat_word_ariths unat_of_nat)

lemma separate_not_in:
  assumes "separate a n b m" "j < m" "0 < n"
  shows "\<not> unat (b + of_nat j - a) < n"
proof -
  let ?d = "b - a"
  from assms have d: "n \<le> unat ?d" and e: "m \<le> unat (- ?d)" by (simp_all add: separate_def)
  from d assms(3) have "0 < unat ?d" by linarith
  then have neg: "unat (- ?d) = 2 ^ 64 - unat ?d"
    using unat_sub_if'[of 0 ?d] by simp
  have "unat ?d < 2 ^ 64" using unsigned_less[of ?d, where ?'a = nat] by simp
  with neg e assms(2) have "unat ?d + j < 2 ^ 64" by linarith
  then have "unat (?d + of_nat j) = unat ?d + j" by (rule unat_plus_of_nat)
  moreover have "b + of_nat j - a = ?d + of_nat j" by simp
  ultimately have "unat (b + of_nat j - a) = unat ?d + j" by metis
  with d show ?thesis by linarith
qed

lemma store_bytes_Nil [simp]: "store_bytes b a [] = b"
  by (simp add: store_bytes_def)

lemma load_store_same:
  assumes "length bs = n" "n < 2 ^ 64"
  shows "load_bytes (store_bytes b a bs) a n = bs"
proof (rule nth_equalityI)
  fix i assume "i < length (load_bytes (store_bytes b a bs) a n)"
  then have i: "i < n" by (simp add: load_bytes_def)
  with assms have "i < 2 ^ 64" by simp
  from unat_add_offset[OF this, of a] i assms(1)
  show "load_bytes (store_bytes b a bs) a n ! i = bs ! i"
    by (simp add: load_bytes_def store_bytes_def)
qed (simp add: load_bytes_def assms)

lemma load_store_separate:
  assumes "separate a (length bs) c n"
  shows "load_bytes (store_bytes b a bs) c n = load_bytes b c n"
proof (cases "bs = []")
  case False
  then show ?thesis
    using separate_not_in[OF assms] by (auto simp: load_bytes_def store_bytes_def)
qed simp

definition vm_same_env :: "vm \<Rightarrow> vm \<Rightarrow> bool" where
  "vm_same_env m m' \<longleftrightarrow> vm_query m' = vm_query m \<and> vm_rd_trap m' = vm_rd_trap m
     \<and> vm_wr_trap m' = vm_wr_trap m"

lemma IsReadable_SafeWrite [simp]: "IsReadable (SafeWrite n m a v) = IsReadable m"
  by (simp add: SafeWrite_def SafeWriteRaw_def IsReadable_def fun_eq_iff split: option.splits)

lemma vm_env_SafeWrite [simp]:
  "vm_query (SafeWrite n m a v) = vm_query m" "vm_rd_trap (SafeWrite n m a v) = vm_rd_trap m"
  "vm_wr_trap (SafeWrite n m a v) = vm_wr_trap m"
  by (simp_all add: SafeWrite_def SafeWriteRaw_def split: option.splits)

text \<open>Memory on which reads and writes of \<open>n\<close> bytes at \<open>a\<close> complete.\<close>

definition accessible :: "nat \<Rightarrow> vm \<Rightarrow> addr \<Rightarrow> bool" where
  "accessible n m a \<longleftrightarrow> IsReadable m a (of_nat n) \<and> vm_rd_trap m a n = None \<and> vm_wr_trap m a n = None"

lemma accessible_nonzero: "accessible n m a \<Longrightarrow> a \<noteq> 0"
  by (auto simp: accessible_def IsReadable_def)

lemma accessible_SafeWrite [simp]: "accessible n (SafeWrite k m a v) = accessible n m"
  by (simp add: accessible_def fun_eq_iff)

text \<open>What the typed accessors promise their clients, whatever the value type.\<close>

locale typed_cell =
  fixes size_of :: nat
    and read :: "vm \<Rightarrow> addr \<Rightarrow> 'v"
    and "write" :: "vm \<Rightarrow> addr \<Rightarrow> 'v \<Rightarrow> vm"
  assumes read_write_same: "accessible size_of m a \<Longrightarrow> read (write m a v) a = v"
    and read_write_separate:
      "separate a size_of b size_of \<Longrightarrow> read (write m a v) b = read m b"
    and bytes_outside: "size_of \<le> unat (x - a) \<Longrightarrow> vm_bytes (write m a v) x = vm_bytes m x"
    and env_write: "vm_same_env m (write m a v)"
begin

lemma accessible_write: "accessible n (write m a v) = accessible n m"
  using env_write[of m a v] by (simp add: accessible_def vm_same_env_def IsReadable_def fun_eq_iff)

lemma write_twice_read:
  "accessible size_of m a \<Longrightarrow> read (write (write m a v) a w) a = w"
  by (simp add: read_write_same accessible_write)

lemma read_after_two:
  assumes "accessible size_of m a" "separate a size_of b size_of"
  shows "read (write (write m a v) b w) a = v"
  using assms by (simp add: read_write_separate separate_sym read_write_same)

end

lemma SafeRead_SafeWrite:
  assumes "accessible n m a" "LENGTH('a) = 8 * n" "n < 2 ^ 64"
  shows "SafeRead n (SafeWrite n m a v) a = (v :: 'a::len word)"
proof -
  have "a \<noteq> 0" using assms(1) by (rule accessible_nonzero)
  with assms show ?thesis
    by (simp add: SafeRead_def SafeReadRaw_def accessible_def)
       (simp add: SafeWrite_def SafeWriteRaw_def load_store_same of_le_to_le)
qed

lemma SafeWrite_bytes_outside:
  "n \<le> unat (x - a) \<Longrightarrow> vm_bytes (SafeWrite n m a v) x = vm_bytes m x"
  by (auto simp: SafeWrite_def SafeWriteRaw_def store_bytes_def split: option.splits)

lemma separate_mono: "separate a n b m \<Longrightarrow> n' \<le> n \<Longrightarrow> separate a n' b m"
  by (auto simp: separate_def)

lemma load_SafeWrite_separate:
  assumes "separate a n b k"
  shows "load_bytes (vm_bytes (SafeWrite n m a v)) b k = load_bytes (vm_bytes m) b k"
proof -
  have "separate a (length (take j (to_le n v))) b k" for j
    using assms by (rule separate_mono) simp
  then show ?thesis
    using load_store_separate[of a "to_le n v" b k "vm_bytes m"] assms
    by (auto simp: SafeWrite_def SafeWriteRaw_def load_store_separate split: option.splits)
qed

lemma SafeRead_SafeWrite_separate:
  assumes "separate a n b k"
  shows "SafeRead k (SafeWrite n m a v) b = SafeRead k m b"
  using assms by (auto simp: SafeRead_def SafeReadRaw_def load_SafeWrite_separate split: option.splits)

interpretation cell32: typed_cell 4 "SafeRead 4 :: vm \<Rightarrow> addr \<Rightarrow> 32 word" "SafeWrite 4"
  by unfold_locales
    (simp_all add: SafeRead_SafeWrite SafeRead_SafeWrite_separate SafeWrite_bytes_outside
      vm_same_env_def)

interpretation cell64: typed_cell 8 "SafeRead 8 :: vm \<Rightarrow> addr \<Rightarrow> 64 word" "SafeWrite 8"
  by unfold_locales
    (simp_all add: SafeRead_SafeWrite SafeRead_SafeWrite_separate SafeWrite_bytes_outside
      vm_same_env_def)

text \<open>The typed writes change bytes only, never the answers of the operating system.\<close>

lemma vm_env_Write [simp]:
  "vm_query (WriteFloat m a o' f) = vm_query m" "vm_query (WriteInt m a o' i) = vm_query m"
  "vm_query (WriteU32 m a o' i) = vm_query m" "vm_query (WriteVec3 m a o' v) = vm_query m"
  by (simp_all add: WriteFloat_def WriteInt_def WriteU32_def WriteVec3_def Let_def)

lemma IsReadable_Write [simp]:
  "IsReadable (WriteFloat m a o' f) = IsReadable m" "IsReadable (WriteInt m a o' i) = IsReadable m"
  "IsReadable (WriteU32 m a o' i) = IsReadable m" "IsReadable (WriteVec3 m a o' v) = IsReadable m"
  by (simp_all add: WriteFloat_def WriteInt_def WriteU32_def WriteVec3_def Let_def)

lemma accessible_Write [simp]:
  "accessible n (WriteFloat m a o' f) = accessible n m"
  "accessible n (WriteInt m a o' i) = accessible n m"
  "accessible n (WriteU32 m a o' i) = accessible n m"
  "accessible n (WriteVec3 m a o' v) = accessible n m"
  by (simp_all add: WriteFloat_def WriteInt_def WriteU32_def WriteVec3_def Let_def)

lemma ReadInt_WriteInt:
  "accessible 4 m (b + ucast o') \<Longrightarrow> b \<noteq> 0 \<Longrightarrow> ReadInt (WriteInt m b o' v) b o' = v"
  by (simp add: ReadInt_def WriteInt_def cell32.read_write_same)

lemma ReadFloat_WriteFloat:
  "accessible 4 m (b + ucast o') \<Longrightarrow> b \<noteq> 0 \<Longrightarrow> ReadFloat (WriteFloat m b o' v) b o' = v"
  by (simp add: ReadFloat_def WriteFloat_def cell32.read_write_same)

lemma vec_parts_separate:
  "separate (a :: addr) 4 (a + 4) 4" "separate (a :: addr) 4 (a + 8) 4"
  "separate (a + 4 :: addr) 4 (a + 8) 4"
  by (simp_all add: separate_def)

lemma ReadVec3_WriteVec3:
  assumes "b \<noteq> 0" "accessible 4 m (b + ucast o')" "accessible 4 m (b + ucast o' + 4)"
    "accessible 4 m (b + ucast o' + 8)"
  shows "ReadVec3 (WriteVec3 m b o' v) b o' = v"
  using assms vec_parts_separate[of "b + ucast o'"]
  by (simp add: ReadVec3_def WriteVec3_def Let_def cell32.read_write_same
      cell32.read_write_separate separate_sym)
end
