(* ===== verification/Player_Sync.thy ===== *)
theory Player_Sync
  imports Ws_Client Std_Map Memory
begin

text \<open>
  \<open>client/src/sync/player_sync.{h,cpp}\<close>: the local player's state is read from game memory and
  sent at most every 50 ms; remote players' packets update a map, and every frame the map is
  interpolated and written into the remote entities' memory. Times are whole milliseconds
  (\<open>GetTickCount64\<close> converted to \<open>double\<close>), exact below \<open>2^53\<close>. A method that may send takes
  and returns the WebSocket client; one that writes game memory takes and returns the \<open>vm\<close>.
\<close>

section \<open>State\<close>

record AnimStateData =
  anim_id :: i32
  anim_time :: f32
  move_flags :: u32
  combat_flags :: u32
  blend_weight :: f32

definition AnimStateData_init :: AnimStateData where
  "AnimStateData_init = \<lparr>anim_id = 0, anim_time = f32_0, move_flags = 0, combat_flags = 0,
     blend_weight = f32_1\<rparr>"

record RemotePlayer =
  rp_id :: string
  rp_name :: string
  currentPos :: Vec3
  targetPos :: Vec3
  velocity :: Vec3
  currentHealth :: f32
  maxHealth :: f32
  rp_lastAnim :: AnimStateData
  lastUpdateTime :: nat
  entityBase :: addr
  rp_isHost :: bool
  rp_ping :: i32
  inCutscene :: bool
  gameplay :: PlayerStatePacket
  prevDead :: bool
  prevAnimId :: i32
  animChangeStreak :: i32

definition RemotePlayer_init :: RemotePlayer where
  "RemotePlayer_init = \<lparr>rp_id = [], rp_name = [], currentPos = Vec3_zero, targetPos = Vec3_zero,
     velocity = Vec3_zero, currentHealth = f32_100, maxHealth = f32_100,
     rp_lastAnim = AnimStateData_init, lastUpdateTime = 0, entityBase = 0, rp_isHost = False,
     rp_ping = 0, inCutscene = False, gameplay = PlayerStatePacket_init, prevDead = False,
     prevAnimId = 0, animChangeStreak = 0\<rparr>"

record PlayerSync =
  ps_client :: bool \<comment> \<open>\<open>client_ != nullptr\<close>\<close>
  localId :: string
  lastSendMs :: nat
  suspended :: bool
  remotes :: "(string, RemotePlayer) smap"
  lastPos :: Vec3
  lastHealth :: f32
  lastAnim :: AnimStateData

definition PlayerSync_init :: PlayerSync where
  "PlayerSync_init = \<lparr>ps_client = False, localId = [], lastSendMs = 0, suspended = False,
     remotes = [], lastPos = Vec3_zero, lastHealth = f32_neg1, lastAnim = AnimStateData_init\<rparr>"

definition SetClient :: "PlayerSync \<Rightarrow> PlayerSync" where
  "SetClient ps = ps\<lparr>ps_client := True\<rparr>"

definition SetLocalId :: "string \<Rightarrow> PlayerSync \<Rightarrow> PlayerSync" where
  "SetLocalId i ps = ps\<lparr>localId := i\<rparr>"

definition SetSuspended :: "bool \<Rightarrow> PlayerSync \<Rightarrow> PlayerSync" where
  "SetSuspended b ps = ps\<lparr>suspended := b\<rparr>"

section \<open>Helpers\<close>

definition kSendIntervalMs :: int where "kSendIntervalMs = 50"
definition kInterpBufferMs :: nat where "kInterpBufferMs = 100"
definition kFallbackBufferMs :: nat where "kFallbackBufferMs = 50"

definition Lerp :: "f32 \<Rightarrow> f32 \<Rightarrow> f32 \<Rightarrow> f32" where
  "Lerp a b t = f32_add a (f32_mul (f32_sub b a) t)"

definition LerpVec :: "Vec3 \<Rightarrow> Vec3 \<Rightarrow> f32 \<Rightarrow> Vec3" where
  "LerpVec a b t = \<lparr>vec_x = Lerp (vec_x a) (vec_x b) t, vec_y = Lerp (vec_y a) (vec_y b) t,
     vec_z = Lerp (vec_z a) (vec_z b) t\<rparr>"

definition VecDiff :: "Vec3 \<Rightarrow> Vec3 \<Rightarrow> f32 \<Rightarrow> bool" where
  "VecDiff a b eps \<longleftrightarrow>
     f32_lt eps (f32_fabs (f32_sub (vec_x a) (vec_x b)))
     \<or> f32_lt eps (f32_fabs (f32_sub (vec_y a) (vec_y b)))
     \<or> f32_lt eps (f32_fabs (f32_sub (vec_z a) (vec_z b)))"

definition TraversalModeFromFlags :: "u32 \<Rightarrow> i32" where
  "TraversalModeFromFlags flags =
     (let mode = and (drop_bit 24 flags) 0x0F
      in if TM_LAND < mode then TM_NONE else mode)"

section \<open>Reading the local player\<close>

definition read_traversal :: "vm \<Rightarrow> GameOffsets \<Rightarrow> addr \<Rightarrow> PlayerStatePacket \<Rightarrow> PlayerStatePacket" where
  "read_traversal m g base gp =
     (if traversalFlagsOffset g \<noteq> 0 then
        let flags = ReadU32 m base (traversalFlagsOffset g);
            tv = (traversal gp)\<lparr>tv_mode := TraversalModeFromFlags flags,
                   tv_anim_id := ReadInt m base (offAnimId g),
                   tv_anim_time := ReadFloat m base (offAnimTime g), tv_present := True\<rparr>;
            tv = (if traversalTargetPosOffset g \<noteq> 0 then
                    let tp = ReadVec3 m base (traversalTargetPosOffset g)
                    in tv\<lparr>tv_target_x := vec_x tp, tv_target_y := vec_y tp, tv_target_z := vec_z tp\<rparr>
                  else tv)
        in gp\<lparr>traversal := tv\<lparr>tv_progress := tv_anim_time tv\<rparr>\<rparr>
      else gp)"

definition read_skill :: "vm \<Rightarrow> GameOffsets \<Rightarrow> addr \<Rightarrow> PlayerStatePacket \<Rightarrow> PlayerStatePacket" where
  "read_skill m g base gp =
     (if skillComponentOffset g \<noteq> 0 then
        let sc = base + ucast (skillComponentOffset g);
            stp = ReadVec3 m sc 0x10
        in gp\<lparr>skill_id := ReadInt m sc 0x00, skill_phase := ReadInt m sc 0x04,
              skill_anim_id := ReadInt m sc 0x08, skill_target_entity := ReadInt m sc 0x0C,
              skill_target_x := vec_x stp, skill_target_y := vec_y stp, skill_target_z := vec_z stp,
              skill_present := True\<rparr>
      else gp)"

text \<open>\<open>for (i = 0; i < 8; ++i)\<close>: the non-zero ids of eight consecutive \<open>int\<close>s.\<close>

definition read_ids :: "vm \<Rightarrow> addr \<Rightarrow> u32 \<Rightarrow> i32 list" where
  "read_ids m c off = filter (\<lambda>i. i \<noteq> 0) (map (\<lambda>i. ReadInt m c (off + of_nat i * 4)) [0..<8])"

definition read_vfx :: "vm \<Rightarrow> GameOffsets \<Rightarrow> addr \<Rightarrow> PlayerStatePacket \<Rightarrow> PlayerStatePacket" where
  "read_vfx m g base gp =
     (if vfxComponentOffset g \<noteq> 0 then
        let vc = base + ucast (vfxComponentOffset g)
        in gp\<lparr>active_vfx := active_vfx gp @ read_ids m vc 0, vfx_present := True\<rparr>
      else gp)"

definition read_status :: "vm \<Rightarrow> GameOffsets \<Rightarrow> addr \<Rightarrow> PlayerStatePacket \<Rightarrow> PlayerStatePacket" where
  "read_status m g base gp =
     (if statusComponentOffset g \<noteq> 0 then
        let stc = base + ucast (statusComponentOffset g)
        in gp\<lparr>status_flags := ReadU32 m stc 0x00, buff_ids := buff_ids gp @ read_ids m stc 0x04,
              status_present := True\<rparr>
      else gp)"

definition read_equipment :: "vm \<Rightarrow> GameOffsets \<Rightarrow> addr \<Rightarrow> PlayerStatePacket \<Rightarrow> PlayerStatePacket" where
  "read_equipment m g base gp =
     (if equipmentComponentOffset g \<noteq> 0 then
        let ec = base + ucast (equipmentComponentOffset g)
        in gp\<lparr>weapon_id := ReadInt m ec 0x00, weapon_stance := ReadInt m ec 0x04,
              off_hand_id := ReadInt m ec 0x08, equipment_present := True\<rparr>
      else gp)"

definition read_mount :: "vm \<Rightarrow> GameOffsets \<Rightarrow> addr \<Rightarrow> PlayerStatePacket \<Rightarrow> PlayerStatePacket" where
  "read_mount m g base gp =
     (if mountEntityPtrOffset g \<noteq> 0 then
        let mountPtr = SafeRead 8 m (base + ucast (mountEntityPtrOffset g));
            gp = (if mountPtr \<noteq> 0 \<and> IsReadable m mountPtr 0x400 then
                    let mp = ReadVec3 m mountPtr (offPositionX g)
                    in gp\<lparr>is_mounted := True,
                          mount_entity_id := ucast (ReadU64 m mountPtr (offEntityId g)),
                          mount_anim_id := ReadInt m mountPtr (offAnimId g),
                          mount_anim_time := ReadFloat m mountPtr (offAnimTime g),
                          mount_x := vec_x mp, mount_y := vec_y mp, mount_z := vec_z mp\<rparr>
                  else gp)
        in gp\<lparr>mount_present := True\<rparr>
      else gp)"

definition read_dodge :: "vm \<Rightarrow> GameOffsets \<Rightarrow> addr \<Rightarrow> PlayerStatePacket \<Rightarrow> PlayerStatePacket" where
  "read_dodge m g base gp =
     (if dodgeComponentOffset g \<noteq> 0 then
        let dc = base + ucast (dodgeComponentOffset g)
        in gp\<lparr>dodge_x := ReadFloat m dc 0x00, dodge_y := ReadFloat m dc 0x04, dodge_present := True\<rparr>
      else gp)"

definition read_death :: "vm \<Rightarrow> GameOffsets \<Rightarrow> addr \<Rightarrow> PlayerStatePacket \<Rightarrow> PlayerStatePacket" where
  "read_death m g base gp =
     (if offHealth g \<noteq> 0 then
        let rp = ReadVec3 m base (offPositionX g)
        in gp\<lparr>is_dead := f32_le (ReadFloat m base (offHealth g)) f32_0, death_present := True,
              respawn_x := vec_x rp, respawn_y := vec_y rp, respawn_z := vec_z rp,
              respawn_present := True\<rparr>
      else gp)"

definition read_interaction :: "vm \<Rightarrow> GameOffsets \<Rightarrow> addr \<Rightarrow> PlayerStatePacket \<Rightarrow> PlayerStatePacket" where
  "read_interaction m g base gp =
     (if skillComponentOffset g \<noteq> 0 then
        let ic = base + ucast (skillComponentOffset g)
        in gp\<lparr>interaction_type := ReadInt m ic 0x1C, interaction_entity_id := ReadInt m ic 0x20,
              interaction_present := True\<rparr>
      else gp)"

definition ReadLocalGameplay :: "vm \<Rightarrow> GameOffsets \<Rightarrow> addr \<Rightarrow> PlayerStatePacket" where
  "ReadLocalGameplay m g base =
     read_interaction m g base (read_death m g base (read_dodge m g base (read_mount m g base
       (read_equipment m g base (read_status m g base (read_vfx m g base (read_skill m g base
         (read_traversal m g base PlayerStatePacket_init))))))))"

section \<open>The wire form of the gameplay state\<close>

definition j_xyz :: "'j json_lib \<Rightarrow> f32 \<Rightarrow> f32 \<Rightarrow> f32 \<Rightarrow> 'j" where
  "j_xyz J x y z = j_obj J [(''x'', j_f32 J x), (''y'', j_f32 J y), (''z'', j_f32 J z)]"

definition j_i32 :: "'j json_lib \<Rightarrow> i32 \<Rightarrow> 'j" where
  "j_i32 J i = j_int J (sint i)"

definition j_u32 :: "'j json_lib \<Rightarrow> u32 \<Rightarrow> 'j" where
  "j_u32 J u = j_int J (uint u)"

definition j_i32s :: "'j json_lib \<Rightarrow> i32 list \<Rightarrow> 'j" where
  "j_i32s J is = j_arr J (map (\<lambda>i. j_int J (sint i)) is)"

definition traversal_json :: "'j json_lib \<Rightarrow> TraversalState \<Rightarrow> 'j" where
  "traversal_json J tv =
     j_obj J [(''mode'', j_i32 J (tv_mode tv)), (''animId'', j_i32 J (tv_anim_id tv)),
       (''animTime'', j_f32 J (tv_anim_time tv)),
       (''targetPos'', j_xyz J (tv_target_x tv) (tv_target_y tv) (tv_target_z tv)),
       (''progress'', j_f32 J (tv_progress tv))]"

text \<open>\<open>player[k] = v\<close> for the listed pairs, in order.\<close>

definition j_sets :: "'j json_lib \<Rightarrow> (string \<times> 'j) list \<Rightarrow> 'j \<Rightarrow> 'j" where
  "j_sets J kvs p = foldl (\<lambda>p (k, v). j_set J p k v) p kvs"

definition EmitGameplayJson :: "'j json_lib \<Rightarrow> 'j \<Rightarrow> PlayerStatePacket \<Rightarrow> 'j" where
  "EmitGameplayJson J p0 gp =
     (let p = (if tv_present (traversal gp)
               then j_set J p0 ''traversalState'' (traversal_json J (traversal gp)) else p0);
          p = (if skill_present gp then
                 j_sets J [(''skillId'', j_i32 J (skill_id gp)),
                   (''skillPhase'', j_i32 J (skill_phase gp)),
                   (''skillAnimId'', j_i32 J (skill_anim_id gp)),
                   (''skillTargetEntity'', j_i32 J (skill_target_entity gp)),
                   (''skillTargetPos'',
                     j_xyz J (skill_target_x gp) (skill_target_y gp) (skill_target_z gp))] p
               else p);
          p = (if vfx_present gp then j_set J p ''activeVfx'' (j_i32s J (active_vfx gp)) else p);
          p = (if status_present gp then
                 j_sets J [(''statusFlags'', j_u32 J (status_flags gp)),
                   (''buffIds'', j_i32s J (buff_ids gp))] p
               else p);
          p = (if equipment_present gp then
                 j_sets J [(''weaponId'', j_i32 J (weapon_id gp)),
                   (''weaponStance'', j_i32 J (weapon_stance gp)),
                   (''offHandId'', j_i32 J (off_hand_id gp))] p
               else p);
          p = (if mount_present gp then
                 j_sets J [(''isMounted'', j_bool J (is_mounted gp)),
                   (''mountEntityId'', j_i32 J (mount_entity_id gp)),
                   (''mountAnimId'', j_i32 J (mount_anim_id gp)),
                   (''mountAnimTime'', j_f32 J (mount_anim_time gp)),
                   (''mountPosition'', j_xyz J (mount_x gp) (mount_y gp) (mount_z gp))] p
               else p);
          p = (if dodge_present gp then
                 j_set J p ''dodgeDirection''
                   (j_obj J [(''x'', j_f32 J (dodge_x gp)), (''y'', j_f32 J (dodge_y gp))])
               else p);
          p = (if death_present gp then j_set J p ''isDead'' (j_bool J (is_dead gp)) else p);
          p = (if respawn_present gp then
                 j_set J p ''respawnPosition'' (j_xyz J (respawn_x gp) (respawn_y gp) (respawn_z gp))
               else p)
      in if interaction_present gp then
           j_sets J [(''interactionType'', j_i32 J (interaction_type gp)),
             (''interactionEntityId'', j_i32 J (interaction_entity_id gp))] p
         else p)"

definition value_xyz :: "'j json_lib \<Rightarrow> 'j \<Rightarrow> Vec3 option" where
  "value_xyz J j =
     do { x \<leftarrow> value_f32 J j ''x'' f32_0; y \<leftarrow> value_f32 J j ''y'' f32_0;
          z \<leftarrow> value_f32 J j ''z'' f32_0; Some \<lparr>vec_x = x, vec_y = y, vec_z = z\<rparr> }"

definition parse_traversal :: "'j json_lib \<Rightarrow> 'j \<Rightarrow> PlayerStatePacket \<Rightarrow> PlayerStatePacket option" where
  "parse_traversal J p gp =
     (if j_contains J p ''traversalState'' \<and> j_is_object J (j_at J p ''traversalState'') then
        do { let t = j_at J p ''traversalState'';
             mode \<leftarrow> value_i32 J t ''mode'' 0;
             animId \<leftarrow> value_i32 J t ''animId'' 0;
             animTime \<leftarrow> value_f32 J t ''animTime'' f32_0;
             progress \<leftarrow> value_f32 J t ''progress'' f32_0;
             let tv = (traversal gp)\<lparr>tv_mode := mode, tv_anim_id := animId,
               tv_anim_time := animTime, tv_progress := progress\<rparr>;
             tv \<leftarrow> (if j_contains J t ''targetPos'' then
                      do { v \<leftarrow> value_xyz J (j_at J t ''targetPos'');
                           Some (tv\<lparr>tv_target_x := vec_x v, tv_target_y := vec_y v,
                             tv_target_z := vec_z v\<rparr>) }
                    else Some tv);
             Some (gp\<lparr>traversal := tv\<lparr>tv_present := True\<rparr>\<rparr>) }
      else Some (gp\<lparr>traversal := (traversal gp)\<lparr>tv_present := False\<rparr>\<rparr>))"

definition parse_skill :: "'j json_lib \<Rightarrow> 'j \<Rightarrow> PlayerStatePacket \<Rightarrow> PlayerStatePacket option" where
  "parse_skill J p gp =
     (if j_contains J p ''skillId'' then
        do { i \<leftarrow> value_i32 J p ''skillId'' 0;
             ph \<leftarrow> value_i32 J p ''skillPhase'' 0;
             a \<leftarrow> value_i32 J p ''skillAnimId'' 0;
             e \<leftarrow> value_i32 J p ''skillTargetEntity'' 0;
             let gp = gp\<lparr>skill_id := i, skill_phase := ph, skill_anim_id := a,
               skill_target_entity := e\<rparr>;
             gp \<leftarrow> (if j_contains J p ''skillTargetPos'' then
                      do { v \<leftarrow> value_xyz J (j_at J p ''skillTargetPos'');
                           Some (gp\<lparr>skill_target_x := vec_x v, skill_target_y := vec_y v,
                             skill_target_z := vec_z v\<rparr>) }
                    else Some gp);
             Some (gp\<lparr>skill_present := True\<rparr>) }
      else Some (gp\<lparr>skill_present := False\<rparr>))"

definition parse_vfx :: "'j json_lib \<Rightarrow> 'j \<Rightarrow> PlayerStatePacket \<Rightarrow> PlayerStatePacket option" where
  "parse_vfx J p gp =
     (if j_contains J p ''activeVfx'' \<and> j_is_array J (j_at J p ''activeVfx'') then
        do { is \<leftarrow> get_i32s J (j_at J p ''activeVfx'');
             Some (gp\<lparr>active_vfx := is, vfx_present := True\<rparr>) }
      else Some (gp\<lparr>vfx_present := False\<rparr>))"

definition parse_status :: "'j json_lib \<Rightarrow> 'j \<Rightarrow> PlayerStatePacket \<Rightarrow> PlayerStatePacket option" where
  "parse_status J p gp =
     (if j_contains J p ''statusFlags'' then
        do { f \<leftarrow> value_u32 J p ''statusFlags'' 0;
             is \<leftarrow> (if j_contains J p ''buffIds'' \<and> j_is_array J (j_at J p ''buffIds'')
                    then get_i32s J (j_at J p ''buffIds'') else Some []);
             Some (gp\<lparr>status_flags := f, buff_ids := is, status_present := True\<rparr>) }
      else Some (gp\<lparr>status_present := False\<rparr>))"

definition parse_equipment :: "'j json_lib \<Rightarrow> 'j \<Rightarrow> PlayerStatePacket \<Rightarrow> PlayerStatePacket option" where
  "parse_equipment J p gp =
     (if j_contains J p ''weaponId'' then
        do { w \<leftarrow> value_i32 J p ''weaponId'' 0;
             s \<leftarrow> value_i32 J p ''weaponStance'' 0;
             oh \<leftarrow> value_i32 J p ''offHandId'' 0;
             Some (gp\<lparr>weapon_id := w, weapon_stance := s, off_hand_id := oh,
               equipment_present := True\<rparr>) }
      else Some (gp\<lparr>equipment_present := False\<rparr>))"

definition parse_mount :: "'j json_lib \<Rightarrow> 'j \<Rightarrow> PlayerStatePacket \<Rightarrow> PlayerStatePacket option" where
  "parse_mount J p gp =
     (if j_contains J p ''isMounted'' then
        do { b \<leftarrow> value_bool J p ''isMounted'' False;
             e \<leftarrow> value_i32 J p ''mountEntityId'' 0;
             a \<leftarrow> value_i32 J p ''mountAnimId'' 0;
             t \<leftarrow> value_f32 J p ''mountAnimTime'' f32_0;
             let gp = gp\<lparr>is_mounted := b, mount_entity_id := e, mount_anim_id := a,
               mount_anim_time := t\<rparr>;
             gp \<leftarrow> (if j_contains J p ''mountPosition'' then
                      do { v \<leftarrow> value_xyz J (j_at J p ''mountPosition'');
                           Some (gp\<lparr>mount_x := vec_x v, mount_y := vec_y v, mount_z := vec_z v\<rparr>) }
                    else Some gp);
             Some (gp\<lparr>mount_present := True\<rparr>) }
      else Some (gp\<lparr>mount_present := False\<rparr>))"

definition parse_dodge :: "'j json_lib \<Rightarrow> 'j \<Rightarrow> PlayerStatePacket \<Rightarrow> PlayerStatePacket option" where
  "parse_dodge J p gp =
     (if j_contains J p ''dodgeDirection'' then
        do { let d = j_at J p ''dodgeDirection'';
             x \<leftarrow> value_f32 J d ''x'' f32_0;
             y \<leftarrow> value_f32 J d ''y'' f32_0;
             Some (gp\<lparr>dodge_x := x, dodge_y := y, dodge_present := True\<rparr>) }
      else Some (gp\<lparr>dodge_present := False\<rparr>))"

definition parse_death :: "'j json_lib \<Rightarrow> 'j \<Rightarrow> PlayerStatePacket \<Rightarrow> PlayerStatePacket option" where
  "parse_death J p gp =
     (if j_contains J p ''isDead'' then
        do { b \<leftarrow> value_bool J p ''isDead'' False;
             Some (gp\<lparr>is_dead := b, death_present := True\<rparr>) }
      else Some (gp\<lparr>death_present := False\<rparr>))"

definition parse_respawn :: "'j json_lib \<Rightarrow> 'j \<Rightarrow> PlayerStatePacket \<Rightarrow> PlayerStatePacket option" where
  "parse_respawn J p gp =
     (if j_contains J p ''respawnPosition'' then
        do { v \<leftarrow> value_xyz J (j_at J p ''respawnPosition'');
             Some (gp\<lparr>respawn_x := vec_x v, respawn_y := vec_y v, respawn_z := vec_z v,
               respawn_present := True\<rparr>) }
      else Some (gp\<lparr>respawn_present := False\<rparr>))"

definition parse_interaction :: "'j json_lib \<Rightarrow> 'j \<Rightarrow> PlayerStatePacket \<Rightarrow> PlayerStatePacket option" where
  "parse_interaction J p gp =
     (if j_contains J p ''interactionType'' then
        do { t \<leftarrow> value_i32 J p ''interactionType'' 0;
             e \<leftarrow> value_i32 J p ''interactionEntityId'' 0;
             Some (gp\<lparr>interaction_type := t, interaction_entity_id := e,
               interaction_present := True\<rparr>) }
      else Some (gp\<lparr>interaction_present := False\<rparr>))"

definition ParseGameplay :: "'j json_lib \<Rightarrow> 'j \<Rightarrow> PlayerStatePacket \<Rightarrow> PlayerStatePacket option" where
  "ParseGameplay J p gp =
     do { gp \<leftarrow> parse_traversal J p gp; gp \<leftarrow> parse_skill J p gp; gp \<leftarrow> parse_vfx J p gp;
          gp \<leftarrow> parse_status J p gp; gp \<leftarrow> parse_equipment J p gp; gp \<leftarrow> parse_mount J p gp;
          gp \<leftarrow> parse_dodge J p gp; gp \<leftarrow> parse_death J p gp; gp \<leftarrow> parse_respawn J p gp;
          parse_interaction J p gp }"

section \<open>Sending\<close>

definition anim_json :: "'j json_lib \<Rightarrow> AnimStateData \<Rightarrow> 'j" where
  "anim_json J a =
     j_obj J [(''anim_id'', j_i32 J (anim_id a)), (''anim_time'', j_f32 J (anim_time a)),
       (''move_flags'', j_u32 J (move_flags a)), (''combat_flags'', j_u32 J (combat_flags a)),
       (''blend_weight'', j_f32 J (blend_weight a))]"

definition read_anim :: "vm \<Rightarrow> GameOffsets \<Rightarrow> addr \<Rightarrow> AnimStateData" where
  "read_anim m g base =
     \<lparr>anim_id = ReadInt m base (offAnimId g), anim_time = ReadFloat m base (offAnimTime g),
      move_flags = ReadU32 m base (offMoveFlags g), combat_flags = ReadU32 m base (offCombatFlags g),
      blend_weight = ReadFloat m base (offBlendWeight g)\<rparr>"

text \<open>The \<open>player\<close> entry of a \<open>STATE_UPDATE\<close>, before \<open>EmitGameplayJson\<close>.\<close>

definition player_json ::
  "'j json_lib \<Rightarrow> string \<Rightarrow> Vec3 \<Rightarrow> f32 \<Rightarrow> f32 \<Rightarrow> Vec3 \<Rightarrow> f32 \<Rightarrow> f32 \<Rightarrow> AnimStateData \<Rightarrow> 'j" where
  "player_json J lid pos yaw pitch vel health maxH anim =
     j_obj J [(''id'', j_str J lid), (''name'', j_str J []),
       (''position'', j_xyz J (vec_x pos) (vec_y pos) (vec_z pos)),
       (''rotation'', j_obj J [(''yaw'', j_f32 J yaw), (''pitch'', j_f32 J pitch)]),
       (''velocity'', j_xyz J (vec_x vel) (vec_y vel) (vec_z vel)),
       (''health'', j_f32 J health), (''maxHealth'', j_f32 J maxH),
       (''animState'', anim_json J anim), (''isHost'', j_bool J False), (''ping'', j_int J 0)]"

definition anim_changed :: "AnimStateData \<Rightarrow> AnimStateData \<Rightarrow> bool" where
  "anim_changed a b \<longleftrightarrow> anim_id a \<noteq> anim_id b \<or> move_flags a \<noteq> move_flags b
     \<or> combat_flags a \<noteq> combat_flags b
     \<or> f32_lt f32_0_02 (f32_fabs (f32_sub (anim_time a) (anim_time b)))"

definition SendLocalState ::
  "'j json_lib \<Rightarrow> vm \<Rightarrow> GameOffsets \<Rightarrow> nat \<Rightarrow> WsClient \<times> PlayerSync \<Rightarrow> (WsClient \<times> PlayerSync) option" where
  "SendLocalState J m g nowMs st =
     (let (w, ps) = st
      in if \<not> ps_client ps \<or> \<not> IsConnected w then Some (w, ps)
         else if suspended ps then Some (w, ps)
         else if int nowMs - int (lastSendMs ps) < kSendIntervalMs then Some (w, ps)
         else
           let ps = ps\<lparr>lastSendMs := nowMs\<rparr>;
               base = GetLocalPlayerBase m g
           in if base = 0 \<or> \<not> playerLayoutResolved g then Some (w, ps)
              else
                let pos = ReadVec3 m base (offPositionX g);
                    vel = ReadVec3 m base (offVelocityX g);
                    yaw = ReadFloat m base (offRotationYaw g);
                    pitch = ReadFloat m base (offRotationPitch g);
                    health = ReadFloat m base (offHealth g);
                    maxH = ReadFloat m base (offMaxHealth g);
                    anim = read_anim m g base;
                    moved = VecDiff pos (lastPos ps) f32_0_01;
                    healthChanged = f32_lt f32_0_5 (f32_fabs (f32_sub health (lastHealth ps)));
                    animChanged = anim_changed anim (lastAnim ps);
                    gp = ReadLocalGameplay m g base;
                    inTraversal = (tv_present (traversal gp) \<and> tv_mode (traversal gp) \<noteq> TM_NONE)
                in if \<not> moved \<and> \<not> healthChanged \<and> \<not> animChanged \<and> \<not> inTraversal then Some (w, ps)
                   else
                     do { let player = EmitGameplayJson J
                            (player_json J (localId ps) pos yaw pitch vel health maxH anim) gp;
                          w \<leftarrow> Send J STATE_UPDATE (j_obj J [(''players'', j_arr J [player])]) w;
                          w \<leftarrow> (if animChanged then
                                 Send J ANIMATION_UPDATE
                                   (j_obj J [(''playerId'', j_str J (localId ps)),
                                     (''animState'', anim_json J anim)]) w
                               else Some w);
                          Some (w, ps\<lparr>lastPos := pos, lastHealth := health, lastAnim := anim\<rparr>) })"

section \<open>Receiving\<close>

definition parse_anim_state :: "'j json_lib \<Rightarrow> 'j \<Rightarrow> RemotePlayer \<Rightarrow> RemotePlayer option" where
  "parse_anim_state J a rp =
     do { newAnim \<leftarrow> value_i32 J a ''anim_id'' (anim_id (rp_lastAnim rp));
          let rp = (if newAnim \<noteq> prevAnimId rp then rp\<lparr>animChangeStreak := 3, prevAnimId := newAnim\<rparr>
                    else if 0 <s animChangeStreak rp then rp\<lparr>animChangeStreak := animChangeStreak rp - 1\<rparr>
                    else rp);
          t \<leftarrow> value_f32 J a ''anim_time'' f32_0;
          mf \<leftarrow> value_u32 J a ''move_flags'' 0;
          cf \<leftarrow> value_u32 J a ''combat_flags'' 0;
          bw \<leftarrow> value_f32 J a ''blend_weight'' f32_1;
          Some (rp\<lparr>rp_lastAnim := \<lparr>anim_id = newAnim, anim_time = t, move_flags = mf,
            combat_flags = cf, blend_weight = bw\<rparr>\<rparr>) }"

text \<open>The body of the range-for of \<open>ApplyStateUpdate\<close> on the record found or created for \<open>i\<close>.\<close>

definition update_remote :: "'j json_lib \<Rightarrow> nat \<Rightarrow> string \<Rightarrow> 'j \<Rightarrow> RemotePlayer \<Rightarrow> RemotePlayer option" where
  "update_remote J now i p rp =
     do { let rp = rp\<lparr>rp_id := i\<rparr>;
          rp \<leftarrow> (if j_contains J p ''name'' \<and> j_is_string J (j_at J p ''name'')
                 then do { s \<leftarrow> get_str J (j_at J p ''name''); Some (rp\<lparr>rp_name := s\<rparr>) }
                 else Some rp);
          rp \<leftarrow> (if j_contains J p ''position'' then
                   do { v \<leftarrow> value_xyz J (j_at J p ''position'');
                        let rp = rp\<lparr>targetPos := v\<rparr>;
                        Some (if lastUpdateTime rp = 0 then rp\<lparr>currentPos := targetPos rp\<rparr> else rp) }
                 else Some rp);
          rp \<leftarrow> (if j_contains J p ''velocity'' then
                   do { v \<leftarrow> value_xyz J (j_at J p ''velocity''); Some (rp\<lparr>velocity := v\<rparr>) }
                 else Some rp);
          rp \<leftarrow> (if j_contains J p ''health'' then
                   do { h \<leftarrow> get_f32 J (j_at J p ''health''); Some (rp\<lparr>currentHealth := h\<rparr>) }
                 else Some rp);
          rp \<leftarrow> (if j_contains J p ''maxHealth'' then
                   do { h \<leftarrow> get_f32 J (j_at J p ''maxHealth''); Some (rp\<lparr>maxHealth := h\<rparr>) }
                 else Some rp);
          rp \<leftarrow> (if j_contains J p ''isHost'' then
                   do { b \<leftarrow> get_bool J (j_at J p ''isHost''); Some (rp\<lparr>rp_isHost := b\<rparr>) }
                 else Some rp);
          rp \<leftarrow> (if j_contains J p ''ping'' then
                   do { n \<leftarrow> get_i32 J (j_at J p ''ping''); Some (rp\<lparr>rp_ping := n\<rparr>) }
                 else Some rp);
          rp \<leftarrow> (if j_contains J p ''inCutscene'' \<and> j_is_boolean J (j_at J p ''inCutscene'')
                 then do { b \<leftarrow> get_bool J (j_at J p ''inCutscene''); Some (rp\<lparr>inCutscene := b\<rparr>) }
                 else Some rp);
          rp \<leftarrow> (if j_contains J p ''animState'' then parse_anim_state J (j_at J p ''animState'') rp
                 else Some rp);
          gp \<leftarrow> ParseGameplay J p (gameplay rp);
          Some (rp\<lparr>gameplay := gp, lastUpdateTime := now\<rparr>) }"

definition apply_player :: "'j json_lib \<Rightarrow> nat \<Rightarrow> 'j \<Rightarrow> PlayerSync \<Rightarrow> PlayerSync option" where
  "apply_player J now p ps =
     (if \<not> j_contains J p ''id'' then Some ps
      else do { i \<leftarrow> get_str J (j_at J p ''id'');
                if i = localId ps then Some ps
                else do { rp \<leftarrow> update_remote J now i p (smap_get RemotePlayer_init i (remotes ps));
                          Some (ps\<lparr>remotes := smap_put i rp (remotes ps)\<rparr>) } })"

definition ApplyStateUpdate :: "'j json_lib \<Rightarrow> nat \<Rightarrow> 'j \<Rightarrow> PlayerSync \<Rightarrow> PlayerSync option" where
  "ApplyStateUpdate J now players ps =
     (if \<not> j_is_array J players then Some ps
      else foldM (apply_player J now) (j_elems J players) ps)"

definition ApplyAnimationUpdate :: "'j json_lib \<Rightarrow> string \<Rightarrow> 'j \<Rightarrow> PlayerSync \<Rightarrow> PlayerSync option" where
  "ApplyAnimationUpdate J i anim ps =
     (if i = localId ps then Some ps
      else case smap_find i (remotes ps) of
        None \<Rightarrow> Some ps
      | Some rp \<Rightarrow>
          do { let la = rp_lastAnim rp;
               a \<leftarrow> value_i32 J anim ''anim_id'' (anim_id la);
               t \<leftarrow> value_f32 J anim ''anim_time'' (anim_time la);
               mf \<leftarrow> value_u32 J anim ''move_flags'' (move_flags la);
               cf \<leftarrow> value_u32 J anim ''combat_flags'' (combat_flags la);
               bw \<leftarrow> value_f32 J anim ''blend_weight'' (blend_weight la);
               Some (ps\<lparr>remotes := smap_put i (rp\<lparr>rp_lastAnim := \<lparr>anim_id = a, anim_time = t,
                 move_flags = mf, combat_flags = cf, blend_weight = bw\<rparr>\<rparr>) (remotes ps)\<rparr>) })"

definition AddRemotePlayer :: "string \<Rightarrow> string \<Rightarrow> PlayerSync \<Rightarrow> PlayerSync" where
  "AddRemotePlayer i nm ps =
     (let rp = smap_get RemotePlayer_init i (remotes ps)
      in ps\<lparr>remotes := smap_put i (rp\<lparr>rp_id := i, rp_name := nm\<rparr>) (remotes ps)\<rparr>)"

definition RemoveRemotePlayer :: "string \<Rightarrow> PlayerSync \<Rightarrow> PlayerSync" where
  "RemoveRemotePlayer i ps = ps\<lparr>remotes := smap_erase i (remotes ps)\<rparr>"

definition SetRemoteCutscene :: "string \<Rightarrow> bool \<Rightarrow> PlayerSync \<Rightarrow> PlayerSync" where
  "SetRemoteCutscene i b ps =
     (case smap_find i (remotes ps) of
        None \<Rightarrow> ps
      | Some rp \<Rightarrow> ps\<lparr>remotes := smap_put i (rp\<lparr>inCutscene := b\<rparr>) (remotes ps)\<rparr>)"

definition PlayerSync_Clear :: "PlayerSync \<Rightarrow> PlayerSync" where
  "PlayerSync_Clear ps = ps\<lparr>remotes := [], lastHealth := f32_neg1\<rparr>"

definition GetRemoteEntityBase :: "string \<Rightarrow> PlayerSync \<Rightarrow> addr" where
  "GetRemoteEntityBase i ps =
     (case smap_find i (remotes ps) of None \<Rightarrow> 0 | Some rp \<Rightarrow> entityBase rp)"

definition GetRemotePlayers :: "PlayerSync \<Rightarrow> RemotePlayer list" where
  "GetRemotePlayers ps = map snd (remotes ps)"

section \<open>Applying remote state to the game\<close>

definition writeAnimExact :: "GameOffsets \<Rightarrow> addr \<Rightarrow> i32 \<Rightarrow> f32 \<Rightarrow> vm \<Rightarrow> vm" where
  "writeAnimExact g e animId animTime m =
     WriteFloat (WriteInt m e (offAnimId g) animId) e (offAnimTime g) animTime"

definition writeCommon :: "GameOffsets \<Rightarrow> RemotePlayer \<Rightarrow> vm \<Rightarrow> vm" where
  "writeCommon g rp m =
     (let e = entityBase rp; a = rp_lastAnim rp;
          m = WriteVec3 m e (offVelocityX g) (velocity rp);
          m = WriteFloat m e (offHealth g) (currentHealth rp);
          m = WriteFloat m e (offMaxHealth g) (maxHealth rp);
          m = WriteU32 m e (offMoveFlags g) (move_flags a);
          m = WriteU32 m e (offCombatFlags g) (combat_flags a)
      in WriteFloat m e (offBlendWeight g) (blend_weight a))"

definition ApplyTraversal ::
  "GameOffsets \<Rightarrow> nat \<Rightarrow> f32 \<Rightarrow> i32 \<Rightarrow> vm \<times> RemotePlayer \<Rightarrow> vm \<times> RemotePlayer" where
  "ApplyTraversal g nowMs baseT mode st =
     (let (m, rp) = st;
          tv = traversal (gameplay rp);
          target = targetPos rp;
          traversalTarget = \<lparr>vec_x = tv_target_x tv, vec_y = tv_target_y tv, vec_z = tv_target_z tv\<rparr>;
          e = entityBase rp;
          exact = writeAnimExact g e (tv_anim_id tv) (tv_anim_time tv)
      in if mode = TM_VAULTING \<or> mode = TM_ROLL \<or> mode = TM_SLIDE then
           let pr = f32_min f32_1 (f32_max f32_0 (tv_progress tv));
               rp = rp\<lparr>currentPos := LerpVec (currentPos rp) traversalTarget pr\<rparr>;
               m = WriteVec3 m e (offPositionX g) (currentPos rp)
           in (writeCommon g rp (exact m), rp)
         else if mode = TM_CLIMBING \<or> mode = TM_LEDGE_GRAB then
           let rp = rp\<lparr>currentPos := target\<rparr>;
               m = WriteVec3 m e (offPositionX g) (currentPos rp)
           in (writeCommon g rp (exact m), rp)
         else if mode = TM_WALL_RUN then
           let t = f32_min f32_1 (f32_mul baseT f32_3);
               rp = rp\<lparr>currentPos := LerpVec (currentPos rp) target t\<rparr>;
               m = WriteVec3 m e (offPositionX g) (currentPos rp)
           in (writeCommon g rp (exact m), rp)
         else if mode = TM_JUMP \<or> mode = TM_FALL then
           let c = LerpVec (currentPos rp) target baseT;
               dt = f32_quot (int nowMs - int (lastUpdateTime rp)) 1000;
               v = velocity rp;
               c = \<lparr>vec_x = f32_add (vec_x c) (f32_mul (vec_x v) dt),
                    vec_y = f32_add (vec_y c) (f32_mul (vec_y v) dt),
                    vec_z = f32_add (vec_z c) (f32_mul (vec_z v) dt)\<rparr>;
               rp = rp\<lparr>currentPos := c\<rparr>;
               m = WriteVec3 m e (offPositionX g) (currentPos rp);
               m = (if tv_present tv then exact m
                    else writeAnimExact g e (anim_id (rp_lastAnim rp)) (anim_time (rp_lastAnim rp)) m)
           in (writeCommon g rp m, rp)
         else if mode = TM_LAND then
           let rp = rp\<lparr>currentPos := target\<rparr>;
               m = WriteVec3 m e (offPositionX g) (currentPos rp)
           in (writeCommon g rp (exact m), rp)
         else
           let rp = rp\<lparr>currentPos := LerpVec (currentPos rp) target baseT\<rparr>;
               a = rp_lastAnim rp;
               m = WriteVec3 m e (offPositionX g) (currentPos rp);
               m = WriteFloat m e (offHealth g) (currentHealth rp);
               m = WriteFloat m e (offMaxHealth g) (maxHealth rp);
               m = WriteVec3 m e (offVelocityX g) (velocity rp);
               m = WriteInt m e (offAnimId g) (anim_id a);
               m = WriteFloat m e (offAnimTime g) (anim_time a);
               m = WriteU32 m e (offMoveFlags g) (move_flags a);
               m = WriteU32 m e (offCombatFlags g) (combat_flags a)
           in (WriteFloat m e (offBlendWeight g) (blend_weight a), rp))"

text \<open>Eight consecutive \<open>int\<close>s from \<open>off\<close>, the list padded with zeros and cut at eight.\<close>

definition write_ids :: "addr \<Rightarrow> u32 \<Rightarrow> i32 list \<Rightarrow> vm \<Rightarrow> vm" where
  "write_ids c off is m =
     foldl (\<lambda>m i. WriteInt m c (off + of_nat i * 4) (if i < length is then is ! i else 0)) m [0..<8]"

definition write_skill :: "GameOffsets \<Rightarrow> addr \<Rightarrow> PlayerStatePacket \<Rightarrow> vm \<Rightarrow> vm" where
  "write_skill g base gp m =
     (if skill_present gp \<and> skillComponentOffset g \<noteq> 0 then
        let sc = base + ucast (skillComponentOffset g);
            m = WriteInt m sc 0x00 (skill_id gp);
            m = WriteInt m sc 0x04 (skill_phase gp);
            m = WriteInt m sc 0x08 (skill_anim_id gp);
            m = WriteInt m sc 0x0C (skill_target_entity gp)
        in WriteVec3 m sc 0x10 \<lparr>vec_x = skill_target_x gp, vec_y = skill_target_y gp,
             vec_z = skill_target_z gp\<rparr>
      else m)"

definition write_vfx :: "GameOffsets \<Rightarrow> addr \<Rightarrow> PlayerStatePacket \<Rightarrow> vm \<Rightarrow> vm" where
  "write_vfx g base gp m =
     (if vfx_present gp \<and> vfxComponentOffset g \<noteq> 0
      then write_ids (base + ucast (vfxComponentOffset g)) 0 (active_vfx gp) m else m)"

definition write_status :: "GameOffsets \<Rightarrow> addr \<Rightarrow> PlayerStatePacket \<Rightarrow> vm \<Rightarrow> vm" where
  "write_status g base gp m =
     (if status_present gp \<and> statusComponentOffset g \<noteq> 0 then
        let stc = base + ucast (statusComponentOffset g)
        in write_ids stc 0x04 (buff_ids gp) (WriteU32 m stc 0x00 (status_flags gp))
      else m)"

definition write_equipment :: "GameOffsets \<Rightarrow> addr \<Rightarrow> PlayerStatePacket \<Rightarrow> vm \<Rightarrow> vm" where
  "write_equipment g base gp m =
     (if equipment_present gp \<and> equipmentComponentOffset g \<noteq> 0 then
        let ec = base + ucast (equipmentComponentOffset g)
        in WriteInt (WriteInt (WriteInt m ec 0x00 (weapon_id gp)) ec 0x04 (weapon_stance gp))
             ec 0x08 (off_hand_id gp)
      else m)"

definition write_mount :: "GameOffsets \<Rightarrow> addr \<Rightarrow> PlayerStatePacket \<Rightarrow> vm \<Rightarrow> vm" where
  "write_mount g base gp m =
     (if mount_present gp \<and> is_mounted gp \<and> mountEntityPtrOffset g \<noteq> 0 then
        let mountPtr = SafeRead 8 m (base + ucast (mountEntityPtrOffset g))
        in if mountPtr \<noteq> 0 \<and> IsReadable m mountPtr 0x400 then
             let m = WriteVec3 m mountPtr (offPositionX g)
                   \<lparr>vec_x = mount_x gp, vec_y = mount_y gp, vec_z = mount_z gp\<rparr>;
                 m = WriteInt m mountPtr (offAnimId g) (mount_anim_id gp)
             in WriteFloat m mountPtr (offAnimTime g) (mount_anim_time gp)
           else m
      else m)"

definition write_dodge :: "GameOffsets \<Rightarrow> addr \<Rightarrow> PlayerStatePacket \<Rightarrow> vm \<Rightarrow> vm" where
  "write_dodge g base gp m =
     (if dodge_present gp \<and> dodgeComponentOffset g \<noteq> 0 then
        let dc = base + ucast (dodgeComponentOffset g)
        in WriteFloat (WriteFloat m dc 0x00 (dodge_x gp)) dc 0x04 (dodge_y gp)
      else m)"

definition write_death :: "GameOffsets \<Rightarrow> vm \<times> RemotePlayer \<Rightarrow> vm \<times> RemotePlayer" where
  "write_death g st =
     (let (m, rp) = st; gp = gameplay rp; base = entityBase rp
      in if death_present gp \<and> statusComponentOffset g \<noteq> 0 then
           let m = WriteInt m (base + ucast (statusComponentOffset g)) 0x24 (if is_dead gp then 1 else 0);
               (m, rp) =
                 (if prevDead rp \<and> \<not> is_dead gp \<and> respawn_present gp then
                    let r = \<lparr>vec_x = respawn_x gp, vec_y = respawn_y gp, vec_z = respawn_z gp\<rparr>
                    in (WriteVec3 m base (offPositionX g) r, rp\<lparr>currentPos := r, targetPos := r\<rparr>)
                  else (m, rp))
           in (m, rp\<lparr>prevDead := is_dead gp\<rparr>)
         else (m, rp))"

definition write_interaction :: "GameOffsets \<Rightarrow> addr \<Rightarrow> PlayerStatePacket \<Rightarrow> vm \<Rightarrow> vm" where
  "write_interaction g base gp m =
     (if interaction_present gp \<and> skillComponentOffset g \<noteq> 0 then
        let ic = base + ucast (skillComponentOffset g)
        in WriteInt (WriteInt m ic 0x1C (interaction_type gp)) ic 0x20 (interaction_entity_id gp)
      else m)"

definition ApplyGameplayWrites :: "GameOffsets \<Rightarrow> vm \<times> RemotePlayer \<Rightarrow> vm \<times> RemotePlayer" where
  "ApplyGameplayWrites g st =
     (let (m, rp) = st; gp = gameplay rp; base = entityBase rp;
          m = write_skill g base gp m;
          m = write_vfx g base gp m;
          m = write_status g base gp m;
          m = write_equipment g base gp m;
          m = write_mount g base gp m;
          m = write_dodge g base gp m;
          (m, rp) = write_death g (m, rp)
      in (write_interaction g base gp m, rp))"

text \<open>The mode of a remote player, and whether it is the fallback heuristic.\<close>

definition effective_mode :: "RemotePlayer \<Rightarrow> i32 \<times> bool" where
  "effective_mode rp =
     (if tv_present (traversal (gameplay rp)) then (tv_mode (traversal (gameplay rp)), False)
      else if f32_lt f32_5 (f32_fabs (vec_y (velocity rp))) \<or> 0 <s animChangeStreak rp then
        (if f32_lt f32_0 (vec_y (velocity rp)) then TM_JUMP
         else if f32_lt (vec_y (velocity rp)) f32_0 then TM_FALL
         else TM_NONE, True)
      else (TM_NONE, False))"

definition convergence :: "nat \<Rightarrow> RemotePlayer \<Rightarrow> bool \<Rightarrow> f32" where
  "convergence nowMs rp fallback =
     (let elapsed = int nowMs - int (lastUpdateTime rp);
          buffer = (if fallback then kFallbackBufferMs else kInterpBufferMs);
          baseT = (if elapsed \<le> 0 then f32_1 else f32_min1_quot (nat elapsed) buffer)
      in if fallback then f32_min f32_1 (f32_mul baseT f32_2) else baseT)"

definition apply_remote :: "GameOffsets \<Rightarrow> nat \<Rightarrow> vm \<times> RemotePlayer \<Rightarrow> vm \<times> RemotePlayer" where
  "apply_remote g nowMs st =
     (let (m, rp) = st;
          (mode, fallback) = effective_mode rp;
          baseT = convergence nowMs rp fallback
      in if entityBase rp = 0 \<or> \<not> IsReadable m (entityBase rp) 0x800
         then (m, rp\<lparr>currentPos := LerpVec (currentPos rp) (targetPos rp) baseT\<rparr>)
         else ApplyGameplayWrites g (ApplyTraversal g nowMs baseT mode (m, rp)))"

fun apply_remotes ::
  "GameOffsets \<Rightarrow> nat \<Rightarrow> vm \<times> (string, RemotePlayer) smap \<Rightarrow> vm \<times> (string, RemotePlayer) smap" where
  "apply_remotes g nowMs (m, []) = (m, [])"
| "apply_remotes g nowMs (m, (i, rp) # rs) =
     (let (m, rp) = apply_remote g nowMs (m, rp); (m, rs) = apply_remotes g nowMs (m, rs)
      in (m, (i, rp) # rs))"

definition ApplyRemoteState :: "GameOffsets \<Rightarrow> nat \<Rightarrow> vm \<times> PlayerSync \<Rightarrow> vm \<times> PlayerSync" where
  "ApplyRemoteState g nowMs st =
     (let (m, ps) = st; (m, rs) = apply_remotes g nowMs (m, remotes ps) in (m, ps\<lparr>remotes := rs\<rparr>))"

definition PlayerSync_Tick ::
  "'j json_lib \<Rightarrow> GameOffsets \<Rightarrow> nat \<Rightarrow> vm \<times> WsClient \<times> PlayerSync \<Rightarrow> (vm \<times> WsClient \<times> PlayerSync) option"
where
  "PlayerSync_Tick J g nowMs st =
     (let (m, w, ps) = st
      in do { (w, ps) \<leftarrow> SendLocalState J m g nowMs (w, ps);
              let (m, ps) = ApplyRemoteState g nowMs (m, ps);
              Some (m, w, ps) })"

end
