(* ===== verification/Player_Wire.thy ===== *)
theory Player_Wire
  imports Player_Sync
begin

section \<open>The wire form of the gameplay state\<close>

text \<open>
  What a packet says of a player: per group, nothing when it is absent, its fields when it is
  present. This is the abstract content that \<open>EmitGameplayJson\<close> and \<open>ParseGameplay\<close> exchange.
\<close>

definition wire_traversal :: "PlayerStatePacket \<Rightarrow> TraversalState option" where
  "wire_traversal gp = (if tv_present (traversal gp) then Some (traversal gp) else None)"

definition wire_skill :: "PlayerStatePacket \<Rightarrow> (i32 \<times> i32 \<times> i32 \<times> i32 \<times> Vec3) option" where
  "wire_skill gp = (if skill_present gp then Some (skill_id gp, skill_phase gp, skill_anim_id gp,
     skill_target_entity gp, \<lparr>vec_x = skill_target_x gp, vec_y = skill_target_y gp,
     vec_z = skill_target_z gp\<rparr>) else None)"

definition wire_vfx :: "PlayerStatePacket \<Rightarrow> i32 list option" where
  "wire_vfx gp = (if vfx_present gp then Some (active_vfx gp) else None)"

definition wire_status :: "PlayerStatePacket \<Rightarrow> (u32 \<times> i32 list) option" where
  "wire_status gp = (if status_present gp then Some (status_flags gp, buff_ids gp) else None)"

definition wire_equipment :: "PlayerStatePacket \<Rightarrow> (i32 \<times> i32 \<times> i32) option" where
  "wire_equipment gp =
     (if equipment_present gp then Some (weapon_id gp, weapon_stance gp, off_hand_id gp) else None)"

definition wire_mount :: "PlayerStatePacket \<Rightarrow> (bool \<times> i32 \<times> i32 \<times> f32 \<times> Vec3) option" where
  "wire_mount gp = (if mount_present gp then Some (is_mounted gp, mount_entity_id gp, mount_anim_id gp,
     mount_anim_time gp, \<lparr>vec_x = mount_x gp, vec_y = mount_y gp, vec_z = mount_z gp\<rparr>) else None)"

definition wire_dodge :: "PlayerStatePacket \<Rightarrow> (f32 \<times> f32) option" where
  "wire_dodge gp = (if dodge_present gp then Some (dodge_x gp, dodge_y gp) else None)"

definition wire_death :: "PlayerStatePacket \<Rightarrow> bool option" where
  "wire_death gp = (if death_present gp then Some (is_dead gp) else None)"

definition wire_respawn :: "PlayerStatePacket \<Rightarrow> Vec3 option" where
  "wire_respawn gp = (if respawn_present gp then Some \<lparr>vec_x = respawn_x gp, vec_y = respawn_y gp,
     vec_z = respawn_z gp\<rparr> else None)"

definition wire_interaction :: "PlayerStatePacket \<Rightarrow> (i32 \<times> i32) option" where
  "wire_interaction gp =
     (if interaction_present gp then Some (interaction_type gp, interaction_entity_id gp) else None)"

definition same_wire :: "PlayerStatePacket \<Rightarrow> PlayerStatePacket \<Rightarrow> bool" where
  "same_wire a b \<longleftrightarrow> wire_traversal a = wire_traversal b \<and> wire_skill a = wire_skill b
     \<and> wire_vfx a = wire_vfx b \<and> wire_status a = wire_status b
     \<and> wire_equipment a = wire_equipment b \<and> wire_mount a = wire_mount b
     \<and> wire_dodge a = wire_dodge b \<and> wire_death a = wire_death b
     \<and> wire_respawn a = wire_respawn b \<and> wire_interaction a = wire_interaction b"

lemmas wire_defs = wire_traversal_def wire_skill_def wire_vfx_def wire_status_def
  wire_equipment_def wire_mount_def wire_dodge_def wire_death_def wire_respawn_def
  wire_interaction_def

text \<open>JSON has no NaN and no infinity: the floats a packet carries must be finite.\<close>

definition tv_finite :: "TraversalState \<Rightarrow> bool" where
  "tv_finite tv \<longleftrightarrow> f32_isfinite (tv_anim_time tv) \<and> f32_isfinite (tv_progress tv)
     \<and> f32_isfinite (tv_target_x tv) \<and> f32_isfinite (tv_target_y tv) \<and> f32_isfinite (tv_target_z tv)"

definition gp_finite :: "PlayerStatePacket \<Rightarrow> bool" where
  "gp_finite gp \<longleftrightarrow> tv_finite (traversal gp)
     \<and> f32_isfinite (skill_target_x gp) \<and> f32_isfinite (skill_target_y gp) \<and> f32_isfinite (skill_target_z gp)
     \<and> f32_isfinite (mount_anim_time gp) \<and> f32_isfinite (mount_x gp) \<and> f32_isfinite (mount_y gp)
     \<and> f32_isfinite (mount_z gp) \<and> f32_isfinite (dodge_x gp) \<and> f32_isfinite (dodge_y gp)
     \<and> f32_isfinite (respawn_x gp) \<and> f32_isfinite (respawn_y gp) \<and> f32_isfinite (respawn_z gp)"

definition vec_finite :: "Vec3 \<Rightarrow> bool" where
  "vec_finite v \<longleftrightarrow> f32_isfinite (vec_x v) \<and> f32_isfinite (vec_y v) \<and> f32_isfinite (vec_z v)"

definition anim_finite :: "AnimStateData \<Rightarrow> bool" where
  "anim_finite a \<longleftrightarrow> f32_isfinite (anim_time a) \<and> f32_isfinite (blend_weight a)"

text \<open>The groups \<open>EmitGameplayJson\<close> may write, with their condition.\<close>

definition gameplay_groups :: "'j json_lib \<Rightarrow> PlayerStatePacket \<Rightarrow> (bool \<times> (string \<times> 'j) list) list" where
  "gameplay_groups J gp = [
     (tv_present (traversal gp), [(''traversalState'', traversal_json J (traversal gp))]),
     (skill_present gp, [(''skillId'', j_i32 J (skill_id gp)),
        (''skillPhase'', j_i32 J (skill_phase gp)), (''skillAnimId'', j_i32 J (skill_anim_id gp)),
        (''skillTargetEntity'', j_i32 J (skill_target_entity gp)),
        (''skillTargetPos'', j_xyz J (skill_target_x gp) (skill_target_y gp) (skill_target_z gp))]),
     (vfx_present gp, [(''activeVfx'', j_i32s J (active_vfx gp))]),
     (status_present gp, [(''statusFlags'', j_u32 J (status_flags gp)),
        (''buffIds'', j_i32s J (buff_ids gp))]),
     (equipment_present gp, [(''weaponId'', j_i32 J (weapon_id gp)),
        (''weaponStance'', j_i32 J (weapon_stance gp)), (''offHandId'', j_i32 J (off_hand_id gp))]),
     (mount_present gp, [(''isMounted'', j_bool J (is_mounted gp)),
        (''mountEntityId'', j_i32 J (mount_entity_id gp)), (''mountAnimId'', j_i32 J (mount_anim_id gp)),
        (''mountAnimTime'', j_f32 J (mount_anim_time gp)),
        (''mountPosition'', j_xyz J (mount_x gp) (mount_y gp) (mount_z gp))]),
     (dodge_present gp, [(''dodgeDirection'',
        j_obj J [(''x'', j_f32 J (dodge_x gp)), (''y'', j_f32 J (dodge_y gp))])]),
     (death_present gp, [(''isDead'', j_bool J (is_dead gp))]),
     (respawn_present gp, [(''respawnPosition'', j_xyz J (respawn_x gp) (respawn_y gp) (respawn_z gp))]),
     (interaction_present gp, [(''interactionType'', j_i32 J (interaction_type gp)),
        (''interactionEntityId'', j_i32 J (interaction_entity_id gp))])]"

fun group_fields :: "(bool \<times> (string \<times> 'j) list) list \<Rightarrow> (string \<times> 'j) list" where
  "group_fields [] = []"
| "group_fields ((b, kvs) # gs) = (if b then kvs else []) @ group_fields gs"

fun group_keys :: "(bool \<times> (string \<times> 'j) list) list \<Rightarrow> string list" where
  "group_keys [] = []"
| "group_keys ((b, kvs) # gs) = map fst kvs @ group_keys gs"

definition gameplay_keys :: "string list" where
  "gameplay_keys = [''traversalState'', ''skillId'', ''skillPhase'', ''skillAnimId'',
     ''skillTargetEntity'', ''skillTargetPos'', ''activeVfx'', ''statusFlags'', ''buffIds'',
     ''weaponId'', ''weaponStance'', ''offHandId'', ''isMounted'', ''mountEntityId'',
     ''mountAnimId'', ''mountAnimTime'', ''mountPosition'', ''dodgeDirection'', ''isDead'',
     ''respawnPosition'', ''interactionType'', ''interactionEntityId'']"

lemma gameplay_keys_groups: "group_keys (gameplay_groups J gp) = gameplay_keys"
  by (simp add: gameplay_groups_def gameplay_keys_def)

lemma distinct_gameplay_keys: "distinct gameplay_keys"
  by (simp add: gameplay_keys_def)

lemma j_sets_append: "j_sets J (xs @ ys) p = j_sets J ys (j_sets J xs p)"
  by (simp add: j_sets_def)

lemma j_sets_if: "j_sets J (if b then xs else []) p = (if b then j_sets J xs p else p)"
  by (simp add: j_sets_def)

lemma j_set_as_sets: "j_set J p k v = j_sets J [(k, v)] p"
  by (simp add: j_sets_def)

lemma EmitGameplayJson_groups:
  "EmitGameplayJson J p gp = j_sets J (group_fields (gameplay_groups J gp)) p"
  unfolding EmitGameplayJson_def Let_def gameplay_groups_def j_set_as_sets
  by (simp only: group_fields.simps append_Nil2 j_sets_append j_sets_if)

lemma group_fields_keys: "fst ` set (group_fields gs) \<subseteq> set (group_keys gs)"
  by (induction gs rule: group_fields.induct) auto

lemma group_keys_mem: "(b, kvs) \<in> set gs \<Longrightarrow> (k, v) \<in> set kvs \<Longrightarrow> k \<in> set (group_keys gs)"
  by (induction gs rule: group_keys.induct) (auto simp: rev_image_eqI)

lemma map_of_group_fields_None: "k \<notin> set (group_keys gs) \<Longrightarrow> map_of (group_fields gs) k = None"
  using group_fields_keys[of gs] by (auto simp: map_of_eq_None_iff)

lemma group_fields_lookup:
  assumes "distinct (group_keys gs)" "(b, kvs) \<in> set gs" "(k, v) \<in> set kvs"
  shows "map_of (group_fields gs) k = (if b then Some v else None)"
  using assms
proof (induction gs rule: group_fields.induct)
  case (2 b0 kv0 gs)
  show ?case
  proof (cases "(b, kvs) = (b0, kv0)")
    case True
    have "k \<in> fst ` set kvs" using "2.prems"(3) by (simp add: rev_image_eqI)
    with True "2.prems"(1) have "map_of (group_fields gs) k = None"
      by (intro map_of_group_fields_None) auto
    moreover have "map_of kvs k = Some v"
      using "2.prems" True by (simp add: map_of_is_SomeI)
    ultimately show ?thesis using True by (simp add: map_add_def)
  next
    case False
    then have m: "(b, kvs) \<in> set gs" using "2.prems"(2) by auto
    then have "map_of (group_fields gs) k = (if b then Some v else None)" using "2.IH" "2.prems" by simp
    moreover have "k \<in> set (group_keys gs)" using group_keys_mem[OF m "2.prems"(3)] .
    then have "map_of kv0 k = None" using "2.prems"(1) by (auto simp: map_of_eq_None_iff)
    ultimately show ?thesis by (simp add: map_add_def)
  qed
qed simp

lemma distinct_group_fields: "distinct (group_keys gs) \<Longrightarrow> distinct (map fst (group_fields gs))"
proof (induction gs rule: group_fields.induct)
  case (2 b kvs gs)
  then show ?case using group_fields_keys[of gs] by auto
qed simp

context json_laws
begin

lemma sets_object: "j_is_object J p \<Longrightarrow> j_is_object J (j_sets J kvs p)"
  by (induction kvs arbitrary: p) (auto simp: j_sets_def set_eqs)

lemma sets_Cons: "j_sets J ((a, b) # kvs) p = j_sets J kvs (j_set J p a b)"
  by (simp add: j_sets_def)

lemma contains_sets:
  "j_is_object J p \<Longrightarrow> j_contains J (j_sets J kvs p) k \<longleftrightarrow> k \<in> fst ` set kvs \<or> j_contains J p k"
proof (induction kvs arbitrary: p)
  case (Cons kv kvs)
  obtain a b where kv: "kv = (a, b)" by force
  have "j_is_object J (j_set J p a b)" using Cons.prems set_object by blast
  with Cons show ?case by (auto simp: sets_Cons kv contains_set)
qed (simp add: j_sets_def)

lemma at_sets:
  "j_is_object J p \<Longrightarrow> distinct (map fst kvs) \<Longrightarrow>
     j_at J (j_sets J kvs p) k = (case map_of kvs k of Some v \<Rightarrow> v | None \<Rightarrow> j_at J p k)"
proof (induction kvs arbitrary: p)
  case (Cons kv kvs)
  obtain a b where kv: "kv = (a, b)" by force
  have "j_is_object J (j_set J p a b)" using Cons.prems set_object by blast
  moreover have "map_of kvs a = None" using Cons.prems kv by (simp add: map_of_eq_None_iff)
  ultimately show ?case using Cons kv by (auto simp: sets_Cons at_set split: option.splits)
qed (simp add: j_sets_def)

lemma value_xyz_json:
  assumes "f32_isfinite x" "f32_isfinite y" "f32_isfinite z"
  shows "value_xyz J (j_xyz J x y z) = Some \<lparr>vec_x = x, vec_y = y, vec_z = z\<rparr>"
  using assms by (simp add: value_xyz_def j_xyz_def value_eqs obj_eqs get_eqs)

text \<open>A document that carries the groups of \<open>gp\<close>, whatever else it holds.\<close>

definition carries :: "'j \<Rightarrow> PlayerStatePacket \<Rightarrow> bool" where
  "carries p gp \<longleftrightarrow> j_is_object J p \<and>
     (\<forall>(b, kvs) \<in> set (gameplay_groups J gp). \<forall>(k, v) \<in> set kvs.
        j_contains J p k = b \<and> (b \<longrightarrow> j_at J p k = v))"

lemma carries_emit:
  assumes p: "j_is_object J p" and none: "\<forall>k \<in> set gameplay_keys. \<not> j_contains J p k"
  shows "carries (EmitGameplayJson J p gp) gp"
proof -
  let ?gs = "gameplay_groups J gp"
  have d: "distinct (group_keys ?gs)"
    unfolding gameplay_keys_groups by (rule distinct_gameplay_keys)
  have "j_contains J (EmitGameplayJson J p gp) k = b \<and> (b \<longrightarrow> j_at J (EmitGameplayJson J p gp) k = v)"
    if m: "(b, kvs) \<in> set ?gs" "(k, v) \<in> set kvs" for b kvs k v
  proof -
    have k: "k \<in> set gameplay_keys"
      using group_keys_mem[OF m] unfolding gameplay_keys_groups .
    have l: "map_of (group_fields ?gs) k = (if b then Some v else None)"
      by (rule group_fields_lookup[OF d m])
    then have "k \<in> fst ` set (group_fields ?gs) \<longleftrightarrow> b"
      by (metis map_of_eq_None_iff option.distinct(1))
    then show ?thesis
      using contains_sets[OF p, of "group_fields ?gs" k] at_sets[OF p, of "group_fields ?gs" k] none k l distinct_group_fields[OF d]
      by (simp add: EmitGameplayJson_groups)
  qed
  then show ?thesis
    using sets_object[OF p] by (auto simp: carries_def EmitGameplayJson_groups)
qed

lemma emit_other:
  assumes "j_is_object J p" "k \<notin> set gameplay_keys"
  shows "j_contains J (EmitGameplayJson J p gp) k = j_contains J p k"
    and "j_at J (EmitGameplayJson J p gp) k = j_at J p k"
proof -
  let ?gs = "gameplay_groups J gp"
  have d: "distinct (group_keys ?gs)"
    unfolding gameplay_keys_groups by (rule distinct_gameplay_keys)
  have n: "k \<notin> fst ` set (group_fields ?gs)"
    using group_fields_keys[of ?gs] assms(2) gameplay_keys_groups[of J gp] by auto
  then have "map_of (group_fields ?gs) k = None" by (simp add: map_of_eq_None_iff)
  with n show "j_contains J (EmitGameplayJson J p gp) k = j_contains J p k"
    "j_at J (EmitGameplayJson J p gp) k = j_at J p k"
    using contains_sets[OF assms(1), of "group_fields ?gs" k] at_sets[OF assms(1), of "group_fields ?gs" k] distinct_group_fields[OF d]
    by (simp_all add: EmitGameplayJson_groups)
qed

lemma carries_contains:
  assumes "carries p gp"
  shows "j_contains J p ''traversalState'' = tv_present (traversal gp)"
    and "j_contains J p ''skillId'' = skill_present gp"
    and "j_contains J p ''skillPhase'' = skill_present gp"
    and "j_contains J p ''skillAnimId'' = skill_present gp"
    and "j_contains J p ''skillTargetEntity'' = skill_present gp"
    and "j_contains J p ''skillTargetPos'' = skill_present gp"
    and "j_contains J p ''activeVfx'' = vfx_present gp"
    and "j_contains J p ''statusFlags'' = status_present gp"
    and "j_contains J p ''buffIds'' = status_present gp"
    and "j_contains J p ''weaponId'' = equipment_present gp"
    and "j_contains J p ''weaponStance'' = equipment_present gp"
    and "j_contains J p ''offHandId'' = equipment_present gp"
    and "j_contains J p ''isMounted'' = mount_present gp"
    and "j_contains J p ''mountEntityId'' = mount_present gp"
    and "j_contains J p ''mountAnimId'' = mount_present gp"
    and "j_contains J p ''mountAnimTime'' = mount_present gp"
    and "j_contains J p ''mountPosition'' = mount_present gp"
    and "j_contains J p ''dodgeDirection'' = dodge_present gp"
    and "j_contains J p ''isDead'' = death_present gp"
    and "j_contains J p ''respawnPosition'' = respawn_present gp"
    and "j_contains J p ''interactionType'' = interaction_present gp"
    and "j_contains J p ''interactionEntityId'' = interaction_present gp"
  using assms by (simp_all add: carries_def gameplay_groups_def)

lemma carries_at:
  assumes "carries p gp"
  shows "tv_present (traversal gp) \<Longrightarrow> j_at J p ''traversalState'' = traversal_json J (traversal gp)"
    and "skill_present gp \<Longrightarrow> j_at J p ''skillId'' = j_i32 J (skill_id gp)"
    and "skill_present gp \<Longrightarrow> j_at J p ''skillPhase'' = j_i32 J (skill_phase gp)"
    and "skill_present gp \<Longrightarrow> j_at J p ''skillAnimId'' = j_i32 J (skill_anim_id gp)"
    and "skill_present gp \<Longrightarrow> j_at J p ''skillTargetEntity'' = j_i32 J (skill_target_entity gp)"
    and "skill_present gp \<Longrightarrow> j_at J p ''skillTargetPos'' = j_xyz J (skill_target_x gp) (skill_target_y gp) (skill_target_z gp)"
    and "vfx_present gp \<Longrightarrow> j_at J p ''activeVfx'' = j_i32s J (active_vfx gp)"
    and "status_present gp \<Longrightarrow> j_at J p ''statusFlags'' = j_u32 J (status_flags gp)"
    and "status_present gp \<Longrightarrow> j_at J p ''buffIds'' = j_i32s J (buff_ids gp)"
    and "equipment_present gp \<Longrightarrow> j_at J p ''weaponId'' = j_i32 J (weapon_id gp)"
    and "equipment_present gp \<Longrightarrow> j_at J p ''weaponStance'' = j_i32 J (weapon_stance gp)"
    and "equipment_present gp \<Longrightarrow> j_at J p ''offHandId'' = j_i32 J (off_hand_id gp)"
    and "mount_present gp \<Longrightarrow> j_at J p ''isMounted'' = j_bool J (is_mounted gp)"
    and "mount_present gp \<Longrightarrow> j_at J p ''mountEntityId'' = j_i32 J (mount_entity_id gp)"
    and "mount_present gp \<Longrightarrow> j_at J p ''mountAnimId'' = j_i32 J (mount_anim_id gp)"
    and "mount_present gp \<Longrightarrow> j_at J p ''mountAnimTime'' = j_f32 J (mount_anim_time gp)"
    and "mount_present gp \<Longrightarrow> j_at J p ''mountPosition'' = j_xyz J (mount_x gp) (mount_y gp) (mount_z gp)"
    and "dodge_present gp \<Longrightarrow> j_at J p ''dodgeDirection'' = j_obj J [(''x'', j_f32 J (dodge_x gp)), (''y'', j_f32 J (dodge_y gp))]"
    and "death_present gp \<Longrightarrow> j_at J p ''isDead'' = j_bool J (is_dead gp)"
    and "respawn_present gp \<Longrightarrow> j_at J p ''respawnPosition'' = j_xyz J (respawn_x gp) (respawn_y gp) (respawn_z gp)"
    and "interaction_present gp \<Longrightarrow> j_at J p ''interactionType'' = j_i32 J (interaction_type gp)"
    and "interaction_present gp \<Longrightarrow> j_at J p ''interactionEntityId'' = j_i32 J (interaction_entity_id gp)"
  using assms by (simp_all add: carries_def gameplay_groups_def)

lemma carries_object: "carries p gp \<Longrightarrow> j_is_object J p"
  by (simp add: carries_def)

lemmas carries_facts = carries_contains carries_at carries_object

lemma get_j [simp]:
  "get_i32 J (j_i32 J i) = Some i" "get_u32 J (j_u32 J u) = Some u"
  "get_i32s J (j_i32s J is) = Some is" "j_is_array J (j_i32s J is)"
  by (simp_all add: j_i32_def j_u32_def j_i32s_def get_eqs arr_array)

text \<open>Each parser recovers its group.\<close>

lemma parse_traversal_ok:
  assumes "carries p gp" "tv_finite (traversal gp)"
  shows "parse_traversal J p g0 = Some (if tv_present (traversal gp) then g0\<lparr>traversal := traversal gp\<rparr>
    else g0\<lparr>traversal := (traversal g0)\<lparr>tv_present := False\<rparr>\<rparr>)"
proof (cases "tv_present (traversal gp)")
  case True
  obtain tv where tv: "tv = traversal gp" by simp
  with True have "tv_present tv" by simp
  then show ?thesis using assms True
    by (cases "traversal gp")
       (simp add: carries_facts[OF assms(1)] parse_traversal_def traversal_json_def tv_finite_def
        value_eqs obj_eqs get_eqs value_xyz_json)
next
  case False
  then show ?thesis by (simp add: carries_facts[OF assms(1)] parse_traversal_def)
qed

lemma parse_skill_ok:
  assumes "carries p gp" "gp_finite gp"
  shows "parse_skill J p g0 = Some (if skill_present gp then g0\<lparr>skill_id := skill_id gp,
      skill_phase := skill_phase gp, skill_anim_id := skill_anim_id gp,
      skill_target_entity := skill_target_entity gp, skill_target_x := skill_target_x gp,
      skill_target_y := skill_target_y gp, skill_target_z := skill_target_z gp, skill_present := True\<rparr>
    else g0\<lparr>skill_present := False\<rparr>)"
  using assms(2)
  by (simp add: carries_facts[OF assms(1)] parse_skill_def value_eqs value_xyz_json gp_finite_def)

lemma parse_vfx_ok:
  assumes "carries p gp"
  shows "parse_vfx J p g0 = Some (if vfx_present gp then g0\<lparr>active_vfx := active_vfx gp, vfx_present := True\<rparr>
    else g0\<lparr>vfx_present := False\<rparr>)"
  by (simp add: carries_facts[OF assms(1)] parse_vfx_def)

lemma parse_status_ok:
  assumes "carries p gp"
  shows "parse_status J p g0 = Some (if status_present gp then g0\<lparr>status_flags := status_flags gp,
      buff_ids := buff_ids gp, status_present := True\<rparr> else g0\<lparr>status_present := False\<rparr>)"
  by (simp add: carries_facts[OF assms(1)] parse_status_def value_eqs)

lemma parse_equipment_ok:
  assumes "carries p gp"
  shows "parse_equipment J p g0 = Some (if equipment_present gp then g0\<lparr>weapon_id := weapon_id gp,
      weapon_stance := weapon_stance gp, off_hand_id := off_hand_id gp, equipment_present := True\<rparr>
    else g0\<lparr>equipment_present := False\<rparr>)"
  by (simp add: carries_facts[OF assms(1)] parse_equipment_def value_eqs)

lemma parse_mount_ok:
  assumes "carries p gp" "gp_finite gp"
  shows "parse_mount J p g0 = Some (if mount_present gp then g0\<lparr>is_mounted := is_mounted gp,
      mount_entity_id := mount_entity_id gp, mount_anim_id := mount_anim_id gp,
      mount_anim_time := mount_anim_time gp, mount_x := mount_x gp, mount_y := mount_y gp,
      mount_z := mount_z gp, mount_present := True\<rparr> else g0\<lparr>mount_present := False\<rparr>)"
  using assms(2)
  by (simp add: carries_facts[OF assms(1)] parse_mount_def value_eqs get_eqs value_xyz_json gp_finite_def)

lemma parse_dodge_ok:
  assumes "carries p gp" "gp_finite gp"
  shows "parse_dodge J p g0 = Some (if dodge_present gp then g0\<lparr>dodge_x := dodge_x gp,
      dodge_y := dodge_y gp, dodge_present := True\<rparr> else g0\<lparr>dodge_present := False\<rparr>)"
  using assms(2)
  by (simp add: carries_facts[OF assms(1)] parse_dodge_def value_eqs get_eqs obj_eqs gp_finite_def)

lemma parse_death_ok:
  assumes "carries p gp"
  shows "parse_death J p g0 = Some (if death_present gp then g0\<lparr>is_dead := is_dead gp, death_present := True\<rparr>
    else g0\<lparr>death_present := False\<rparr>)"
  by (simp add: carries_facts[OF assms(1)] parse_death_def value_eqs get_eqs)

lemma parse_respawn_ok:
  assumes "carries p gp" "gp_finite gp"
  shows "parse_respawn J p g0 = Some (if respawn_present gp then g0\<lparr>respawn_x := respawn_x gp,
      respawn_y := respawn_y gp, respawn_z := respawn_z gp, respawn_present := True\<rparr>
    else g0\<lparr>respawn_present := False\<rparr>)"
  using assms(2)
  by (simp add: carries_facts[OF assms(1)] parse_respawn_def value_xyz_json gp_finite_def)

lemma parse_interaction_ok:
  assumes "carries p gp"
  shows "parse_interaction J p g0 = Some (if interaction_present gp then
      g0\<lparr>interaction_type := interaction_type gp, interaction_entity_id := interaction_entity_id gp,
        interaction_present := True\<rparr> else g0\<lparr>interaction_present := False\<rparr>)"
  by (simp add: carries_facts[OF assms(1)] parse_interaction_def value_eqs)

text \<open>What one parser leaves alone: the other groups.\<close>

lemma wire_parse_traversal:
  assumes "carries p gp" "gp_finite gp"
  obtains g1 where "parse_traversal J p g0 = Some g1" "wire_traversal g1 = wire_traversal gp"
    "wire_skill g1 = wire_skill g0" "wire_vfx g1 = wire_vfx g0" "wire_status g1 = wire_status g0" "wire_equipment g1 = wire_equipment g0" "wire_mount g1 = wire_mount g0" "wire_dodge g1 = wire_dodge g0" "wire_death g1 = wire_death g0" "wire_respawn g1 = wire_respawn g0" "wire_interaction g1 = wire_interaction g0"
proof -
  have tvf: "tv_finite (traversal gp)" using assms(2) by (simp add: gp_finite_def)
  show thesis by (rule that, rule parse_traversal_ok[OF assms(1) tvf]) (simp_all add: wire_defs)
qed

lemma wire_parse_skill:
  assumes "carries p gp" "gp_finite gp"
  obtains g1 where "parse_skill J p g0 = Some g1" "wire_skill g1 = wire_skill gp"
    "wire_traversal g1 = wire_traversal g0" "wire_vfx g1 = wire_vfx g0" "wire_status g1 = wire_status g0" "wire_equipment g1 = wire_equipment g0" "wire_mount g1 = wire_mount g0" "wire_dodge g1 = wire_dodge g0" "wire_death g1 = wire_death g0" "wire_respawn g1 = wire_respawn g0" "wire_interaction g1 = wire_interaction g0"
  by (rule that, rule parse_skill_ok[OF assms]) (simp_all add: wire_defs)

lemma wire_parse_vfx:
  assumes "carries p gp" "gp_finite gp"
  obtains g1 where "parse_vfx J p g0 = Some g1" "wire_vfx g1 = wire_vfx gp"
    "wire_traversal g1 = wire_traversal g0" "wire_skill g1 = wire_skill g0" "wire_status g1 = wire_status g0" "wire_equipment g1 = wire_equipment g0" "wire_mount g1 = wire_mount g0" "wire_dodge g1 = wire_dodge g0" "wire_death g1 = wire_death g0" "wire_respawn g1 = wire_respawn g0" "wire_interaction g1 = wire_interaction g0"
  by (rule that, rule parse_vfx_ok[OF assms(1)]) (simp_all add: wire_defs)

lemma wire_parse_status:
  assumes "carries p gp" "gp_finite gp"
  obtains g1 where "parse_status J p g0 = Some g1" "wire_status g1 = wire_status gp"
    "wire_traversal g1 = wire_traversal g0" "wire_skill g1 = wire_skill g0" "wire_vfx g1 = wire_vfx g0" "wire_equipment g1 = wire_equipment g0" "wire_mount g1 = wire_mount g0" "wire_dodge g1 = wire_dodge g0" "wire_death g1 = wire_death g0" "wire_respawn g1 = wire_respawn g0" "wire_interaction g1 = wire_interaction g0"
  by (rule that, rule parse_status_ok[OF assms(1)]) (simp_all add: wire_defs)

lemma wire_parse_equipment:
  assumes "carries p gp" "gp_finite gp"
  obtains g1 where "parse_equipment J p g0 = Some g1" "wire_equipment g1 = wire_equipment gp"
    "wire_traversal g1 = wire_traversal g0" "wire_skill g1 = wire_skill g0" "wire_vfx g1 = wire_vfx g0" "wire_status g1 = wire_status g0" "wire_mount g1 = wire_mount g0" "wire_dodge g1 = wire_dodge g0" "wire_death g1 = wire_death g0" "wire_respawn g1 = wire_respawn g0" "wire_interaction g1 = wire_interaction g0"
  by (rule that, rule parse_equipment_ok[OF assms(1)]) (simp_all add: wire_defs)

lemma wire_parse_mount:
  assumes "carries p gp" "gp_finite gp"
  obtains g1 where "parse_mount J p g0 = Some g1" "wire_mount g1 = wire_mount gp"
    "wire_traversal g1 = wire_traversal g0" "wire_skill g1 = wire_skill g0" "wire_vfx g1 = wire_vfx g0" "wire_status g1 = wire_status g0" "wire_equipment g1 = wire_equipment g0" "wire_dodge g1 = wire_dodge g0" "wire_death g1 = wire_death g0" "wire_respawn g1 = wire_respawn g0" "wire_interaction g1 = wire_interaction g0"
  by (rule that, rule parse_mount_ok[OF assms]) (simp_all add: wire_defs)

lemma wire_parse_dodge:
  assumes "carries p gp" "gp_finite gp"
  obtains g1 where "parse_dodge J p g0 = Some g1" "wire_dodge g1 = wire_dodge gp"
    "wire_traversal g1 = wire_traversal g0" "wire_skill g1 = wire_skill g0" "wire_vfx g1 = wire_vfx g0" "wire_status g1 = wire_status g0" "wire_equipment g1 = wire_equipment g0" "wire_mount g1 = wire_mount g0" "wire_death g1 = wire_death g0" "wire_respawn g1 = wire_respawn g0" "wire_interaction g1 = wire_interaction g0"
  by (rule that, rule parse_dodge_ok[OF assms]) (simp_all add: wire_defs)

lemma wire_parse_death:
  assumes "carries p gp" "gp_finite gp"
  obtains g1 where "parse_death J p g0 = Some g1" "wire_death g1 = wire_death gp"
    "wire_traversal g1 = wire_traversal g0" "wire_skill g1 = wire_skill g0" "wire_vfx g1 = wire_vfx g0" "wire_status g1 = wire_status g0" "wire_equipment g1 = wire_equipment g0" "wire_mount g1 = wire_mount g0" "wire_dodge g1 = wire_dodge g0" "wire_respawn g1 = wire_respawn g0" "wire_interaction g1 = wire_interaction g0"
  by (rule that, rule parse_death_ok[OF assms(1)]) (simp_all add: wire_defs)

lemma wire_parse_respawn:
  assumes "carries p gp" "gp_finite gp"
  obtains g1 where "parse_respawn J p g0 = Some g1" "wire_respawn g1 = wire_respawn gp"
    "wire_traversal g1 = wire_traversal g0" "wire_skill g1 = wire_skill g0" "wire_vfx g1 = wire_vfx g0" "wire_status g1 = wire_status g0" "wire_equipment g1 = wire_equipment g0" "wire_mount g1 = wire_mount g0" "wire_dodge g1 = wire_dodge g0" "wire_death g1 = wire_death g0" "wire_interaction g1 = wire_interaction g0"
  by (rule that, rule parse_respawn_ok[OF assms]) (simp_all add: wire_defs)

lemma wire_parse_interaction:
  assumes "carries p gp" "gp_finite gp"
  obtains g1 where "parse_interaction J p g0 = Some g1" "wire_interaction g1 = wire_interaction gp"
    "wire_traversal g1 = wire_traversal g0" "wire_skill g1 = wire_skill g0" "wire_vfx g1 = wire_vfx g0" "wire_status g1 = wire_status g0" "wire_equipment g1 = wire_equipment g0" "wire_mount g1 = wire_mount g0" "wire_dodge g1 = wire_dodge g0" "wire_death g1 = wire_death g0" "wire_respawn g1 = wire_respawn g0"
  by (rule that, rule parse_interaction_ok[OF assms(1)]) (simp_all add: wire_defs)

lemma ParseGameplay_ok:
  assumes "carries p gp" "gp_finite gp"
  shows "\<exists>gp'. ParseGameplay J p g0 = Some gp' \<and> same_wire gp' gp"
proof -
  obtain g1 where r1: "parse_traversal J p g0 = Some g1" "wire_traversal g1 = wire_traversal gp"
    "wire_skill g1 = wire_skill g0" "wire_vfx g1 = wire_vfx g0" "wire_status g1 = wire_status g0" "wire_equipment g1 = wire_equipment g0" "wire_mount g1 = wire_mount g0" "wire_dodge g1 = wire_dodge g0" "wire_death g1 = wire_death g0" "wire_respawn g1 = wire_respawn g0" "wire_interaction g1 = wire_interaction g0"
    by (rule wire_parse_traversal[OF assms])
  obtain g2 where r2: "parse_skill J p g1 = Some g2" "wire_skill g2 = wire_skill gp"
    "wire_traversal g2 = wire_traversal g1" "wire_vfx g2 = wire_vfx g1" "wire_status g2 = wire_status g1" "wire_equipment g2 = wire_equipment g1" "wire_mount g2 = wire_mount g1" "wire_dodge g2 = wire_dodge g1" "wire_death g2 = wire_death g1" "wire_respawn g2 = wire_respawn g1" "wire_interaction g2 = wire_interaction g1"
    by (rule wire_parse_skill[OF assms])
  obtain g3 where r3: "parse_vfx J p g2 = Some g3" "wire_vfx g3 = wire_vfx gp"
    "wire_traversal g3 = wire_traversal g2" "wire_skill g3 = wire_skill g2" "wire_status g3 = wire_status g2" "wire_equipment g3 = wire_equipment g2" "wire_mount g3 = wire_mount g2" "wire_dodge g3 = wire_dodge g2" "wire_death g3 = wire_death g2" "wire_respawn g3 = wire_respawn g2" "wire_interaction g3 = wire_interaction g2"
    by (rule wire_parse_vfx[OF assms])
  obtain g4 where r4: "parse_status J p g3 = Some g4" "wire_status g4 = wire_status gp"
    "wire_traversal g4 = wire_traversal g3" "wire_skill g4 = wire_skill g3" "wire_vfx g4 = wire_vfx g3" "wire_equipment g4 = wire_equipment g3" "wire_mount g4 = wire_mount g3" "wire_dodge g4 = wire_dodge g3" "wire_death g4 = wire_death g3" "wire_respawn g4 = wire_respawn g3" "wire_interaction g4 = wire_interaction g3"
    by (rule wire_parse_status[OF assms])
  obtain g5 where r5: "parse_equipment J p g4 = Some g5" "wire_equipment g5 = wire_equipment gp"
    "wire_traversal g5 = wire_traversal g4" "wire_skill g5 = wire_skill g4" "wire_vfx g5 = wire_vfx g4" "wire_status g5 = wire_status g4" "wire_mount g5 = wire_mount g4" "wire_dodge g5 = wire_dodge g4" "wire_death g5 = wire_death g4" "wire_respawn g5 = wire_respawn g4" "wire_interaction g5 = wire_interaction g4"
    by (rule wire_parse_equipment[OF assms])
  obtain g6 where r6: "parse_mount J p g5 = Some g6" "wire_mount g6 = wire_mount gp"
    "wire_traversal g6 = wire_traversal g5" "wire_skill g6 = wire_skill g5" "wire_vfx g6 = wire_vfx g5" "wire_status g6 = wire_status g5" "wire_equipment g6 = wire_equipment g5" "wire_dodge g6 = wire_dodge g5" "wire_death g6 = wire_death g5" "wire_respawn g6 = wire_respawn g5" "wire_interaction g6 = wire_interaction g5"
    by (rule wire_parse_mount[OF assms])
  obtain g7 where r7: "parse_dodge J p g6 = Some g7" "wire_dodge g7 = wire_dodge gp"
    "wire_traversal g7 = wire_traversal g6" "wire_skill g7 = wire_skill g6" "wire_vfx g7 = wire_vfx g6" "wire_status g7 = wire_status g6" "wire_equipment g7 = wire_equipment g6" "wire_mount g7 = wire_mount g6" "wire_death g7 = wire_death g6" "wire_respawn g7 = wire_respawn g6" "wire_interaction g7 = wire_interaction g6"
    by (rule wire_parse_dodge[OF assms])
  obtain g8 where r8: "parse_death J p g7 = Some g8" "wire_death g8 = wire_death gp"
    "wire_traversal g8 = wire_traversal g7" "wire_skill g8 = wire_skill g7" "wire_vfx g8 = wire_vfx g7" "wire_status g8 = wire_status g7" "wire_equipment g8 = wire_equipment g7" "wire_mount g8 = wire_mount g7" "wire_dodge g8 = wire_dodge g7" "wire_respawn g8 = wire_respawn g7" "wire_interaction g8 = wire_interaction g7"
    by (rule wire_parse_death[OF assms])
  obtain g9 where r9: "parse_respawn J p g8 = Some g9" "wire_respawn g9 = wire_respawn gp"
    "wire_traversal g9 = wire_traversal g8" "wire_skill g9 = wire_skill g8" "wire_vfx g9 = wire_vfx g8" "wire_status g9 = wire_status g8" "wire_equipment g9 = wire_equipment g8" "wire_mount g9 = wire_mount g8" "wire_dodge g9 = wire_dodge g8" "wire_death g9 = wire_death g8" "wire_interaction g9 = wire_interaction g8"
    by (rule wire_parse_respawn[OF assms])
  obtain g10 where r10: "parse_interaction J p g9 = Some g10" "wire_interaction g10 = wire_interaction gp"
    "wire_traversal g10 = wire_traversal g9" "wire_skill g10 = wire_skill g9" "wire_vfx g10 = wire_vfx g9" "wire_status g10 = wire_status g9" "wire_equipment g10 = wire_equipment g9" "wire_mount g10 = wire_mount g9" "wire_dodge g10 = wire_dodge g9" "wire_death g10 = wire_death g9" "wire_respawn g10 = wire_respawn g9"
    by (rule wire_parse_interaction[OF assms])
  show ?thesis
    by (simp add: ParseGameplay_def same_wire_def r1 r2 r3 r4 r5 r6 r7 r8 r9 r10)
qed

text \<open>The entry \<open>SendLocalState\<close> builds, as a peer reads it.\<close>

lemma player_entry_fields:
  fixes lid pos yaw pitch vel h mh anim gp
  defines "p \<equiv> EmitGameplayJson J (player_json J lid pos yaw pitch vel h mh anim) gp"
  shows "j_contains J p ''id''"
    and "j_contains J p ''name''"
    and "j_contains J p ''position''"
    and "j_contains J p ''velocity''"
    and "j_contains J p ''health''"
    and "j_contains J p ''maxHealth''"
    and "j_contains J p ''isHost''"
    and "j_contains J p ''ping''"
    and "j_contains J p ''animState''"
    and "\<not> j_contains J p ''inCutscene''"
    and "j_at J p ''id'' = j_str J lid"
    and "j_at J p ''name'' = j_str J []"
    and "j_at J p ''position'' = j_xyz J (vec_x pos) (vec_y pos) (vec_z pos)"
    and "j_at J p ''velocity'' = j_xyz J (vec_x vel) (vec_y vel) (vec_z vel)"
    and "j_at J p ''health'' = j_f32 J h"
    and "j_at J p ''maxHealth'' = j_f32 J mh"
    and "j_at J p ''isHost'' = j_bool J False"
    and "j_at J p ''ping'' = j_int J 0"
    and "j_at J p ''animState'' = anim_json J anim"
proof -
  let ?p0 = "player_json J lid pos yaw pitch vel h mh anim"
  have o0: "j_is_object J ?p0" by (simp add: player_json_def obj_eqs)
  have c: "j_contains J p k = j_contains J ?p0 k" "j_at J p k = j_at J ?p0 k"
    if "k \<notin> set gameplay_keys" for k
    using emit_other[OF o0 that] by (simp_all add: p_def)
  show "j_contains J p ''id''" "j_contains J p ''name''" "j_contains J p ''position''" "j_contains J p ''velocity''" "j_contains J p ''health''" "j_contains J p ''maxHealth''" "j_contains J p ''isHost''" "j_contains J p ''ping''" "j_contains J p ''animState''" "\<not> j_contains J p ''inCutscene''"
    by (simp_all add: c gameplay_keys_def player_json_def obj_eqs)
  show "j_at J p ''id'' = j_str J lid" "j_at J p ''name'' = j_str J []" "j_at J p ''position'' = j_xyz J (vec_x pos) (vec_y pos) (vec_z pos)" "j_at J p ''velocity'' = j_xyz J (vec_x vel) (vec_y vel) (vec_z vel)" "j_at J p ''health'' = j_f32 J h" "j_at J p ''maxHealth'' = j_f32 J mh" "j_at J p ''isHost'' = j_bool J False" "j_at J p ''ping'' = j_int J 0" "j_at J p ''animState'' = anim_json J anim"
    by (simp_all add: c gameplay_keys_def player_json_def obj_eqs)
qed

lemma player_entry_carries:
  "carries (EmitGameplayJson J (player_json J lid pos yaw pitch vel h mh anim) gp) gp"
  by (rule carries_emit) (simp_all add: player_json_def obj_eqs gameplay_keys_def)

lemma value_xyz_vec:
  "vec_finite v \<Longrightarrow> value_xyz J (j_xyz J (vec_x v) (vec_y v) (vec_z v)) = Some v"
  by (simp add: vec_finite_def value_xyz_json)

lemma parse_anim_state_json:
  assumes "anim_finite a"
  shows "\<exists>rp'. parse_anim_state J (anim_json J a) rp = Some rp' \<and> rp_lastAnim rp' = a
    \<and> targetPos rp' = targetPos rp \<and> currentPos rp' = currentPos rp \<and> velocity rp' = velocity rp
    \<and> currentHealth rp' = currentHealth rp \<and> maxHealth rp' = maxHealth rp \<and> rp_id rp' = rp_id rp
    \<and> gameplay rp' = gameplay rp \<and> entityBase rp' = entityBase rp"
  using assms
  by (cases a) (simp add: parse_anim_state_def anim_json_def anim_finite_def value_eqs obj_eqs get_eqs)

lemma update_remote_player_entry:
  assumes "vec_finite pos" "vec_finite vel" "f32_isfinite h" "f32_isfinite mh" "anim_finite anim" "gp_finite gp"
  shows "\<exists>rp'. update_remote J now i
      (EmitGameplayJson J (player_json J lid pos yaw pitch vel h mh anim) gp) rp = Some rp'
    \<and> rp_id rp' = i \<and> targetPos rp' = pos \<and> velocity rp' = vel \<and> currentHealth rp' = h
    \<and> maxHealth rp' = mh \<and> rp_lastAnim rp' = anim \<and> lastUpdateTime rp' = now
    \<and> same_wire (gameplay rp') gp"
proof -
  let ?p = "EmitGameplayJson J (player_json J lid pos yaw pitch vel h mh anim) gp"
  let ?rp = "(if lastUpdateTime rp = 0 then rp\<lparr>rp_id := i, rp_name := [], targetPos := pos, currentPos := pos\<rparr>
      else rp\<lparr>rp_id := i, rp_name := [], targetPos := pos\<rparr>)
      \<lparr>velocity := vel, currentHealth := h, maxHealth := mh, rp_isHost := False, rp_ping := 0\<rparr>"
  obtain r1 where r1: "parse_anim_state J (anim_json J anim) ?rp = Some r1" "rp_lastAnim r1 = anim"
    "targetPos r1 = pos" "velocity r1 = vel" "currentHealth r1 = h" "maxHealth r1 = mh" "rp_id r1 = i"
    using parse_anim_state_json[OF assms(5), of ?rp] by (auto split: if_splits)
  obtain g1 where g1: "ParseGameplay J ?p (gameplay r1) = Some g1" "same_wire g1 gp"
    using ParseGameplay_ok[OF player_entry_carries assms(6)] by blast
  have "get_i32 J (j_int J 0) = Some 0" using get_i32_int[of 0] by simp
  then have "update_remote J now i ?p rp = Some (r1\<lparr>gameplay := g1, lastUpdateTime := now\<rparr>)"
    using assms r1(1) g1(1)
    by (cases "lastUpdateTime rp = 0")
       (simp_all add: update_remote_def player_entry_fields str_string get_eqs value_xyz_vec)
  with r1 g1 show ?thesis by simp
qed

end

text \<open>C8: the gameplay state survives the wire: parsing the entry \<open>EmitGameplayJson\<close> wrote gives, for
  each of the ten groups, exactly what the sender had: absent groups stay absent, present ones
  carry all their fields. The receiver's previous state does not matter.\<close>

lemma gameplay_round_trip:
  assumes "json_laws J" "j_is_object J p" "\<forall>k \<in> set gameplay_keys. \<not> j_contains J p k" "gp_finite gp"
  shows "\<exists>gp'. ParseGameplay J (EmitGameplayJson J p gp) old = Some gp' \<and> same_wire gp' gp"
  using json_laws.ParseGameplay_ok[OF assms(1) json_laws.carries_emit[OF assms(1,2,3)] assms(4)] .

definition demo_gp :: PlayerStatePacket where
  "demo_gp = PlayerStatePacket_init\<lparr>skill_id := 7, skill_target_x := f32_5, skill_present := True,
     active_vfx := [3, 4], vfx_present := True, is_dead := True, death_present := True\<rparr>"

lemma f32_isfinite_literals: "f32_isfinite f32_0" "f32_isfinite f32_1" "f32_isfinite f32_5" "f32_isfinite f32_100"
  by (simp_all add: f32_isfinite_def f32_abs_bits_def f32_inf_bits_def)

lemma demo_gp_finite: "gp_finite demo_gp" "gp_finite PlayerStatePacket_init"
  by (simp_all add: gp_finite_def demo_gp_def tv_finite_def PlayerStatePacket_init_def
      TraversalState_init_def f32_isfinite_literals)

lemma gameplay_round_trip_witness:
  "\<exists>gp'. ParseGameplay demo_json (EmitGameplayJson demo_json (JObj []) demo_gp) PlayerStatePacket_init
     = Some gp' \<and> same_wire gp' demo_gp"
  by (rule gameplay_round_trip[OF json_laws_demo])
     (simp_all add: demo_json_def jv_lib_def demo_gp_finite)

section \<open>Sending and applying a state update\<close>

lemma SendLocalState_sent:
  assumes "SendLocalState J m g now (w, ps) = Some (w', ps')" "sendQueue w' \<noteq> sendQueue w"
  defines "base \<equiv> GetLocalPlayerBase m g"
  defines "player \<equiv> EmitGameplayJson J (player_json J (localId ps) (ReadVec3 m base (offPositionX g))
      (ReadFloat m base (offRotationYaw g)) (ReadFloat m base (offRotationPitch g))
      (ReadVec3 m base (offVelocityX g)) (ReadFloat m base (offHealth g))
      (ReadFloat m base (offMaxHealth g)) (read_anim m g base)) (ReadLocalGameplay m g base)"
  shows "\<exists>frame rest. SerializePacket J STATE_UPDATE (j_obj J [(''players'', j_arr J [player])]) = Some frame
    \<and> sendQueue w' = sendQueue w @ frame # rest \<and> length rest \<le> 1"
  using assms
  by (auto simp: SendLocalState_def Let_def Send_def split: if_splits)

context json_laws
begin

lemma apply_player_entry:
  assumes "localId peer \<noteq> lid"
    and "vec_finite pos" "vec_finite vel" "f32_isfinite h" "f32_isfinite mh" "anim_finite anim" "gp_finite gp"
  shows "\<exists>peer' rp. ApplyStateUpdate J t
      (j_arr J [EmitGameplayJson J (player_json J lid pos yaw pitch vel h mh anim) gp]) peer = Some peer'
    \<and> smap_find lid (remotes peer') = Some rp \<and> targetPos rp = pos \<and> velocity rp = vel
    \<and> currentHealth rp = h \<and> maxHealth rp = mh \<and> rp_lastAnim rp = anim \<and> same_wire (gameplay rp) gp"
proof -
  let ?p = "EmitGameplayJson J (player_json J lid pos yaw pitch vel h mh anim) gp"
  obtain rp where rp: "update_remote J t lid ?p (smap_get RemotePlayer_init lid (remotes peer)) = Some rp"
    "targetPos rp = pos" "velocity rp = vel" "currentHealth rp = h" "maxHealth rp = mh"
    "rp_lastAnim rp = anim" "same_wire (gameplay rp) gp"
    using update_remote_player_entry[OF assms(2-7), of t lid lid yaw pitch] by blast
  have "ApplyStateUpdate J t (j_arr J [?p]) peer
      = Some (peer\<lparr>remotes := smap_put lid rp (remotes peer)\<rparr>)"
    using assms(1) rp(1)
    by (auto simp: ApplyStateUpdate_def apply_player_def arr_array elems_arr player_entry_fields get_eqs)
  with rp show ?thesis by simp
qed

end

text \<open>C2: the whole path of a state update: when a tick of the local player puts something on the
  queue, the first packet is a \<open>STATE_UPDATE\<close> whose single entry, applied by any peer with
  another id, leaves that peer with exactly the position, velocity, health, animation and
  gameplay groups the sender read from its game memory.\<close>

lemma state_update_reaches_peer:
  assumes "json_laws J" "SendLocalState J m g now (w, ps) = Some (w', ps')" "sendQueue w' \<noteq> sendQueue w"
    and "base = GetLocalPlayerBase m g" "localId peer \<noteq> localId ps"
    and "vec_finite (ReadVec3 m base (offPositionX g))" "vec_finite (ReadVec3 m base (offVelocityX g))"
    and "f32_isfinite (ReadFloat m base (offHealth g))" "f32_isfinite (ReadFloat m base (offMaxHealth g))"
    and "anim_finite (read_anim m g base)" "gp_finite (ReadLocalGameplay m g base)"
  shows "\<exists>entry frame peer' rp.
    SerializePacket J STATE_UPDATE (j_obj J [(''players'', j_arr J [entry])]) = Some frame
    \<and> sendQueue w' ! length (sendQueue w) = frame
    \<and> ApplyStateUpdate J t (j_arr J [entry]) peer = Some peer'
    \<and> smap_find (localId ps) (remotes peer') = Some rp
    \<and> targetPos rp = ReadVec3 m base (offPositionX g) \<and> velocity rp = ReadVec3 m base (offVelocityX g)
    \<and> currentHealth rp = ReadFloat m base (offHealth g) \<and> maxHealth rp = ReadFloat m base (offMaxHealth g)
    \<and> rp_lastAnim rp = read_anim m g base \<and> same_wire (gameplay rp) (ReadLocalGameplay m g base)"
proof -
  let ?entry = "EmitGameplayJson J (player_json J (localId ps) (ReadVec3 m base (offPositionX g))
      (ReadFloat m base (offRotationYaw g)) (ReadFloat m base (offRotationPitch g))
      (ReadVec3 m base (offVelocityX g)) (ReadFloat m base (offHealth g))
      (ReadFloat m base (offMaxHealth g)) (read_anim m g base)) (ReadLocalGameplay m g base)"
  obtain frame rest where f: "SerializePacket J STATE_UPDATE (j_obj J [(''players'', j_arr J [?entry])]) = Some frame"
    "sendQueue w' = sendQueue w @ frame # rest"
    using SendLocalState_sent[OF assms(2,3)] assms(4) by auto
  obtain peer' rp where "ApplyStateUpdate J t (j_arr J [?entry]) peer = Some peer'"
    "smap_find (localId ps) (remotes peer') = Some rp"
    "targetPos rp = ReadVec3 m base (offPositionX g)" "velocity rp = ReadVec3 m base (offVelocityX g)"
    "currentHealth rp = ReadFloat m base (offHealth g)" "maxHealth rp = ReadFloat m base (offMaxHealth g)"
    "rp_lastAnim rp = read_anim m g base" "same_wire (gameplay rp) (ReadLocalGameplay m g base)"
    using json_laws.apply_player_entry[OF assms(1,5-11)] by blast
  with f show ?thesis by (intro exI[of _ ?entry] exI[of _ frame]) auto
qed

section \<open>Rate limit and suspension\<close>

lemma SendLocalState_times:
  assumes "SendLocalState J m g now (w, ps) = Some (w', ps')"
  shows "if sendQueue w' = sendQueue w
    then lastSendMs ps' = lastSendMs ps \<or> lastSendMs ps' = now \<and> lastSendMs ps + 50 \<le> now
    else lastSendMs ps' = now \<and> lastSendMs ps + 50 \<le> now"
  using assms
  by (auto simp: SendLocalState_def Let_def Send_def kSendIntervalMs_def split: if_splits)

text \<open>The times of the frames, of a list of memories and clock values, that sent something.\<close>

fun send_trace :: "'j json_lib \<Rightarrow> GameOffsets \<Rightarrow> (vm \<times> nat) list \<Rightarrow> WsClient \<times> PlayerSync \<Rightarrow> nat list option" where
  "send_trace J g [] st = Some []"
| "send_trace J g ((m, now) # fs) st =
     do { st' \<leftarrow> SendLocalState J m g now st; ts \<leftarrow> send_trace J g fs st';
          Some (if sendQueue (fst st') \<noteq> sendQueue (fst st) then now # ts else ts) }"

text \<open>C39: the 20 Hz limit, over any run of frames: whatever the game's memory does and whatever the
  clock shows, two frames that send state are at least 50 ms apart.\<close>

lemma send_rate_limit:
  assumes "send_trace J g fs (w, ps) = Some ts"
  shows "sorted_wrt (\<lambda>a b. a + 50 \<le> b) ts \<and> (\<forall>t \<in> set ts. lastSendMs ps + 50 \<le> t)"
  using assms
proof (induction fs arbitrary: w ps ts)
  case (Cons f fs)
  obtain m now where f: "f = (m, now)" by force
  from Cons.prems obtain w' ps' ts' where
    s: "SendLocalState J m g now (w, ps) = Some (w', ps')" and r: "send_trace J g fs (w', ps') = Some ts'"
    and ts: "ts = (if sendQueue w' \<noteq> sendQueue w then now # ts' else ts')"
    by (auto simp: f)
  from Cons.IH[OF r] have ih: "sorted_wrt (\<lambda>a b. a + 50 \<le> b) ts'" "\<forall>t \<in> set ts'. lastSendMs ps' + 50 \<le> t"
    by auto
  show ?case using SendLocalState_times[OF s] ih ts by (fastforce split: if_splits)
qed simp

section \<open>A concrete game memory\<close>

text \<open>
  One committed page range in which everything completes; the player pointer at \<open>0x1000\<close> refers
  to an entity at \<open>0x2000\<close> whose position is \<open>(5, 0, 0)\<close> and whose other fields are 0.
\<close>

definition demo_vm :: vm where
  "demo_vm = \<lparr>vm_bytes = (\<lambda>a. if a = 0x1001 then 0x20 else if a = 0x2012 then 0xA0
       else if a = 0x2013 then 0x40 else 0),
     vm_query = (\<lambda>a. Some \<lparr>BaseAddress = 0, RegionSize = 0x10000, State = MEM_COMMIT, Protect = 0x04\<rparr>),
     vm_rd_trap = (\<lambda>_ _. None), vm_wr_trap = (\<lambda>_ _. None)\<rparr>"

definition demo_offsets :: GameOffsets where
  "demo_offsets = GameOffsets_init\<lparr>playerBasePtr := 0x1000, offPositionX := 0x10,
     offVelocityX := 0x20, offHealth := 0x40, offMaxHealth := 0x44, offAnimId := 0x60, offAnimTime := 0x64,
     offBlendWeight := 0x68, offMoveFlags := 0x2C, offCombatFlags := 0x70,
     offRotationYaw := 0x34, offRotationPitch := 0x38\<rparr>"

definition demo_ws :: WsClient where
  "demo_ws = WsClient_init\<lparr>ws_connected := True\<rparr>"

definition demo_ps :: PlayerSync where
  "demo_ps = PlayerSync_init\<lparr>ps_client := True, localId := ''me''\<rparr>"

lemma demo_readable: "IsReadable demo_vm a sz \<longleftrightarrow> a \<noteq> 0 \<and> a + sz \<le> 0x10000"
  by (simp add: IsReadable_def demo_vm_def MEM_COMMIT_def PAGE_GUARD_def readable_mask_def)

lemma demo_traps: "vm_rd_trap demo_vm a n = None" "vm_wr_trap demo_vm a n = None"
  by (simp_all add: demo_vm_def)

lemma upt_4: "[0..<4] = [0, 1, 2, 3 :: nat]" and upt_8: "[0..<8] = [0, 1, 2, 3, 4, 5, 6, 7 :: nat]"
  by (simp_all add: upt_rec)

lemma demo_read4: "a \<noteq> 0 \<Longrightarrow> a + 4 \<le> 0x10000 \<Longrightarrow> SafeRead 4 demo_vm a
    = of_le [vm_bytes demo_vm a, vm_bytes demo_vm (a + 1), vm_bytes demo_vm (a + 2), vm_bytes demo_vm (a + 3)]"
  using demo_readable[of a 4]
  by (simp add: SafeRead_def SafeReadRaw_def load_bytes_def upt_4 demo_traps)

lemma demo_base: "GetLocalPlayerBase demo_vm demo_offsets = 0x2000"
  using demo_readable[of "0x1000" 8]
  by (simp add: GetLocalPlayerBase_def demo_offsets_def SafeRead_def SafeReadRaw_def load_bytes_def upt_8 demo_traps)
     (simp add: demo_vm_def)

lemma demo_position: "ReadVec3 demo_vm 0x2000 0x10 = \<lparr>vec_x = f32_5, vec_y = f32_0, vec_z = f32_0\<rparr>"
  by (simp add: ReadVec3_def demo_read4) (simp add: demo_vm_def)

lemma demo_zeros:
  "ReadVec3 demo_vm 0x2000 0x20 = Vec3_zero" "ReadFloat demo_vm 0x2000 0x34 = 0"
  "ReadFloat demo_vm 0x2000 0x38 = 0" "ReadFloat demo_vm 0x2000 0x40 = 0"
  "ReadFloat demo_vm 0x2000 0x44 = 0" "ReadInt demo_vm 0x2000 0x60 = 0"
  "ReadFloat demo_vm 0x2000 0x64 = 0" "ReadFloat demo_vm 0x2000 0x68 = 0"
  "ReadU32 demo_vm 0x2000 0x2C = 0" "ReadU32 demo_vm 0x2000 0x70 = 0"
  by (simp_all add: ReadVec3_def ReadFloat_def ReadInt_def ReadU32_def demo_read4)
     (simp_all add: demo_vm_def Vec3_zero_def)

lemmas demo_fields = demo_offsets_def GameOffsets_init_def

lemma demo_reads:
  "ReadVec3 demo_vm 0x2000 (offPositionX demo_offsets) = \<lparr>vec_x = f32_5, vec_y = f32_0, vec_z = f32_0\<rparr>"
  "ReadVec3 demo_vm 0x2000 (offVelocityX demo_offsets) = Vec3_zero"
  "ReadFloat demo_vm 0x2000 (offHealth demo_offsets) = 0"
  "ReadFloat demo_vm 0x2000 (offMaxHealth demo_offsets) = 0"
  "read_anim demo_vm demo_offsets 0x2000 = \<lparr>anim_id = 0, anim_time = 0, move_flags = 0,
     combat_flags = 0, blend_weight = 0\<rparr>"
  by (simp_all add: demo_fields read_anim_def demo_position demo_zeros)

lemma demo_gameplay: "ReadLocalGameplay demo_vm demo_offsets 0x2000 =
    PlayerStatePacket_init\<lparr>is_dead := True, death_present := True, respawn_x := f32_5, respawn_y := f32_0,
      respawn_z := f32_0, respawn_present := True\<rparr>"
  by (simp add: ReadLocalGameplay_def read_traversal_def read_skill_def read_vfx_def read_status_def
      read_equipment_def read_mount_def read_dodge_def read_death_def read_interaction_def
      demo_fields demo_position demo_zeros f32_le_def)

lemma demo_moved: "VecDiff \<lparr>vec_x = f32_5, vec_y = f32_0, vec_z = f32_0\<rparr> Vec3_zero f32_0_01"
  by (simp add: VecDiff_def Vec3_zero_def f32_fabs_def f32_eval)

lemma demo_sends:
  "\<exists>w' ps'. SendLocalState demo_json demo_vm demo_offsets 1000 (demo_ws, demo_ps) = Some (w', ps')
     \<and> sendQueue w' \<noteq> sendQueue demo_ws"
proof -
  have ser: "SerializePacket demo_json ty d = Some ''{}''" for ty d
    by (simp add: SerializePacket_def demo_json_def jv_lib_def)
  have "playerLayoutResolved demo_offsets" by (simp add: playerLayoutResolved_def demo_fields)
  moreover have "ps_client demo_ps" "IsConnected demo_ws" "\<not> suspended demo_ps" "lastSendMs demo_ps = 0"
    "lastPos demo_ps = Vec3_zero"
    by (simp_all add: demo_ps_def demo_ws_def PlayerSync_init_def IsConnected_def)
  ultimately show ?thesis
    using demo_moved
    by (simp add: SendLocalState_def Let_def demo_base demo_reads Send_def ser kSendIntervalMs_def)
qed

lemma state_update_reaches_peer_witness:
  "\<exists>w' ps' entry frame peer' rp.
    SendLocalState demo_json demo_vm demo_offsets 1000 (demo_ws, demo_ps) = Some (w', ps')
    \<and> SerializePacket demo_json STATE_UPDATE (j_obj demo_json [(''players'', j_arr demo_json [entry])]) = Some frame
    \<and> sendQueue w' ! length (sendQueue demo_ws) = frame
    \<and> ApplyStateUpdate demo_json 7 (j_arr demo_json [entry]) PlayerSync_init = Some peer'
    \<and> smap_find ''me'' (remotes peer') = Some rp
    \<and> targetPos rp = \<lparr>vec_x = f32_5, vec_y = f32_0, vec_z = f32_0\<rparr>"
proof -
  obtain w' ps' where s: "SendLocalState demo_json demo_vm demo_offsets 1000 (demo_ws, demo_ps) = Some (w', ps')"
    "sendQueue w' \<noteq> sendQueue demo_ws" using demo_sends by blast
  have "localId PlayerSync_init \<noteq> localId demo_ps" by (simp add: demo_ps_def PlayerSync_init_def)
  from state_update_reaches_peer[OF json_laws_demo s refl this, unfolded demo_base, of 7]
  show ?thesis
    using s(1) demo_gp_finite(2)
    by (auto simp: demo_base demo_reads demo_gameplay vec_finite_def Vec3_zero_def anim_finite_def
        gp_finite_def f32_isfinite_literals demo_ps_def)
qed

lemma send_rate_limit_witness:
  "\<exists>ts. send_trace demo_json demo_offsets [(demo_vm, 1000)] (demo_ws, demo_ps) = Some ts
     \<and> ts = [1000] \<and> sorted_wrt (\<lambda>a b. a + 50 \<le> b) ts \<and> (\<forall>t \<in> set ts. lastSendMs demo_ps + 50 \<le> t)"
proof -
  have tr: "send_trace demo_json demo_offsets [(demo_vm, 1000)] (demo_ws, demo_ps) = Some [1000]"
    using demo_sends by auto
  with send_rate_limit[OF tr] show ?thesis by simp
qed

end
