(* ===== verification/Player_Apply.thy ===== *)
theory Player_Apply
  imports Player_Wire
begin

section \<open>Interpolation weights and traversal modes\<close>

lemma f32_mag_inf: "2 ^ 149 < f32_mag_of_bits f32_inf_bits"
  by (simp add: f32_mag_of_bits_def f32_inf_bits_def)

lemma f32_unit_finite: "f32_unit x \<Longrightarrow> \<not> f32_is_nan x \<and> \<not> f32_is_inf x"
proof
  assume u: "f32_unit x"
  then show "\<not> f32_is_nan x" by (simp add: f32_unit_def f32_le_def)
  from u have n: "0 \<le> f32_num x" "f32_num x \<le> 2 ^ 149" by (simp_all add: f32_unit_def f32_le_def)
  show "\<not> f32_is_inf x"
  proof
    assume "f32_is_inf x"
    then have "\<bar>f32_num x\<bar> = int (f32_mag_of_bits f32_inf_bits)" by (simp add: f32_num_def f32_is_inf_def)
    moreover have "(2 ^ 149 :: int) < int (f32_mag_of_bits f32_inf_bits)"
      using f32_mag_inf by (metis of_nat_less_iff of_nat_numeral of_nat_power)
    ultimately show False using n by linarith
  qed
qed

lemma f32_mul_nonneg:
  assumes "f32_unit x" "\<not> f32_is_nan y" "\<not> f32_is_inf y" "\<not> f32_neg y"
  shows "f32_le f32_0 (f32_mul x y)"
proof -
  let ?b = "f32_round_bits (nat \<bar>f32_num x\<bar> * nat \<bar>f32_num y\<bar>) (2 ^ 149)"
  have x: "\<not> f32_is_nan x" "\<not> f32_is_inf x" "0 \<le> f32_num x"
    using f32_unit_finite[OF assms(1)] assms(1) by (auto simp: f32_unit_def f32_le_def)
  then have m: "f32_mul x y = f32_pack (f32_neg x) ?b" using assms by (simp add: f32_mul_def)
  have "f32_num x = 0" if "f32_neg x" using that x(3) by (simp add: f32_num_def)
  then have "0 \<le> f32_num (f32_mul x y)" using m f32_round_bits_less by auto
  moreover have "\<not> f32_is_nan (f32_mul x y)"
    using m f32_round_bits_less f32_round_bits_le_inf by (simp add: f32_is_nan_def not_less)
  ultimately show ?thesis by (simp add: f32_le_def)
qed

lemma f32_class_2: "\<not> f32_is_nan f32_2" "\<not> f32_is_inf f32_2" "\<not> f32_neg f32_2"
  by (simp_all add: f32_is_nan_def f32_is_inf_def f32_neg_def f32_abs_bits_def f32_inf_bits_def)

text \<open>The interpolation weight of a frame is a number in \<open>[0, 1]\<close>, on the normal and on the
  doubled fallback path, for every pair of times, also when the clock ran backwards; with no time
  elapsed it is 1.\<close>

lemma convergence_unit:
  "f32_unit (convergence nowMs rp fallback)
   \<and> (nowMs = lastUpdateTime rp \<longrightarrow> convergence nowMs rp False = f32_1)"
proof -
  let ?t = "if int nowMs - int (lastUpdateTime rp) \<le> 0 then f32_1
    else f32_min1_quot (nat (int nowMs - int (lastUpdateTime rp))) (if fallback then kFallbackBufferMs else kInterpBufferMs)"
  have "f32_unit ?t" by (simp add: f32_min1_quot_unit)
  then have "f32_unit (f32_min f32_1 (f32_mul ?t f32_2))"
    using f32_mul_nonneg f32_class_2 by (intro f32_min_1_unit) blast
  with \<open>f32_unit ?t\<close> show ?thesis by (simp add: convergence_def Let_def)
qed

lemma convergence_unit_witness:
  "f32_unit (convergence 0 RemotePlayer_init True) \<and> convergence 0 RemotePlayer_init False = f32_1"
  using convergence_unit[of 0 RemotePlayer_init True] by (simp add: RemotePlayer_init_def)

lemma traversal_mode_word:
  "and (drop_bit 24 flags) 0x0F = (of_nat (unat flags div 2 ^ 24 mod 16) :: u32)"
proof -
  have "(0x0F :: u32) = Bit_Operations.mask 4" by (simp add: mask_eq_exp_minus_1)
  then have "and (drop_bit 24 flags) 0x0F = take_bit 4 (drop_bit 24 flags)"
    by (simp add: take_bit_eq_mask)
  then have "unat (and (drop_bit 24 flags) 0x0F) = unat flags div 2 ^ 24 mod 16"
    by (simp add: unsigned_take_bit_eq unsigned_drop_bit_eq take_bit_eq_mod drop_bit_eq_div unat_div_distrib unat_mod_distrib)
  then show ?thesis by (metis of_nat_unat ucast_id)
qed

text \<open>The traversal mode is bits 24 to 27 of the flags word when they name one of the nine
  actions, and \<open>TM_NONE\<close> otherwise; the four bits above are ignored.\<close>

lemma traversal_mode_bits:
  "unat (TraversalModeFromFlags flags) =
     (let n = unat flags div 2 ^ 24 mod 16 in if n \<le> 9 then n else 0)"
proof -
  let ?n = "unat flags div 2 ^ 24 mod 16"
  have "?n < 16" by simp
  then have u: "unat (of_nat ?n :: u32) = ?n" by (simp add: unat_of_nat take_bit_nat_eq_self)
  then show ?thesis
    by (simp add: TraversalModeFromFlags_def traversal_mode_word Let_def TM_LAND_def TM_NONE_def
        word_less_nat_alt not_less)
qed

section \<open>Writing a remote player into its entity\<close>

text \<open>The 4-byte cells of the position, and of everything else \<open>ApplyTraversal\<close> writes.\<close>

definition position_cells :: "GameOffsets \<Rightarrow> addr \<Rightarrow> addr list" where
  "position_cells g e = (let p = e + ucast (offPositionX g) in [p, p + 4, p + 8])"

definition other_cells :: "GameOffsets \<Rightarrow> addr \<Rightarrow> addr list" where
  "other_cells g e = (let v = e + ucast (offVelocityX g) in
     [v, v + 4, v + 8, e + ucast (offHealth g), e + ucast (offMaxHealth g), e + ucast (offMoveFlags g),
      e + ucast (offCombatFlags g), e + ucast (offBlendWeight g), e + ucast (offAnimId g),
      e + ucast (offAnimTime g)])"

definition position_apart :: "GameOffsets \<Rightarrow> addr \<Rightarrow> bool" where
  "position_apart g e \<longleftrightarrow>
     list_all (\<lambda>p. list_all (\<lambda>q. separate q 4 p 4) (other_cells g e)) (position_cells g e)"

lemma ReadVec3_writes:
  assumes "position_apart g e"
  shows "ReadVec3 (WriteVec3 m e (offVelocityX g) v) e (offPositionX g) = ReadVec3 m e (offPositionX g)"
    "ReadVec3 (WriteFloat m e (offHealth g) x) e (offPositionX g) = ReadVec3 m e (offPositionX g)"
    "ReadVec3 (WriteFloat m e (offMaxHealth g) x) e (offPositionX g) = ReadVec3 m e (offPositionX g)"
    "ReadVec3 (WriteU32 m e (offMoveFlags g) u) e (offPositionX g) = ReadVec3 m e (offPositionX g)"
    "ReadVec3 (WriteU32 m e (offCombatFlags g) u) e (offPositionX g) = ReadVec3 m e (offPositionX g)"
    "ReadVec3 (WriteFloat m e (offBlendWeight g) x) e (offPositionX g) = ReadVec3 m e (offPositionX g)"
    "ReadVec3 (WriteInt m e (offAnimId g) i) e (offPositionX g) = ReadVec3 m e (offPositionX g)"
    "ReadVec3 (WriteFloat m e (offAnimTime g) x) e (offPositionX g) = ReadVec3 m e (offPositionX g)"
  using assms
  by (simp_all add: ReadVec3_def WriteVec3_def WriteFloat_def WriteU32_def WriteInt_def Let_def
      position_apart_def position_cells_def other_cells_def cell32.read_write_separate)

lemma ReadVec3_common:
  assumes "position_apart g (entityBase rp)"
  shows "ReadVec3 (writeCommon g rp m) (entityBase rp) (offPositionX g) = ReadVec3 m (entityBase rp) (offPositionX g)"
    "ReadVec3 (writeAnimExact g (entityBase rp) i t m) (entityBase rp) (offPositionX g)
       = ReadVec3 m (entityBase rp) (offPositionX g)"
  by (simp_all add: writeCommon_def writeAnimExact_def Let_def ReadVec3_writes[OF assms])

definition position_writable :: "vm \<Rightarrow> GameOffsets \<Rightarrow> addr \<Rightarrow> bool" where
  "position_writable m g e \<longleftrightarrow> e \<noteq> 0 \<and> list_all (accessible 4 m) (position_cells g e)"

lemma ReadVec3_position:
  "position_writable m g e \<Longrightarrow> ReadVec3 (WriteVec3 m e (offPositionX g) v) e (offPositionX g) = v"
  by (rule ReadVec3_WriteVec3) (simp_all add: position_writable_def position_cells_def Let_def)

text \<open>Climbing, grabbing a ledge and landing do not interpolate: after \<open>ApplyTraversal\<close> the
  remote player's current position, and the position read back from its entity's memory, are
  exactly the target of the last packet.\<close>

lemma traversal_snaps:
  assumes "mode \<in> {TM_CLIMBING, TM_LEDGE_GRAB, TM_LAND}"
    and "position_writable m g (entityBase rp)" "position_apart g (entityBase rp)"
    and "ApplyTraversal g nowMs baseT mode (m, rp) = (m', rp')"
  shows "currentPos rp' = targetPos rp
    \<and> ReadVec3 m' (entityBase rp) (offPositionX g) = targetPos rp"
proof -
  let ?tv = "traversal (gameplay rp)" and ?e = "entityBase rp"
  let ?rp = "rp\<lparr>currentPos := targetPos rp\<rparr>"
  have "rp' = ?rp \<and> m' = writeCommon g ?rp (writeAnimExact g ?e (tv_anim_id ?tv) (tv_anim_time ?tv)
      (WriteVec3 m ?e (offPositionX g) (targetPos rp)))"
    using assms(1,4) by (auto simp: ApplyTraversal_def Let_def TM_defs)
  then show ?thesis
    using ReadVec3_common[of g ?rp] ReadVec3_position[OF assms(2)] assms(3) by simp
qed

definition demo_remote :: RemotePlayer where
  "demo_remote = RemotePlayer_init\<lparr>entityBase := 0x3000, targetPos := \<lparr>vec_x = 5, vec_y = 6, vec_z = 7\<rparr>\<rparr>"

lemma demo_position_ok: "position_writable demo_vm demo_offsets 0x3000" "position_apart demo_offsets 0x3000"
  by (simp_all add: position_writable_def position_apart_def position_cells_def other_cells_def
      demo_fields separate_def accessible_def demo_readable demo_traps)

lemma traversal_snaps_witness:
  "currentPos (snd (ApplyTraversal demo_offsets 0 f32_1 TM_CLIMBING (demo_vm, demo_remote))) = targetPos demo_remote
   \<and> ReadVec3 (fst (ApplyTraversal demo_offsets 0 f32_1 TM_CLIMBING (demo_vm, demo_remote))) (entityBase demo_remote)
       (offPositionX demo_offsets) = targetPos demo_remote"
proof (rule traversal_snaps)
  show "position_writable demo_vm demo_offsets (entityBase demo_remote)"
    "position_apart demo_offsets (entityBase demo_remote)"
    using demo_position_ok by (simp_all add: demo_remote_def)
qed simp_all

section \<open>What every operation keeps: map order, ids, and the empty entity slots\<close>

lemma parse_anim_state_slot: "entityBase rp = e \<Longrightarrow> ensures (\<lambda>r. entityBase r = e) (parse_anim_state J a rp)"
  unfolding parse_anim_state_def Let_def
  by (rule ensures_seq | rule ensures_if | rule ensures_val | rule ensures_Some | (simp; fail))+

lemma update_remote_slot:
  "entityBase rp = e \<Longrightarrow> ensures (\<lambda>r. entityBase r = e) (update_remote J now i p rp)"
  unfolding update_remote_def Let_def
  by (rule ensures_seq | rule parse_anim_state_slot | rule ensures_if | rule ensures_val | rule ensures_Some | (simp; fail))+

text \<open>A well-formed map whose entries have no entity slot.\<close>

definition no_slots :: "(string, RemotePlayer) smap \<Rightarrow> bool" where
  "no_slots rs \<longleftrightarrow> smap_wf rs \<and> (\<forall>(i, rp) \<in> set rs. entityBase rp = 0)"

lemma no_slots_Nil [simp]: "no_slots []"
  by (simp add: no_slots_def)

lemma no_slots_put: "no_slots rs \<Longrightarrow> entityBase rp = 0 \<Longrightarrow> no_slots (smap_put i rp rs)"
  using set_smap_put[of i rp rs] by (fastforce simp: no_slots_def sm.wf_put)

lemma no_slots_erase: "no_slots rs \<Longrightarrow> no_slots (smap_erase i rs)"
  using set_smap_erase_subset[of i rs] by (auto simp: no_slots_def sm.wf_erase)

lemma no_slots_find: "no_slots rs \<Longrightarrow> smap_find i rs = Some rp \<Longrightarrow> entityBase rp = 0"
  by (auto simp: no_slots_def smap_find_mem)

lemma no_slots_get: "no_slots rs \<Longrightarrow> entityBase (smap_get RemotePlayer_init i rs) = 0"
  by (auto simp: smap_get_def RemotePlayer_init_def dest: no_slots_find split: option.splits)

text \<open>The parts of the player sync that only its own setters touch.\<close>

definition ps_frame :: "PlayerSync \<Rightarrow> PlayerSync \<Rightarrow> bool" where
  "ps_frame a b \<longleftrightarrow> ps_client b = ps_client a \<and> localId b = localId a \<and> suspended b = suspended a"

definition ps_ok :: "PlayerSync \<Rightarrow> PlayerSync \<Rightarrow> bool" where
  "ps_ok ps ps' \<longleftrightarrow> no_slots (remotes ps') \<and> ps_frame ps ps'"

lemma ps_ok_refl: "no_slots (remotes ps) \<Longrightarrow> ps_ok ps ps"
  by (simp add: ps_ok_def ps_frame_def)

lemma apply_player_ok: "ps_ok ps0 ps \<Longrightarrow> ensures (ps_ok ps0) (apply_player J now p ps)"
  unfolding apply_player_def
proof (rule ensures_if, rule ensures_Some, assumption, rule ensures_val, rule ensures_if, rule ensures_Some, assumption, rule ensures_val, rule ensures_Some)
  fix i rp
  assume ok: "ps_ok ps0 ps" and u: "update_remote J now i p (smap_get RemotePlayer_init i (remotes ps)) = Some rp"
  then have "entityBase (smap_get RemotePlayer_init i (remotes ps)) = 0"
    by (simp add: no_slots_get ps_ok_def)
  from ensuresD[OF update_remote_slot[OF this] u] ok
  show "ps_ok ps0 (ps\<lparr>remotes := smap_put i rp (remotes ps)\<rparr>)"
    by (simp add: ps_ok_def ps_frame_def no_slots_put)
qed

lemma ApplyStateUpdate_ok: "ps_ok ps0 ps \<Longrightarrow> ensures (ps_ok ps0) (ApplyStateUpdate J now d ps)"
  unfolding ApplyStateUpdate_def
  by (rule ensures_if, rule ensures_Some, assumption, rule ensures_foldM, assumption, rule apply_player_ok)

lemma ApplyAnimationUpdate_ok: "no_slots (remotes ps) \<Longrightarrow> ensures (ps_ok ps) (ApplyAnimationUpdate J i d ps)"
proof (cases "smap_find i (remotes ps)")
  case (Some rp)
  assume ok: "no_slots (remotes ps)"
  then have "entityBase rp = 0" using Some by (rule no_slots_find)
  with ok Some show ?thesis
    by (auto simp: ApplyAnimationUpdate_def ensures_def ps_ok_def ps_frame_def Let_def intro!: no_slots_put)
qed (simp add: ApplyAnimationUpdate_def ensures_def ps_ok_def ps_frame_def)

lemma remote_map_ok:
  "no_slots (remotes ps) \<Longrightarrow> ps_ok ps (AddRemotePlayer i nm ps)"
  "no_slots (remotes ps) \<Longrightarrow> ps_ok ps (RemoveRemotePlayer i ps)"
  "no_slots (remotes ps) \<Longrightarrow> ps_ok ps (SetRemoteCutscene i b ps)"
  "ps_ok ps (PlayerSync_Clear ps)"
  by (auto simp: AddRemotePlayer_def RemoveRemotePlayer_def SetRemoteCutscene_def PlayerSync_Clear_def
      ps_ok_def ps_frame_def Let_def no_slots_get intro!: no_slots_put no_slots_erase
      dest: no_slots_find split: option.splits)

lemma SendLocalState_ok:
  "SendLocalState J m g now (w, ps) = Some (w', ps') \<Longrightarrow> no_slots (remotes ps) \<Longrightarrow> ps_ok ps ps'"
  by (auto simp: SendLocalState_def Let_def ps_ok_def ps_frame_def split: if_splits)

lemma apply_remote_no_slot:
  "entityBase rp = 0 \<Longrightarrow> fst (apply_remote g now (m, rp)) = m \<and> entityBase (snd (apply_remote g now (m, rp))) = 0"
  by (simp add: apply_remote_def split: prod.splits)

lemma apply_remotes_no_slots:
  "\<forall>(i, rp) \<in> set rs. entityBase rp = 0 \<Longrightarrow> apply_remotes g now (m, rs) = (m', rs') \<Longrightarrow>
     m' = m \<and> map fst rs' = map fst rs \<and> (\<forall>(i, rp) \<in> set rs'. entityBase rp = 0)"
proof (induction rs arbitrary: m m' rs')
  case (Cons r rs)
  obtain i rp where r: "r = (i, rp)" by force
  have e: "fst (apply_remote g now (m, rp)) = m" "entityBase (snd (apply_remote g now (m, rp))) = 0"
    using apply_remote_no_slot Cons.prems(1) by (auto simp: r)
  obtain m2 rs2 where r2: "apply_remotes g now (m, rs) = (m2, rs2)" by force
  with Cons.IH[OF _ r2] Cons.prems e show ?case
    by (cases "apply_remote g now (m, rp)") (auto simp: r)
qed simp

lemma ApplyRemoteState_no_slots:
  assumes "ApplyRemoteState g now (m, ps) = (m', ps')" "no_slots (remotes ps)"
  shows "m' = m \<and> ps_ok ps ps'"
proof -
  obtain m1 rs where r: "apply_remotes g now (m, remotes ps) = (m1, rs)" by force
  from assms(2) have "\<forall>(i, rp) \<in> set (remotes ps). entityBase rp = 0" by (simp add: no_slots_def)
  from apply_remotes_no_slots[OF this r] assms r show ?thesis
    by (auto simp: ApplyRemoteState_def ps_ok_def ps_frame_def no_slots_def smap_wf_def)
qed

lemma PlayerSync_Tick_ok:
  assumes "PlayerSync_Tick J g now (m, w, ps) = Some (m', w', ps')" "no_slots (remotes ps)"
  shows "m' = m \<and> ps_ok ps ps'"
proof -
  from assms(1) obtain w1 ps1 where s1: "SendLocalState J m g now (w, ps) = Some (w1, ps1)"
    by (auto simp: PlayerSync_Tick_def Let_def)
  with assms(1) have s: "SendLocalState J m g now (w, ps) = Some (w', ps1)"
    and a: "ApplyRemoteState g now (m, ps1) = (m', ps')"
    by (cases "ApplyRemoteState g now (m, ps1)"; simp add: PlayerSync_Tick_def Let_def)+
  from SendLocalState_ok[OF s assms(2)] have ok: "ps_ok ps ps1" .
  with ApplyRemoteState_no_slots[OF a] show ?thesis by (auto simp: ps_ok_def ps_frame_def)
qed

end
