(* ===== verification/Player_Live.thy ===== *)
theory Player_Live
  imports Player_Apply
begin

text \<open>
  Liveness of the 20 Hz sender of \<open>PlayerSync::SendLocalState\<close>: a change is not only sent at most
  every 50 ms, it is sent.
\<close>

lemma SendLocalState_moved:
  assumes "SendLocalState J m g now (w, ps) = Some (w', ps')"
    and "ps_client ps" "IsConnected w" "\<not> suspended ps" "lastSendMs ps + 50 \<le> now"
    and "base = GetLocalPlayerBase m g" "base \<noteq> 0" "playerLayoutResolved g"
    and "VecDiff (ReadVec3 m base (offPositionX g)) (lastPos ps) f32_0_01"
  shows "sendQueue w' \<noteq> sendQueue w \<and> lastSendMs ps' = now
    \<and> lastPos ps' = ReadVec3 m base (offPositionX g)"
  using assms by (auto simp: SendLocalState_def Let_def kSendIntervalMs_def Send_def split: if_splits)

text \<open>C15: a player who moved is sent: in the first frame at least 50 ms after the last update, when the
  local player is in memory more than a centimetre from where it was last sent and the sync is neither
  suspended nor disconnected, the tick puts a \<open>STATE_UPDATE\<close> with the local player as its only entry at
  the end of the queue, unless encoding it throws, and remembers the position it has sent. Packets
  already queued stay in front.\<close>

lemma moved_player_is_sent:
  assumes "PlayerSync_Tick J g now (m, w, ps) = Some (m', w', ps')"
    and "ps_client ps" "IsConnected w" "\<not> suspended ps" "lastSendMs ps + 50 \<le> now"
    and "base = GetLocalPlayerBase m g" "base \<noteq> 0" "playerLayoutResolved g"
    and "VecDiff (ReadVec3 m base (offPositionX g)) (lastPos ps) f32_0_01"
  shows "\<exists>frame rest. sendQueue w' = sendQueue w @ frame # rest \<and> length rest \<le> 1
    \<and> SerializePacket J STATE_UPDATE (j_obj J [(''players'', j_arr J [EmitGameplayJson J
        (player_json J (localId ps) (ReadVec3 m base (offPositionX g))
           (ReadFloat m base (offRotationYaw g)) (ReadFloat m base (offRotationPitch g))
           (ReadVec3 m base (offVelocityX g)) (ReadFloat m base (offHealth g))
           (ReadFloat m base (offMaxHealth g)) (read_anim m g base)) (ReadLocalGameplay m g base)])]) = Some frame
    \<and> lastSendMs ps' = now \<and> lastPos ps' = ReadVec3 m base (offPositionX g)"
proof -
  obtain ps1 where s: "SendLocalState J m g now (w, ps) = Some (w', ps1)"
    and "ApplyRemoteState g now (m, ps1) = (m', ps')"
    using assms(1) by (auto simp: PlayerSync_Tick_def split_beta split: bind_splits)
  then have "lastSendMs ps' = lastSendMs ps1 \<and> lastPos ps' = lastPos ps1"
    by (auto simp: ApplyRemoteState_def Let_def split: prod.splits if_splits)
  moreover note SendLocalState_moved[OF s assms(2-9)]
  ultimately show ?thesis using SendLocalState_sent[OF s] assms(6) by auto
qed

lemma moved_player_is_sent_witness:
  "\<exists>m' w' ps' frame rest. PlayerSync_Tick demo_json demo_offsets 1000 (demo_vm, demo_ws, demo_ps) = Some (m', w', ps')
     \<and> sendQueue w' = sendQueue demo_ws @ frame # rest
     \<and> lastPos ps' = \<lparr>vec_x = f32_5, vec_y = f32_0, vec_z = f32_0\<rparr>"
proof -
  obtain w1 ps1 where "SendLocalState demo_json demo_vm demo_offsets 1000 (demo_ws, demo_ps) = Some (w1, ps1)"
    using demo_sends by blast
  then obtain m' w' ps' where t: "PlayerSync_Tick demo_json demo_offsets 1000 (demo_vm, demo_ws, demo_ps) = Some (m', w', ps')"
    by (cases "ApplyRemoteState demo_offsets 1000 (demo_vm, ps1)") (simp add: PlayerSync_Tick_def)
  have "playerLayoutResolved demo_offsets" by (simp add: playerLayoutResolved_def demo_fields)
  moreover have "ps_client demo_ps" "IsConnected demo_ws" "\<not> suspended demo_ps" "lastSendMs demo_ps + 50 \<le> 1000"
    "lastPos demo_ps = Vec3_zero"
    by (simp_all add: demo_ps_def demo_ws_def PlayerSync_init_def IsConnected_def)
  ultimately show ?thesis
    using moved_player_is_sent[OF t, of "GetLocalPlayerBase demo_vm demo_offsets"] demo_moved t
    by (auto simp: demo_base demo_reads)
qed

end
