(* ===== verification/Hooks.thy ===== *)
theory Hooks
  imports Prelude
begin

text \<open>
  MinHook is fetched at build time and is no part of the repository: whether a call on a target
  returns \<open>MH_OK\<close> is a parameter \<open>mh\<close> of the operations that install hooks, and the calls made
  are recorded in order. \<open>install_hook\<close> is the create-then-enable sequence every
  subsystem performs.
\<close>

datatype hook_call =
  MH_CreateHook addr | MH_EnableHook addr | MH_DisableHook addr | MH_Uninitialize

type_synonym minhook = "hook_call \<Rightarrow> bool"

definition install_hook :: "minhook \<Rightarrow> addr \<Rightarrow> hook_call list \<Rightarrow> bool \<times> hook_call list" where
  "install_hook mh target calls =
     (if \<not> mh (MH_CreateHook target) then (False, calls @ [MH_CreateHook target])
      else if \<not> mh (MH_EnableHook target)
        then (False, calls @ [MH_CreateHook target, MH_EnableHook target])
      else (True, calls @ [MH_CreateHook target, MH_EnableHook target]))"

text \<open>
  The code of a target is redirected after an enable that succeeded, until it is disabled or
  MinHook is shut down, which disables every hook.
\<close>

fun hook_live :: "minhook \<Rightarrow> addr \<Rightarrow> hook_call list \<Rightarrow> bool" where
  "hook_live mh a [] = False"
| "hook_live mh a (c # calls) =
     (case c of
        MH_EnableHook b \<Rightarrow> (b = a \<and> mh c \<and> (\<forall>d \<in> set calls. d \<noteq> MH_DisableHook a \<and> d \<noteq> MH_Uninitialize)) \<or> hook_live mh a calls
      | _ \<Rightarrow> hook_live mh a calls)"

lemma hook_live_append_create [simp]:
  "hook_live mh a (calls @ [MH_CreateHook b]) = hook_live mh a calls"
  by (induction calls) (auto split: hook_call.splits)

lemma hook_live_append_enable [simp]:
  "hook_live mh a (calls @ [MH_EnableHook b]) =
     (hook_live mh a calls \<or> a = b \<and> mh (MH_EnableHook b))"
  by (induction calls) (auto split: hook_call.splits)

lemma hook_live_append_disable [simp]:
  "hook_live mh a (calls @ [MH_DisableHook b]) = (hook_live mh a calls \<and> a \<noteq> b)"
  by (induction calls) (auto split: hook_call.splits)

lemma hook_live_append_uninit [simp]: "\<not> hook_live mh a (calls @ [MH_Uninitialize])"
  by (induction calls) (auto split: hook_call.splits)

lemma hook_live_append_install [simp]:
  "hook_live mh a (calls @ [MH_CreateHook b, MH_EnableHook b]) =
     (hook_live mh a calls \<or> a = b \<and> mh (MH_EnableHook b))"
  using hook_live_append_enable[of mh a "calls @ [MH_CreateHook b]" b] by simp

lemma install_hook_live:
  "install_hook mh t calls = (ok, calls') \<Longrightarrow>
     hook_live mh a calls' = (hook_live mh a calls \<or> a = t \<and> ok)"
  by (auto simp: install_hook_def split: if_splits)

end
