(* ===== verification/Combat_Sync.thy ===== *)
theory Combat_Sync
  imports Player_Sync Hooks
begin

text \<open>
  \<open>client/src/sync/combat_sync.{h,cpp}\<close>: attack and skill RPCs, host-side damage, the guests'
  mirrors of enemies, loot notifications, and the two hook trampolines. \<open>std::sin\<close> and
  \<open>std::cos\<close> are parameters; the hooked game functions are functions on the game's memory.
\<close>

section \<open>State\<close>

record EnemyMirror =
  em_id :: string
  em_health :: f32
  em_maxHealth :: f32
  em_position :: Vec3
  em_anim_id :: i32
  em_entityBase :: addr

definition EnemyMirror_init :: EnemyMirror where
  "EnemyMirror_init = \<lparr>em_id = [], em_health = f32_0, em_maxHealth = f32_0,
     em_position = Vec3_zero, em_anim_id = 0, em_entityBase = 0\<rparr>"

record CombatSync =
  cs_client :: bool
  cs_isHost :: bool
  hooksInstalled :: bool
  cs_localId :: string
  enemies :: "(string, EnemyMirror) smap"
  remoteResolver :: bool \<comment> \<open>set; it is \<open>GetRemoteEntityBase\<close> of the session's players\<close>

definition CombatSync_init :: CombatSync where
  "CombatSync_init = \<lparr>cs_client = False, cs_isHost = False, hooksInstalled = False,
     cs_localId = [], enemies = [], remoteResolver = False\<rparr>"

definition CombatSync_SetHost :: "bool \<Rightarrow> CombatSync \<Rightarrow> CombatSync" where
  "CombatSync_SetHost b cs = cs\<lparr>cs_isHost := b\<rparr>"

definition CombatSync_SetLocalId :: "string \<Rightarrow> CombatSync \<Rightarrow> CombatSync" where
  "CombatSync_SetLocalId i cs = cs\<lparr>cs_localId := i\<rparr>"

section \<open>Hooks\<close>

definition InstallHooks ::
  "minhook \<Rightarrow> GameOffsets \<Rightarrow> CombatSync \<times> hook_call list \<Rightarrow> bool \<times> CombatSync \<times> hook_call list" where
  "InstallHooks mh g st =
     (let (cs, calls) = st
      in if hooksInstalled cs then (True, cs, calls)
         else if attackTriggerFn g = 0 then (False, cs, calls)
         else case install_hook mh (attackTriggerFn g) calls of
           (False, calls) \<Rightarrow> (False, cs, calls)
         | (True, calls) \<Rightarrow>
             let cs = cs\<lparr>hooksInstalled := True\<rparr>
             in if skillTriggerFn g \<noteq> 0
                then (True, cs, snd (install_hook mh (skillTriggerFn g) calls))
                else (True, cs, calls))"

definition RemoveHooks ::
  "GameOffsets \<Rightarrow> CombatSync \<times> hook_call list \<Rightarrow> CombatSync \<times> hook_call list" where
  "RemoveHooks g st =
     (let (cs, calls) = st
      in if \<not> hooksInstalled cs then (cs, calls)
         else
           let calls = calls @ [MH_DisableHook (attackTriggerFn g)];
               calls = (if skillTriggerFn g \<noteq> 0 then calls @ [MH_DisableHook (skillTriggerFn g)]
                        else calls)
           in (cs\<lparr>hooksInstalled := False\<rparr>, calls))"

section \<open>Local actions\<close>

definition attack_json :: "'j json_lib \<Rightarrow> i32 \<Rightarrow> Vec3 \<Rightarrow> u64 \<Rightarrow> 'j" where
  "attack_json J animId direction targetEntityId =
     j_obj J [(''type'', j_str J ''attack''), (''anim_id'', j_i32 J animId),
       (''direction'', j_xyz J (vec_x direction) (vec_y direction) (vec_z direction)),
       (''targetEntityId'', j_int J (uint targetEntityId))]"

definition OnLocalAttack ::
  "'j json_lib \<Rightarrow> i32 \<Rightarrow> Vec3 \<Rightarrow> u64 \<Rightarrow> CombatSync \<Rightarrow> WsClient \<Rightarrow> WsClient option" where
  "OnLocalAttack J animId direction targetEntityId cs w =
     (if \<not> cs_client cs \<or> \<not> IsConnected w then Some w
      else Send J RPC_CALL (attack_json J animId direction targetEntityId) w)"

definition skill_json :: "'j json_lib \<Rightarrow> i32 \<Rightarrow> i32 \<Rightarrow> Vec3 \<Rightarrow> i32 \<Rightarrow> 'j" where
  "skill_json J skillId phase tp targetEntity =
     j_obj J [(''type'', j_str J ''skill''), (''skillId'', j_i32 J skillId),
       (''phase'', j_i32 J phase),
       (''targetPos'', j_xyz J (vec_x tp) (vec_y tp) (vec_z tp)),
       (''targetEntity'', j_i32 J targetEntity)]"

definition OnLocalSkill ::
  "'j json_lib \<Rightarrow> i32 \<Rightarrow> i32 \<Rightarrow> Vec3 \<Rightarrow> i32 \<Rightarrow> CombatSync \<Rightarrow> WsClient \<Rightarrow> WsClient option" where
  "OnLocalSkill J skillId phase tp targetEntity cs w =
     (if \<not> cs_client cs \<or> \<not> IsConnected w then Some w
      else Send J RPC_CALL (skill_json J skillId phase tp targetEntity) w)"

definition HookedAttack ::
  "'j json_lib \<Rightarrow> (f32 \<Rightarrow> f32) \<Rightarrow> (f32 \<Rightarrow> f32) \<Rightarrow> GameOffsets \<Rightarrow> (vm \<Rightarrow> vm) \<Rightarrow> CombatSync
    \<Rightarrow> vm \<times> WsClient \<Rightarrow> (vm \<times> WsClient) option" where
  "HookedAttack J sinf cosf g origAttack cs st =
     (let (m, w) = st; base = GetLocalPlayerBase m g
      in do { w \<leftarrow> (if base \<noteq> 0 then
                      let animId = ReadInt m base (offAnimId g);
                          yaw = ReadFloat m base (offRotationYaw g);
                          dir = \<lparr>vec_x = sinf yaw, vec_y = f32_0, vec_z = cosf yaw\<rparr>
                      in OnLocalAttack J animId dir 0 cs w
                    else Some w);
              Some (origAttack m, w) })"

definition HookedSkill ::
  "'j json_lib \<Rightarrow> GameOffsets \<Rightarrow> (i32 \<Rightarrow> vm \<Rightarrow> vm) \<Rightarrow> i32 \<Rightarrow> CombatSync
    \<Rightarrow> vm \<times> WsClient \<Rightarrow> (vm \<times> WsClient) option" where
  "HookedSkill J g origSkill skillId cs st =
     (let (m, w) = st; base = GetLocalPlayerBase m g
      in do { w \<leftarrow> (if base \<noteq> 0 then
                      let (phase, targetEntity, tp) =
                        (if skillComponentOffset g \<noteq> 0 then
                           let sc = base + ucast (skillComponentOffset g)
                           in (ReadInt m sc 0x04, ReadInt m sc 0x0C, ReadVec3 m sc 0x10)
                         else (0, 0, Vec3_zero))
                      in OnLocalSkill J skillId phase tp targetEntity cs w
                    else Some w);
              Some (origSkill skillId m, w) })"

section \<open>Incoming RPCs\<close>

definition HandleSkillRpc ::
  "'j json_lib \<Rightarrow> GameOffsets \<Rightarrow> (string \<Rightarrow> addr) \<Rightarrow> 'j \<Rightarrow> CombatSync \<Rightarrow> vm \<Rightarrow> vm option" where
  "HandleSkillRpc J g resolver rpc cs m =
     do { src \<leftarrow> value_str J rpc ''sourceId'' [];
          (if src = [] \<or> src = cs_localId cs \<or> \<not> remoteResolver cs then Some m
           else
             let base = resolver src
             in if base = 0 \<or> skillComponentOffset g = 0 \<or> \<not> IsReadable m base 0x800 then Some m
                else
                  do { skillId \<leftarrow> value_i32 J rpc ''skillId'' 0;
                       phase \<leftarrow> value_i32 J rpc ''phase'' 0;
                       targetEntity \<leftarrow> value_i32 J rpc ''targetEntity'' 0;
                       tp \<leftarrow> (if j_contains J rpc ''targetPos''
                              then value_xyz J (j_at J rpc ''targetPos'') else Some Vec3_zero);
                       let sc = base + ucast (skillComponentOffset g);
                       let m = WriteInt m sc 0x00 skillId;
                       let m = WriteInt m sc 0x04 phase;
                       let m = WriteInt m sc 0x0C targetEntity;
                       Some (WriteVec3 m sc 0x10 tp) }) }"

definition trunc_rem :: "int \<Rightarrow> int \<Rightarrow> int" where \<comment> \<open>\<open>%\<close> of C++\<close>
  "trunc_rem a b = (if a < 0 then - ((- a) mod b) else a mod b)"

definition attack_damage :: "i32 \<Rightarrow> f32" where
  "attack_damage animId = f32_add f32_10 (f32_mul (f32_of_int (trunc_rem (sint animId) 5)) f32_2)"

definition damage_json :: "'j json_lib \<Rightarrow> string \<Rightarrow> u64 \<Rightarrow> f32 \<Rightarrow> i32 \<Rightarrow> 'j" where
  "damage_json J src targetId damage animId =
     j_obj J [(''type'', j_str J ''damage''), (''sourceId'', j_str J src),
       (''targetEntityId'', j_int J (uint targetId)), (''damage'', j_f32 J damage),
       (''anim_id'', j_i32 J animId)]"

text \<open>\<open>client_\<close> is dereferenced without a test: a null pointer is a crash.\<close>

definition HandleAttackRpc :: "'j json_lib \<Rightarrow> 'j \<Rightarrow> CombatSync \<Rightarrow> WsClient \<Rightarrow> WsClient option" where
  "HandleAttackRpc J rpc cs w =
     (if \<not> cs_isHost cs then Some w
      else do { src \<leftarrow> value_str J rpc ''sourceId'' [];
                targetId \<leftarrow> value_u64 J rpc ''targetEntityId'' 0;
                animId \<leftarrow> value_i32 J rpc ''anim_id'' 0;
                let damage = attack_damage animId;
                (if cs_client cs then Send J RPC_CALL (damage_json J src targetId damage animId) w
                 else None) })"

fun damage_first ::
  "GameOffsets \<Rightarrow> u64 \<Rightarrow> f32 \<Rightarrow> vm \<times> (string, EnemyMirror) smap \<Rightarrow> vm \<times> (string, EnemyMirror) smap" where
  "damage_first g targetId damage (m, []) = (m, [])"
| "damage_first g targetId damage (m, (i, e) # es) =
     (if em_entityBase e \<noteq> 0 \<and> ReadU64 m (em_entityBase e) (offEntityId g) = targetId then
        let e = e\<lparr>em_health := f32_max f32_0 (f32_sub (em_health e) damage)\<rparr>
        in (WriteFloat m (em_entityBase e) (offHealth g) (em_health e), (i, e) # es)
      else let (m, es) = damage_first g targetId damage (m, es) in (m, (i, e) # es))"

definition HandleDamageRpc ::
  "'j json_lib \<Rightarrow> GameOffsets \<Rightarrow> 'j \<Rightarrow> vm \<times> CombatSync \<Rightarrow> (vm \<times> CombatSync) option" where
  "HandleDamageRpc J g rpc st =
     (let (m, cs) = st
      in do { targetId \<leftarrow> value_u64 J rpc ''targetEntityId'' 0;
              damage \<leftarrow> value_f32 J rpc ''damage'' f32_0;
              let (m, es) = damage_first g targetId damage (m, enemies cs);
              Some (m, cs\<lparr>enemies := es\<rparr>) })"

definition mirror_enemy :: "GameOffsets \<Rightarrow> EnemyMirror \<Rightarrow> vm \<Rightarrow> vm" where
  "mirror_enemy g e m =
     (if em_entityBase e \<noteq> 0 \<and> IsReadable m (em_entityBase e) 0x400 then
        let b = em_entityBase e;
            m = WriteVec3 m b (offPositionX g) (em_position e);
            m = WriteFloat m b (offHealth g) (em_health e);
            m = WriteFloat m b (offMaxHealth g) (em_maxHealth e);
            m = WriteInt m b (offAnimId g) (em_anim_id e)
        in if f32_le (em_health e) f32_0 then WriteU32 m b (offCombatFlags g) 0 else m
      else m)"

definition update_enemy ::
  "'j json_lib \<Rightarrow> GameOffsets \<Rightarrow> 'j \<Rightarrow> vm \<times> CombatSync \<Rightarrow> (vm \<times> CombatSync) option" where
  "update_enemy J g e st =
     (let (m, cs) = st
      in do { i \<leftarrow> value_str J e ''id'' [];
              (if i = [] then Some (m, cs)
               else
                 do { let en = (smap_get EnemyMirror_init i (enemies cs))\<lparr>em_id := i\<rparr>;
                      h \<leftarrow> value_f32 J e ''health'' (em_health en);
                      let en = en\<lparr>em_health := h\<rparr>;
                      mh \<leftarrow> value_f32 J e ''maxHealth'' (em_maxHealth en);
                      let en = en\<lparr>em_maxHealth := mh\<rparr>;
                      en \<leftarrow> (if j_contains J e ''position'' then
                               do { v \<leftarrow> value_xyz J (j_at J e ''position'');
                                    Some (en\<lparr>em_position := v\<rparr>) }
                             else Some en);
                      en \<leftarrow> (if j_contains J e ''animState'' then
                               do { a \<leftarrow> value_i32 J (j_at J e ''animState'') ''anim_id'' (em_anim_id en);
                                    Some (en\<lparr>em_anim_id := a\<rparr>) }
                             else Some en);
                      Some (mirror_enemy g en m, cs\<lparr>enemies := smap_put i en (enemies cs)\<rparr>) }) })"

definition HandleEnemyUpdate ::
  "'j json_lib \<Rightarrow> GameOffsets \<Rightarrow> 'j \<Rightarrow> vm \<times> CombatSync \<Rightarrow> (vm \<times> CombatSync) option" where
  "HandleEnemyUpdate J g rpc st =
     (let (m, cs) = st
      in if cs_isHost cs then Some (m, cs)
         else if \<not> j_contains J rpc ''enemies'' \<or> \<not> j_is_array J (j_at J rpc ''enemies'') then Some (m, cs)
         else foldM (update_enemy J g) (j_elems J (j_at J rpc ''enemies'')) (m, cs))"

section \<open>Loot\<close>

definition NotifyLootTaken :: "'j json_lib \<Rightarrow> string \<Rightarrow> CombatSync \<Rightarrow> WsClient \<Rightarrow> WsClient option" where
  "NotifyLootTaken J lootId cs w =
     (if \<not> cs_isHost cs \<or> \<not> cs_client cs then Some w
      else Send J LOOT_TAKEN
             (j_obj J [(''lootId'', j_str J lootId), (''playerId'', j_str J (cs_localId cs))]) w)"

definition HandleLootTaken :: "'j json_lib \<Rightarrow> 'j \<Rightarrow> CombatSync \<Rightarrow> CombatSync option" where
  "HandleLootTaken J payload cs = do { lootId \<leftarrow> value_str J payload ''lootId'' []; Some cs }"

end
