(* ===== verification/Client_State.thy ===== *)
theory Client_State
  imports Player_Sync Combat_Sync
begin

text \<open>
  The state of the plugin inside the game process: the singletons of the C++ program (\<open>Session\<close>
  of \<open>session.h\<close>, \<open>CutsceneSync\<close>, \<open>PuzzleSync\<close>, \<open>Modal\<close>, \<open>InventoryHook\<close>, \<open>CombatSync\<close>,
  \<open>g_offsets\<close>) and the game's memory, gathered in one record. The parts are declared here, before
  the handlers, because the subsystems call each other: a cutscene suspends the player sync and
  closes the modal, a puzzle asks the session for the local id.
\<close>

datatype SessionStatus = Disconnected | Connecting | Connected | InSession | Failed

record Session =
  ss_client :: bool \<comment> \<open>\<open>client_ != nullptr\<close>\<close>
  status :: SessionStatus
  isHost :: bool
  friendlyFire :: bool
  wantCreate :: bool
  cutsceneActive :: bool
  ss_localId :: string
  playerName :: string
  pendingSessionName :: string
  pendingPassword :: string
  pendingInviteCode :: string
  inviteCode :: string
  serverName :: string
  lastError :: string
  lastPingMs :: nat

definition Session_init :: Session where
  "Session_init = \<lparr>ss_client = False, status = Disconnected, isHost = False, friendlyFire = False,
     wantCreate = False, cutsceneActive = False, ss_localId = [], playerName = ''Player'',
     pendingSessionName = [], pendingPassword = [], pendingInviteCode = [], inviteCode = [],
     serverName = [], lastError = [], lastPingMs = 0\<rparr>"

record CutsceneSync =
  cu_active :: bool
  cu_hookInstalled :: bool
  pollFallback :: bool
  cinematicFlagAddr :: addr
  lastPollMs :: nat
  lastPolledFlag :: bool

definition CutsceneSync_init :: CutsceneSync where
  "CutsceneSync_init = \<lparr>cu_active = False, cu_hookInstalled = False, pollFallback = False,
     cinematicFlagAddr = 0, lastPollMs = 0, lastPolledFlag = False\<rparr>"

text \<open>\<open>tokenTimeRemaining_\<close> is an \<open>int\<close> whose value is kept as an integer; \<open>Tick\<close> writes out
  the conversion of the elapsed time.\<close>

record PuzzleSync =
  puzzleActive :: bool
  pz_hookInstalled :: bool
  tokenTimeRemaining :: i32
  puzzleId :: string
  controllerId :: string
  pz_queue :: "string list"
  lastTickMs :: nat

definition PuzzleSync_init :: PuzzleSync where
  "PuzzleSync_init = \<lparr>puzzleActive = False, pz_hookInstalled = False, tokenTimeRemaining = 0,
     puzzleId = [], controllerId = [], pz_queue = [], lastTickMs = 0\<rparr>"

datatype ModalState = CLOSED | MAIN_MENU | HOST_SETUP | JOIN_SETUP | IN_SESSION

record Modal =
  modal_state :: ModalState
  themeApplied :: bool
  serverHost :: string
  serverPort :: i32
  md_sessionName :: string
  md_password :: string
  md_inviteCode :: string

definition Modal_init :: Modal where
  "Modal_init = \<lparr>modal_state = CLOSED, themeApplied = False, serverHost = ''127.0.0.1'',
     serverPort = 7777, md_sessionName = [], md_password = [], md_inviteCode = []\<rparr>"

record InventoryHook =
  inv_fallback :: bool
  beaconAppended :: bool

definition InventoryHook_init :: InventoryHook where
  "InventoryHook_init = \<lparr>inv_fallback = False, beaconAppended = False\<rparr>"

record Client =
  cl_vm :: vm
  cl_offsets :: GameOffsets
  cl_ws :: WsClient
  cl_session :: Session
  cl_players :: PlayerSync
  cl_combat :: CombatSync
  cl_cutscene :: CutsceneSync
  cl_puzzle :: PuzzleSync
  cl_modal :: Modal
  cl_inventory :: InventoryHook
  cl_hooks :: "hook_call list"

definition Client_init :: "vm \<Rightarrow> GameOffsets \<Rightarrow> Client" where
  "Client_init m g = \<lparr>cl_vm = m, cl_offsets = g, cl_ws = WsClient_init, cl_session = Session_init,
     cl_players = PlayerSync_init, cl_combat = CombatSync_init, cl_cutscene = CutsceneSync_init,
     cl_puzzle = PuzzleSync_init, cl_modal = Modal_init, cl_inventory = InventoryHook_init,
     cl_hooks = []\<rparr>"

text \<open>\<open>client_->Send\<close> as the subsystems call it, on the whole record.\<close>

definition client_send :: "'j json_lib \<Rightarrow> PacketType \<Rightarrow> 'j \<Rightarrow> Client \<Rightarrow> Client option" where
  "client_send J ty payload c = do { w \<leftarrow> Send J ty payload (cl_ws c); Some (c\<lparr>cl_ws := w\<rparr>) }"

section \<open>Modal: the state machine behind the overlay (\<open>client/src/ui/modal.cpp\<close>)\<close>

definition Modal_IsOpen :: "Modal \<Rightarrow> bool" where
  "Modal_IsOpen md \<longleftrightarrow> modal_state md \<noteq> CLOSED"

definition Modal_Open :: "SessionStatus \<Rightarrow> Modal \<Rightarrow> Modal" where
  "Modal_Open st md =
     (if modal_state md = CLOSED
      then md\<lparr>modal_state := (if st = InSession then IN_SESSION else MAIN_MENU)\<rparr> else md)"

definition Modal_Close :: "Modal \<Rightarrow> Modal" where
  "Modal_Close md = md\<lparr>modal_state := CLOSED\<rparr>"

definition Modal_Toggle :: "SessionStatus \<Rightarrow> Modal \<Rightarrow> Modal" where
  "Modal_Toggle st md = (if Modal_IsOpen md then Modal_Close md else Modal_Open st md)"

end
