(* ===== verification/Puzzle_Sync.thy ===== *)
theory Puzzle_Sync
  imports Client_State
begin

text \<open>
  \<open>client/src/sync/puzzle_sync.{h,cpp}\<close>: which player may give input to a shared puzzle. The
  server rotates a control token; this component mirrors it, decays the displayed countdown,
  gates the engine's input function through a hook, and lets the holder pass the token on.
\<close>

definition ScanForPuzzleHook :: "GameOffsets \<Rightarrow> bool" where
  "ScanForPuzzleHook g \<longleftrightarrow> puzzleInputFn g \<noteq> 0"

definition HookPuzzleInput :: "minhook \<Rightarrow> Client \<Rightarrow> bool \<times> Client" where
  "HookPuzzleInput mh c =
     (if \<not> ScanForPuzzleHook (cl_offsets c) then (False, c)
      else case install_hook mh (puzzleInputFn (cl_offsets c)) (cl_hooks c) of
        (False, calls) \<Rightarrow> (False, c\<lparr>cl_hooks := calls\<rparr>)
      | (True, calls) \<Rightarrow>
          (True, c\<lparr>cl_hooks := calls, cl_puzzle := (cl_puzzle c)\<lparr>pz_hookInstalled := True\<rparr>\<rparr>))"

definition PuzzleSync_Init :: "minhook \<Rightarrow> Client \<Rightarrow> Client" where
  "PuzzleSync_Init mh c = snd (HookPuzzleInput mh c)"

definition PuzzleSync_Shutdown :: "Client \<Rightarrow> Client" where
  "PuzzleSync_Shutdown c =
     (if pz_hookInstalled (cl_puzzle c) \<and> puzzleInputFn (cl_offsets c) \<noteq> 0 then
        c\<lparr>cl_hooks := cl_hooks c @ [MH_DisableHook (puzzleInputFn (cl_offsets c))],
          cl_puzzle := (cl_puzzle c)\<lparr>pz_hookInstalled := False\<rparr>\<rparr>
      else c)"

definition DetectPuzzleStart :: "GameOffsets \<Rightarrow> bool" where
  "DetectPuzzleStart g = (if puzzleTriggerFn g = 0 then False else False)"

text \<open>
  \<open>static_cast<int>(dt)\<close> of a \<open>double\<close> outside the range of \<open>int\<close> gives \<open>0x80000000\<close> on x64
  (\<open>cvttsd2si\<close>); the subtraction is on 32 bits.
\<close>

definition int_of_double :: "int \<Rightarrow> i32" where
  "int_of_double d = (if - (2 ^ 31) \<le> d \<and> d < 2 ^ 31 then word_of_int d else 0x80000000)"

definition PuzzleSync_Tick :: "GameOffsets \<Rightarrow> nat \<Rightarrow> PuzzleSync \<Rightarrow> PuzzleSync" where
  "PuzzleSync_Tick g nowMs pz =
     (let pz = (if lastTickMs pz = 0 then pz\<lparr>lastTickMs := nowMs\<rparr> else pz);
          dt = int nowMs - int (lastTickMs pz);
          pz = pz\<lparr>lastTickMs := nowMs\<rparr>
      in if puzzleActive pz \<and> 0 < dt then
           let rem = tokenTimeRemaining pz; rem = rem - int_of_double dt
           in pz\<lparr>tokenTimeRemaining := (if rem <s 0 then 0 else rem)\<rparr>
         else let _ = DetectPuzzleStart g in pz)"

definition OnPuzzleStart :: "string \<Rightarrow> PuzzleSync \<Rightarrow> PuzzleSync" where
  "OnPuzzleStart i pz =
     (let pz = pz\<lparr>puzzleId := i, controllerId := [], pz_queue := []\<rparr>
      in pz\<lparr>puzzleActive := True, tokenTimeRemaining := 0\<rparr>)"

definition OnPuzzleToken :: "string \<Rightarrow> string \<Rightarrow> i32 \<Rightarrow> string list \<Rightarrow> PuzzleSync \<Rightarrow> PuzzleSync" where
  "OnPuzzleToken i ctrl remainingMs q pz =
     (let pz = pz\<lparr>puzzleId := i, controllerId := ctrl, pz_queue := q\<rparr>
      in pz\<lparr>puzzleActive := True,
            tokenTimeRemaining := (if remainingMs <s 0 then 0 else remainingMs)\<rparr>)"

definition OnPuzzleEnd :: "string \<Rightarrow> PuzzleSync \<Rightarrow> PuzzleSync" where
  "OnPuzzleEnd i pz =
     (if puzzleId pz \<noteq> [] \<and> puzzleId pz \<noteq> i then pz
      else pz\<lparr>puzzleId := [], controllerId := [], pz_queue := [], puzzleActive := False,
             tokenTimeRemaining := 0\<rparr>)"

definition IsLocalController :: "Client \<Rightarrow> bool" where
  "IsLocalController c =
     (let pz = cl_puzzle c
      in if \<not> puzzleActive pz then False
         else controllerId pz \<noteq> [] \<and> controllerId pz = ss_localId (cl_session c))"

definition LocalInputAllowed :: "Client \<Rightarrow> bool" where
  "LocalInputAllowed c = (if \<not> puzzleActive (cl_puzzle c) then True else IsLocalController c)"

text \<open>The hook trampoline; \<open>orig\<close> is the engine's function, when MinHook gave its address.\<close>

definition HookedPuzzleInput :: "(vm \<Rightarrow> bool \<times> vm) option \<Rightarrow> Client \<Rightarrow> bool \<times> Client" where
  "HookedPuzzleInput orig c =
     (if \<not> LocalInputAllowed c then (False, c)
      else case orig of
        Some f \<Rightarrow> (case f (cl_vm c) of (r, m) \<Rightarrow> (r, c\<lparr>cl_vm := m\<rparr>))
      | None \<Rightarrow> (False, c))"

definition RequestPass :: "'j json_lib \<Rightarrow> Client \<Rightarrow> Client option" where
  "RequestPass J c =
     (if \<not> IsLocalController c then Some c
      else
        let i = puzzleId (cl_puzzle c)
        in if i = [] then Some c
           else if ss_client (cl_session c)
           then client_send J PUZZLE_PASS (j_obj J [(''puzzleId'', j_str J i)]) c
           else Some c)"

section \<open>The countdown\<close>

text \<open>
  The conversion of the elapsed time may leave the range of \<open>int\<close> and the subtraction may
  wrap, but with a countdown that is not negative neither can make it wrong.
\<close>

lemma sint_range: "- (2 ^ 31) \<le> sint (w :: i32)" "sint (w :: i32) < 2 ^ 31"
  using sint_ge[of w] sint_lt[of w] by simp_all

lemma sint_minus:
  "- (2 ^ 31) \<le> sint (a :: i32) - sint b \<Longrightarrow> sint a - sint b < 2 ^ 31 \<Longrightarrow> sint (a - b) = sint a - sint b"
  by (simp add: sint_word_ariths signed_take_bit_int_eq_self)

definition countdown :: "i32 \<Rightarrow> int \<Rightarrow> i32" where
  "countdown r dt = (let r' = r - int_of_double dt in if r' <s 0 then 0 else r')"

lemma countdown_word:
  assumes "0 \<le> sint (r :: i32)" "0 < dt"
  shows "sint (countdown r dt) = max 0 (sint r - dt)"
proof (cases "dt < 2 ^ 31")
  case True
  then have d: "sint (int_of_double dt) = dt"
    using assms(2) by (simp add: int_of_double_def sint_sbintrunc' signed_take_bit_int_eq_self)
  then have "sint (r - int_of_double dt) = sint r - dt"
    using assms sint_range[of r] True by (subst sint_minus) simp_all
  then show ?thesis by (simp add: countdown_def word_sless_alt Let_def)
next
  case False
  then have d: "int_of_double dt = 0x80000000" by (simp add: int_of_double_def)
  have "r - 0x80000000 = word_of_int (sint r - 2 ^ 31)" by (simp add: of_int_sint)
  moreover have "- (2 ^ 31) \<le> sint r - 2 ^ 31" "sint r - 2 ^ 31 < 2 ^ 31"
    using assms sint_range[of r] by simp_all
  ultimately have "sint (r - 0x80000000) = sint r - 2 ^ 31"
    by (simp only: sint_sbintrunc') (simp add: signed_take_bit_int_eq_self)
  with assms False sint_range[of r] show ?thesis by (simp add: countdown_def d word_sless_alt Let_def)
qed

lemma PuzzleSync_Tick_active:
  assumes "puzzleActive pz" and "0 \<le> sint (tokenTimeRemaining pz)"
    and "lastTickMs pz \<noteq> 0" and "lastTickMs pz < now"
  shows "sint (tokenTimeRemaining (PuzzleSync_Tick g now pz))
           = max 0 (sint (tokenTimeRemaining pz) - int (now - lastTickMs pz))
    \<and> PuzzleSync_Tick g now pz
           = pz\<lparr>lastTickMs := now, tokenTimeRemaining := tokenTimeRemaining (PuzzleSync_Tick g now pz)\<rparr>"
proof (rule conjI)
  let ?dt = "int now - int (lastTickMs pz)"
  have dt: "0 < ?dt" "?dt = int (now - lastTickMs pz)" using assms(4) by simp_all
  have T: "PuzzleSync_Tick g now pz
      = pz\<lparr>lastTickMs := now, tokenTimeRemaining := countdown (tokenTimeRemaining pz) ?dt\<rparr>"
    using dt(1) assms(1,3) unfolding PuzzleSync_Tick_def countdown_def Let_def by simp
  show "sint (tokenTimeRemaining (PuzzleSync_Tick g now pz))
           = max 0 (sint (tokenTimeRemaining pz) - int (now - lastTickMs pz))"
    unfolding dt(2)[symmetric] T using countdown_word[OF assms(2) dt(1)] by simp
  show "PuzzleSync_Tick g now pz
           = pz\<lparr>lastTickMs := now, tokenTimeRemaining := tokenTimeRemaining (PuzzleSync_Tick g now pz)\<rparr>"
    by (simp add: T)
qed

definition demo_puzzle :: PuzzleSync where
  "demo_puzzle = OnPuzzleToken ''altar'' ''p2'' 15000 [''p2'', ''p1''] (PuzzleSync_init\<lparr>lastTickMs := 1000\<rparr>)"

lemma demo_puzzle_simps [simp]:
  "puzzleActive demo_puzzle" "tokenTimeRemaining demo_puzzle = 15000" "lastTickMs demo_puzzle = 1000"
  "puzzleId demo_puzzle = ''altar''" "controllerId demo_puzzle = ''p2''"
  by (simp_all add: demo_puzzle_def OnPuzzleToken_def PuzzleSync_init_def Let_def word_sless_alt)

end
