(* ===== verification/Cutscene_Sync.thy ===== *)
theory Cutscene_Sync
  imports Client_State
begin

text \<open>
  \<open>client/src/sync/cutscene_sync.{h,cpp}\<close>: a cutscene, noticed by a hook or by polling a flag
  byte, suspends the player sync, closes the overlay and tells the other players.
\<close>

section \<open>Transitions\<close>

text \<open>\<open>compare_exchange_strong\<close> makes each transition happen once.\<close>

definition OnCutsceneStart :: "'j json_lib \<Rightarrow> Client \<Rightarrow> Client option" where
  "OnCutsceneStart J c =
     (if cu_active (cl_cutscene c) then Some c
      else
        let c = c\<lparr>cl_cutscene := (cl_cutscene c)\<lparr>cu_active := True\<rparr>\<rparr>;
            c = c\<lparr>cl_session := (cl_session c)\<lparr>cutsceneActive := True\<rparr>\<rparr>;
            c = c\<lparr>cl_players := SetSuspended True (cl_players c)\<rparr>;
            c = c\<lparr>cl_modal := Modal_Close (cl_modal c)\<rparr>
        in if ss_client (cl_session c)
           then client_send J CUTSCENE_START
                  (j_obj J [(''playerId'', j_str J (ss_localId (cl_session c)))]) c
           else Some c)"

definition OnCutsceneEnd :: "'j json_lib \<Rightarrow> Client \<Rightarrow> Client option" where
  "OnCutsceneEnd J c =
     (if \<not> cu_active (cl_cutscene c) then Some c
      else
        let c = c\<lparr>cl_cutscene := (cl_cutscene c)\<lparr>cu_active := False\<rparr>\<rparr>;
            c = c\<lparr>cl_session := (cl_session c)\<lparr>cutsceneActive := False\<rparr>\<rparr>;
            c = c\<lparr>cl_players := SetSuspended False (cl_players c)\<rparr>
        in if ss_client (cl_session c)
           then client_send J CUTSCENE_END
                  (j_obj J [(''playerId'', j_str J (ss_localId (cl_session c)))]) c
           else Some c)"

text \<open>The hook trampoline; \<open>orig\<close> is what the engine's routine does to the game's memory.\<close>

definition HookedCutscene :: "'j json_lib \<Rightarrow> (bool \<Rightarrow> vm \<Rightarrow> vm) option \<Rightarrow> bool \<Rightarrow> Client \<Rightarrow> Client option" where
  "HookedCutscene J orig entering c =
     do { c \<leftarrow> (if entering then OnCutsceneStart J c else OnCutsceneEnd J c);
          Some (case orig of Some f \<Rightarrow> c\<lparr>cl_vm := f entering (cl_vm c)\<rparr> | None \<Rightarrow> c) }"

section \<open>Detection\<close>

definition HookCutsceneFunction :: "minhook \<Rightarrow> Client \<Rightarrow> bool \<times> Client" where
  "HookCutsceneFunction mh c =
     (if cutsceneFn (cl_offsets c) = 0 then (False, c)
      else case install_hook mh (cutsceneFn (cl_offsets c)) (cl_hooks c) of
        (False, calls) \<Rightarrow> (False, c\<lparr>cl_hooks := calls\<rparr>)
      | (True, calls) \<Rightarrow>
          (True, c\<lparr>cl_hooks := calls, cl_cutscene := (cl_cutscene c)\<lparr>cu_hookInstalled := True\<rparr>\<rparr>))"

text \<open>The first byte of \<open>[0x200, 0x800)\<close> past the player base that is readable and holds 0 or 1.\<close>

definition bool_slot :: "vm \<Rightarrow> addr \<Rightarrow> bool" where
  "bool_slot m a \<longleftrightarrow> IsReadable m a 1 \<and> (SafeRead 1 m a = (0 :: byte) \<or> SafeRead 1 m a = (1 :: byte))"

fun find_flag :: "vm \<Rightarrow> addr \<Rightarrow> nat list \<Rightarrow> addr option" where
  "find_flag m base [] = None"
| "find_flag m base (off # offs) =
     (if bool_slot m (base + of_nat off) then Some (base + of_nat off) else find_flag m base offs)"

definition ScanForCinematicFlag :: "Client \<Rightarrow> bool \<times> Client" where
  "ScanForCinematicFlag c =
     (let base = GetLocalPlayerBase (cl_vm c) (cl_offsets c)
      in if base = 0 then (False, c)
         else case find_flag (cl_vm c) base [0x200..<0x800] of
           None \<Rightarrow> (False, c)
         | Some a \<Rightarrow>
             (True, c\<lparr>cl_cutscene := (cl_cutscene c)\<lparr>cinematicFlagAddr := a\<rparr>,
                      cl_offsets := (cl_offsets c)\<lparr>cinematicFlagPtr := a\<rparr>\<rparr>))"

definition CutsceneSync_Init :: "minhook \<Rightarrow> Client \<Rightarrow> Client" where
  "CutsceneSync_Init mh c =
     (let (hooked, c) = HookCutsceneFunction mh c
      in if \<not> hooked then
           let (found, c) = ScanForCinematicFlag c
           in if found then c\<lparr>cl_cutscene := (cl_cutscene c)\<lparr>pollFallback := True\<rparr>\<rparr> else c
         else c)"

definition CutsceneSync_Shutdown :: "Client \<Rightarrow> Client" where
  "CutsceneSync_Shutdown c =
     (if cu_hookInstalled (cl_cutscene c) \<and> cutsceneFn (cl_offsets c) \<noteq> 0 then
        c\<lparr>cl_hooks := cl_hooks c @ [MH_DisableHook (cutsceneFn (cl_offsets c))],
          cl_cutscene := (cl_cutscene c)\<lparr>cu_hookInstalled := False\<rparr>\<rparr>
      else c)"

definition CutsceneSync_Poll :: "'j json_lib \<Rightarrow> nat \<Rightarrow> Client \<Rightarrow> Client option" where
  "CutsceneSync_Poll J nowMs c =
     (let cu = cl_cutscene c
      in if \<not> pollFallback cu then Some c
         else if int nowMs - int (lastPollMs cu) < 100 then Some c
         else
           let c = c\<lparr>cl_cutscene := cu\<lparr>lastPollMs := nowMs\<rparr>\<rparr>
           in if cinematicFlagAddr cu = 0 \<or> \<not> IsReadable (cl_vm c) (cinematicFlagAddr cu) 1 then Some c
              else
                let flag = (SafeRead 1 (cl_vm c) (cinematicFlagAddr cu) \<noteq> (0 :: byte))
                in if flag = lastPolledFlag cu then Some c
                   else
                     let c = c\<lparr>cl_cutscene := (cl_cutscene c)\<lparr>lastPolledFlag := flag\<rparr>\<rparr>
                     in if flag then OnCutsceneStart J c else OnCutsceneEnd J c)"

end
