(* ===== verification/Session.thy ===== *)
theory Session
  imports Puzzle_Sync Cutscene_Sync
begin

text \<open>
  \<open>client/src/session.{h,cpp}\<close>: the controller between the UI, the network client and the sync
  systems. Every method runs under its locks or on atomics, and is one step on the \<open>Client\<close>
  record. \<open>None\<close> is an uncaught exception, or a null \<open>client_\<close> that is dereferenced.
\<close>

section \<open>Lifecycle\<close>

definition Session_Init :: "Client \<Rightarrow> Client" where
  "Session_Init c =
     c\<lparr>cl_ws := WsClient_init,
       cl_session := (cl_session c)\<lparr>ss_client := True\<rparr>,
       cl_players := SetClient (cl_players c),
       cl_combat := (cl_combat c)\<lparr>cs_client := True, remoteResolver := True\<rparr>\<rparr>"

definition Session_Shutdown :: "Client \<Rightarrow> Client" where
  "Session_Shutdown c =
     (let c = (if ss_client (cl_session c) then c\<lparr>cl_ws := Disconnect (cl_ws c)\<rparr> else c);
          (cs, calls) = RemoveHooks (cl_offsets c) (cl_combat c, cl_hooks c)
      in c\<lparr>cl_combat := cs, cl_hooks := calls, cl_session := (cl_session c)\<lparr>status := Disconnected\<rparr>\<rparr>)"

definition HostSession :: "string \<Rightarrow> u16 \<Rightarrow> string \<Rightarrow> string \<Rightarrow> Client \<Rightarrow> Client option" where
  "HostSession host port sessionName password c =
     (let s = (cl_session c)\<lparr>pendingSessionName := sessionName, pendingPassword := password,
                pendingInviteCode := [], lastError := []\<rparr>;
          s = s\<lparr>wantCreate := True\<rparr>;
          s = s\<lparr>status := Connecting\<rparr>
      in if ss_client s then Some (c\<lparr>cl_session := s, cl_ws := Connect host port (cl_ws c)\<rparr>) else None)"

definition JoinSession :: "string \<Rightarrow> u16 \<Rightarrow> string \<Rightarrow> string \<Rightarrow> Client \<Rightarrow> Client option" where
  "JoinSession host port code password c =
     (let s = (cl_session c)\<lparr>pendingInviteCode := code, pendingPassword := password,
                pendingSessionName := [], lastError := []\<rparr>;
          s = s\<lparr>wantCreate := False\<rparr>;
          s = s\<lparr>status := Connecting\<rparr>
      in if ss_client s then Some (c\<lparr>cl_session := s, cl_ws := Connect host port (cl_ws c)\<rparr>) else None)"

definition LeaveSession :: "Client \<Rightarrow> Client" where
  "LeaveSession c =
     (let c = (if ss_client (cl_session c) then c\<lparr>cl_ws := Disconnect (cl_ws c)\<rparr> else c)
      in c\<lparr>cl_players := PlayerSync_Clear (cl_players c),
           cl_session := (cl_session c)\<lparr>status := Disconnected, isHost := False,
             cutsceneActive := False\<rparr>\<rparr>)"

section \<open>Callbacks of the network client\<close>

definition handshake_json :: "'j json_lib \<Rightarrow> string \<Rightarrow> 'j" where
  "handshake_json J nm =
     j_obj J [(''protocol'', j_int J PROTOCOL_VERSION), (''name'', j_str J nm),
       (''clientVersion'', j_str J ''cdmp-0.1.0'')]"

definition session_send :: "'j json_lib \<Rightarrow> PacketType \<Rightarrow> 'j \<Rightarrow> Client \<Rightarrow> Client option" where
  "session_send J ty payload c =
     (if ss_client (cl_session c) then client_send J ty payload c else None)"

definition OnConnected :: "'j json_lib \<Rightarrow> Client \<Rightarrow> Client option" where
  "OnConnected J c = session_send J HANDSHAKE (handshake_json J (playerName (cl_session c))) c"

definition OnDisconnected :: "Client \<Rightarrow> Client" where \<comment> \<open>only logs\<close>
  "OnDisconnected c = c"

definition join_request :: "'j json_lib \<Rightarrow> Session \<Rightarrow> 'j" where
  "join_request J s =
     (let req = j_obj J [(''create'', j_bool J (wantCreate s))]
      in if wantCreate s then
           let req = j_set J req ''sessionName'' (j_str J (pendingSessionName s));
               req = j_set J req ''password'' (j_str J (pendingPassword s))
           in j_set J req ''friendlyFire'' (j_bool J False)
         else
           let req = j_set J req ''inviteCode'' (j_str J (pendingInviteCode s))
           in j_set J req ''password'' (j_str J (pendingPassword s)))"

definition on_handshake_ack :: "'j json_lib \<Rightarrow> 'j \<Rightarrow> Client \<Rightarrow> Client option" where
  "on_handshake_ack J d c =
     do { i \<leftarrow> value_str J d ''playerId'' [];
          sn \<leftarrow> value_str J d ''serverName'' [];
          let c = c\<lparr>cl_players := SetLocalId i (cl_players c),
                    cl_combat := CombatSync_SetLocalId i (cl_combat c),
                    cl_session := (cl_session c)\<lparr>ss_localId := i, serverName := sn, status := Connected\<rparr>\<rparr>;
          session_send J JOIN_REQUEST (join_request J (cl_session c)) c }"

text \<open>\<open>SetHost\<close> and, for a host, \<open>InstallHooks\<close>.\<close>

definition set_host :: "minhook \<Rightarrow> bool \<Rightarrow> Client \<Rightarrow> Client" where
  "set_host mh b c =
     (let c = c\<lparr>cl_session := (cl_session c)\<lparr>isHost := b\<rparr>, cl_combat := CombatSync_SetHost b (cl_combat c)\<rparr>
      in if b then
           let (_, cs, calls) = InstallHooks mh (cl_offsets c) (cl_combat c, cl_hooks c)
           in c\<lparr>cl_combat := cs, cl_hooks := calls\<rparr>
         else c)"

definition apply_state :: "'j json_lib \<Rightarrow> nat \<Rightarrow> 'j \<Rightarrow> Client \<Rightarrow> Client option" where
  "apply_state J now players c =
     do { ps \<leftarrow> ApplyStateUpdate J now players (cl_players c); Some (c\<lparr>cl_players := ps\<rparr>) }"

definition on_join_ack :: "'j json_lib \<Rightarrow> minhook \<Rightarrow> nat \<Rightarrow> 'j \<Rightarrow> Client \<Rightarrow> Client option" where
  "on_join_ack J mh now d c =
     do { host \<leftarrow> value_bool J d ''isHost'' False;
          ff \<leftarrow> value_bool J d ''friendlyFire'' False;
          let c = set_host mh host c;
          code \<leftarrow> value_str J d ''inviteCode'' [];
          sn \<leftarrow> value_str J d ''sessionName'' (serverName (cl_session c));
          let c = c\<lparr>cl_session := (cl_session c)\<lparr>friendlyFire := ff, inviteCode := code, serverName := sn\<rparr>\<rparr>;
          c \<leftarrow> (if j_contains J d ''players'' then apply_state J now (j_at J d ''players'') c else Some c);
          Some (c\<lparr>cl_session := (cl_session c)\<lparr>status := InSession\<rparr>\<rparr>) }"

definition on_join_denied :: "'j json_lib \<Rightarrow> 'j \<Rightarrow> Client \<Rightarrow> Client option" where
  "on_join_denied J d c =
     do { r \<leftarrow> value_str J d ''reason'' ''join denied'';
          Some (c\<lparr>cl_session := (cl_session c)\<lparr>lastError := r, status := Failed\<rparr>\<rparr>) }"

definition on_player_join :: "'j json_lib \<Rightarrow> nat \<Rightarrow> 'j \<Rightarrow> Client \<Rightarrow> Client option" where
  "on_player_join J now d c =
     (if j_contains J d ''player'' then
        do { let p = j_at J d ''player'';
             i \<leftarrow> value_str J p ''id'' [];
             nm \<leftarrow> value_str J p ''name'' [];
             apply_state J now (j_arr J [p]) (c\<lparr>cl_players := AddRemotePlayer i nm (cl_players c)\<rparr>) }
      else Some c)"

definition on_player_leave :: "'j json_lib \<Rightarrow> 'j \<Rightarrow> Client \<Rightarrow> Client option" where
  "on_player_leave J d c =
     do { i \<leftarrow> value_str J d ''playerId'' [];
          Some (c\<lparr>cl_players := RemoveRemotePlayer i (cl_players c)\<rparr>) }"

definition on_animation_update :: "'j json_lib \<Rightarrow> 'j \<Rightarrow> Client \<Rightarrow> Client option" where
  "on_animation_update J d c =
     do { i \<leftarrow> value_str J d ''playerId'' [];
          ps \<leftarrow> ApplyAnimationUpdate J i
                  (if j_contains J d ''animState'' then j_at J d ''animState'' else j_obj J []) (cl_players c);
          Some (c\<lparr>cl_players := ps\<rparr>) }"

definition on_rpc_call :: "'j json_lib \<Rightarrow> 'j \<Rightarrow> Client \<Rightarrow> Client option" where
  "on_rpc_call J d c =
     do { rpcType \<leftarrow> value_str J d ''type'' [];
          (if rpcType = ''attack'' then
             do { w \<leftarrow> HandleAttackRpc J d (cl_combat c) (cl_ws c); Some (c\<lparr>cl_ws := w\<rparr>) }
           else if rpcType = ''damage'' then
             do { (m, cs) \<leftarrow> HandleDamageRpc J (cl_offsets c) d (cl_vm c, cl_combat c);
                  Some (c\<lparr>cl_vm := m, cl_combat := cs\<rparr>) }
           else if rpcType = ''enemy_update'' then
             do { (m, cs) \<leftarrow> HandleEnemyUpdate J (cl_offsets c) d (cl_vm c, cl_combat c);
                  Some (c\<lparr>cl_vm := m, cl_combat := cs\<rparr>) }
           else if rpcType = ''skill'' then
             do { m \<leftarrow> HandleSkillRpc J (cl_offsets c)
                         (\<lambda>i. GetRemoteEntityBase i (cl_players c)) d (cl_combat c) (cl_vm c);
                  Some (c\<lparr>cl_vm := m\<rparr>) }
           else Some c) }"

definition on_host_reassign :: "'j json_lib \<Rightarrow> minhook \<Rightarrow> 'j \<Rightarrow> Client \<Rightarrow> Client option" where
  "on_host_reassign J mh d c =
     do { newHost \<leftarrow> value_str J d ''newHostId'' [];
          Some (set_host mh (newHost = ss_localId (cl_session c)) c) }"

definition on_loot_taken :: "'j json_lib \<Rightarrow> 'j \<Rightarrow> Client \<Rightarrow> Client option" where
  "on_loot_taken J d c =
     do { cs \<leftarrow> HandleLootTaken J d (cl_combat c); Some (c\<lparr>cl_combat := cs\<rparr>) }"

definition on_cutscene :: "'j json_lib \<Rightarrow> bool \<Rightarrow> 'j \<Rightarrow> Client \<Rightarrow> Client option" where
  "on_cutscene J b d c =
     do { i \<leftarrow> value_str J d ''playerId'' [];
          Some (c\<lparr>cl_players := SetRemoteCutscene i b (cl_players c)\<rparr>) }"

definition on_puzzle_start :: "'j json_lib \<Rightarrow> 'j \<Rightarrow> Client \<Rightarrow> Client option" where
  "on_puzzle_start J d c =
     do { i \<leftarrow> value_str J d ''puzzleId'' []; Some (c\<lparr>cl_puzzle := OnPuzzleStart i (cl_puzzle c)\<rparr>) }"

fun get_strs :: "'j json_lib \<Rightarrow> 'j list \<Rightarrow> string list option" where
  "get_strs J [] = Some []"
| "get_strs J (q # qs) = do { s \<leftarrow> get_str J q; ss \<leftarrow> get_strs J qs; Some (s # ss) }"

definition on_puzzle_token :: "'j json_lib \<Rightarrow> 'j \<Rightarrow> Client \<Rightarrow> Client option" where
  "on_puzzle_token J d c =
     do { q \<leftarrow> (if j_contains J d ''queue'' \<and> j_is_array J (j_at J d ''queue'')
                then get_strs J (j_elems J (j_at J d ''queue'')) else Some []);
          i \<leftarrow> value_str J d ''puzzleId'' [];
          ctrl \<leftarrow> value_str J d ''controllerId'' [];
          rem \<leftarrow> value_i32 J d ''remainingMs'' 0;
          Some (c\<lparr>cl_puzzle := OnPuzzleToken i ctrl rem q (cl_puzzle c)\<rparr>) }"

definition on_puzzle_end :: "'j json_lib \<Rightarrow> 'j \<Rightarrow> Client \<Rightarrow> Client option" where
  "on_puzzle_end J d c =
     do { i \<leftarrow> value_str J d ''puzzleId'' []; Some (c\<lparr>cl_puzzle := OnPuzzleEnd i (cl_puzzle c)\<rparr>) }"

definition on_kick :: "'j json_lib \<Rightarrow> 'j \<Rightarrow> Client \<Rightarrow> Client option" where
  "on_kick J d c =
     do { r \<leftarrow> value_str J d ''reason'' [];
          Some (c\<lparr>cl_session := (cl_session c)\<lparr>lastError := ''Kicked: '' @ r, status := Failed\<rparr>\<rparr>) }"

definition on_server_info :: "'j json_lib \<Rightarrow> 'j \<Rightarrow> Client \<Rightarrow> Client option" where
  "on_server_info J d c =
     do { sn \<leftarrow> value_str J d ''sessionName'' (serverName (cl_session c));
          Some (c\<lparr>cl_session := (cl_session c)\<lparr>serverName := sn\<rparr>\<rparr>) }"

text \<open>\<open>now\<close> is \<open>GetTickCount64()\<close>.\<close>

definition OnPacket :: "'j json_lib \<Rightarrow> minhook \<Rightarrow> nat \<Rightarrow> PacketType \<Rightarrow> 'j \<Rightarrow> Client \<Rightarrow> Client option" where
  "OnPacket J mh now ty d c =
     (case ty of
        HANDSHAKE_ACK \<Rightarrow> on_handshake_ack J d c
      | JOIN_ACK \<Rightarrow> on_join_ack J mh now d c
      | JOIN_DENIED \<Rightarrow> on_join_denied J d c
      | PLAYER_JOIN \<Rightarrow> on_player_join J now d c
      | PLAYER_LEAVE \<Rightarrow> on_player_leave J d c
      | STATE_UPDATE \<Rightarrow>
          (if j_contains J d ''players'' then apply_state J now (j_at J d ''players'') c else Some c)
      | ANIMATION_UPDATE \<Rightarrow> on_animation_update J d c
      | RPC_CALL \<Rightarrow> on_rpc_call J d c
      | HOST_REASSIGN \<Rightarrow> on_host_reassign J mh d c
      | LOOT_TAKEN \<Rightarrow> on_loot_taken J d c
      | CUTSCENE_START \<Rightarrow> on_cutscene J True d c
      | CUTSCENE_END \<Rightarrow> on_cutscene J False d c
      | PUZZLE_START \<Rightarrow> on_puzzle_start J d c
      | PUZZLE_TOKEN \<Rightarrow> on_puzzle_token J d c
      | PUZZLE_END \<Rightarrow> on_puzzle_end J d c
      | KICK \<Rightarrow> on_kick J d c
      | PONG \<Rightarrow> Some c
      | SERVER_INFO \<Rightarrow> on_server_info J d c
      | _ \<Rightarrow> Some c)"

section \<open>The per-frame pump\<close>

definition SendPing :: "'j json_lib \<Rightarrow> nat \<Rightarrow> Client \<Rightarrow> Client option" where
  "SendPing J now c =
     (if ss_client (cl_session c) \<and> IsConnected (cl_ws c)
      then client_send J PING (j_obj J [(''clientTime'', j_f64 J (int now))]) c
      else Some c)"

definition Session_Tick :: "'j json_lib \<Rightarrow> nat \<Rightarrow> Client \<Rightarrow> Client option" where
  "Session_Tick J now c =
     (if status (cl_session c) \<noteq> InSession then Some c
      else
        do { c \<leftarrow> CutsceneSync_Poll J now c;
             let c = c\<lparr>cl_puzzle := PuzzleSync_Tick (cl_offsets c) now (cl_puzzle c)\<rparr>;
             (m, w, ps) \<leftarrow> PlayerSync_Tick J (cl_offsets c) now (cl_vm c, cl_ws c, cl_players c);
             let c = c\<lparr>cl_vm := m, cl_ws := w, cl_players := ps\<rparr>;
             (if 2000 < int now - int (lastPingMs (cl_session c))
              then SendPing J now (c\<lparr>cl_session := (cl_session c)\<lparr>lastPingMs := now\<rparr>\<rparr>)
              else Some c) })"

text \<open>The callbacks as the WebSocket client holds them.\<close>

definition session_on_packet :: "'j json_lib \<Rightarrow> minhook \<Rightarrow> nat \<Rightarrow> ('j, Client) on_packet" where
  "session_on_packet J mh now ty d wc =
     (let (w, c) = wc
      in do { c \<leftarrow> OnPacket J mh now ty d (c\<lparr>cl_ws := w\<rparr>); Some (cl_ws c, c) })"

definition session_on_connected :: "'j json_lib \<Rightarrow> WsClient \<times> Client \<Rightarrow> (WsClient \<times> Client) option" where
  "session_on_connected J wc =
     (let (w, c) = wc in do { c \<leftarrow> OnConnected J (c\<lparr>cl_ws := w\<rparr>); Some (cl_ws c, c) })"

definition session_on_disconnected :: "WsClient \<times> Client \<Rightarrow> WsClient \<times> Client" where
  "session_on_disconnected wc =
     (let (w, c) = wc; c = OnDisconnected (c\<lparr>cl_ws := w\<rparr>) in (cl_ws c, c))"

end
