(* ===== verification/Session_Props.thy ===== *)
theory Session_Props
  imports Session Player_Apply
begin

text \<open>
  What the packet handlers of the session promise: who may give input to a puzzle, what a
  cutscene changes and announces, and how the handshake leads into a session.
\<close>

section \<open>Puzzles\<close>

lemma on_puzzle_token_holder:
  assumes "on_puzzle_token J d c = Some c'"
  shows "puzzleActive (cl_puzzle c') \<and> cl_session c' = cl_session c
    \<and> value_str J d ''controllerId'' [] = Some (controllerId (cl_puzzle c'))"
  using assms by (auto simp: on_puzzle_token_def OnPuzzleToken_def Let_def)

lemma blocked_input: "\<not> LocalInputAllowed c \<Longrightarrow> HookedPuzzleInput orig c = (False, c)"
  by (simp add: HookedPuzzleInput_def)

text \<open>C4: mutual exclusion of puzzle input: when the server broadcasts a token, at most one player
  of the room can act: of two clients with different ids that have both handled the same
  \<open>PUZZLE_TOKEN\<close>, at least one refuses the input, whatever their states were before; the engine's
  function is not called there and nothing changes.\<close>

lemma puzzle_mutual_exclusion:
  assumes "OnPacket J mh now PUZZLE_TOKEN d c1 = Some c1'"
    and "OnPacket J mh' now' PUZZLE_TOKEN d c2 = Some c2'"
    and "ss_localId (cl_session c1) \<noteq> ss_localId (cl_session c2)"
  shows "HookedPuzzleInput orig1 c1' = (False, c1') \<or> HookedPuzzleInput orig2 c2' = (False, c2')"
proof -
  from assms have "on_puzzle_token J d c1 = Some c1'" "on_puzzle_token J d c2 = Some c2'"
    by (simp_all add: OnPacket_def)
  from this[THEN on_puzzle_token_holder] assms(3)
  have "\<not> LocalInputAllowed c1' \<or> \<not> LocalInputAllowed c2'"
    by (auto simp: LocalInputAllowed_def IsLocalController_def Let_def)
  then show ?thesis using blocked_input by blast
qed

definition demo_client :: "string \<Rightarrow> Client" where
  "demo_client i =
     (let c = Session_Init (Client_init demo_vm GameOffsets_init)
      in c\<lparr>cl_session := (cl_session c)\<lparr>ss_localId := i\<rparr>, cl_players := SetLocalId i (cl_players c),
           cl_combat := CombatSync_SetLocalId i (cl_combat c)\<rparr>)"

definition demo_token :: jv where
  "demo_token = JObj [(''puzzleId'', JStr ''altar''), (''controllerId'', JStr ''p2''),
     (''remainingMs'', JInt 15000), (''queue'', JArr [JStr ''p2'', JStr ''p1''])]"

lemma demo_token_handled:
  "OnPacket demo_json mh now PUZZLE_TOKEN demo_token c
     = Some (c\<lparr>cl_puzzle := OnPuzzleToken ''altar'' ''p2'' 15000 [''p2'', ''p1''] (cl_puzzle c)\<rparr>)"
  by (simp add: OnPacket_def on_puzzle_token_def demo_token_def demo_json_def jv_lib_def jv_value_def)

lemma demo_client_id [simp]: "ss_localId (cl_session (demo_client i)) = i"
  by (simp add: demo_client_def Let_def)

lemma puzzle_mutual_exclusion_witness:
  "\<exists>c1 c2. OnPacket demo_json (\<lambda>_. True) 7 PUZZLE_TOKEN demo_token (demo_client ''p1'') = Some c1
     \<and> OnPacket demo_json (\<lambda>_. True) 9 PUZZLE_TOKEN demo_token (demo_client ''p2'') = Some c2
     \<and> (HookedPuzzleInput (Some (\<lambda>m. (True, m))) c1 = (False, c1)
        \<or> HookedPuzzleInput (Some (\<lambda>m. (True, m))) c2 = (False, c2))"
  using puzzle_mutual_exclusion[OF demo_token_handled demo_token_handled] by (simp add: demo_token_handled)

section \<open>Cutscenes\<close>

text \<open>A detection, by the hook or by polling: \<open>True\<close> is a start.\<close>

definition cutscene_event :: "'j json_lib \<Rightarrow> bool \<Rightarrow> Client \<Rightarrow> Client option" where
  "cutscene_event J b = (if b then OnCutsceneStart J else OnCutsceneEnd J)"

text \<open>The detections that change something, given the state before them.\<close>

fun edges :: "bool \<Rightarrow> bool list \<Rightarrow> bool list" where
  "edges b [] = []"
| "edges b (e # es) = (if e = b then edges b es else e # edges e es)"

lemma edges_alternate: "successively (\<noteq>) (b # edges b es)"
  by (induction b es rule: edges.induct) auto

definition cutscene_packet :: "'j json_lib \<Rightarrow> string \<Rightarrow> bool \<Rightarrow> string option" where
  "cutscene_packet J i b =
     SerializePacket J (if b then CUTSCENE_START else CUTSCENE_END) (j_obj J [(''playerId'', j_str J i)])"

definition cutscene_agree :: "Client \<Rightarrow> bool" where
  "cutscene_agree c \<longleftrightarrow> ss_client (cl_session c)
     \<and> suspended (cl_players c) = cu_active (cl_cutscene c)
     \<and> (cu_active (cl_cutscene c) = cutsceneActive (cl_session c))"

lemma cutscene_event_same:
  "cu_active (cl_cutscene c) = b \<Longrightarrow> cutscene_event J b c = Some c"
  by (auto simp: cutscene_event_def OnCutsceneStart_def OnCutsceneEnd_def)

lemma cutscene_event_edge:
  assumes "cutscene_agree c" "cu_active (cl_cutscene c) \<noteq> b" "cutscene_event J b c = Some c'"
  shows "cutscene_agree c' \<and> cu_active (cl_cutscene c') = b
    \<and> ss_localId (cl_session c') = ss_localId (cl_session c)
    \<and> (\<exists>f. cutscene_packet J (ss_localId (cl_session c)) b = Some f
          \<and> sendQueue (cl_ws c') = sendQueue (cl_ws c) @ [f])"
  using assms
  by (auto simp: cutscene_event_def OnCutsceneStart_def OnCutsceneEnd_def Let_def client_send_def
      Send_def cutscene_packet_def cutscene_agree_def SetSuspended_def split: if_splits)

lemma cutscene_trace:
  assumes "foldM (cutscene_event J) es c = Some c'" and "cutscene_agree c"
  shows "\<exists>fs. list_all2 (\<lambda>b f. cutscene_packet J (ss_localId (cl_session c)) b = Some f)
                (edges (cu_active (cl_cutscene c)) es) fs
            \<and> sendQueue (cl_ws c') = sendQueue (cl_ws c) @ fs
            \<and> cu_active (cl_cutscene c') = last (cu_active (cl_cutscene c) # es)
            \<and> cutscene_agree c'"
  using assms
proof (induction es arbitrary: c)
  case Nil
  then show ?case by simp
next
  case (Cons b es)
  from Cons.prems(1) obtain c1 where c1: "cutscene_event J b c = Some c1"
    and rest: "foldM (cutscene_event J) es c1 = Some c'" by auto
  show ?case
  proof (cases "cu_active (cl_cutscene c) = b")
    case True
    with c1 have "c1 = c" by (simp add: cutscene_event_same)
    with Cons.IH[OF rest] Cons.prems(2) True show ?thesis by (cases es) auto
  next
    case False
    from cutscene_event_edge[OF Cons.prems(2) False c1] obtain f where
      e: "cutscene_agree c1" "cu_active (cl_cutscene c1) = b" "ss_localId (cl_session c1) = ss_localId (cl_session c)"
      "cutscene_packet J (ss_localId (cl_session c)) b = Some f" "sendQueue (cl_ws c1) = sendQueue (cl_ws c) @ [f]"
      by blast
    from Cons.IH[OF rest e(1)] obtain fs where
      "list_all2 (\<lambda>b f. cutscene_packet J (ss_localId (cl_session c)) b = Some f) (edges b es) fs"
      "sendQueue (cl_ws c') = sendQueue (cl_ws c1) @ fs"
      "cu_active (cl_cutscene c') = last (b # es)" "cutscene_agree c'"
      unfolding e by blast
    with e False show ?thesis by (intro exI[of _ "f # fs"]) auto
  qed
qed

text \<open>C14: cutscenes are announced once: over any sequence of detections, from the hook or from
  polling, repeated or not, exactly one packet is queued for each detection that changes the state, in
  order, and none for the others: the packets added to the queue are those of the edges of the sequence,
  one for one, a \<open>CUTSCENE_START\<close> for a start and a \<open>CUTSCENE_END\<close> for an end, each with the player's
  own id; so they alternate strictly, starting with the opposite of the current state. The player sync
  is suspended in the end exactly when the last detection was a start.\<close>

lemma cutscene_announced_once:
  assumes "foldM (cutscene_event J) es c = Some c'" and "cutscene_agree c"
  shows "\<exists>fs. sendQueue (cl_ws c') = sendQueue (cl_ws c) @ fs
            \<and> list_all2 (\<lambda>b f. cutscene_packet J (ss_localId (cl_session c)) b = Some f)
                (edges (cu_active (cl_cutscene c)) es) fs
            \<and> successively (\<noteq>) (cu_active (cl_cutscene c) # edges (cu_active (cl_cutscene c)) es)
            \<and> suspended (cl_players c') = last (cu_active (cl_cutscene c) # es)"
  using cutscene_trace[OF assms] edges_alternate by (metis cutscene_agree_def)

lemma cutscene_announced_once_witness:
  "\<exists>c' f1 f2. foldM (cutscene_event demo_json) [True, True, False] (demo_client ''p1'') = Some c'
     \<and> sendQueue (cl_ws c') = [f1, f2] \<and> cutscene_packet demo_json ''p1'' True = Some f1
     \<and> cutscene_packet demo_json ''p1'' False = Some f2 \<and> \<not> suspended (cl_players c')"
proof -
  let ?c = "demo_client ''p1''"
  have ok: "cutscene_agree ?c" "\<not> cu_active (cl_cutscene ?c)" "sendQueue (cl_ws ?c) = []"
    by (simp_all add: demo_client_def Let_def cutscene_agree_def Session_Init_def Client_init_def
        PlayerSync_init_def SetClient_def SetLocalId_def CutsceneSync_init_def Session_init_def WsClient_init_def)
  have "cutscene_event demo_json b c \<noteq> None" for b c
    by (simp add: cutscene_event_def OnCutsceneStart_def OnCutsceneEnd_def Let_def client_send_def
        Send_def SerializePacket_def demo_json_def jv_lib_def)
  then have "foldM (cutscene_event demo_json) [True, True, False] ?c \<noteq> None" by (rule foldM_total)
  then obtain c' where run: "foldM (cutscene_event demo_json) [True, True, False] ?c = Some c'" by blast
  from cutscene_announced_once[OF run ok(1)] ok(2,3) run show ?thesis
    by (intro exI[of _ c']) (auto simp: list_all2_Cons1)
qed

section \<open>From the connection to the room\<close>

text \<open>The payload of the join request, as the server reads it.\<close>

lemma join_request_fields:
  assumes "json_laws J"
  shows "value_bool J (join_request J s) ''create'' b = Some (wantCreate s)"
    and "value_str J (join_request J s) ''password'' p = Some (pendingPassword s)"
    and "wantCreate s \<Longrightarrow> value_str J (join_request J s) ''sessionName'' n = Some (pendingSessionName s)"
    and "\<not> wantCreate s \<Longrightarrow> value_str J (join_request J s) ''inviteCode'' i = Some (pendingInviteCode s)"
    and "\<not> wantCreate s \<Longrightarrow> \<not> j_contains J (join_request J s) ''sessionName''"
  by (simp_all add: join_request_def Let_def json_laws.value_eqs[OF assms] json_laws.set_eqs[OF assms]
      json_laws.obj_eqs[OF assms] json_laws.get_eqs[OF assms])

lemma on_handshake_ack_state:
  assumes "on_handshake_ack J d c = Some c'"
  shows "\<exists>i f. value_str J d ''playerId'' [] = Some i
    \<and> SerializePacket J JOIN_REQUEST (join_request J (cl_session c)) = Some f
    \<and> cl_ws c' = (cl_ws c)\<lparr>sendQueue := sendQueue (cl_ws c) @ [f]\<rparr>
    \<and> ss_localId (cl_session c') = i \<and> localId (cl_players c') = i \<and> cs_localId (cl_combat c') = i
    \<and> status (cl_session c') = Connected"
proof -
  have "join_request J (s\<lparr>ss_localId := i, serverName := n, status := st\<rparr>) = join_request J s" for s i n st
    by (simp add: join_request_def Let_def)
  with assms show ?thesis
    by (auto simp: on_handshake_ack_def Let_def session_send_def client_send_def Send_def SetLocalId_def
        CombatSync_SetLocalId_def split: if_splits)
qed

text \<open>C12: what the player asked for is what the server is asked for: after \<open>HostSession\<close> or
  \<open>JoinSession\<close>, a connection that comes up and a \<open>HANDSHAKE_ACK\<close>, exactly two packets have been
  queued behind whatever was there: a \<open>HANDSHAKE\<close>, and a \<open>JOIN_REQUEST\<close> whose payload reads back
  as the chosen name (or the invite code, and then no name) and password; the id the server gave is
  set in the session, the player sync and the combat sync.\<close>

lemma join_request_is_what_was_asked:
  assumes "json_laws J"
    and "(if create then HostSession host port nm pw c else JoinSession host port code pw c) = Some c1"
    and "OnConnected J (c1\<lparr>cl_ws := w\<rparr>) = Some c2"
    and "OnPacket J mh now HANDSHAKE_ACK d c2 = Some c3"
  shows "\<exists>f1 f2 r i. sendQueue (cl_ws c3) = sendQueue w @ [f1, f2]
    \<and> SerializePacket J HANDSHAKE (handshake_json J (playerName (cl_session c))) = Some f1
    \<and> SerializePacket J JOIN_REQUEST r = Some f2
    \<and> value_bool J r ''create'' False = Some create \<and> value_str J r ''password'' [] = Some pw
    \<and> (if create then value_str J r ''sessionName'' [] = Some nm
       else value_str J r ''inviteCode'' [] = Some code \<and> \<not> j_contains J r ''sessionName'')
    \<and> value_str J d ''playerId'' [] = Some i \<and> ss_localId (cl_session c3) = i
    \<and> localId (cl_players c3) = i \<and> cs_localId (cl_combat c3) = i
    \<and> status (cl_session c3) = Connected"
proof -
  have s1: "wantCreate (cl_session c1) = create" "pendingPassword (cl_session c1) = pw"
    "pendingSessionName (cl_session c1) = (if create then nm else [])"
    "pendingInviteCode (cl_session c1) = (if create then [] else code)"
    "playerName (cl_session c1) = playerName (cl_session c)"
    using assms(2) by (auto simp: HostSession_def JoinSession_def Let_def split: if_splits)
  from assms(3) s1(5) obtain f1 where
    f1: "SerializePacket J HANDSHAKE (handshake_json J (playerName (cl_session c))) = Some f1"
    and c2: "cl_session c2 = cl_session c1" "sendQueue (cl_ws c2) = sendQueue w @ [f1]"
    by (auto simp: OnConnected_def session_send_def client_send_def Send_def split: if_splits)
  from assms(4) have "on_handshake_ack J d c2 = Some c3" by (simp add: OnPacket_def)
  from on_handshake_ack_state[OF this] obtain f2 i where
    "SerializePacket J JOIN_REQUEST (join_request J (cl_session c1)) = Some f2"
    "sendQueue (cl_ws c3) = sendQueue w @ [f1, f2]" "value_str J d ''playerId'' [] = Some i"
    "ss_localId (cl_session c3) = i" "localId (cl_players c3) = i" "cs_localId (cl_combat c3) = i"
    "status (cl_session c3) = Connected"
    by (auto simp: c2)
  with f1 join_request_fields[OF assms(1), of "cl_session c1"] s1 show ?thesis
    by (intro exI[of _ f1] exI[of _ f2] exI[of _ "join_request J (cl_session c1)"] exI[of _ i]) auto
qed

lemma demo_Serialize: "SerializePacket demo_json ty d = Some ''{}''"
  by (simp add: SerializePacket_def demo_json_def jv_lib_def)

lemma demo_session: "cl_session (demo_client i) = Session_init\<lparr>ss_client := True, ss_localId := i\<rparr>"
  by (simp add: demo_client_def Let_def Session_Init_def Client_init_def)

lemma join_request_is_what_was_asked_witness:
  "\<exists>c1 c2 c3. JoinSession ''host'' 7777 ''ABCDEF'' ''pw'' (demo_client []) = Some c1
     \<and> OnConnected demo_json (c1\<lparr>cl_ws := WsClient_init\<rparr>) = Some c2
     \<and> OnPacket demo_json (\<lambda>_. True) 9 HANDSHAKE_ACK (JObj [(''playerId'', JStr ''p7'')]) c2 = Some c3
     \<and> sendQueue (cl_ws c3) = [''{}'', ''{}''] \<and> ss_localId (cl_session c3) = ''p7''"
proof -
  let ?d = "JObj [(''playerId'', JStr ''p7'')]"
  obtain c1 where c1: "JoinSession ''host'' 7777 ''ABCDEF'' ''pw'' (demo_client []) = Some c1"
    "ss_client (cl_session c1)"
    by (simp add: JoinSession_def Let_def demo_session)
  obtain c2 where c2: "OnConnected demo_json (c1\<lparr>cl_ws := WsClient_init\<rparr>) = Some c2" "ss_client (cl_session c2)"
    using c1(2) by (simp add: OnConnected_def session_send_def client_send_def Send_def demo_Serialize)
  have "value_str demo_json ?d k x = (if k = ''playerId'' then Some ''p7'' else Some x)" for k x
    by (simp add: demo_json_def jv_lib_def jv_value_def)
  then have "OnPacket demo_json (\<lambda>_. True) 9 HANDSHAKE_ACK ?d c2 \<noteq> None"
    using c2(2) by (simp add: OnPacket_def on_handshake_ack_def Let_def session_send_def client_send_def
        Send_def demo_Serialize)
  then obtain c3 where c3: "OnPacket demo_json (\<lambda>_. True) 9 HANDSHAKE_ACK ?d c2 = Some c3" by blast
  have id: "value_str demo_json ?d ''playerId'' [] = Some ''p7''"
    by (simp add: demo_json_def jv_lib_def jv_value_def)
  from join_request_is_what_was_asked[OF json_laws_demo _ c2(1) c3, of False "''host''" 7777 "[]" "''pw''" "demo_client []" "''ABCDEF''"]
    c1(1) c2(1) c3 id show ?thesis
    by (intro exI[of _ c1] exI[of _ c2] exI[of _ c3]) (auto simp: demo_Serialize WsClient_init_def)
qed

section \<open>Refusals and broken packets\<close>

lemma on_kick_state:
  assumes "on_kick J d c = Some c'"
  shows "cl_ws c' = cl_ws c \<and> status (cl_session c') = Failed \<and> wantCreate (cl_session c') = wantCreate (cl_session c)
    \<and> join_request J (cl_session c') = join_request J (cl_session c)"
  using assms by (auto simp: on_kick_def join_request_def Let_def)

text \<open>C35: a kick does not end the connection: the worker keeps running with the queue it had and the
  frame pump idles, and when the server answers the next handshake of that worker the client is
  \<open>Connected\<close> again and has asked to join with the very same request.\<close>

lemma kicked_client_rejoins:
  assumes "OnPacket J mh now KICK d c = Some c1"
    and "OnPacket J mh' now' HANDSHAKE_ACK d' (c1\<lparr>cl_ws := w\<rparr>) = Some c2"
  shows "cl_ws c1 = cl_ws c \<and> status (cl_session c1) = Failed \<and> Session_Tick J t c1 = Some c1
    \<and> status (cl_session c2) = Connected
    \<and> (\<exists>f. SerializePacket J JOIN_REQUEST (join_request J (cl_session c)) = Some f
          \<and> sendQueue (cl_ws c2) = sendQueue w @ [f])"
proof -
  from assms have k: "on_kick J d c = Some c1" and h: "on_handshake_ack J d' (c1\<lparr>cl_ws := w\<rparr>) = Some c2"
    by (simp_all add: OnPacket_def)
  from on_kick_state[OF k] have "status (cl_session c1) = Failed" by blast
  then have "Session_Tick J t c1 = Some c1" by (simp add: Session_Tick_def)
  with on_kick_state[OF k] on_handshake_ack_state[OF h] show ?thesis by auto
qed

lemma kicked_client_rejoins_witness:
  "\<exists>c1 c2. OnPacket demo_json (\<lambda>_. True) 5 KICK (JObj []) (demo_client ''p1'') = Some c1
     \<and> OnPacket demo_json (\<lambda>_. True) 9 HANDSHAKE_ACK (JObj []) (c1\<lparr>cl_ws := WsClient_init\<rparr>) = Some c2
     \<and> status (cl_session c1) = Failed \<and> status (cl_session c2) = Connected
     \<and> sendQueue (cl_ws c2) = [''{}'']"
proof -
  have v: "value_str demo_json (JObj []) k x = Some x" for k x
    by (simp add: demo_json_def jv_lib_def jv_value_def)
  obtain c1 where c1: "OnPacket demo_json (\<lambda>_. True) 5 KICK (JObj []) (demo_client ''p1'') = Some c1"
    "ss_client (cl_session c1)"
    by (simp add: OnPacket_def on_kick_def v demo_session)
  then have "OnPacket demo_json (\<lambda>_. True) 9 HANDSHAKE_ACK (JObj []) (c1\<lparr>cl_ws := WsClient_init\<rparr>) \<noteq> None"
    by (simp add: OnPacket_def on_handshake_ack_def Let_def session_send_def client_send_def Send_def
        demo_Serialize v)
  then obtain c2 where c2: "OnPacket demo_json (\<lambda>_. True) 9 HANDSHAKE_ACK (JObj [])
      (c1\<lparr>cl_ws := WsClient_init\<rparr>) = Some c2" by blast
  from kicked_client_rejoins[OF c1(1) c2, of 0] c1(1) c2 show ?thesis
    by (intro exI[of _ c1] exI[of _ c2]) (auto simp: demo_Serialize WsClient_init_def)
qed

text \<open>The packets whose handlers read a field of the payload before anything else.\<close>

definition reads_payload :: "PacketType \<Rightarrow> bool" where
  "reads_payload ty \<longleftrightarrow> ty \<in> {HANDSHAKE_ACK, JOIN_ACK, JOIN_DENIED, PLAYER_LEAVE, ANIMATION_UPDATE,
     RPC_CALL, HOST_REASSIGN, LOOT_TAKEN, CUTSCENE_START, CUTSCENE_END, PUZZLE_START, PUZZLE_TOKEN,
     PUZZLE_END, KICK, SERVER_INFO}"

lemma no_fields:
  assumes "json_laws J" "\<not> j_is_object J d"
  shows "value_str J d k s = None" "value_bool J d k b = None" "\<not> j_contains J d k"
  using assms json_laws.value_eqs[OF assms(1)] json_laws.contains_object[OF assms(1)] by auto

text \<open>C36: one malformed packet ends the process: when the text of a message parses to one of these
  fifteen types with a payload that is not a JSON object, the handler throws, nothing in the
  receive loop catches it, and the worker thread dies with the exception.\<close>

lemma ill_typed_payload_throws:
  assumes "json_laws J" and "DeserializePacket J payload = (ty, d)"
    and "reads_payload ty" and "\<not> j_is_object J d"
  shows "handle_event E J (session_on_packet J mh now) (EvMessage payload) (io, w, c) = None"
proof -
  note defs = on_handshake_ack_def on_join_ack_def on_join_denied_def on_player_leave_def
    on_animation_update_def on_rpc_call_def on_host_reassign_def on_loot_taken_def HandleLootTaken_def
    on_cutscene_def on_puzzle_start_def on_puzzle_token_def on_puzzle_end_def on_kick_def on_server_info_def
  have "OnPacket J mh now ty d c' = None" for c'
    using assms(3) by (auto simp: reads_payload_def OnPacket_def defs no_fields[OF assms(1,4)])
  moreover have "ty \<noteq> UNKNOWN" using assms(3) by (auto simp: reads_payload_def)
  ultimately show ?thesis
    using assms(2) by (simp add: handle_event_def session_on_packet_def)
qed

definition kick_json :: "jv json_lib" where
  "kick_json = jv_lib (\<lambda>s. if s = ''kick'' then Some (JObj [(''t'', JStr ''KICK''), (''d'', JInt 5)]) else None) (\<lambda>_. None)"

lemma ill_typed_payload_throws_witness:
  "handle_event demo_env kick_json (session_on_packet kick_json (\<lambda>_. True) 3) (EvMessage ''kick'')
     (demo_io, WsClient_init, demo_client ''p1'') = None"
  by (rule ill_typed_payload_throws[where d = "JInt 5" and ty = KICK])
     (simp_all add: kick_json_def jt.json_laws_axioms DeserializePacket_def reads_payload_def,
      simp_all add: jv_lib_def PacketTypeFromString_def kTable_def)

end
