(* ===== verification/Puzzle_Spec.thy ===== *)
theory Puzzle_Spec
  imports Puzzle_Sync
begin

text \<open>
  The contract of the puzzle sync, as an abstract machine: a clock and, while a puzzle is on, a
  token with its holder, its queue and the milliseconds it has left. \<open>PuzzleSync\<close> refines it, so
  what is said of the machine holds of the code.
\<close>

section \<open>The abstract machine\<close>

record token =
  tk_puzzle :: string
  tk_holder :: string
  tk_queue :: "string list"
  tk_left :: nat

datatype puzzle_event =
    PStart string
  | PToken string string i32 "string list"
  | PEnd string
  | PFrame nat

fun token_step :: "puzzle_event \<Rightarrow> nat \<times> token option \<Rightarrow> nat \<times> token option" where
  "token_step (PStart i) (clk, tk) = (clk, Some \<lparr>tk_puzzle = i, tk_holder = [], tk_queue = [], tk_left = 0\<rparr>)"
| "token_step (PToken i ctrl rem q) (clk, tk) =
     (clk, Some \<lparr>tk_puzzle = i, tk_holder = ctrl, tk_queue = q, tk_left = nat (sint rem)\<rparr>)"
| "token_step (PEnd i) (clk, tk) =
     (clk, case tk of Some k \<Rightarrow> if tk_puzzle k = [] \<or> tk_puzzle k = i then None else Some k | None \<Rightarrow> None)"
| "token_step (PFrame now) (clk, tk) =
     (now, if clk = 0 then tk else map_option (\<lambda>k. k\<lparr>tk_left := tk_left k - (now - clk)\<rparr>) tk)"

definition token_allows :: "string \<Rightarrow> token option \<Rightarrow> bool" where
  "token_allows me tk = (case tk of None \<Rightarrow> True | Some k \<Rightarrow> tk_holder k \<noteq> [] \<and> tk_holder k = me)"

section \<open>The code\<close>

fun puzzle_step :: "GameOffsets \<Rightarrow> puzzle_event \<Rightarrow> PuzzleSync \<Rightarrow> PuzzleSync" where
  "puzzle_step g (PStart i) pz = OnPuzzleStart i pz"
| "puzzle_step g (PToken i ctrl rem q) pz = OnPuzzleToken i ctrl rem q pz"
| "puzzle_step g (PEnd i) pz = OnPuzzleEnd i pz"
| "puzzle_step g (PFrame now) pz = PuzzleSync_Tick g now pz"

text \<open>What holds between the fields.\<close>

definition puzzle_ok :: "PuzzleSync \<Rightarrow> bool" where
  "puzzle_ok pz \<longleftrightarrow> 0 \<le>s tokenTimeRemaining pz
     \<and> (\<not> puzzleActive pz \<longrightarrow> puzzleId pz = [] \<and> controllerId pz = [] \<and> pz_queue pz = []
          \<and> tokenTimeRemaining pz = 0)"

lemma puzzle_ok_init: "puzzle_ok (PuzzleSync_init\<lparr>pz_hookInstalled := b\<rparr>)"
  by (simp add: puzzle_ok_def PuzzleSync_init_def)

lemma puzzle_ok_step:
  assumes "puzzle_ok pz"
  shows "puzzle_ok (OnPuzzleStart i pz)" "puzzle_ok (OnPuzzleToken i ctrl rem q pz)"
    "puzzle_ok (OnPuzzleEnd i pz)" "puzzle_ok (PuzzleSync_Tick g now pz)"
  using assms
  by (auto simp: OnPuzzleStart_def OnPuzzleToken_def OnPuzzleEnd_def PuzzleSync_Tick_def Let_def puzzle_ok_def
      word_sless_alt word_sle_eq)

lemma puzzle_hook_step [simp]:
  "pz_hookInstalled (OnPuzzleStart i pz) = pz_hookInstalled pz"
  "pz_hookInstalled (OnPuzzleToken i ctrl rem q pz) = pz_hookInstalled pz"
  "pz_hookInstalled (OnPuzzleEnd i pz) = pz_hookInstalled pz"
  "pz_hookInstalled (PuzzleSync_Tick g now pz) = pz_hookInstalled pz"
  by (simp_all add: OnPuzzleStart_def OnPuzzleToken_def OnPuzzleEnd_def PuzzleSync_Tick_def Let_def)

section \<open>Refinement\<close>

definition puzzle_abs :: "PuzzleSync \<Rightarrow> nat \<times> token option" where
  "puzzle_abs pz = (lastTickMs pz,
     if puzzleActive pz then Some \<lparr>tk_puzzle = puzzleId pz, tk_holder = controllerId pz, tk_queue = pz_queue pz,
       tk_left = nat (sint (tokenTimeRemaining pz))\<rparr> else None)"

lemma PuzzleSync_Tick_idle:
  "\<not> puzzleActive pz \<or> lastTickMs pz = 0 \<or> now \<le> lastTickMs pz
    \<Longrightarrow> PuzzleSync_Tick g now pz = pz\<lparr>lastTickMs := now\<rparr>"
  by (auto simp: PuzzleSync_Tick_def Let_def)

lemma puzzle_abs_tick:
  assumes "puzzle_ok pz"
  shows "puzzle_abs (PuzzleSync_Tick g now pz) = token_step (PFrame now) (puzzle_abs pz)"
proof (cases "\<not> puzzleActive pz \<or> lastTickMs pz = 0 \<or> now \<le> lastTickMs pz")
  case True
  from True show ?thesis
    unfolding PuzzleSync_Tick_idle[OF True] by (auto simp: puzzle_abs_def)
next
  case False
  have "0 \<le> sint (tokenTimeRemaining pz)" using assms by (simp add: puzzle_ok_def word_sle_eq)
  with False have run: "sint (tokenTimeRemaining (PuzzleSync_Tick g now pz))
        = max 0 (sint (tokenTimeRemaining pz) - int (now - lastTickMs pz))"
    "PuzzleSync_Tick g now pz = pz\<lparr>lastTickMs := now, tokenTimeRemaining := tokenTimeRemaining (PuzzleSync_Tick g now pz)\<rparr>"
    using PuzzleSync_Tick_active[of pz now g] by simp_all
  have "nat (max 0 (sint (tokenTimeRemaining pz) - int (now - lastTickMs pz)))
      = nat (sint (tokenTimeRemaining pz)) - (now - lastTickMs pz)" by simp
  with False run(1) show ?thesis
    by (subst run(2)) (simp add: puzzle_abs_def)
qed

lemma puzzle_abs_step: "puzzle_ok pz \<Longrightarrow> puzzle_abs (puzzle_step g e pz) = token_step e (puzzle_abs pz)"
proof (cases e)
  case (PFrame now)
  assume "puzzle_ok pz"
  with PFrame show ?thesis by (simp only: puzzle_step.simps puzzle_abs_tick)
qed (auto simp: puzzle_abs_def OnPuzzleStart_def OnPuzzleToken_def OnPuzzleEnd_def Let_def puzzle_ok_def word_sless_alt)

lemma puzzle_run:
  "puzzle_ok pz \<Longrightarrow> puzzle_abs (fold (puzzle_step g) es pz) = fold token_step es (puzzle_abs pz)
     \<and> puzzle_ok (fold (puzzle_step g) es pz)"
proof (induction es arbitrary: pz)
  case (Cons e es)
  have "puzzle_ok (puzzle_step g e pz)" using Cons.prems by (cases e) (simp_all add: puzzle_ok_step)
  with Cons.IH[OF this] puzzle_abs_step[OF Cons.prems] show ?case by simp
qed simp

text \<open>C3: the puzzle sync refines the token machine: over any sequence of start, token and end
  messages and of frames, from the initial state, the fields of \<open>PuzzleSync\<close> are those of the
  machine, with a countdown that is a natural number (no 32-bit wrap, no conversion error), and the
  input gate is open exactly when the machine allows the local player.\<close>

lemma puzzle_refines_token_machine:
  "puzzle_abs (fold (puzzle_step g) es PuzzleSync_init) = fold token_step es (0, None)
   \<and> (LocalInputAllowed (c\<lparr>cl_puzzle := fold (puzzle_step g) es PuzzleSync_init\<rparr>)
        \<longleftrightarrow> token_allows (ss_localId (cl_session c)) (snd (fold token_step es (0, None))))"
proof -
  have init: "puzzle_ok PuzzleSync_init" "puzzle_abs PuzzleSync_init = (0, None)"
    by (simp_all add: puzzle_ok_def puzzle_abs_def PuzzleSync_init_def)
  have run: "puzzle_abs (fold (puzzle_step g) es PuzzleSync_init) = fold token_step es (0, None)"
    using puzzle_run[OF init(1), of g es] init(2) by simp
  have "LocalInputAllowed (c\<lparr>cl_puzzle := pz\<rparr>) \<longleftrightarrow> token_allows (ss_localId (cl_session c)) (snd (puzzle_abs pz))" for pz
    by (auto simp: LocalInputAllowed_def IsLocalController_def token_allows_def puzzle_abs_def Let_def)
  with run show ?thesis by simp
qed

section \<open>The countdown over many frames\<close>

lemma token_frames:
  assumes "sorted (clk # ts)" "0 < clk"
  shows "fold (\<lambda>t. token_step (PFrame t)) ts (clk, Some k)
    = (last (clk # ts), Some (k\<lparr>tk_left := tk_left k - (last (clk # ts) - clk)\<rparr>))"
  using assms
proof (induction ts arbitrary: clk k)
  case (Cons t ts)
  from Cons.prems have s: "sorted (t # ts)" "0 < t" "clk \<le> t" by auto
  have "t \<le> last (t # ts)" using s(1) by (cases ts) auto
  then have sum: "tk_left k - (t - clk) - (last (t # ts) - t) = tk_left k - (last (t # ts) - clk)"
    using s(3) by simp
  have "fold (\<lambda>t. token_step (PFrame t)) (t # ts) (clk, Some k)
      = fold (\<lambda>t. token_step (PFrame t)) ts (t, Some (k\<lparr>tk_left := tk_left k - (t - clk)\<rparr>))"
    using Cons.prems(2) by simp
  also have "\<dots> = (last (t # ts), Some (k\<lparr>tk_left := tk_left k - (t - clk) - (last (t # ts) - t)\<rparr>))"
    using Cons.IH[OF s(1,2), of "k\<lparr>tk_left := tk_left k - (t - clk)\<rparr>"] by simp
  finally show ?case by (simp only: sum last_ConsR list.simps not_False_eq_True)
qed simp

text \<open>C16: the countdown does not depend on the frame rate and runs out: with an active puzzle and no
  message in between, frames at any later times take off exactly the time that has passed since the
  last frame, however it is cut up, so once that time reaches what was left the countdown is zero and
  stays there.\<close>

lemma countdown_frame_rate_independent:
  assumes "puzzle_ok pz" and "puzzleActive pz" and "0 < lastTickMs pz" and "sorted (lastTickMs pz # ts)"
  shows "sint (tokenTimeRemaining (fold (PuzzleSync_Tick g) ts pz))
      = max 0 (sint (tokenTimeRemaining pz) - int (last (lastTickMs pz # ts) - lastTickMs pz))
    \<and> puzzleActive (fold (PuzzleSync_Tick g) ts pz)"
proof -
  let ?pz = "fold (PuzzleSync_Tick g) ts pz" and ?left = "nat (sint (tokenTimeRemaining pz))"
  have fold: "fold (puzzle_step g) (map PFrame xs) p = fold (PuzzleSync_Tick g) xs p" for xs p
    by (induction xs arbitrary: p) simp_all
  have folda: "fold token_step (map PFrame xs) s = fold (\<lambda>t. token_step (PFrame t)) xs s" for xs s
    by (induction xs arbitrary: s) simp_all
  have nonneg: "0 \<le> sint (tokenTimeRemaining p)" if "puzzle_ok p" for p
    using that by (simp add: puzzle_ok_def word_sle_eq)
  from puzzle_run[OF assms(1), of g "map PFrame ts"]
  have ok: "puzzle_ok ?pz" and run: "puzzle_abs ?pz = fold (\<lambda>t. token_step (PFrame t)) ts (puzzle_abs pz)"
    by (simp_all add: fold folda)
  have "puzzle_abs pz = (lastTickMs pz, Some \<lparr>tk_puzzle = puzzleId pz, tk_holder = controllerId pz,
      tk_queue = pz_queue pz, tk_left = ?left\<rparr>)"
    using assms(2) by (simp add: puzzle_abs_def)
  with run token_frames[OF assms(4,3)] have "snd (puzzle_abs ?pz) = Some \<lparr>tk_puzzle = puzzleId pz,
      tk_holder = controllerId pz, tk_queue = pz_queue pz,
      tk_left = ?left - (last (lastTickMs pz # ts) - lastTickMs pz)\<rparr>" by simp
  then have "puzzleActive ?pz"
    "nat (sint (tokenTimeRemaining ?pz)) = ?left - (last (lastTickMs pz # ts) - lastTickMs pz)"
    by (auto simp: puzzle_abs_def split: if_splits)
  with nonneg[OF ok] nonneg[OF assms(1)] show ?thesis by auto
qed

lemma countdown_frame_rate_independent_witness:
  "sint (tokenTimeRemaining (fold (PuzzleSync_Tick GameOffsets_init) [1016, 1033, 20000] demo_puzzle)) = 0"
proof -
  have "puzzle_ok demo_puzzle" by (simp add: puzzle_ok_def word_sle_eq)
  from countdown_frame_rate_independent[OF this, of "[1016, 1033, 20000]" GameOffsets_init] show ?thesis by simp
qed

end
