(* ===== verification/Puzzle_Race.thy ===== *)
theory Puzzle_Race
  imports Puzzle_Spec
begin

text \<open>
  \<open>client/src/sync/puzzle_sync.cpp\<close> below the level of whole handlers. Three threads share the puzzle state:
  the worker handles the server's messages, the render thread decays the countdown, the game's thread asks
  the gate. The strings and the queue change under the mutex, the flag and the countdown are atomics, so a
  handler is a critical section followed by single stores, the tick a load, a load and a store, the gate up
  to three reads, and the threads' steps interleave in any order (the local id \<open>me\<close>, which only a new
  connection changes, is fixed; \<open>lastTickMs_\<close> belongs to the render thread alone). What of the handlers' sequential meaning
  survives, and what does not?
\<close>

section \<open>The steps of each thread\<close>

datatype store = SetActive bool | SetTime i32

fun do_store :: "store \<Rightarrow> PuzzleSync \<Rightarrow> PuzzleSync" where
  "do_store (SetActive b) pz = pz\<lparr>puzzleActive := b\<rparr>"
| "do_store (SetTime r) pz = pz\<lparr>tokenTimeRemaining := r\<rparr>"

text \<open>The critical section of each handler, and the stores that follow it.\<close>

definition start_locked :: "string \<Rightarrow> PuzzleSync \<Rightarrow> PuzzleSync \<times> store list" where
  "start_locked i pz =
     (pz\<lparr>puzzleId := i, controllerId := [], pz_queue := []\<rparr>, [SetActive True, SetTime 0])"

definition token_locked :: "string \<Rightarrow> string \<Rightarrow> i32 \<Rightarrow> string list \<Rightarrow> PuzzleSync \<Rightarrow> PuzzleSync \<times> store list" where
  "token_locked i ctrl remainingMs q pz =
     (pz\<lparr>puzzleId := i, controllerId := ctrl, pz_queue := q\<rparr>,
      [SetActive True, SetTime (if remainingMs <s 0 then 0 else remainingMs)])"

definition end_locked :: "string \<Rightarrow> PuzzleSync \<Rightarrow> PuzzleSync \<times> store list" where
  "end_locked i pz =
     (if puzzleId pz \<noteq> [] \<and> puzzleId pz \<noteq> i then (pz, [])
      else (pz\<lparr>puzzleId := [], controllerId := [], pz_queue := []\<rparr>, [SetActive False, SetTime 0]))"

datatype message = MStart string | MToken string string i32 "string list" | MEnd string

fun locked :: "message \<Rightarrow> PuzzleSync \<Rightarrow> PuzzleSync \<times> store list" where
  "locked (MStart i) pz = start_locked i pz"
| "locked (MToken i ctrl rem q) pz = token_locked i ctrl rem q pz"
| "locked (MEnd i) pz = end_locked i pz"

fun handle :: "message \<Rightarrow> PuzzleSync \<Rightarrow> PuzzleSync" where
  "handle (MStart i) pz = OnPuzzleStart i pz"
| "handle (MToken i ctrl rem q) pz = OnPuzzleToken i ctrl rem q pz"
| "handle (MEnd i) pz = OnPuzzleEnd i pz"

datatype tick_pc = TIdle | TLoad int | TStore i32 \<comment> \<open>before the load of the countdown, before its store\<close>
datatype gate_pc = GIdle | GFlag | GLock          \<comment> \<open>before the second load of the flag, before the lock\<close>

record threads =
  th_pz :: PuzzleSync
  th_pending :: "store list"
  th_tick :: tick_pc
  th_gate :: gate_pc

datatype act =
    Message message  \<comment> \<open>worker: a handler, to the end of its critical section\<close>
  | Store            \<comment> \<open>worker: its next store\<close>
  | TickBegin nat | TickLoad | TickStore
  | GateAsk          \<comment> \<open>game: a step of the gate that does not answer yet\<close>
  | GateAnswer bool  \<comment> \<open>game: a step that answers\<close>

definition tick_begin :: "nat \<Rightarrow> PuzzleSync \<Rightarrow> PuzzleSync \<times> tick_pc" where
  "tick_begin nowMs pz =
     (let pz = (if lastTickMs pz = 0 then pz\<lparr>lastTickMs := nowMs\<rparr> else pz);
          dt = int nowMs - int (lastTickMs pz);
          pz = pz\<lparr>lastTickMs := nowMs\<rparr>
      in (pz, if puzzleActive pz \<and> 0 < dt then TLoad dt else TIdle))"

definition tick_load :: "int \<Rightarrow> PuzzleSync \<Rightarrow> i32" where
  "tick_load dt pz =
     (let rem = tokenTimeRemaining pz; rem = rem - int_of_double dt in if rem <s 0 then 0 else rem)"

inductive micro_step :: "string \<Rightarrow> act \<Rightarrow> threads \<Rightarrow> threads \<Rightarrow> bool" for me where
  message: "th_pending s = [] \<Longrightarrow> locked msg (th_pz s) = (pz, sts) \<Longrightarrow>
    micro_step me (Message msg) s (s\<lparr>th_pz := pz, th_pending := sts\<rparr>)"
| store: "th_pending s = st # sts \<Longrightarrow>
    micro_step me Store s (s\<lparr>th_pz := do_store st (th_pz s), th_pending := sts\<rparr>)"
| tick_begin: "th_tick s = TIdle \<Longrightarrow> tick_begin now (th_pz s) = (pz, pc) \<Longrightarrow>
    micro_step me (TickBegin now) s (s\<lparr>th_pz := pz, th_tick := pc\<rparr>)"
| tick_load: "th_tick s = TLoad dt \<Longrightarrow>
    micro_step me TickLoad s (s\<lparr>th_tick := TStore (tick_load dt (th_pz s))\<rparr>)"
| tick_store: "th_tick s = TStore r \<Longrightarrow>
    micro_step me TickStore s (s\<lparr>th_pz := (th_pz s)\<lparr>tokenTimeRemaining := r\<rparr>, th_tick := TIdle\<rparr>)"
| gate_pass: "th_gate s = GIdle \<Longrightarrow> \<not> puzzleActive (th_pz s) \<Longrightarrow> micro_step me (GateAnswer True) s s"
| gate_ask: "th_gate s = GIdle \<Longrightarrow> puzzleActive (th_pz s) \<Longrightarrow> micro_step me GateAsk s (s\<lparr>th_gate := GFlag\<rparr>)"
| gate_ended: "th_gate s = GFlag \<Longrightarrow> \<not> puzzleActive (th_pz s) \<Longrightarrow>
    micro_step me (GateAnswer False) s (s\<lparr>th_gate := GIdle\<rparr>)"
| gate_flag: "th_gate s = GFlag \<Longrightarrow> puzzleActive (th_pz s) \<Longrightarrow> micro_step me GateAsk s (s\<lparr>th_gate := GLock\<rparr>)"
| gate_lock: "th_gate s = GLock \<Longrightarrow>
    micro_step me (GateAnswer (controllerId (th_pz s) \<noteq> [] \<and> controllerId (th_pz s) = me)) s (s\<lparr>th_gate := GIdle\<rparr>)"

inductive micro_run :: "string \<Rightarrow> threads \<Rightarrow> act list \<Rightarrow> threads \<Rightarrow> bool" for me s where
  stop: "micro_run me s [] s"
| go: "micro_run me s acts t \<Longrightarrow> micro_step me a t u \<Longrightarrow> micro_run me s (acts @ [a]) u"

fun act_messages :: "act \<Rightarrow> message list" where
  "act_messages (Message msg) = [msg]"
| "act_messages _ = []"

definition messages :: "act list \<Rightarrow> message list" where
  "messages acts = concat (map act_messages acts)"

lemma messages_snoc [simp]: "messages [] = []" "messages (acts @ [a]) = messages acts @ act_messages a"
  by (simp_all add: messages_def)

section \<open>Run alone, the steps are the handlers\<close>

lemma locked_handle: "locked msg pz = (p, sts) \<Longrightarrow> fold do_store sts p = handle msg pz"
  by (cases msg) (auto simp: start_locked_def token_locked_def end_locked_def OnPuzzleStart_def OnPuzzleToken_def
      OnPuzzleEnd_def Let_def split: if_splits)

lemma tick_alone:
  "tick_begin now pz = (p, pc) \<Longrightarrow> PuzzleSync_Tick g now pz =
     (case pc of TLoad dt \<Rightarrow> p\<lparr>tokenTimeRemaining := tick_load dt p\<rparr> | _ \<Rightarrow> p)"
  by (auto simp: tick_begin_def tick_load_def PuzzleSync_Tick_def Let_def split: if_splits)

section \<open>What the interleaving cannot break\<close>

text \<open>What a player sees of the token, the countdown aside.\<close>

definition token_view :: "PuzzleSync \<Rightarrow> string \<times> string \<times> string list \<times> bool" where
  "token_view pz = (puzzleId pz, controllerId pz, pz_queue pz, puzzleActive pz)"

lemma view_do_store: "token_view p = token_view q \<Longrightarrow> token_view (do_store st p) = token_view (do_store st q)"
  by (cases st) (simp_all add: token_view_def)

lemma view_fold: "token_view p = token_view q \<Longrightarrow> token_view (fold do_store sts p) = token_view (fold do_store sts q)"
proof (induction sts arbitrary: p q)
  case (Cons st sts)
  from Cons.IH[OF view_do_store[OF Cons.prems]] show ?case by simp
qed simp

lemma view_handle: "token_view p = token_view q \<Longrightarrow> token_view (handle msg p) = token_view (handle msg q)"
  by (cases msg) (auto simp: token_view_def OnPuzzleStart_def OnPuzzleToken_def OnPuzzleEnd_def Let_def)

definition nonneg_stores :: "store list \<Rightarrow> bool" where
  "nonneg_stores sts \<longleftrightarrow> list_all (\<lambda>st. case st of SetTime r \<Rightarrow> 0 \<le>s r | _ \<Rightarrow> True) sts"

definition race_inv :: "PuzzleSync \<Rightarrow> act list \<Rightarrow> threads \<Rightarrow> bool" where
  "race_inv pz0 acts s \<longleftrightarrow>
     token_view (fold do_store (th_pending s) (th_pz s)) = token_view (fold handle (messages acts) pz0)
   \<and> 0 \<le>s tokenTimeRemaining (th_pz s) \<and> nonneg_stores (th_pending s)
   \<and> (case th_tick s of TStore r \<Rightarrow> 0 \<le>s r | _ \<Rightarrow> True)"

lemma locked_nonneg:
  "locked msg pz = (p, sts) \<Longrightarrow> nonneg_stores sts \<and> tokenTimeRemaining p = tokenTimeRemaining pz"
  by (cases msg) (auto simp: start_locked_def token_locked_def end_locked_def nonneg_stores_def word_sless_alt
      word_sle_eq split: if_splits)

lemma race_inv_step:
  assumes "race_inv pz0 acts s" "micro_step me a s t"
  shows "race_inv pz0 (acts @ [a]) t"
  using assms(2)
proof (cases rule: micro_step.cases)
  case (message msg pz sts)
  then have "token_view (th_pz s) = token_view (fold handle (messages acts) pz0)"
    using assms(1) by (simp add: race_inv_def)
  from view_handle[OF this, of msg] message locked_handle[OF message(4)] locked_nonneg[OF message(4)] assms(1)
  show ?thesis by (simp add: race_inv_def)
next
  case (store st sts)
  with assms(1) show ?thesis by (cases st) (auto simp: race_inv_def nonneg_stores_def)
next
  case (tick_begin now pz pc)
  then have v: "token_view pz = token_view (th_pz s)" "tokenTimeRemaining pz = tokenTimeRemaining (th_pz s)"
    "\<And>r. pc \<noteq> TStore r"
    by (auto simp: tick_begin_def token_view_def Let_def split: if_splits)
  with tick_begin assms(1) view_fold[OF v(1)] show ?thesis
    by (auto simp: race_inv_def split: tick_pc.splits)
next
  case (tick_load dt)
  then show ?thesis using assms(1)
    by (auto simp: race_inv_def tick_load_def Let_def word_sless_alt word_sle_eq)
next
  case (tick_store r)
  have "token_view ((th_pz s)\<lparr>tokenTimeRemaining := r\<rparr>) = token_view (th_pz s)" by (simp add: token_view_def)
  from view_fold[OF this] tick_store assms(1) show ?thesis by (simp add: race_inv_def)
qed (use assms(1) in \<open>simp_all add: race_inv_def\<close>)

text \<open>C23: what no interleaving breaks: start from a quiet state and let the threads' steps follow each other in
  any order. Once the worker's outstanding stores are done, the puzzle, its controller, its queue and whether
  it is active are what handling the messages one after the other gives; the countdown is never negative; and
  a gate that answers yes does so at a moment at which the whole gate, run at once, says yes.\<close>

lemma puzzle_interleaving_sound:
  assumes "micro_run me s acts t" and "th_pending s = []" and "th_tick s = TIdle" and "puzzle_ok (th_pz s)"
  shows "token_view (fold do_store (th_pending t) (th_pz t)) = token_view (fold handle (messages acts) (th_pz s))
    \<and> 0 \<le>s tokenTimeRemaining (th_pz t)
    \<and> (micro_step me (GateAnswer True) t u \<and> cl_puzzle c = th_pz t \<and> ss_localId (cl_session c) = me
        \<longrightarrow> LocalInputAllowed c)"
proof -
  have "race_inv (th_pz s) acts t"
    using assms
  proof (induction rule: micro_run.induct)
    case stop
    then show ?case by (simp add: race_inv_def nonneg_stores_def puzzle_ok_def)
  next
    case (go acts t a u)
    then show ?case by (intro race_inv_step) simp_all
  qed
  moreover have "LocalInputAllowed c"
    if "micro_step me (GateAnswer True) t u" "cl_puzzle c = th_pz t" "ss_localId (cl_session c) = me"
    using that by (auto simp: LocalInputAllowed_def IsLocalController_def Let_def elim: micro_step.cases)
  ultimately show ?thesis by (simp add: race_inv_def)
qed

section \<open>What it can break: the countdown\<close>

definition quiet :: "PuzzleSync \<Rightarrow> threads" where
  "quiet pz = \<lparr>th_pz = pz, th_pending = [], th_tick = TIdle, th_gate = GIdle\<rparr>"

lemma micro_run_Cons:
  assumes "micro_step me a s t" "micro_run me t acts u"
  shows "micro_run me s (a # acts) u"
  using assms(2)
proof (induction rule: micro_run.induct)
  case stop
  from go[OF micro_run.stop assms(1)] show ?case by simp
next
  case (go acts v b u)
  from micro_run.go[OF go(3,2)] show ?case by simp
qed

lemma micro_run_append:
  "micro_run me t acts' u \<Longrightarrow> micro_run me s acts t \<Longrightarrow> micro_run me s (acts @ acts') u"
proof (induction rule: micro_run.induct)
  case (go acts' v b u)
  from micro_run.go[OF go(3)[OF go(4)] go(2)] show ?case by simp
qed simp

lemma micro_run_stores:
  "th_pending s = sts \<Longrightarrow> micro_run me s (replicate (length sts) Store)
     (s\<lparr>th_pz := fold do_store sts (th_pz s), th_pending := []\<rparr>)"
proof (induction sts arbitrary: s)
  case Nil
  then show ?case using micro_run.stop[of me s] by (cases s) simp
next
  case (Cons st sts)
  let ?s = "s\<lparr>th_pz := do_store st (th_pz s), th_pending := sts\<rparr>"
  have "micro_step me Store s ?s" by (rule store) (rule Cons.prems)
  from micro_run_Cons[OF this Cons.IH[of ?s]] show ?case by simp
qed

text \<open>C24: a lost update: \<open>Tick\<close> loads the countdown, subtracts and stores it back, so a message handled in
  between, whatever it is, leaves everything as it should except the countdown, which ends as if the message had
  not come: the 30 seconds of a fresh token are lost, and a puzzle that has ended keeps a countdown.\<close>

lemma countdown_lost_update:
  assumes "puzzleActive pz" and "puzzle_ok pz" and "lastTickMs pz \<noteq> 0" and "lastTickMs pz < now"
  shows "\<exists>acts pz'. micro_run me (quiet pz) acts (quiet pz') \<and> messages acts = [msg]
    \<and> token_view pz' = token_view (handle msg pz)
    \<and> sint (tokenTimeRemaining pz') = max 0 (sint (tokenTimeRemaining pz) - int (now - lastTickMs pz))"
proof -
  let ?dt = "int (now - lastTickMs pz)" and ?p = "pz\<lparr>lastTickMs := now\<rparr>"
  let ?r = "tick_load ?dt ?p"
  obtain p2 sts where l: "locked msg ?p = (p2, sts)" by force
  let ?q = "fold do_store sts p2"
  let ?pz = "?q\<lparr>tokenTimeRemaining := ?r\<rparr>"
  have b: "tick_begin now pz = (?p, TLoad ?dt)"
    using assms(1,3,4) by (simp add: tick_begin_def Let_def of_nat_diff)
  have 1: "micro_step me (TickBegin now) (quiet pz) ((quiet pz)\<lparr>th_pz := ?p, th_tick := TLoad ?dt\<rparr>)"
    by (rule tick_begin) (simp_all add: quiet_def b)
  have 2: "micro_step me TickLoad ((quiet pz)\<lparr>th_pz := ?p, th_tick := TLoad ?dt\<rparr>)
      ((quiet ?p)\<lparr>th_tick := TStore ?r\<rparr>)"
    using tick_load[of "(quiet pz)\<lparr>th_pz := ?p, th_tick := TLoad ?dt\<rparr>" ?dt me] by (simp add: quiet_def)
  have 3: "micro_step me (Message msg) ((quiet ?p)\<lparr>th_tick := TStore ?r\<rparr>)
      ((quiet p2)\<lparr>th_tick := TStore ?r, th_pending := sts\<rparr>)"
    using message[of "(quiet ?p)\<lparr>th_tick := TStore ?r\<rparr>" msg p2 sts me] l by (simp add: quiet_def)
  have 4: "micro_run me ((quiet p2)\<lparr>th_tick := TStore ?r, th_pending := sts\<rparr>) (replicate (length sts) Store)
      ((quiet ?q)\<lparr>th_tick := TStore ?r\<rparr>)"
    using micro_run_stores[of "(quiet p2)\<lparr>th_tick := TStore ?r, th_pending := sts\<rparr>" sts me] by (simp add: quiet_def)
  have 5: "micro_step me TickStore ((quiet ?q)\<lparr>th_tick := TStore ?r\<rparr>) (quiet ?pz)"
    using tick_store[of "(quiet ?q)\<lparr>th_tick := TStore ?r\<rparr>" ?r me] by (simp add: quiet_def)
  note run = micro_run_Cons[OF 1 micro_run_Cons[OF 2 micro_run_Cons[OF 3 micro_run.go[OF 4 5]]]]
  have "token_view ?pz = token_view (handle msg ?p)"
    using locked_handle[OF l] by (simp add: token_view_def)
  also have "\<dots> = token_view (handle msg pz)" by (rule view_handle) (simp add: token_view_def)
  finally have view: "token_view ?pz = token_view (handle msg pz)" .
  have time: "sint ?r = max 0 (sint (tokenTimeRemaining pz) - ?dt)"
    using countdown_word[of "tokenTimeRemaining pz" ?dt] assms(2,4)
    by (simp add: tick_load_def countdown_def puzzle_ok_def word_sle_eq)
  have "messages (replicate n Store) = []" for n by (induction n) (simp_all add: messages_def)
  then have "messages (TickBegin now # TickLoad # Message msg # replicate (length sts) Store @ [TickStore]) = [msg]"
    by (simp add: messages_def)
  with run view time show ?thesis
    by (intro exI[of _ "TickBegin now # TickLoad # Message msg # replicate (length sts) Store @ [TickStore]"] exI[of _ ?pz]) simp
qed

section \<open>Concrete runs\<close>

lemma demo_puzzle_ok: "puzzle_ok demo_puzzle"
  by (simp add: puzzle_ok_def word_sle_eq)

definition ending :: threads where
  "ending = (quiet (demo_puzzle\<lparr>puzzleId := [], controllerId := [], pz_queue := []\<rparr>))
     \<lparr>th_pending := [SetActive False, SetTime 0]\<rparr>"

lemma run_ending: "micro_run ''p1'' (quiet demo_puzzle) ([] @ [Message (MEnd ''altar'')]) ending"
  by (rule micro_run.go[OF micro_run.stop])
    (use message[of "quiet demo_puzzle" "MEnd ''altar''"] in \<open>simp add: quiet_def ending_def end_locked_def\<close>)

lemma puzzle_interleaving_sound_witness:
  "token_view (fold do_store (th_pending ending) (th_pz ending)) = token_view (OnPuzzleEnd ''altar'' demo_puzzle)
     \<and> 0 \<le>s tokenTimeRemaining (th_pz ending)"
  using puzzle_interleaving_sound[OF run_ending, of ending] demo_puzzle_ok
  by (simp add: quiet_def messages_def)

lemma countdown_lost_update_witness:
  "\<exists>acts pz'. micro_run ''p1'' (quiet demo_puzzle) acts (quiet pz')
     \<and> messages acts = [MToken ''altar'' ''p1'' 30000 []]
     \<and> controllerId pz' = ''p1'' \<and> sint (tokenTimeRemaining pz') = 14000"
  using countdown_lost_update[of demo_puzzle "2000" "''p1''" "MToken ''altar'' ''p1'' 30000 []"] demo_puzzle_ok
  by (fastforce simp: token_view_def OnPuzzleToken_def)

end
