(* ===== verification/Modal_Ui.thy ===== *)
theory Modal_Ui
  imports Session
begin

text \<open>
  \<open>client/src/ui/modal.cpp\<close>, one frame of the overlay, and \<open>HookedWndProc\<close> of
  \<open>client/src/hooks/render_hook.cpp\<close>. ImGui is a third-party library: what the user does in a
  frame is a parameter \<open>ui\<close> (the buttons clicked, what was typed into a field). A button inside
  \<open>BeginDisabled\<close> cannot be clicked. Drawing is not modelled, the texts shown for players and
  for the puzzle controller are.
\<close>

record ui =
  ui_click :: "string \<Rightarrow> bool"
  ui_input_text :: "string \<Rightarrow> string \<Rightarrow> string \<times> bool" \<comment> \<open>label, buffer: new buffer, edited\<close>
  ui_input_int :: "string \<Rightarrow> i32 \<Rightarrow> i32"
  ui_open :: bool \<comment> \<open>what \<open>Begin\<close> returns\<close>
  ui_table :: bool \<comment> \<open>what \<open>BeginTable\<close> returns\<close>

definition button :: "ui \<Rightarrow> bool \<Rightarrow> string \<Rightarrow> bool" where
  "button u enabled label \<longleftrightarrow> enabled \<and> ui_click u label"

text \<open>\<open>InputText\<close> with a buffer of \<open>sz\<close> bytes keeps the terminating NUL inside it.\<close>

definition input_text :: "ui \<Rightarrow> string \<Rightarrow> nat \<Rightarrow> string \<Rightarrow> string \<times> bool" where
  "input_text u label sz buf =
     (case ui_input_text u label buf of (s, edited) \<Rightarrow> if edited then (take (sz - 1) s, True) else (buf, False))"

definition set_modal :: "ModalState \<Rightarrow> Client \<Rightarrow> Client" where
  "set_modal s c = c\<lparr>cl_modal := (cl_modal c)\<lparr>modal_state := s\<rparr>\<rparr>"

definition Modal_ApplyTheme :: "Modal \<Rightarrow> Modal" where
  "Modal_ApplyTheme md = (if themeApplied md then md else md\<lparr>themeApplied := True\<rparr>)"

definition StatusLabel :: "SessionStatus \<Rightarrow> string" where
  "StatusLabel s = (case s of Disconnected \<Rightarrow> ''Disconnected'' | Connecting \<Rightarrow> ''Connecting...''
     | Connected \<Rightarrow> ''Connected'' | InSession \<Rightarrow> ''In session'' | Failed \<Rightarrow> ''Failed'')"

definition RenderMainMenu :: "ui \<Rightarrow> Client \<Rightarrow> Client" where
  "RenderMainMenu u c =
     (let inSess = (status (cl_session c) = InSession);
          c = (if button u True ''Host Session'' then set_modal HOST_SETUP c else c);
          c = (if button u True ''Join Session'' then set_modal JOIN_SETUP c else c)
      in if button u inSess ''Leave Session'' then LeaveSession c else c)"

definition RenderHostSetup :: "ui \<Rightarrow> Client \<Rightarrow> Client option" where
  "RenderHostSetup u c =
     do { let md = cl_modal c;
          let md = md\<lparr>serverHost := fst (input_text u ''Server'' 128 (serverHost md)),
                      serverPort := ui_input_int u ''Port'' (serverPort md),
                      md_sessionName := fst (input_text u ''Session name (optional)'' 64 (md_sessionName md)),
                      md_password := fst (input_text u ''Password (optional)'' 64 (md_password md))\<rparr>;
          let c = c\<lparr>cl_modal := md\<rparr>;
          c \<leftarrow> (if button u True ''Start Hosting''
                then HostSession (serverHost md) (ucast (serverPort md)) (md_sessionName md) (md_password md) c
                else Some c);
          let c = (if button u True ''Back'' then set_modal MAIN_MENU c else c);
          Some (if status (cl_session c) = InSession \<and> isHost (cl_session c)
                   \<and> button u True ''Enter Session''
                then set_modal IN_SESSION c else c) }"

definition to_upper :: "char \<Rightarrow> char" where \<comment> \<open>\<open>std::toupper\<close> in the C locale\<close>
  "to_upper ch = (if CHR ''a'' \<le> ch \<and> ch \<le> CHR ''z'' then char_of ((of_char ch :: nat) - 32) else ch)"

definition RenderJoinSetup :: "ui \<Rightarrow> Client \<Rightarrow> Client option" where
  "RenderJoinSetup u c =
     do { let md = cl_modal c;
          let md = md\<lparr>serverHost := fst (input_text u ''Server'' 128 (serverHost md)),
                      serverPort := ui_input_int u ''Port'' (serverPort md)\<rparr>;
          let (code, edited) = input_text u ''Invite code'' 8 (md_inviteCode md);
          let md = md\<lparr>md_inviteCode := (if edited then map to_upper code else code),
                      md_password := fst (input_text u ''Password (optional)'' 64 (md_password md))\<rparr>;
          let c = c\<lparr>cl_modal := md\<rparr>;
          c \<leftarrow> (if button u True ''Connect''
                then JoinSession (serverHost md) (ucast (serverPort md)) (md_inviteCode md) (md_password md) c
                else Some c);
          let c = (if button u True ''Back'' then set_modal MAIN_MENU c else c);
          Some (if status (cl_session c) = InSession then set_modal IN_SESSION c else c) }"

definition player_label :: "RemotePlayer \<Rightarrow> string" where
  "player_label p =
     (let label = (if rp_name p = [] then rp_id p else rp_name p)
      in if inCutscene p then label @ '' (cutscene)'' else label)"

fun controller_name :: "string \<Rightarrow> RemotePlayer list \<Rightarrow> string" where
  "controller_name i [] = i"
| "controller_name i (p # ps) = (if rp_id p = i \<and> rp_name p \<noteq> [] then rp_name p else controller_name i ps)"

definition controller_label :: "Client \<Rightarrow> string" where
  "controller_label c =
     (let label = controller_name (controllerId (cl_puzzle c)) (GetRemotePlayers (cl_players c));
          label = (if IsLocalController c then ''You'' else label)
      in if label = [] then ''(waiting)'' else label)"

definition RenderInSession :: "'j json_lib \<Rightarrow> ui \<Rightarrow> Client \<Rightarrow> Client option" where
  "RenderInSession J u c =
     do { c \<leftarrow> (if puzzleActive (cl_puzzle c) \<and> button u (IsLocalController c) ''Pass Turn''
                then RequestPass J c else Some c);
          Some (if button u True ''Leave Session'' then set_modal MAIN_MENU (LeaveSession c) else c) }"

definition Modal_Render :: "'j json_lib \<Rightarrow> ui \<Rightarrow> Client \<Rightarrow> Client option" where
  "Modal_Render J u c =
     (if modal_state (cl_modal c) = CLOSED then Some c
      else
        let c = c\<lparr>cl_modal := Modal_ApplyTheme (cl_modal c)\<rparr>
        in if \<not> ui_open u then Some c
           else case modal_state (cl_modal c) of
             MAIN_MENU \<Rightarrow> Some (RenderMainMenu u c)
           | HOST_SETUP \<Rightarrow> RenderHostSetup u c
           | JOIN_SETUP \<Rightarrow> RenderJoinSetup u c
           | IN_SESSION \<Rightarrow> RenderInSession J u c
           | _ \<Rightarrow> Some c)"

definition toggle_modal :: "Client \<Rightarrow> Client" where
  "toggle_modal c = c\<lparr>cl_modal := Modal_Toggle (status (cl_session c)) (cl_modal c)\<rparr>"

section \<open>Window messages\<close>

definition WM_KEYDOWN :: u32 where "WM_KEYDOWN = 0x100"
definition WM_KEYUP :: u32 where "WM_KEYUP = 0x101"
definition WM_CHAR :: u32 where "WM_CHAR = 0x102"
definition WM_MOUSEMOVE :: u32 where "WM_MOUSEMOVE = 0x200"
definition WM_LBUTTONDOWN :: u32 where "WM_LBUTTONDOWN = 0x201"
definition WM_LBUTTONUP :: u32 where "WM_LBUTTONUP = 0x202"
definition WM_RBUTTONDOWN :: u32 where "WM_RBUTTONDOWN = 0x204"
definition WM_RBUTTONUP :: u32 where "WM_RBUTTONUP = 0x205"
definition WM_MOUSEWHEEL :: u32 where "WM_MOUSEWHEEL = 0x20A"
definition WM_HOTKEY :: u32 where "WM_HOTKEY = 0x312"
definition VK_F9 :: u64 where "VK_F9 = 0x78"
definition kHotkeyId :: u64 where "kHotkeyId = 0xCD"

definition swallowed_messages :: "u32 list" where
  "swallowed_messages = [WM_LBUTTONDOWN, WM_LBUTTONUP, WM_RBUTTONDOWN, WM_RBUTTONUP, WM_MOUSEMOVE,
     WM_KEYDOWN, WM_KEYUP, WM_CHAR, WM_MOUSEWHEEL]"

text \<open>\<open>True\<close>: the message goes on to the game's own window procedure.\<close>

definition HookedWndProc :: "u32 \<Rightarrow> u64 \<Rightarrow> Client \<Rightarrow> bool \<times> Client" where
  "HookedWndProc msg wParam c =
     (if msg = WM_KEYDOWN \<and> wParam = VK_F9 then (False, toggle_modal c)
      else if Modal_IsOpen (cl_modal c) \<and> msg \<in> set swallowed_messages then (False, c)
      else (True, c))"

text \<open>The hidden window of the fallback (\<open>inventory_hook.cpp\<close>).\<close>

definition HotkeyWndProc :: "u32 \<Rightarrow> u64 \<Rightarrow> Client \<Rightarrow> bool \<times> Client" where
  "HotkeyWndProc msg wParam c =
     (if msg = WM_HOTKEY \<and> wParam = kHotkeyId then (False, toggle_modal c) else (True, c))"

text \<open>What \<open>HookedPresent\<close> does in a frame once ImGui is set up.\<close>

definition overlay_frame :: "'j json_lib \<Rightarrow> ui \<Rightarrow> nat \<Rightarrow> Client \<Rightarrow> Client option" where
  "overlay_frame J u now c = do { c \<leftarrow> Session_Tick J now c; Modal_Render J u c }"

end
