(* ===== verification/Inventory_Hook.thy ===== *)
theory Inventory_Hook
  imports Modal_Ui
begin

text \<open>
  \<open>client/src/inventory/inventory_hook.cpp\<close>: the "Multiplayer Beacon" item is appended to the
  player's inventory in game memory, and using it opens the overlay instead of reaching the
  game's own item code. When that is not possible, F9 opens the overlay.
\<close>

definition ReadSlotItemId :: "vm \<Rightarrow> GameOffsets \<Rightarrow> i32 \<Rightarrow> i32" where
  "ReadSlotItemId m g slotIndex =
     (if inventoryArrayPtr g = 0 \<or> itemStride g = 0 then 0
      else
        let arrayBase = SafeRead 8 m (inventoryArrayPtr g)
        in if arrayBase = 0 then 0
           else ReadInt m (arrayBase + scast slotIndex * ucast (itemStride g)) (offItemId g))"

text \<open>\<open>orig\<close>: what the game's \<open>UseItem\<close> does to its memory.\<close>

definition HookedUseItem :: "(i32 \<Rightarrow> vm \<Rightarrow> vm) option \<Rightarrow> i32 \<Rightarrow> Client \<Rightarrow> Client" where
  "HookedUseItem orig slotIndex c =
     (if ReadSlotItemId (cl_vm c) (cl_offsets c) slotIndex = MULTIPLAYER_BEACON_ID
      then c\<lparr>cl_modal := Modal_Open (status (cl_session c)) (cl_modal c)\<rparr>
      else case orig of Some f \<Rightarrow> c\<lparr>cl_vm := f slotIndex (cl_vm c)\<rparr> | None \<Rightarrow> c)"

definition InstallUseHook :: "minhook \<Rightarrow> Client \<Rightarrow> bool \<times> Client" where
  "InstallUseHook mh c =
     (if itemUseFn (cl_offsets c) = 0 then (False, c)
      else case install_hook mh (itemUseFn (cl_offsets c)) (cl_hooks c) of
        (ok, calls) \<Rightarrow> (ok, c\<lparr>cl_hooks := calls\<rparr>))"

definition beacon_writes :: "GameOffsets \<Rightarrow> addr \<Rightarrow> vm \<Rightarrow> vm" where
  "beacon_writes g slot m =
     (let m = WriteInt m slot (offItemId g) MULTIPLAYER_BEACON_ID;
          m = WriteInt m slot (offItemQuantity g) 1;
          m = WriteInt m slot (offItemDurability g) 9999;
          m = WriteInt m slot (offItemFlags g) 0
      in WriteU32 m slot (offItemNameHash g) MULTIPLAYER_BEACON_NAME_HASH)"

definition AppendBeaconItem :: "GameOffsets \<Rightarrow> vm \<times> InventoryHook \<Rightarrow> bool \<times> vm \<times> InventoryHook" where
  "AppendBeaconItem g st =
     (let (m, ih) = st
      in if beaconAppended ih then (True, m, ih)
         else if \<not> inventoryResolved g then (False, m, ih)
         else
           let arrayBase = SafeRead 8 m (inventoryArrayPtr g)
           in if arrayBase = 0 then (False, m, ih)
              else
                let count = SafeRead 4 m (itemCountPtr g) :: i32
                in if count <s 0 \<or> 2000 <s count then (False, m, ih)
                   else
                     let slot = arrayBase + scast count * ucast (itemStride g)
                     in if \<not> IsReadable m slot (ucast (itemStride g)) then (False, m, ih)
                        else
                          let m = beacon_writes g slot m;
                              m = WriteInt m (itemCountPtr g) 0 (count + 1)
                          in (True, m, ih\<lparr>beaconAppended := True\<rparr>))"

definition InventoryHook_Init :: "minhook \<Rightarrow> Client \<Rightarrow> Client" where
  "InventoryHook_Init mh c =
     (let invOk = inventoryResolved (cl_offsets c);
          (useHookOk, c) = (if invOk then InstallUseHook mh c else (False, c));
          c = (if invOk then
                 case AppendBeaconItem (cl_offsets c) (cl_vm c, cl_inventory c) of
                   (_, m, ih) \<Rightarrow> c\<lparr>cl_vm := m, cl_inventory := ih\<rparr>
               else c)
      in if \<not> invOk \<or> \<not> useHookOk
         then c\<lparr>cl_inventory := (cl_inventory c)\<lparr>inv_fallback := True\<rparr>\<rparr> else c)"

definition InventoryHook_Shutdown :: "Client \<Rightarrow> Client" where
  "InventoryHook_Shutdown c =
     (if itemUseFn (cl_offsets c) \<noteq> 0
      then c\<lparr>cl_hooks := cl_hooks c @ [MH_DisableHook (itemUseFn (cl_offsets c))]\<rparr> else c)"

end
