(* ===== verification/Render_Hook.thy ===== *)
theory Render_Hook
  imports Modal_Ui
begin

text \<open>
  \<open>client/src/hooks/render_hook.cpp\<close>: the globals of the \<open>Present\<close> hook, the one-time set-up inside a
  frame, the frame, the window procedure with its chaining, the removal, and the dummy swap chain that
  gives the address of \<open>Present\<close>. Direct3D, DXGI, ImGui and the window manager are outside: what they
  answer is an argument (\<open>gfx_env\<close>), and what the plugin holds of them is the record \<open>gfx\<close>.
\<close>

section \<open>State\<close>

datatype wndproc = GameWndProc | OurWndProc \<comment> \<open>the game's own procedure, \<open>HookedWndProc\<close>\<close>

record RenderHook =
  g_imguiInit :: bool
  g_hwnd :: addr
  g_origWndProc :: "wndproc option"
  g_device :: addr
  g_context :: addr
  g_rtv :: addr

definition RenderHook_init :: RenderHook where
  "RenderHook_init = \<lparr>g_imguiInit = False, g_hwnd = 0, g_origWndProc = None, g_device = 0, g_context = 0,
     g_rtv = 0\<rparr>"

text \<open>
  Held outside: the procedure of each window, the COM references the plugin owns on each object, the
  ImGui contexts, and the windows and window classes it has created and not destroyed.
\<close>

record gfx =
  wnd_proc :: "addr \<Rightarrow> wndproc"
  com_refs :: "addr \<Rightarrow> int"
  imgui_contexts :: int
  own_windows :: int
  own_classes :: int

definition gfx_init :: gfx where
  "gfx_init = \<lparr>wnd_proc = (\<lambda>_. GameWndProc), com_refs = (\<lambda>_. 0), imgui_contexts = 0, own_windows = 0,
     own_classes = 0\<rparr>"

definition com_ref :: "int \<Rightarrow> addr \<Rightarrow> gfx \<Rightarrow> gfx" where \<comment> \<open>a reference gained (1) or released (-1)\<close>
  "com_ref n x gx = (if x = 0 then gx else gx\<lparr>com_refs := (com_refs gx)(x := com_refs gx x + n)\<rparr>)"

text \<open>What the graphics stack answers in one frame: \<open>GetDevice\<close>, \<open>GetImmediateContext\<close>, the output
  window of \<open>GetDesc\<close>, \<open>GetBuffer\<close>, \<open>CreateRenderTargetView\<close>.\<close>

record gfx_env =
  ans_device :: "addr option"
  ans_context :: addr
  ans_hwnd :: addr
  ans_buffer :: "addr option"
  ans_rtv :: addr

section \<open>Set-up and frame\<close>

definition CreateRenderTarget :: "gfx_env \<Rightarrow> RenderHook \<times> gfx \<Rightarrow> RenderHook \<times> gfx" where
  "CreateRenderTarget E st =
     (let (h, gx) = st
      in case ans_buffer E of
           None \<Rightarrow> (h, gx)
         | Some backBuffer \<Rightarrow>
             if backBuffer = 0 then (h, gx)
             else
               let gx = com_ref 1 backBuffer gx;
                   h = h\<lparr>g_rtv := ans_rtv E\<rparr>;
                   gx = com_ref 1 (ans_rtv E) gx
               in (h, com_ref (-1) backBuffer gx))"

definition InitImGui :: "gfx_env \<Rightarrow> RenderHook \<times> gfx \<times> Client \<Rightarrow> RenderHook \<times> gfx \<times> Client" where
  "InitImGui E st =
     (let (h, gx, c) = st
      in if g_imguiInit h then (h, gx, c)
         else case ans_device E of
           None \<Rightarrow> (h, gx, c)
         | Some device \<Rightarrow>
             let h = h\<lparr>g_device := device\<rparr>; gx = com_ref 1 device gx;
                 h = h\<lparr>g_context := ans_context E\<rparr>; gx = com_ref 1 (ans_context E) gx;
                 h = h\<lparr>g_hwnd := ans_hwnd E\<rparr>;
                 gx = gx\<lparr>imgui_contexts := imgui_contexts gx + 1\<rparr>;
                 (h, gx) = CreateRenderTarget E (h, gx);
                 h = h\<lparr>g_origWndProc := Some (wnd_proc gx (g_hwnd h))\<rparr>;
                 gx = gx\<lparr>wnd_proc := (wnd_proc gx)(g_hwnd h := OurWndProc)\<rparr>;
                 c = c\<lparr>cl_modal := Modal_ApplyTheme (cl_modal c)\<rparr>
             in (h\<lparr>g_imguiInit := True\<rparr>, gx, c))"

definition HookedPresent ::
  "gfx_env \<Rightarrow> 'j json_lib \<Rightarrow> ui \<Rightarrow> nat \<Rightarrow> RenderHook \<times> gfx \<times> Client \<Rightarrow> (RenderHook \<times> gfx \<times> Client) option"
where
  "HookedPresent E J u now st =
     (let (h, gx, c) = InitImGui E st
      in if g_imguiInit h then do { c \<leftarrow> overlay_frame J u now c; Some (h, gx, c) }
         else Some (h, gx, c))"

definition RemoveRenderHook :: "RenderHook \<times> gfx \<Rightarrow> RenderHook \<times> gfx" where
  "RemoveRenderHook st =
     (let (h, gx) = st;
          gx = com_ref (-1) (g_rtv h) gx; h = h\<lparr>g_rtv := 0\<rparr>;
          gx = com_ref (-1) (g_context h) gx; h = h\<lparr>g_context := 0\<rparr>;
          gx = com_ref (-1) (g_device h) gx; h = h\<lparr>g_device := 0\<rparr>
      in if g_imguiInit h
         then (h\<lparr>g_imguiInit := False\<rparr>, gx\<lparr>imgui_contexts := imgui_contexts gx - 1\<rparr>)
         else (h, gx))"

section \<open>Window messages\<close>

text \<open>
  A message to a window runs its procedure; ours hands on what it does not keep with
  \<open>CallWindowProc(g_origWndProc)\<close>. The result says whether the game's procedure was reached; \<open>None\<close>:
  the call never returns.
\<close>

partial_function (option) deliver ::
  "RenderHook \<Rightarrow> wndproc \<Rightarrow> u32 \<Rightarrow> u64 \<Rightarrow> Client \<Rightarrow> (bool \<times> Client) option" where
  "deliver h p msg wParam c =
     (case p of
        GameWndProc \<Rightarrow> Some (True, c)
      | OurWndProc \<Rightarrow>
          (case HookedWndProc msg wParam c of
             (on, c) \<Rightarrow>
               if \<not> on then Some (False, c)
               else (case g_origWndProc h of
                       None \<Rightarrow> None
                     | Some q \<Rightarrow> deliver h q msg wParam c)))"

section \<open>The address of \<open>Present\<close>\<close>

text \<open>
  \<open>hwnd\<close>: what \<open>CreateWindowExW\<close> returns; \<open>hr\<close>, \<open>swap\<close>, \<open>dev\<close>, \<open>ctx\<close>: what
  \<open>D3D11CreateDeviceAndSwapChain\<close> returns and stores; \<open>vtable\<close>: the first word of an object.
\<close>

definition AcquirePresentPointer ::
  "addr \<Rightarrow> bool \<times> addr \<times> addr \<times> addr \<Rightarrow> (addr \<Rightarrow> addr) \<Rightarrow> gfx \<Rightarrow> bool \<times> addr \<times> gfx" where
  "AcquirePresentPointer hwnd created vtable gx =
     (let gx = gx\<lparr>own_classes := own_classes gx + 1\<rparr>
      in if hwnd = 0 then (False, 0, gx\<lparr>own_classes := own_classes gx - 1\<rparr>)
         else
           let gx = gx\<lparr>own_windows := own_windows gx + 1\<rparr>;
               (hr, swap, dev, ctx) = created;
               gx = com_ref 1 ctx (com_ref 1 dev (com_ref 1 swap gx));
               (ok, vtableOut) = (if hr \<and> swap \<noteq> 0 then (True, vtable swap) else (False, 0));
               gx = com_ref (-1) swap gx;
               gx = com_ref (-1) dev gx;
               gx = com_ref (-1) ctx gx;
               gx = gx\<lparr>own_windows := own_windows gx - 1\<rparr>
           in (ok, vtableOut, gx\<lparr>own_classes := own_classes gx - 1\<rparr>))"

end
