(* ===== verification/Scanner.thy ===== *)
theory Scanner
  imports Memory Json_Lib
begin

text \<open>
  \<open>client/src/game/scanner.{h,cpp}\<close>: finding the game's memory layout. Signatures are compiled
  from text and searched in the main module; the live entity is walked with value-range
  heuristics; the result is kept in a JSON file keyed by a hash of the executable. The module's
  range and bytes, the hash, and the parsed cache file are parameters.
\<close>

section \<open>Text helpers\<close>

definition hex_digits :: string where
  "hex_digits = ''0123456789abcdef''"

definition BytesToHex :: "byte list \<Rightarrow> string" where
  "BytesToHex bs =
     concat (map (\<lambda>b. [hex_digits ! unat (drop_bit 4 b), hex_digits ! unat (and b 0xF)]) bs)"

text \<open>
  What Windows answers: the bytes of the executable's file, when it opens, whether each call of the
  crypto library succeeds, and the MD5 digest it computes. \<open>crypt_open\<close> counts the handles held.
\<close>

record exe_env =
  exe_file :: "byte list option"
  acquire_ok :: bool               \<comment> \<open>\<open>CryptAcquireContextW\<close>\<close>
  create_ok :: bool                \<comment> \<open>\<open>CryptCreateHash\<close>\<close>
  hash_ok :: bool                  \<comment> \<open>\<open>CryptHashData\<close>\<close>
  md5_digest :: "byte list \<Rightarrow> byte list option" \<comment> \<open>\<open>CryptGetHashParam\<close>\<close>

record crypt_open =
  open_providers :: int
  open_hashes :: int

definition GameBinaryHash :: "exe_env \<Rightarrow> crypt_open \<Rightarrow> string \<times> crypt_open" where
  "GameBinaryHash E k =
     (case exe_file E of
        None \<Rightarrow> ([], k)
      | Some bytes \<Rightarrow>
          let buf = take (1024 * 1024) bytes
          in if buf = [] then ([], k)
             else if \<not> acquire_ok E then ([], k)
             else
               let k = k\<lparr>open_providers := open_providers k + 1\<rparr>;
                   (result, k) =
                     (if \<not> create_ok E then ([], k)
                      else
                        let k = k\<lparr>open_hashes := open_hashes k + 1\<rparr>;
                            result = (if \<not> hash_ok E then []
                                      else case md5_digest E buf of None \<Rightarrow> [] | Some digest \<Rightarrow> BytesToHex digest)
                        in (result, k\<lparr>open_hashes := open_hashes k - 1\<rparr>))
               in (result, k\<lparr>open_providers := open_providers k - 1\<rparr>))"

definition is_space :: "char \<Rightarrow> bool" where
  "is_space c \<longleftrightarrow> c \<in> {CHR '' '', CHR 0x09, CHR 0x0A, CHR 0x0B, CHR 0x0C, CHR 0x0D}"

text \<open>\<open>iss >> tok\<close> until it fails: the maximal runs of non-space characters.\<close>

fun split_tokens :: "string \<Rightarrow> string \<Rightarrow> string list" where
  "split_tokens acc [] = (if acc = [] then [] else [acc])"
| "split_tokens acc (c # cs) =
     (if is_space c then (if acc = [] then split_tokens [] cs else acc # split_tokens [] cs)
      else split_tokens (acc @ [c]) cs)"

definition hex_value :: "char \<Rightarrow> nat option" where
  "hex_value c =
     (let n = of_char c :: nat
      in if 48 \<le> n \<and> n \<le> 57 then Some (n - 48)
         else if 65 \<le> n \<and> n \<le> 70 then Some (n - 55)
         else if 97 \<le> n \<and> n \<le> 102 then Some (n - 87)
         else None)"

text \<open>The digits \<open>strtoul\<close> consumes, and their value; \<open>None\<close> when there is none.\<close>

fun hex_run :: "nat option \<Rightarrow> string \<Rightarrow> nat option" where
  "hex_run acc [] = acc"
| "hex_run acc (c # cs) =
     (case hex_value c of
        None \<Rightarrow> acc
      | Some d \<Rightarrow> hex_run (Some ((case acc of None \<Rightarrow> 0 | Some a \<Rightarrow> a) * 16 + d)) cs)"

text \<open>
  \<open>std::stoul(tok, nullptr, 16)\<close> on a token without spaces: an optional sign, an optional
  \<open>0x\<close>, digits; \<open>std::invalid_argument\<close> without digits, \<open>std::out_of_range\<close> above 32 bits.
\<close>

definition strip_0x :: "string \<Rightarrow> string" where
  "strip_0x s =
     (case s of
        a # b # c # cs \<Rightarrow>
          if a = CHR ''0'' \<and> (b = CHR ''x'' \<or> b = CHR ''X'') \<and> hex_value c \<noteq> None then c # cs else s
      | _ \<Rightarrow> s)"

definition stoul16 :: "string \<Rightarrow> u32 option" where
  "stoul16 tok =
     (let (neg, digits) =
        (case tok of
           [] \<Rightarrow> (False, [])
         | c # cs \<Rightarrow> if c = CHR ''-'' then (True, cs) else if c = CHR ''+'' then (False, cs) else (False, tok))
      in case hex_run None (strip_0x digits) of
           None \<Rightarrow> None
         | Some v \<Rightarrow>
             if 2 ^ 32 \<le> v then None
             else Some (if neg then - of_nat v else of_nat v))"

section \<open>Patterns\<close>

record CompiledPattern =
  pat_bytes :: "byte list"
  pat_mask :: "bool list"

fun compile_tokens :: "string list \<Rightarrow> CompiledPattern \<Rightarrow> CompiledPattern option" where
  "compile_tokens [] p = Some p"
| "compile_tokens (tok # toks) p =
     (if tok = ''?'' \<or> tok = ''??'' then
        compile_tokens toks \<lparr>pat_bytes = pat_bytes p @ [0], pat_mask = pat_mask p @ [False]\<rparr>
      else
        do { v \<leftarrow> stoul16 tok;
             compile_tokens toks \<lparr>pat_bytes = pat_bytes p @ [ucast v], pat_mask = pat_mask p @ [True]\<rparr> })"

definition CompilePattern :: "string \<Rightarrow> CompiledPattern option" where
  "CompilePattern ida = compile_tokens (split_tokens [] ida) \<lparr>pat_bytes = [], pat_mask = []\<rparr>"

record ModuleRange =
  mod_base :: addr
  mod_size :: u64

text \<open>\<open>handle\<close>: \<open>GetModuleHandleA\<close>, 0 when there is no such module; \<open>info\<close>: \<open>GetModuleInformation\<close>, the
  base and \<open>SizeOfImage\<close>.\<close>

definition GetModuleRange ::
  "(string option \<Rightarrow> addr) \<Rightarrow> (addr \<Rightarrow> (addr \<times> u32) option) \<Rightarrow> string option \<Rightarrow> ModuleRange" where
  "GetModuleRange handle info moduleName =
     (let r = \<lparr>mod_base = 0, mod_size = 0\<rparr>; md = handle moduleName
      in if md = 0 then r
         else case info md of None \<Rightarrow> r | Some (b, n) \<Rightarrow> \<lparr>mod_base = b, mod_size = ucast n\<rparr>)"

text \<open>The inner loop at one position: \<open>scan[i + j]\<close> against \<open>bytes[j]\<close> where the mask says so.\<close>

fun pattern_at :: "(addr \<Rightarrow> byte) \<Rightarrow> addr \<Rightarrow> byte list \<Rightarrow> bool list \<Rightarrow> bool" where
  "pattern_at b a (x # xs) (k # ks) = (if k \<and> b a \<noteq> x then False else pattern_at b (a + 1) xs ks)"
| "pattern_at b a _ _ = True"

text \<open>\<open>for (i = 0; i <= end; ++i)\<close>, with \<open>n\<close> positions left.\<close>

fun scan_from :: "(addr \<Rightarrow> byte) \<Rightarrow> CompiledPattern \<Rightarrow> addr \<Rightarrow> nat \<Rightarrow> addr" where
  "scan_from b p a 0 = 0"
| "scan_from b p a (Suc n) =
     (if pattern_at b a (pat_bytes p) (pat_mask p) then a else scan_from b p (a + 1) n)"

definition ScanPattern :: "vm \<Rightarrow> ModuleRange \<Rightarrow> CompiledPattern \<Rightarrow> addr" where
  "ScanPattern m r p =
     (if mod_base r = 0 \<or> pat_bytes p = [] then 0
      else
        let patLen = length (pat_bytes p)
        in if unat (mod_size r) < patLen then 0
           else scan_from (vm_bytes m) p (mod_base r) (Suc (unat (mod_size r) - patLen)))"

definition ScanPattern_ida :: "vm \<Rightarrow> ModuleRange \<Rightarrow> string \<Rightarrow> addr option" where
  "ScanPattern_ida m r ida = do { p \<leftarrow> CompilePattern ida; Some (ScanPattern m r p) }"

definition kPlayerBaseSig :: string where
  "kPlayerBaseSig = ''48 8B 05 ?? ?? ?? ?? 48 85 C0 74 ?? 48 8B''"
definition kInventorySig :: string where
  "kInventorySig = ''48 8D 8F ?? ?? ?? ?? E8 ?? ?? ?? ?? 8B 87''"
definition kItemUseSig :: string where
  "kItemUseSig = ''40 53 48 83 EC ?? 48 8B D9 8B 49''"
definition kAttackSig :: string where
  "kAttackSig = ''48 89 5C 24 ?? 57 48 83 EC ?? 8B FA 48 8B D9 83''"
definition kSkillSig :: string where
  "kSkillSig = ''48 89 5C 24 ?? 48 89 6C 24 ?? 57 48 83 EC ?? 8B EA 48 8B D9''"
definition kCutsceneSig :: string where
  "kCutsceneSig = ''48 89 5C 24 ?? 48 89 6C 24 ?? 57 48 83 EC ?? 0F B6 EA''"
definition kPuzzleSig :: string where
  "kPuzzleSig = ''40 55 53 56 57 48 8D 6C 24 ?? 48 81 EC ?? ?? ?? ?? 8B F2''"

lemmas signature_defs = kPlayerBaseSig_def kInventorySig_def kItemUseSig_def kAttackSig_def
  kSkillSig_def kCutsceneSig_def kPuzzleSig_def

definition ResolveRipRelative :: "vm \<Rightarrow> addr \<Rightarrow> i32 \<Rightarrow> i32 \<Rightarrow> addr" where
  "ResolveRipRelative m a dispOffset insnLen =
     (if a = 0 then 0
      else let disp = SafeRead 4 m (a + scast dispOffset) :: i32
           in a + scast insnLen + scast disp)"

section \<open>The heuristic walk\<close>

definition LooksLikeWorldCoord :: "f32 \<Rightarrow> bool" where
  "LooksLikeWorldCoord v = (if \<not> f32_isfinite v then False else f32_le (f32_fabs v) f32_1e5)"

text \<open>\<open>for (off = start; off < hi; off += 4)\<close> up to the first offset that satisfies \<open>P\<close>.\<close>

function find_off :: "(u32 \<Rightarrow> bool) \<Rightarrow> nat \<Rightarrow> nat \<Rightarrow> u32 option" where
  "find_off P off hi =
     (if off < hi then (if P (of_nat off) then Some (of_nat off) else find_off P (off + 4) hi) else None)"
  by pat_completeness auto
termination by (relation "measure (\<lambda>(_, off, hi). hi - off)") auto

declare find_off.simps [simp del]

definition plausible_position :: "vm \<Rightarrow> addr \<Rightarrow> u32 \<Rightarrow> bool" where
  "plausible_position m e off =
     (let x = SafeRead 4 m (e + ucast off + 0); y = SafeRead 4 m (e + ucast off + 4);
          z = SafeRead 4 m (e + ucast off + 8)
      in LooksLikeWorldCoord x \<and> LooksLikeWorldCoord y \<and> LooksLikeWorldCoord z
         \<and> (\<not> f32_eq x f32_0 \<or> \<not> f32_eq y f32_0 \<or> \<not> f32_eq z f32_0))"

definition plausible_health :: "vm \<Rightarrow> addr \<Rightarrow> u32 \<Rightarrow> bool" where
  "plausible_health m e off =
     (let h = SafeRead 4 m (e + ucast off + 0); mh = SafeRead 4 m (e + ucast off + 4)
      in f32_isfinite h \<and> f32_isfinite mh \<and> f32_lt f32_0 mh \<and> f32_le mh f32_1e6
         \<and> f32_le f32_0 h \<and> f32_le h mh)"

definition plausible_anim :: "vm \<Rightarrow> addr \<Rightarrow> u32 \<Rightarrow> bool" where
  "plausible_anim m e off =
     (let i = SafeRead 4 m (e + ucast off + 0) :: i32; t = SafeRead 4 m (e + ucast off + 4)
      in 0 <s i \<and> i <s 100000 \<and> f32_isfinite t \<and> f32_le f32_0 t \<and> f32_le t f32_1)"

definition derived_offsets :: "GameOffsets \<Rightarrow> GameOffsets" where
  "derived_offsets g =
     (let g = g\<lparr>offMoveFlags := offVelocityX g + 0x0C\<rparr>;
          g = g\<lparr>offCombatFlags := offAnimId g + 0x10\<rparr>;
          g = g\<lparr>offEntityId := 0x08\<rparr>;
          g = g\<lparr>traversalFlagsOffset := offMoveFlags g + 0x04\<rparr>;
          g = g\<lparr>traversalTargetPosOffset := offVelocityX g + 0x20\<rparr>;
          g = g\<lparr>skillComponentOffset := offHealth g + 0x40\<rparr>;
          g = g\<lparr>statusComponentOffset := offHealth g + 0x10\<rparr>;
          g = g\<lparr>vfxComponentOffset := offPositionX g + 0x80\<rparr>;
          g = g\<lparr>equipmentComponentOffset := offHealth g + 0x80\<rparr>;
          g = g\<lparr>mountEntityPtrOffset := offPositionX g + 0x100\<rparr>
      in g\<lparr>dodgeComponentOffset := offVelocityX g + 0x30\<rparr>)"

definition WalkEntityLayout :: "vm \<Rightarrow> addr \<Rightarrow> GameOffsets \<Rightarrow> bool \<times> GameOffsets" where
  "WalkEntityLayout m e g =
     (if \<not> IsReadable m e 0x800 then (False, g)
      else
        let g = (case find_off (plausible_position m e) 0x10 0x600 of
                   Some off \<Rightarrow> g\<lparr>offPositionX := off, offVelocityX := off + 0x10\<rparr> | None \<Rightarrow> g)
        in if offPositionX g = 0 then (False, g)
           else
             let g = g\<lparr>offRotationYaw := offPositionX g + 0x24\<rparr>;
                 g = g\<lparr>offRotationPitch := offRotationYaw g + 4\<rparr>;
                 g = (case find_off (plausible_health m e) (unat (offPositionX g + 0x30)) 0x780 of
                        Some off \<Rightarrow> g\<lparr>offHealth := off, offMaxHealth := off + 4\<rparr> | None \<Rightarrow> g)
             in if offHealth g = 0 then (False, g)
                else
                  let g = (case find_off (plausible_anim m e) (unat (offPositionX g)) 0x780 of
                             Some off \<Rightarrow> g\<lparr>offAnimId := off, offAnimTime := off + 4,
                                          offBlendWeight := off + 8\<rparr> | None \<Rightarrow> g)
                  in if offAnimId g = 0 then (False, g) else (True, derived_offsets g))"

definition ResolveInventoryFields :: "GameOffsets \<Rightarrow> GameOffsets" where
  "ResolveInventoryFields g =
     g\<lparr>itemStride := 0x40, offItemId := 0x00, offItemQuantity := 0x08, offItemDurability := 0x0C,
       offItemFlags := 0x10, offItemNameHash := 0x14\<rparr>"

section \<open>The offset cache\<close>

definition saved_offsets :: "'j json_lib \<Rightarrow> GameOffsets \<Rightarrow> (string \<times> 'j) list" where
  "saved_offsets J g =
     (let w64 = (\<lambda>w :: u64. j_int J (uint w)); w32 = (\<lambda>w :: u32. j_int J (uint w))
      in [(''playerBasePtr'', w64 (playerBasePtr g)), (''inventoryArrayPtr'', w64 (inventoryArrayPtr g)),
          (''itemCountPtr'', w64 (itemCountPtr g)), (''itemUseFn'', w64 (itemUseFn g)),
          (''attackTriggerFn'', w64 (attackTriggerFn g)), (''skillTriggerFn'', w64 (skillTriggerFn g)),
          (''offPositionX'', w32 (offPositionX g)), (''offVelocityX'', w32 (offVelocityX g)),
          (''offRotationYaw'', w32 (offRotationYaw g)), (''offRotationPitch'', w32 (offRotationPitch g)),
          (''offHealth'', w32 (offHealth g)), (''offMaxHealth'', w32 (offMaxHealth g)),
          (''offAnimId'', w32 (offAnimId g)), (''offAnimTime'', w32 (offAnimTime g)),
          (''offMoveFlags'', w32 (offMoveFlags g)), (''offCombatFlags'', w32 (offCombatFlags g)),
          (''offBlendWeight'', w32 (offBlendWeight g)), (''offEntityId'', w32 (offEntityId g)),
          (''traversalFlagsOffset'', w32 (traversalFlagsOffset g)),
          (''traversalTargetPosOffset'', w32 (traversalTargetPosOffset g)),
          (''skillComponentOffset'', w32 (skillComponentOffset g)),
          (''vfxComponentOffset'', w32 (vfxComponentOffset g)),
          (''statusComponentOffset'', w32 (statusComponentOffset g)),
          (''equipmentComponentOffset'', w32 (equipmentComponentOffset g)),
          (''mountEntityPtrOffset'', w32 (mountEntityPtrOffset g)),
          (''dodgeComponentOffset'', w32 (dodgeComponentOffset g)),
          (''itemStride'', w32 (itemStride g)), (''offItemId'', w32 (offItemId g)),
          (''offItemQuantity'', w32 (offItemQuantity g)), (''offItemDurability'', w32 (offItemDurability g)),
          (''offItemFlags'', w32 (offItemFlags g)), (''offItemNameHash'', w32 (offItemNameHash g))])"

fun put_all :: "'j json_lib \<Rightarrow> (string \<times> 'j) list \<Rightarrow> 'j \<Rightarrow> 'j" where
  "put_all J [] j = j"
| "put_all J ((k, v) # kvs) j = put_all J kvs (j_set J j k v)"

text \<open>The document \<open>SaveOffsetCache\<close> writes to the cache file.\<close>

definition SaveOffsetCache :: "'j json_lib \<Rightarrow> string \<Rightarrow> ModuleRange \<Rightarrow> GameOffsets \<Rightarrow> 'j" where
  "SaveOffsetCache J hash r g =
     (let j = j_set J (j_null J) ''hash'' (j_str J hash);
          j = (if mod_base r \<noteq> 0 \<and> mod_base r \<le> playerBasePtr g
               then j_set J j ''playerBaseRva'' (j_int J (uint (playerBasePtr g - mod_base r))) else j)
      in j_set J j ''offsets'' (put_all J (saved_offsets J g) (j_null J)))"

definition rd64 :: "'j json_lib \<Rightarrow> 'j \<Rightarrow> string \<Rightarrow> ((u64 \<Rightarrow> u64) \<Rightarrow> GameOffsets \<Rightarrow> GameOffsets)
    \<Rightarrow> GameOffsets \<Rightarrow> GameOffsets option" where
  "rd64 J o' k upd g =
     (if j_contains J o' k then do { v \<leftarrow> get_u64 J (j_at J o' k); Some (upd (\<lambda>_. v) g) } else Some g)"

definition rd32 :: "'j json_lib \<Rightarrow> 'j \<Rightarrow> string \<Rightarrow> ((u32 \<Rightarrow> u32) \<Rightarrow> GameOffsets \<Rightarrow> GameOffsets)
    \<Rightarrow> GameOffsets \<Rightarrow> GameOffsets option" where
  "rd32 J o' k upd g =
     (if j_contains J o' k then do { v \<leftarrow> get_u32 J (j_at J o' k); Some (upd (\<lambda>_. v) g) } else Some g)"

definition load_offsets :: "'j json_lib \<Rightarrow> 'j \<Rightarrow> GameOffsets \<Rightarrow> GameOffsets option" where
  "load_offsets J o' g =
     do { g \<leftarrow> rd64 J o' ''playerBasePtr'' playerBasePtr_update g;
          g \<leftarrow> rd64 J o' ''inventoryArrayPtr'' inventoryArrayPtr_update g;
          g \<leftarrow> rd64 J o' ''itemCountPtr'' itemCountPtr_update g;
          g \<leftarrow> rd64 J o' ''itemUseFn'' itemUseFn_update g;
          g \<leftarrow> rd64 J o' ''attackTriggerFn'' attackTriggerFn_update g;
          g \<leftarrow> rd64 J o' ''skillTriggerFn'' skillTriggerFn_update g;
          g \<leftarrow> rd32 J o' ''offPositionX'' offPositionX_update g;
          g \<leftarrow> rd32 J o' ''offVelocityX'' offVelocityX_update g;
          g \<leftarrow> rd32 J o' ''offRotationYaw'' offRotationYaw_update g;
          g \<leftarrow> rd32 J o' ''offRotationPitch'' offRotationPitch_update g;
          g \<leftarrow> rd32 J o' ''offHealth'' offHealth_update g;
          g \<leftarrow> rd32 J o' ''offMaxHealth'' offMaxHealth_update g;
          g \<leftarrow> rd32 J o' ''offAnimId'' offAnimId_update g;
          g \<leftarrow> rd32 J o' ''offAnimTime'' offAnimTime_update g;
          g \<leftarrow> rd32 J o' ''offMoveFlags'' offMoveFlags_update g;
          g \<leftarrow> rd32 J o' ''offCombatFlags'' offCombatFlags_update g;
          g \<leftarrow> rd32 J o' ''offBlendWeight'' offBlendWeight_update g;
          g \<leftarrow> rd32 J o' ''offEntityId'' offEntityId_update g;
          g \<leftarrow> rd32 J o' ''traversalFlagsOffset'' traversalFlagsOffset_update g;
          g \<leftarrow> rd32 J o' ''traversalTargetPosOffset'' traversalTargetPosOffset_update g;
          g \<leftarrow> rd32 J o' ''skillComponentOffset'' skillComponentOffset_update g;
          g \<leftarrow> rd32 J o' ''vfxComponentOffset'' vfxComponentOffset_update g;
          g \<leftarrow> rd32 J o' ''statusComponentOffset'' statusComponentOffset_update g;
          g \<leftarrow> rd32 J o' ''equipmentComponentOffset'' equipmentComponentOffset_update g;
          g \<leftarrow> rd32 J o' ''mountEntityPtrOffset'' mountEntityPtrOffset_update g;
          g \<leftarrow> rd32 J o' ''dodgeComponentOffset'' dodgeComponentOffset_update g;
          g \<leftarrow> rd32 J o' ''itemStride'' itemStride_update g;
          g \<leftarrow> rd32 J o' ''offItemId'' offItemId_update g;
          g \<leftarrow> rd32 J o' ''offItemQuantity'' offItemQuantity_update g;
          g \<leftarrow> rd32 J o' ''offItemDurability'' offItemDurability_update g;
          g \<leftarrow> rd32 J o' ''offItemFlags'' offItemFlags_update g;
          rd32 J o' ''offItemNameHash'' offItemNameHash_update g }"

text \<open>\<open>file\<close>: the document in the cache file, \<open>None\<close> when it cannot be opened or parsed.\<close>

definition LoadFromCache ::
  "'j json_lib \<Rightarrow> 'j option \<Rightarrow> string \<Rightarrow> ModuleRange \<Rightarrow> GameOffsets \<Rightarrow> (bool \<times> GameOffsets) option" where
  "LoadFromCache J file hash r g =
     (case file of
        None \<Rightarrow> Some (False, g)
      | Some j \<Rightarrow>
          do { same \<leftarrow> (if \<not> j_contains J j ''hash'' then Some False
                        else do { h \<leftarrow> get_str J (j_at J j ''hash''); Some (h = hash) });
               (if \<not> same then Some (False, g)
                else
                  do { let o' = (if j_contains J j ''offsets'' then j_at J j ''offsets'' else j_null J);
                       g \<leftarrow> load_offsets J o' g;
                       g \<leftarrow> (if j_contains J j ''playerBaseRva'' \<and> mod_base r \<noteq> 0 then
                               do { rva \<leftarrow> get_u64 J (j_at J j ''playerBaseRva'');
                                    Some (g\<lparr>playerBasePtr := mod_base r + rva\<rparr>) }
                             else Some g);
                       Some (playerLayoutResolved g, g) }) })"

section \<open>\<open>ResolveOffsets\<close>\<close>

definition scan_signatures :: "vm \<Rightarrow> ModuleRange \<Rightarrow> GameOffsets \<Rightarrow> GameOffsets option" where
  "scan_signatures m r g =
     do { playerSig \<leftarrow> ScanPattern_ida m r kPlayerBaseSig;
          let g = (if playerSig \<noteq> 0 then g\<lparr>playerBasePtr := ResolveRipRelative m playerSig 3 7\<rparr> else g);
          invSig \<leftarrow> ScanPattern_ida m r kInventorySig;
          let g = (if invSig \<noteq> 0 then
                     let p = ResolveRipRelative m invSig 3 7
                     in g\<lparr>inventoryArrayPtr := p, itemCountPtr := p + 0x08\<rparr>
                   else g);
          f1 \<leftarrow> ScanPattern_ida m r kItemUseSig;
          f2 \<leftarrow> ScanPattern_ida m r kAttackSig;
          f3 \<leftarrow> ScanPattern_ida m r kSkillSig;
          f4 \<leftarrow> ScanPattern_ida m r kCutsceneSig;
          f5 \<leftarrow> ScanPattern_ida m r kPuzzleSig;
          Some (g\<lparr>itemUseFn := f1, attackTriggerFn := f2, skillTriggerFn := f3, cutsceneFn := f4,
                 puzzleInputFn := f5, puzzleTriggerFn := f5\<rparr>) }"

text \<open>The result, the offsets, and the document written to the cache, if any.\<close>

definition ResolveOffsets ::
  "'j json_lib \<Rightarrow> vm \<Rightarrow> ModuleRange \<Rightarrow> string \<Rightarrow> 'j option \<Rightarrow> GameOffsets
    \<Rightarrow> (bool \<times> GameOffsets \<times> 'j option) option" where
  "ResolveOffsets J m r hash file g =
     do { (cached, g) \<leftarrow> (if hash \<noteq> [] then LoadFromCache J file hash r g else Some (False, g));
          (if cached then
             Some (True, if itemStride g = 0 then ResolveInventoryFields g else g, None)
           else
             do { g \<leftarrow> scan_signatures m r g;
                  let e = GetLocalPlayerBase m g;
                  let g = (if e \<noteq> 0 then snd (WalkEntityLayout m e g) else g);
                  let g = ResolveInventoryFields g;
                  Some (playerLayoutResolved g, g,
                        if hash \<noteq> [] \<and> playerLayoutResolved g
                        then Some (SaveOffsetCache J hash r g) else None) }) }"

end
