(* ===== verification/Plugin.thy ===== *)
theory Plugin
  imports Inventory_Hook Render_Hook Scanner
begin

text \<open>
  \<open>client/src/dllmain.cpp\<close>: the initialisation thread and the shutdown sequence; the hook of
  \<open>hooks/render_hook.cpp\<close>; and the forwarders of \<open>proxy/dxgi_proxy.cpp\<close>. What the operating
  system answers (MinHook, the address of \<open>Present\<close>, \<open>LoadLibrary\<close>, \<open>GetProcAddress\<close>) is a
  parameter.
\<close>

section \<open>Start and stop\<close>

text \<open>One attempt per second, at most thirty; each sees the game's memory of its time.\<close>

fun resolve_attempts ::
  "'j json_lib \<Rightarrow> ModuleRange \<Rightarrow> string \<Rightarrow> 'j option \<Rightarrow> vm list \<Rightarrow> GameOffsets \<Rightarrow> GameOffsets option" where
  "resolve_attempts J r hash file [] g = Some g"
| "resolve_attempts J r hash file (m # ms) g =
     do { (ok, g, _) \<leftarrow> ResolveOffsets J m r hash file g;
          (if ok then Some g else resolve_attempts J r hash file ms g) }"

text \<open>\<open>present\<close>: entry 8 of the swap chain's table, when \<open>AcquirePresentPointer\<close> found it.\<close>

definition InstallRenderHook :: "minhook \<Rightarrow> addr option \<Rightarrow> hook_call list \<Rightarrow> bool \<times> hook_call list" where
  "InstallRenderHook mh present calls =
     (case present of None \<Rightarrow> (False, calls) | Some target \<Rightarrow> install_hook mh target calls)"

definition install_all :: "minhook \<Rightarrow> addr option \<Rightarrow> Client \<Rightarrow> Client" where
  "install_all mh present c =
     (let c = Session_Init c;
          c = c\<lparr>cl_hooks := snd (InstallRenderHook mh present (cl_hooks c))\<rparr>;
          c = InventoryHook_Init mh c;
          (_, cs, calls) = InstallHooks mh (cl_offsets c) (cl_combat c, cl_hooks c);
          c = c\<lparr>cl_combat := cs, cl_hooks := calls\<rparr>;
          c = CutsceneSync_Init mh c
      in PuzzleSync_Init mh c)"

section \<open>The dxgi proxy\<close>

record DxgiProxy =
  dx_called :: bool \<comment> \<open>\<open>g_initFlag\<close>\<close>
  g_realDxgi :: addr
  dx_table :: "(string \<times> addr) list"

definition DxgiProxy_init :: DxgiProxy where
  "DxgiProxy_init = \<lparr>dx_called = False, g_realDxgi = 0, dx_table = []\<rparr>"

definition dxgi_exports :: "string list" where
  "dxgi_exports = [''CreateDXGIFactory'', ''CreateDXGIFactory1'', ''CreateDXGIFactory2'',
     ''DXGIGetDebugInterface1'', ''DXGID3D10CreateDevice'', ''DXGIDeclareAdapterRemovalSupport'']"

text \<open>\<open>DoInit\<close> with the answers of \<open>LoadLibraryW\<close> and \<open>GetProcAddress\<close>.\<close>

definition DoInit :: "addr \<Rightarrow> (addr \<Rightarrow> string \<Rightarrow> addr) \<Rightarrow> DxgiProxy \<Rightarrow> DxgiProxy" where
  "DoInit lib getProc dx =
     (let dx = dx\<lparr>g_realDxgi := lib\<rparr>
      in if lib = 0 then dx else dx\<lparr>dx_table := map (\<lambda>n. (n, getProc lib n)) dxgi_exports\<rparr>)"

definition InitDxgiProxy ::
  "addr \<Rightarrow> (addr \<Rightarrow> string \<Rightarrow> addr) \<Rightarrow> DxgiProxy \<Rightarrow> bool \<times> DxgiProxy" where
  "InitDxgiProxy lib getProc dx =
     (let dx = (if dx_called dx then dx else (DoInit lib getProc dx)\<lparr>dx_called := True\<rparr>)
      in (g_realDxgi dx \<noteq> 0, dx))"

definition ShutdownDxgiProxy :: "DxgiProxy \<Rightarrow> DxgiProxy" where
  "ShutdownDxgiProxy dx = (if g_realDxgi dx \<noteq> 0 then dx\<lparr>g_realDxgi := 0\<rparr> else dx)"

definition E_FAIL :: u32 where "E_FAIL = 0x80004005"

text \<open>The body all six exported functions share: \<open>call f\<close> is what the real function at \<open>f\<close> returns.\<close>

definition proxy_forward ::
  "addr \<Rightarrow> (addr \<Rightarrow> string \<Rightarrow> addr) \<Rightarrow> string \<Rightarrow> (addr \<Rightarrow> u32) \<Rightarrow> DxgiProxy \<Rightarrow> u32 \<times> DxgiProxy" where
  "proxy_forward lib getProc name call dx =
     (let (ok, dx) = InitDxgiProxy lib getProc dx;
          f = (case map_of (dx_table dx) name of None \<Rightarrow> 0 | Some f \<Rightarrow> f)
      in if \<not> ok \<or> f = 0 then (E_FAIL, dx) else (call f, dx))"

section \<open>The DLL\<close>

text \<open>
  The flag of \<open>dllmain.cpp\<close>, the render hook with what it holds of the graphics stack, the client and
  the proxy.
\<close>

record Plugin =
  g_initialized :: bool
  pl_render :: "RenderHook \<times> gfx"
  pl_client :: Client
  pl_dxgi :: DxgiProxy

text \<open>
  \<open>mhInitialized\<close>: \<open>MH_Initialize\<close> returned \<open>MH_OK\<close>; \<open>ms\<close>: the game's memory at each
  attempt to resolve the offsets.
\<close>

definition InitThread ::
  "'j json_lib \<Rightarrow> minhook \<Rightarrow> bool \<Rightarrow> addr \<Rightarrow> (addr \<Rightarrow> string \<Rightarrow> addr) \<Rightarrow> ModuleRange \<Rightarrow> string
    \<Rightarrow> 'j option \<Rightarrow> vm list \<Rightarrow> addr option \<Rightarrow> Plugin \<Rightarrow> Plugin option" where
  "InitThread J mh mhInitialized lib getProc r hash file ms present pl =
     (let pl = pl\<lparr>pl_dxgi := snd (InitDxgiProxy lib getProc (pl_dxgi pl))\<rparr>
      in if \<not> mhInitialized then Some pl
         else do { let c = pl_client pl;
                   g \<leftarrow> resolve_attempts J r hash file (take 30 ms) (cl_offsets c);
                   let c = install_all mh present (c\<lparr>cl_offsets := g\<rparr>);
                   Some (pl\<lparr>pl_client := c, g_initialized := True\<rparr>) })"

definition Shutdown :: "Plugin \<Rightarrow> Plugin" where
  "Shutdown pl =
     (if \<not> g_initialized pl then pl
      else
        let c = PuzzleSync_Shutdown (pl_client pl);
            c = CutsceneSync_Shutdown c;
            c = InventoryHook_Shutdown c;
            pl = pl\<lparr>pl_client := c, pl_render := RemoveRenderHook (pl_render pl)\<rparr>;
            c = Session_Shutdown (pl_client pl);
            c = c\<lparr>cl_hooks := cl_hooks c @ [MH_Uninitialize]\<rparr>;
            pl = pl\<lparr>pl_client := c, pl_dxgi := ShutdownDxgiProxy (pl_dxgi pl)\<rparr>
        in pl\<lparr>g_initialized := False\<rparr>)"

datatype dll_reason = DLL_PROCESS_ATTACH | DLL_PROCESS_DETACH bool | DLL_OTHER
  \<comment> \<open>the argument of a detach: \<open>reserved == nullptr\<close>\<close>

text \<open>The thread \<open>DllMain\<close> starts is \<open>InitThread\<close>; the result says whether it was started.\<close>

definition DllMain :: "addr \<Rightarrow> (addr \<Rightarrow> string \<Rightarrow> addr) \<Rightarrow> dll_reason \<Rightarrow> Plugin \<Rightarrow> bool \<times> Plugin" where
  "DllMain lib getProc reason pl =
     (case reason of
        DLL_PROCESS_ATTACH \<Rightarrow> (True, pl\<lparr>pl_dxgi := snd (InitDxgiProxy lib getProc (pl_dxgi pl))\<rparr>)
      | DLL_PROCESS_DETACH dynamic \<Rightarrow> (False, if dynamic then Shutdown pl else pl)
      | DLL_OTHER \<Rightarrow> (False, pl))"

end
