(* ===== verification/System.thy ===== *)
theory System
  imports Plugin Player_Apply Puzzle_Spec
begin

text \<open>
  The plugin as a whole: every entry point of the code that runs after the initialisation thread
  (packets and connection events on the worker thread, the frame hook and the window procedures
  on the render thread, the detours of the game's own functions) is one step on the shared
  \<open>Client\<close> record, next to the moves of the game itself and of the worker's socket. The steps
  may come in any order. The invariant \<open>client_inv\<close> says how the singletons agree with each
  other in every reachable state.
\<close>

section \<open>Steps\<close>

inductive client_step ::
  "'j json_lib \<Rightarrow> minhook \<Rightarrow> (f32 \<Rightarrow> f32) \<Rightarrow> (f32 \<Rightarrow> f32) \<Rightarrow> Client \<Rightarrow> Client \<Rightarrow> bool"
  for J mh sinf cosf
where
  step_packet: "OnPacket J mh now ty d c = Some c' \<Longrightarrow> client_step J mh sinf cosf c c'"
| step_connected: "OnConnected J c = Some c' \<Longrightarrow> client_step J mh sinf cosf c c'"
| step_disconnected: "client_step J mh sinf cosf c (OnDisconnected c)"
| step_frame: "HookedPresent E J u now (h, gx, c) = Some (h', gx', c') \<Longrightarrow> client_step J mh sinf cosf c c'"
| step_window: "client_step J mh sinf cosf c (snd (HookedWndProc msg wParam c))"
| step_hotkey: "client_step J mh sinf cosf c (snd (HotkeyWndProc msg wParam c))"
| step_attack: "HookedAttack J sinf cosf (cl_offsets c) orig1 (cl_combat c) (cl_vm c, cl_ws c) = Some (m, w)
    \<Longrightarrow> client_step J mh sinf cosf c (c\<lparr>cl_vm := m, cl_ws := w\<rparr>)"
| step_skill: "HookedSkill J (cl_offsets c) orig2 skillId (cl_combat c) (cl_vm c, cl_ws c) = Some (m, w)
    \<Longrightarrow> client_step J mh sinf cosf c (c\<lparr>cl_vm := m, cl_ws := w\<rparr>)"
| step_cutscene: "HookedCutscene J orig3 entering c = Some c' \<Longrightarrow> client_step J mh sinf cosf c c'"
| step_puzzle: "client_step J mh sinf cosf c (snd (HookedPuzzleInput orig4 c))"
| step_use_item: "client_step J mh sinf cosf c (HookedUseItem orig5 slotIndex c)"
| step_game: "client_step J mh sinf cosf c (c\<lparr>cl_vm := m\<rparr>)"
| step_worker: "client_step J mh sinf cosf c (c\<lparr>cl_ws := w\<rparr>)"

inductive reachable ::
  "'j json_lib \<Rightarrow> minhook \<Rightarrow> (f32 \<Rightarrow> f32) \<Rightarrow> (f32 \<Rightarrow> f32) \<Rightarrow> addr option \<Rightarrow> Client \<Rightarrow> bool"
  for J mh sinf cosf present
where
  reach_start: "reachable J mh sinf cosf present (install_all mh present (Client_init m g))"
| reach_step: "reachable J mh sinf cosf present c \<Longrightarrow> client_step J mh sinf cosf c c'
    \<Longrightarrow> reachable J mh sinf cosf present c'"

section \<open>The invariant\<close>

definition no_enemy_slots :: "(string, EnemyMirror) smap \<Rightarrow> bool" where
  "no_enemy_slots es \<longleftrightarrow> smap_wf es \<and> (\<forall>(i, e) \<in> set es. em_entityBase e = 0)"

definition ids_agree :: "Client \<Rightarrow> bool" where
  "ids_agree c \<longleftrightarrow> localId (cl_players c) = ss_localId (cl_session c)
     \<and> cs_localId (cl_combat c) = ss_localId (cl_session c)"

definition suspension_agrees :: "Client \<Rightarrow> bool" where
  "suspension_agrees c \<longleftrightarrow> suspended (cl_players c) = cu_active (cl_cutscene c)
     \<and> (cutsceneActive (cl_session c) \<longrightarrow> cu_active (cl_cutscene c))"

definition host_agrees :: "Client \<Rightarrow> bool" where
  "host_agrees c \<longleftrightarrow> (isHost (cl_session c) \<longrightarrow> cs_isHost (cl_combat c))
     \<and> (status (cl_session c) = InSession \<longrightarrow> isHost (cl_session c) = cs_isHost (cl_combat c))"

definition wired :: "Client \<Rightarrow> bool" where \<comment> \<open>what \<open>Session::Init\<close> connected\<close>
  "wired c \<longleftrightarrow> ss_client (cl_session c) \<and> ps_client (cl_players c) \<and> cs_client (cl_combat c)
     \<and> remoteResolver (cl_combat c)"

definition slots_empty :: "Client \<Rightarrow> bool" where
  "slots_empty c \<longleftrightarrow> no_slots (remotes (cl_players c)) \<and> no_enemy_slots (enemies (cl_combat c))"

text \<open>Every redirected function is one that some part of the client knows it has to restore.\<close>

definition hook_owned :: "addr option \<Rightarrow> Client \<Rightarrow> addr \<Rightarrow> bool" where
  "hook_owned present c a \<longleftrightarrow> (let g = cl_offsets c in
     present = Some a
     \<or> a \<noteq> 0 \<and> a = itemUseFn g
     \<or> hooksInstalled (cl_combat c) \<and> (a = attackTriggerFn g \<or> a \<noteq> 0 \<and> a = skillTriggerFn g)
     \<or> cu_hookInstalled (cl_cutscene c) \<and> a \<noteq> 0 \<and> a = cutsceneFn g
     \<or> pz_hookInstalled (cl_puzzle c) \<and> a \<noteq> 0 \<and> a = puzzleInputFn g)"

definition hooks_owned :: "minhook \<Rightarrow> addr option \<Rightarrow> Client \<Rightarrow> bool" where
  "hooks_owned mh present c \<longleftrightarrow> (\<forall>a. hook_live mh a (cl_hooks c) \<longrightarrow> hook_owned present c a)"

definition client_inv :: "minhook \<Rightarrow> addr option \<Rightarrow> Client \<Rightarrow> bool" where
  "client_inv mh present c \<longleftrightarrow> ids_agree c \<and> suspension_agrees c \<and> host_agrees c \<and> wired c
     \<and> puzzle_ok (cl_puzzle c) \<and> slots_empty c \<and> hooks_owned mh present c"

lemmas inv_defs = ids_agree_def suspension_agrees_def host_agrees_def wired_def slots_empty_def
  hooks_owned_def hook_owned_def

text \<open>Steps that leave alone what the invariant reads.\<close>

lemma client_inv_irrelevant [simp]:
  "client_inv mh present (c\<lparr>cl_vm := m\<rparr>) = client_inv mh present c"
  "client_inv mh present (c\<lparr>cl_ws := w\<rparr>) = client_inv mh present c"
  "client_inv mh present (c\<lparr>cl_modal := md\<rparr>) = client_inv mh present c"
  "client_inv mh present (c\<lparr>cl_inventory := ih\<rparr>) = client_inv mh present c"
  by (simp_all add: client_inv_def inv_defs)

text \<open>Replacing the player sync by one with the same setters' fields and empty slots.\<close>

lemma client_inv_players:
  "client_inv mh present c \<Longrightarrow> ps_ok (cl_players c) ps \<Longrightarrow> client_inv mh present (c\<lparr>cl_players := ps\<rparr>)"
  by (simp add: client_inv_def inv_defs ps_ok_def ps_frame_def)

lemma client_inv_puzzle:
  "client_inv mh present c \<Longrightarrow> puzzle_ok pz \<Longrightarrow> pz_hookInstalled pz = pz_hookInstalled (cl_puzzle c)
    \<Longrightarrow> client_inv mh present (c\<lparr>cl_puzzle := pz\<rparr>)"
  by (simp add: client_inv_def inv_defs)

text \<open>Replacing the combat sync by one with the same flags.\<close>

definition cs_ok :: "CombatSync \<Rightarrow> CombatSync \<Rightarrow> bool" where
  "cs_ok a b \<longleftrightarrow> hooksInstalled b = hooksInstalled a \<and> cs_client b = cs_client a \<and> cs_isHost b = cs_isHost a \<and> cs_localId b = cs_localId a
     \<and> remoteResolver b = remoteResolver a \<and> no_enemy_slots (enemies b)"

lemma client_inv_combat:
  "client_inv mh present c \<Longrightarrow> cs_ok (cl_combat c) cs \<Longrightarrow> client_inv mh present (c\<lparr>cl_combat := cs\<rparr>)"
  by (simp add: client_inv_def inv_defs cs_ok_def)

lemma client_inv_no_slots: "client_inv mh present c \<Longrightarrow> no_slots (remotes (cl_players c))"
  and client_inv_enemies: "client_inv mh present c \<Longrightarrow> no_enemy_slots (enemies (cl_combat c))"
  and client_inv_client: "client_inv mh present c \<Longrightarrow> ss_client (cl_session c)"
  by (simp_all add: client_inv_def inv_defs)

lemma client_send_inv: "client_inv mh present c \<Longrightarrow> ensures (client_inv mh present) (client_send J ty d c)"
  by (auto simp: client_send_def ensures_def)

lemma session_send_inv: "client_inv mh present c \<Longrightarrow> ensures (client_inv mh present) (session_send J ty d c)"
  by (auto simp: session_send_def client_send_inv intro: ensures_None)

section \<open>Enemy mirrors\<close>

lemma no_enemy_slots_Nil [simp]: "no_enemy_slots []"
  by (simp add: no_enemy_slots_def)

lemma no_enemy_slots_put: "no_enemy_slots es \<Longrightarrow> em_entityBase e = 0 \<Longrightarrow> no_enemy_slots (smap_put i e es)"
  using set_smap_put[of i e es] by (fastforce simp: no_enemy_slots_def sm.wf_put)

lemma no_enemy_slots_get: "no_enemy_slots es \<Longrightarrow> em_entityBase (smap_get EnemyMirror_init i es) = 0"
  by (auto simp: smap_get_def EnemyMirror_init_def no_enemy_slots_def smap_find_mem split: option.splits)

lemma damage_first_no_slots:
  "\<forall>(i, e) \<in> set es. em_entityBase e = 0 \<Longrightarrow> damage_first g t dmg (m, es) = (m, es)"
  by (induction es) (auto split: prod.splits)

lemma HandleDamageRpc_no_slots:
  assumes "HandleDamageRpc J g d (m, cs) = Some (m', cs')" "no_enemy_slots (enemies cs)"
  shows "m' = m \<and> cs' = cs"
proof -
  have "damage_first g t dmg (m, enemies cs) = (m, enemies cs)" for t dmg
    using assms(2) by (intro damage_first_no_slots) (simp add: no_enemy_slots_def)
  with assms(1) show ?thesis by (auto simp: HandleDamageRpc_def Let_def)
qed

lemma mirror_enemy_no_slot: "em_entityBase e = 0 \<Longrightarrow> mirror_enemy g e m = m"
  by (simp add: mirror_enemy_def)

lemma update_enemy_no_slots:
  assumes "no_enemy_slots (enemies cs)"
  shows "ensures (\<lambda>(m', cs'). m' = m \<and> cs_ok cs cs') (update_enemy J g e (m, cs))"
proof -
  let ?Q = "\<lambda>(m', cs'). m' = m \<and> cs_ok cs cs'" and ?P = "\<lambda>en. em_entityBase en = 0"
  have store: "ensures ?Q (Some (mirror_enemy g en m, cs\<lparr>enemies := smap_put i en (enemies cs)\<rparr>))"
    if "?P en" for i en
    using that assms by (simp add: mirror_enemy_no_slot cs_ok_def no_enemy_slots_put ensures_def)
  have keep: "ensures ?Q (Some (m, cs))" using assms by (simp add: cs_ok_def ensures_def)
  have base: "?P (smap_get EnemyMirror_init i (enemies cs))" for i
    using assms by (rule no_enemy_slots_get)
  have opt: "ensures ?P (if b then Option.bind v (\<lambda>x. Some (f x)) else Some en)"
    if "?P en" "\<And>x. ?P (f x)" for b v f en
    using that by (auto simp: ensures_def)
  show ?thesis
    unfolding update_enemy_def Let_def prod.case
    by (rule ensures_val, rule ensures_if, rule keep, rule ensures_val, rule ensures_val,
        rule ensures_bind[where P = ?P], rule opt, simp add: base, simp add: base,
        rule ensures_bind[where P = ?P], rule opt, assumption, simp, rule store)
qed

lemma cs_ok_trans: "cs_ok a b \<Longrightarrow> cs_ok b c \<Longrightarrow> cs_ok a c"
  by (simp add: cs_ok_def)

lemma HandleEnemyUpdate_no_slots:
  assumes "no_enemy_slots (enemies cs)"
  shows "ensures (\<lambda>(m', cs'). m' = m \<and> cs_ok cs cs') (HandleEnemyUpdate J g d (m, cs))"
proof -
  let ?Q = "\<lambda>(m', cs'). m' = m \<and> cs_ok cs cs'"
  have refl: "cs_ok cs cs" using assms by (simp add: cs_ok_def)
  have step: "ensures ?Q (update_enemy J g x s)" if q: "?Q s" for x s
  proof -
    obtain cs1 where s: "s = (m, cs1)" and ok: "cs_ok cs cs1" using q by (cases s) auto
    then have "ensures (\<lambda>(m', cs'). m' = m \<and> cs_ok cs1 cs') (update_enemy J g x s)"
      unfolding s by (intro update_enemy_no_slots) (simp add: cs_ok_def)
    then show ?thesis by (rule ensures_mono) (use ok cs_ok_trans in blast)
  qed
  have "ensures ?Q (foldM (update_enemy J g) es (m, cs))" for es
    by (rule ensures_foldM) (simp_all add: refl step del: split_paired_All)
  moreover have "ensures ?Q (Some (m, cs))" by (simp add: refl ensures_def)
  ultimately show ?thesis unfolding HandleEnemyUpdate_def Let_def prod.case by simp
qed

section \<open>Every packet keeps the invariant\<close>

lemma client_inv_session:
  assumes "client_inv mh present c" "ss_localId s = ss_localId (cl_session c)"
    "cutsceneActive s = cutsceneActive (cl_session c)" "isHost s = isHost (cl_session c)"
    "status s = InSession \<longrightarrow> status (cl_session c) = InSession" "ss_client s = ss_client (cl_session c)"
  shows "client_inv mh present (c\<lparr>cl_session := s\<rparr>)"
  using assms by (simp add: client_inv_def inv_defs)

text \<open>\<open>InstallHooks\<close> sets at most its own flag, and redirects only the two combat functions.\<close>

lemma hook_live_append:
  "hook_live mh a (cs @ ds) \<longleftrightarrow>
     hook_live mh a cs \<and> (\<forall>d \<in> set ds. d \<noteq> MH_DisableHook a \<and> d \<noteq> MH_Uninitialize) \<or> hook_live mh a ds"
  by (induction cs) (auto split: hook_call.splits)

lemma InstallHooks_effect:
  assumes "InstallHooks mh g (cs, calls) = (ok, cs', calls')"
  shows "cs' = cs\<lparr>hooksInstalled := hooksInstalled cs'\<rparr>"
    and "hooksInstalled cs \<Longrightarrow> hooksInstalled cs'"
    and "hook_live mh a calls' \<Longrightarrow> hook_live mh a calls
      \<or> hooksInstalled cs' \<and> (a = attackTriggerFn g \<or> a \<noteq> 0 \<and> a = skillTriggerFn g)"
  using assms
  by (auto simp: InstallHooks_def Let_def install_hook_def hook_live_append split: if_splits)

lemma InstallHooks_inv:
  assumes "InstallHooks mh (cl_offsets c) (cl_combat c, cl_hooks c) = (ok, cs, calls)" "client_inv mh present c"
  shows "client_inv mh present (c\<lparr>cl_combat := cs, cl_hooks := calls\<rparr>)"
proof -
  note e = InstallHooks_effect[OF assms(1)]
  have keep: "cs_isHost cs = cs_isHost (cl_combat c)" "cs_client cs = cs_client (cl_combat c)"
    "cs_localId cs = cs_localId (cl_combat c)" "remoteResolver cs = remoteResolver (cl_combat c)"
    "enemies cs = enemies (cl_combat c)"
    by (subst e(1); simp)+
  have "hook_owned present (c\<lparr>cl_combat := cs, cl_hooks := calls\<rparr>) a" if "hook_live mh a calls" for a
    using e(3)[OF that]
  proof
    assume "hook_live mh a (cl_hooks c)"
    then have "hook_owned present c a" using assms(2) by (simp add: client_inv_def hooks_owned_def)
    then show ?thesis using e(2) by (auto simp: hook_owned_def Let_def)
  qed (auto simp: hook_owned_def Let_def)
  then have "hooks_owned mh present (c\<lparr>cl_combat := cs, cl_hooks := calls\<rparr>)" by (simp add: hooks_owned_def)
  with assms(2) show ?thesis by (simp add: client_inv_def inv_defs(1-5) keep)
qed

lemma set_host_inv:
  assumes "client_inv mh present c"
  shows "client_inv mh present (set_host mh b c)" and "isHost (cl_session (set_host mh b c)) = cs_isHost (cl_combat (set_host mh b c))"
proof -
  let ?c = "c\<lparr>cl_session := (cl_session c)\<lparr>isHost := b\<rparr>, cl_combat := CombatSync_SetHost b (cl_combat c)\<rparr>"
  have 1: "client_inv mh present ?c"
    using assms by (simp add: client_inv_def inv_defs CombatSync_SetHost_def)
  obtain ok cs calls where ih: "InstallHooks mh (cl_offsets ?c) (cl_combat ?c, cl_hooks ?c) = (ok, cs, calls)"
    by (metis prod_cases3)
  have "cs_isHost cs = b" by (subst InstallHooks_effect(1)[OF ih]) (simp add: CombatSync_SetHost_def)
  with ih show "isHost (cl_session (set_host mh b c)) = cs_isHost (cl_combat (set_host mh b c))"
    by (cases b) (simp_all add: set_host_def Let_def CombatSync_SetHost_def)
  show "client_inv mh present (set_host mh b c)"
    using 1 InstallHooks_inv[OF ih 1] ih by (cases b) (simp_all add: set_host_def Let_def CombatSync_SetHost_def)
qed

lemma on_handshake_ack_inv: "client_inv mh present c \<Longrightarrow> ensures (client_inv mh present) (on_handshake_ack J d c)"
  unfolding on_handshake_ack_def Let_def
  by (rule ensures_val, rule ensures_val, rule session_send_inv)
     (simp add: client_inv_def inv_defs SetLocalId_def CombatSync_SetLocalId_def)

lemma apply_state_inv: "client_inv mh present c \<Longrightarrow> ensures (client_inv mh present) (apply_state J now d c)"
  unfolding apply_state_def
  by (rule ensures_bind[OF ApplyStateUpdate_ok[OF ps_ok_refl]])
     (simp_all add: client_inv_no_slots ensures_Some client_inv_players)

lemma apply_state_frame:
  "ensures (\<lambda>c'. cl_session c' = cl_session c \<and> cl_combat c' = cl_combat c) (apply_state J now d c)"
  by (auto simp: apply_state_def ensures_def)

lemma on_join_ack_inv:
  assumes "client_inv mh present c"
  shows "ensures (client_inv mh present) (on_join_ack J mh now d c)"
proof -
  have enter: "client_inv mh present (c'\<lparr>cl_session := (cl_session c')\<lparr>status := InSession\<rparr>\<rparr>)"
    if "client_inv mh present c'" "isHost (cl_session c') = cs_isHost (cl_combat c')" for c'
    using that by (simp add: client_inv_def inv_defs)
  have state: "ensures (\<lambda>c'. client_inv mh present c' \<and> isHost (cl_session c') = cs_isHost (cl_combat c')) (apply_state J now p c')"
    if "client_inv mh present c'" "isHost (cl_session c') = cs_isHost (cl_combat c')" for c' p
    using apply_state_inv[OF that(1), of J now p] apply_state_frame[of c' J now p] that(2) by (auto simp: ensures_def)
  have named: "client_inv mh present (c'\<lparr>cl_session := (cl_session c')\<lparr>friendlyFire := ff, inviteCode := i, serverName := n\<rparr>\<rparr>)"
    if "client_inv mh present c'" for c' ff i n using that by (rule client_inv_session) simp_all
  show ?thesis
    unfolding on_join_ack_def Let_def
    by (rule ensures_val, rule ensures_val, rule ensures_val, rule ensures_val,
        rule ensures_bind[where P = "\<lambda>c'. client_inv mh present c' \<and> isHost (cl_session c') = cs_isHost (cl_combat c')"],
        rule ensures_if, rule state, rule named, rule set_host_inv(1), rule assms,
        simp add: set_host_inv(2)[OF assms], rule ensures_Some, simp add: named set_host_inv[OF assms],
        rule ensures_Some, simp add: enter)
qed

lemma on_session_text_inv:
  assumes "client_inv mh present c"
  shows "ensures (client_inv mh present) (on_join_denied J d c)" "ensures (client_inv mh present) (on_kick J d c)"
    "ensures (client_inv mh present) (on_server_info J d c)"
  unfolding on_join_denied_def on_kick_def on_server_info_def
  by (rule ensures_then_Some, rule client_inv_session[OF assms], simp_all)+

lemma on_players_inv:
  assumes "client_inv mh present c"
  shows "ensures (client_inv mh present) (on_player_leave J d c)" "ensures (client_inv mh present) (on_cutscene J b d c)"
    "ensures (client_inv mh present) (on_animation_update J d c)" "ensures (client_inv mh present) (on_player_join J now d c)"
proof -
  note slots = client_inv_no_slots[OF assms]
  show "ensures (client_inv mh present) (on_player_leave J d c)" "ensures (client_inv mh present) (on_cutscene J b d c)"
    unfolding on_player_leave_def on_cutscene_def
    by (rule ensures_then_Some, rule client_inv_players[OF assms], rule remote_map_ok, rule slots)+
  show "ensures (client_inv mh present) (on_animation_update J d c)"
    unfolding on_animation_update_def
    by (rule ensures_val, rule ensures_bind[OF ApplyAnimationUpdate_ok[OF slots]], rule ensures_Some,
        rule client_inv_players[OF assms])
  show "ensures (client_inv mh present) (on_player_join J now d c)"
    unfolding on_player_join_def Let_def
    by (rule ensures_if, rule ensures_val, rule ensures_val, rule apply_state_inv,
        rule client_inv_players[OF assms], rule remote_map_ok, rule slots, rule ensures_Some, rule assms)
qed

lemma HandleLootTaken_same: "HandleLootTaken J d cs = Some cs' \<Longrightarrow> cs' = cs"
  by (auto simp: HandleLootTaken_def)

lemma HandleSkillRpc_no_slots:
  assumes "no_slots (remotes ps)" "HandleSkillRpc J g (\<lambda>i. GetRemoteEntityBase i ps) d cs m = Some m'"
  shows "m' = m"
proof -
  have "GetRemoteEntityBase i ps = 0" for i
    using no_slots_find[OF assms(1)] by (auto simp: GetRemoteEntityBase_def split: option.splits)
  with assms(2) show ?thesis by (auto simp: HandleSkillRpc_def Let_def split: if_splits)
qed

text \<open>An RPC changes no byte of the game's memory, since no entity slot is ever filled.\<close>

lemma on_rpc_call_inv:
  assumes "client_inv mh present c"
  shows "ensures (\<lambda>c'. client_inv mh present c' \<and> cl_vm c' = cl_vm c) (on_rpc_call J d c)"
proof -
  let ?Q = "\<lambda>c'. client_inv mh present c' \<and> cl_vm c' = cl_vm c"
  note es = client_inv_enemies[OF assms]
  have keep: "ensures ?Q (Some c)" using assms by (simp add: ensures_def)
  have attack: "ensures ?Q (do { w \<leftarrow> HandleAttackRpc J d (cl_combat c) (cl_ws c); Some (c\<lparr>cl_ws := w\<rparr>) })"
    using assms by (auto simp: ensures_def)
  have damage: "ensures ?Q (do { (m, cs) \<leftarrow> HandleDamageRpc J (cl_offsets c) d (cl_vm c, cl_combat c);
                  Some (c\<lparr>cl_vm := m, cl_combat := cs\<rparr>) })"
    using assms HandleDamageRpc_no_slots[OF _ es] by (fastforce simp: ensures_def)
  have enemy: "ensures ?Q (do { (m, cs) \<leftarrow> HandleEnemyUpdate J (cl_offsets c) d (cl_vm c, cl_combat c);
                  Some (c\<lparr>cl_vm := m, cl_combat := cs\<rparr>) })"
    using HandleEnemyUpdate_no_slots[OF es, of "cl_vm c" J "cl_offsets c" d] client_inv_combat[OF assms]
    by (auto simp: ensures_def)
  have skill: "ensures ?Q (do { m \<leftarrow> HandleSkillRpc J (cl_offsets c)
                  (\<lambda>i. GetRemoteEntityBase i (cl_players c)) d (cl_combat c) (cl_vm c); Some (c\<lparr>cl_vm := m\<rparr>) })"
    using assms HandleSkillRpc_no_slots[OF client_inv_no_slots[OF assms]] by (auto simp: ensures_def)
  show ?thesis
    unfolding on_rpc_call_def
    by (rule ensures_val, intro ensures_if attack damage enemy skill keep)
qed

lemma get_puzzle_inv:
  assumes "client_inv mh present c"
  shows "ensures (client_inv mh present) (on_puzzle_start J d c)" "ensures (client_inv mh present) (on_puzzle_token J d c)"
    "ensures (client_inv mh present) (on_puzzle_end J d c)"
proof -
  have ok: "puzzle_ok (cl_puzzle c)" using assms by (simp add: client_inv_def)
  show "ensures (client_inv mh present) (on_puzzle_start J d c)" "ensures (client_inv mh present) (on_puzzle_end J d c)"
    unfolding on_puzzle_start_def on_puzzle_end_def
    by (rule ensures_then_Some, rule client_inv_puzzle[OF assms], rule puzzle_ok_step[OF ok], simp)+
  show "ensures (client_inv mh present) (on_puzzle_token J d c)"
    unfolding on_puzzle_token_def
    by (rule ensures_val)+ (rule ensures_Some, rule client_inv_puzzle[OF assms puzzle_ok_step(2)[OF ok]], simp)
qed

lemma OnPacket_inv:
  assumes "client_inv mh present c"
  shows "ensures (client_inv mh present) (OnPacket J mh now ty d c)"
proof -
  have rpc: "ensures (client_inv mh present) (on_rpc_call J d c)"
    by (rule ensures_mono[OF on_rpc_call_inv[OF assms]]) simp
  have host: "ensures (client_inv mh present) (on_host_reassign J mh d c)"
    unfolding on_host_reassign_def by (rule ensures_then_Some, rule set_host_inv(1)[OF assms])
  have loot: "ensures (client_inv mh present) (on_loot_taken J d c)"
    using assms by (auto simp: on_loot_taken_def ensures_def dest!: HandleLootTaken_same)
  have state: "ensures (client_inv mh present) (if b then apply_state J now p c else Some c)" for b p
    by (simp add: apply_state_inv assms ensures_Some)
  have keep: "ensures (client_inv mh present) (Some c)" using assms by (rule ensures_Some)
  note parts = rpc host loot state keep on_handshake_ack_inv[OF assms] on_join_ack_inv[OF assms]
    on_session_text_inv[OF assms] on_players_inv[OF assms] get_puzzle_inv[OF assms]
  show ?thesis unfolding OnPacket_def by (cases ty) (simp_all only: PacketType.case parts)
qed

section \<open>Every frame keeps the invariant\<close>

text \<open>The invariant, with the game's memory as it was.\<close>

definition calm :: "minhook \<Rightarrow> addr option \<Rightarrow> vm \<Rightarrow> Client \<Rightarrow> bool" where
  "calm mh present m c \<longleftrightarrow> client_inv mh present c \<and> cl_vm c = m"

lemma client_send_calm: "calm mh present m c \<Longrightarrow> ensures (calm mh present m) (client_send J ty d c)"
  by (auto simp: calm_def client_send_def ensures_def)

lemma calm_update:
  "calm mh present m c \<Longrightarrow> client_inv mh present (f c) \<Longrightarrow> cl_vm (f c) = cl_vm c \<Longrightarrow> calm mh present m (f c)"
  by (simp add: calm_def)

lemma ensures_bind3:
  "ensures (\<lambda>(x, y, z). P x y z) m \<Longrightarrow> (\<And>x y z. P x y z \<Longrightarrow> ensures Q (f x y z))
    \<Longrightarrow> ensures Q (Option.bind m (\<lambda>(x, y, z). f x y z))"
  by (fastforce simp: ensures_def)

lemma OnCutscene_calm:
  assumes "calm mh present m c"
  shows "ensures (calm mh present m) (OnCutsceneStart J c)" "ensures (calm mh present m) (OnCutsceneEnd J c)"
  unfolding OnCutsceneStart_def OnCutsceneEnd_def Let_def
  by (rule ensures_if, rule ensures_Some, rule assms, rule ensures_if, rule client_send_calm,
      use assms in \<open>simp add: calm_def client_inv_def inv_defs SetSuspended_def\<close>, rule ensures_Some,
      use assms in \<open>simp add: calm_def client_inv_def inv_defs SetSuspended_def\<close>)+

lemma calm_poll:
  "calm mh present m c \<Longrightarrow> cu_active cu = cu_active (cl_cutscene c)
    \<Longrightarrow> cu_hookInstalled cu = cu_hookInstalled (cl_cutscene c) \<Longrightarrow> calm mh present m (c\<lparr>cl_cutscene := cu\<rparr>)"
  by (simp add: calm_def client_inv_def inv_defs)

lemma CutsceneSync_Poll_calm: "calm mh present m c \<Longrightarrow> ensures (calm mh present m) (CutsceneSync_Poll J now c)"
  unfolding CutsceneSync_Poll_def Let_def
  by (intro ensures_if ensures_Some OnCutscene_calm calm_poll) simp_all

lemma SendPing_calm: "calm mh present m c \<Longrightarrow> ensures (calm mh present m) (SendPing J now c)"
  unfolding SendPing_def by (intro ensures_if client_send_calm ensures_Some)

lemma calm_puzzle_tick:
  "calm mh present m c \<Longrightarrow> calm mh present m (c\<lparr>cl_puzzle := PuzzleSync_Tick g now (cl_puzzle c)\<rparr>)"
  using puzzle_ok_step(4) client_inv_puzzle by (auto simp: calm_def client_inv_def)

lemma calm_ping_time: "calm mh present m c \<Longrightarrow> calm mh present m (c\<lparr>cl_session := (cl_session c)\<lparr>lastPingMs := now\<rparr>\<rparr>)"
  using client_inv_session[of mh present c "(cl_session c)\<lparr>lastPingMs := now\<rparr>"] by (simp add: calm_def)

lemma calm_player_tick:
  assumes "calm mh present m c"
  shows "ensures (\<lambda>(m', w, ps). calm mh present m (c\<lparr>cl_vm := m', cl_ws := w, cl_players := ps\<rparr>))
    (PlayerSync_Tick J g now (cl_vm c, cl_ws c, cl_players c))"
  unfolding ensures_def split_paired_All prod.case
proof (intro allI impI)
  fix m' w ps
  assume "PlayerSync_Tick J g now (cl_vm c, cl_ws c, cl_players c) = Some (m', w, ps)"
  with assms have "m' = cl_vm c \<and> ps_ok (cl_players c) ps"
    by (intro PlayerSync_Tick_ok client_inv_no_slots[of mh present]) (simp_all add: calm_def)
  with assms show "calm mh present m (c\<lparr>cl_vm := m', cl_ws := w, cl_players := ps\<rparr>)"
    using client_inv_players[of mh present "c\<lparr>cl_vm := m', cl_ws := w\<rparr>" ps] by (simp add: calm_def)
qed

lemma Session_Tick_calm: "calm mh present m c \<Longrightarrow> ensures (calm mh present m) (Session_Tick J now c)"
  unfolding Session_Tick_def Let_def
  by (rule ensures_if, erule ensures_Some, erule ensures_bind[OF CutsceneSync_Poll_calm],
      drule calm_puzzle_tick, erule ensures_bind3[OF calm_player_tick], rule ensures_if,
      rule SendPing_calm, erule calm_ping_time, erule ensures_Some)

section \<open>The overlay keeps the invariant\<close>

lemma LeaveSession_inv: "client_inv mh present c \<Longrightarrow> client_inv mh present (LeaveSession c)"
  by (simp add: LeaveSession_def Let_def client_inv_def inv_defs PlayerSync_Clear_def)

lemma HostJoin_inv:
  assumes "client_inv mh present c"
  shows "ensures (client_inv mh present) (HostSession h p n pw c)" "ensures (client_inv mh present) (JoinSession h p n pw c)"
  using client_inv_session[OF assms] unfolding HostSession_def JoinSession_def Let_def
  by (auto intro!: ensures_Some ensures_None)

lemma set_modal_inv [simp]: "client_inv mh present (set_modal s c) = client_inv mh present c"
  by (simp add: set_modal_def)

lemma RequestPass_inv: "client_inv mh present c \<Longrightarrow> ensures (client_inv mh present) (RequestPass J c)"
  unfolding RequestPass_def Let_def by (intro ensures_if ensures_Some client_send_inv)

lemma Render_inv:
  assumes "client_inv mh present c"
  shows "client_inv mh present (RenderMainMenu u c)" "ensures (client_inv mh present) (RenderHostSetup u c)"
    "ensures (client_inv mh present) (RenderJoinSetup u c)" "ensures (client_inv mh present) (RenderInSession J u c)"
proof -
  show "client_inv mh present (RenderMainMenu u c)"
    using assms by (simp add: RenderMainMenu_def Let_def LeaveSession_inv)
  show "ensures (client_inv mh present) (RenderHostSetup u c)"
    unfolding RenderHostSetup_def Let_def
    by (rule ensures_bind[where P = "client_inv mh present"], intro ensures_if ensures_Some HostJoin_inv)
       (simp_all add: assms ensures_Some)
  show "ensures (client_inv mh present) (RenderJoinSetup u c)"
    unfolding RenderJoinSetup_def Let_def prod.case_eq_if
    by (rule ensures_bind[where P = "client_inv mh present"], intro ensures_if ensures_Some HostJoin_inv)
       (simp_all add: assms ensures_Some)
  show "ensures (client_inv mh present) (RenderInSession J u c)"
    unfolding RenderInSession_def
    by (rule ensures_bind[where P = "client_inv mh present"], intro ensures_if ensures_Some RequestPass_inv)
       (simp_all add: assms ensures_Some LeaveSession_inv)
qed

lemma Modal_Render_inv: "client_inv mh present c \<Longrightarrow> ensures (client_inv mh present) (Modal_Render J u c)"
  unfolding Modal_Render_def Let_def
  by (auto intro!: ensures_Some Render_inv split: ModalState.split)

lemma overlay_frame_inv: "client_inv mh present c \<Longrightarrow> ensures (client_inv mh present) (overlay_frame J u now c)"
  unfolding overlay_frame_def
  by (rule ensures_bind[OF Session_Tick_calm[of mh present "cl_vm c"]])
     (auto simp: calm_def intro: Modal_Render_inv ensures_Some)

text \<open>Of the client, the set-up of a frame only touches the theme flag of the overlay.\<close>

lemma InitImGui_client: "InitImGui E (h, gx, c) = (h', gx', c') \<Longrightarrow> \<exists>md. c' = c\<lparr>cl_modal := md\<rparr>"
  by (auto simp: InitImGui_def Let_def split: if_splits option.splits prod.splits intro: exI[of _ "cl_modal c"])

lemma HookedPresent_inv:
  assumes "client_inv mh present c"
  shows "ensures (\<lambda>(h, gx, c). client_inv mh present c) (HookedPresent E J u now (h, gx, c))"
proof -
  obtain h1 gx1 c1 where i: "InitImGui E (h, gx, c) = (h1, gx1, c1)" by (cases "InitImGui E (h, gx, c)")
  with InitImGui_client[OF this] assms have "client_inv mh present c1" by auto
  with overlay_frame_inv[OF this] i show ?thesis
    by (auto simp: HookedPresent_def ensures_def)
qed

section \<open>Reachable states\<close>

lemma toggle_modal_inv [simp]: "client_inv mh present (toggle_modal c) = client_inv mh present c"
  by (simp add: toggle_modal_def)

lemma HookedCutscene_inv: "client_inv mh present c \<Longrightarrow> ensures (client_inv mh present) (HookedCutscene J orig e c)"
  unfolding HookedCutscene_def
  by (rule ensures_bind[where P = "client_inv mh present"], rule ensures_if)
     (auto intro: ensures_mono[OF OnCutscene_calm(1)[of mh present "cl_vm c"]] ensures_mono[OF OnCutscene_calm(2)[of mh present "cl_vm c"]]
        ensures_Some simp: calm_def split: option.split)

lemma client_step_inv: "client_step J mh sinf cosf c c' \<Longrightarrow> client_inv mh present c \<Longrightarrow> client_inv mh present c'"
proof (induction rule: client_step.induct)
  case (step_packet now ty d c c')
  then show ?case by (auto dest: ensuresD[OF OnPacket_inv])
next
  case (step_connected c c')
  then show ?case using ensuresD[OF session_send_inv] by (simp add: OnConnected_def)
next
  case (step_frame E u now h gx c h' gx' c')
  then show ?case using ensuresD[OF HookedPresent_inv] by fastforce
next
  case (step_cutscene orig3 entering c c')
  then show ?case by (auto dest: ensuresD[OF HookedCutscene_inv])
qed (auto simp: OnDisconnected_def HookedWndProc_def HotkeyWndProc_def HookedPuzzleInput_def HookedUseItem_def
      split: option.splits prod.splits)

lemma no_hook_live_Nil [simp]: "\<not> hook_live mh a []"
  by simp

lemma Session_Init_inv: "client_inv mh present (Session_Init (Client_init m g))"
  by (simp add: client_inv_def inv_defs Session_Init_def Client_init_def Session_init_def PlayerSync_init_def
      CombatSync_init_def CutsceneSync_init_def PuzzleSync_init_def puzzle_ok_def SetClient_def Let_def)

text \<open>Installing a hook that an owner will restore.\<close>

lemma client_inv_hooks:
  assumes "client_inv mh present c" "install_hook mh a (cl_hooks c) = (ok, calls)" "ok \<Longrightarrow> hook_owned present c a"
  shows "client_inv mh present (c\<lparr>cl_hooks := calls\<rparr>)"
proof -
  have "hook_live mh b calls \<Longrightarrow> hook_owned present c b" for b
    using install_hook_live[OF assms(2), of b] assms(1,3) by (auto simp: client_inv_def hooks_owned_def)
  then have "hooks_owned mh present (c\<lparr>cl_hooks := calls\<rparr>)"
    by (simp add: hooks_owned_def hook_owned_def)
  with assms(1) show ?thesis by (simp add: client_inv_def inv_defs(1-5))
qed

lemma InstallRenderHook_inv:
  assumes "client_inv mh present c"
  shows "client_inv mh present (c\<lparr>cl_hooks := snd (InstallRenderHook mh present (cl_hooks c))\<rparr>)"
proof (cases present)
  case (Some p)
  obtain ok calls where i: "install_hook mh p (cl_hooks c) = (ok, calls)" by force
  with client_inv_hooks[OF assms this] Some show ?thesis
    by (simp add: InstallRenderHook_def hook_owned_def)
qed (use assms in \<open>simp add: InstallRenderHook_def\<close>)

lemma InventoryHook_Init_inv:
  assumes "client_inv mh present c"
  shows "client_inv mh present (InventoryHook_Init mh c)"
proof -
  have "client_inv mh present (snd (InstallUseHook mh c))"
  proof (cases "itemUseFn (cl_offsets c) = 0")
    case False
    obtain ok calls where "install_hook mh (itemUseFn (cl_offsets c)) (cl_hooks c) = (ok, calls)" by force
    with client_inv_hooks[OF assms this] False show ?thesis
      by (simp add: InstallUseHook_def hook_owned_def Let_def)
  qed (use assms in \<open>simp add: InstallUseHook_def\<close>)
  moreover have "client_inv mh present c' \<Longrightarrow> client_inv mh present (case AppendBeaconItem (cl_offsets c') (cl_vm c', cl_inventory c') of
      (_, m, ih) \<Rightarrow> c'\<lparr>cl_vm := m, cl_inventory := ih\<rparr>)" for c'
    by (simp split: prod.split)
  ultimately show ?thesis using assms
    by (cases "InstallUseHook mh c") (simp add: InventoryHook_Init_def Let_def)
qed

lemma hooks_owned_mono:
  "hooks_owned mh present c \<Longrightarrow> cl_hooks c' = cl_hooks c
    \<Longrightarrow> (\<And>a. hook_owned present c a \<Longrightarrow> hook_owned present c' a) \<Longrightarrow> hooks_owned mh present c'"
  by (auto simp: hooks_owned_def)

lemma client_inv_cutscene:
  assumes "client_inv mh present c" "cu_active cu = cu_active (cl_cutscene c)"
    "cu_hookInstalled (cl_cutscene c) \<longrightarrow> cu_hookInstalled cu"
  shows "client_inv mh present (c\<lparr>cl_cutscene := cu\<rparr>)"
proof -
  have "hooks_owned mh present (c\<lparr>cl_cutscene := cu\<rparr>)"
    by (rule hooks_owned_mono[of _ _ c]) (use assms in \<open>auto simp: client_inv_def hook_owned_def Let_def\<close>)
  with assms(1,2) show ?thesis by (simp add: client_inv_def inv_defs(1-5))
qed

lemma client_inv_flag_address:
  assumes "client_inv mh present c"
  shows "client_inv mh present (c\<lparr>cl_offsets := (cl_offsets c)\<lparr>cinematicFlagPtr := p\<rparr>\<rparr>)"
proof -
  have "hooks_owned mh present (c\<lparr>cl_offsets := (cl_offsets c)\<lparr>cinematicFlagPtr := p\<rparr>\<rparr>)"
    by (rule hooks_owned_mono[of _ _ c]) (use assms in \<open>auto simp: client_inv_def hook_owned_def Let_def\<close>)
  with assms show ?thesis by (simp add: client_inv_def inv_defs(1-5))
qed

lemma client_inv_puzzle_flag:
  assumes "client_inv mh present c"
  shows "client_inv mh present (c\<lparr>cl_puzzle := (cl_puzzle c)\<lparr>pz_hookInstalled := True\<rparr>\<rparr>)"
proof -
  have "hooks_owned mh present (c\<lparr>cl_puzzle := (cl_puzzle c)\<lparr>pz_hookInstalled := True\<rparr>\<rparr>)"
    by (rule hooks_owned_mono[of _ _ c]) (use assms in \<open>auto simp: client_inv_def hook_owned_def Let_def\<close>)
  with assms show ?thesis by (simp add: client_inv_def inv_defs(1-5) puzzle_ok_def)
qed

lemma CutsceneSync_Init_inv:
  assumes "client_inv mh present c"
  shows "client_inv mh present (CutsceneSync_Init mh c)"
proof -
  have hook: "client_inv mh present (snd (HookCutsceneFunction mh c))"
  proof (cases "cutsceneFn (cl_offsets c) = 0")
    case False
    let ?c = "c\<lparr>cl_cutscene := (cl_cutscene c)\<lparr>cu_hookInstalled := True\<rparr>\<rparr>"
    obtain ok calls where i: "install_hook mh (cutsceneFn (cl_offsets c)) (cl_hooks c) = (ok, calls)" by force
    have c': "client_inv mh present ?c" using assms by (rule client_inv_cutscene) simp_all
    show ?thesis
    proof (cases ok)
      case True
      then have "snd (HookCutsceneFunction mh c) = ?c\<lparr>cl_hooks := calls\<rparr>"
        using i False by (simp add: HookCutsceneFunction_def)
      then show ?thesis
        using client_inv_hooks[OF c', of "cutsceneFn (cl_offsets c)" ok calls] i False
        by (simp add: hook_owned_def Let_def)
  next
      case ok: False
      with client_inv_hooks[OF assms i] i False show ?thesis by (simp add: HookCutsceneFunction_def)
    qed
  qed (use assms in \<open>simp add: HookCutsceneFunction_def\<close>)
  have scan: "client_inv mh present (snd (ScanForCinematicFlag c'))" if "client_inv mh present c'" for c'
  proof (cases "find_flag (cl_vm c') (GetLocalPlayerBase (cl_vm c') (cl_offsets c')) [0x200..<0x800]")
    case (Some a)
    have "client_inv mh present (c'\<lparr>cl_cutscene := (cl_cutscene c')\<lparr>cinematicFlagAddr := a\<rparr>\<rparr>)"
      using that by (rule client_inv_cutscene) simp_all
    from client_inv_flag_address[OF this, of a] Some that show ?thesis
      by (simp add: ScanForCinematicFlag_def Let_def)
  qed (use that in \<open>simp add: ScanForCinematicFlag_def Let_def\<close>)
  have poll: "client_inv mh present (c'\<lparr>cl_cutscene := (cl_cutscene c')\<lparr>pollFallback := True\<rparr>\<rparr>)"
    if "client_inv mh present c'" for c'
    using that by (rule client_inv_cutscene) simp_all
  show ?thesis
    using hook scan[OF hook] poll[OF scan[OF hook]] by (simp add: CutsceneSync_Init_def Let_def split_beta)
qed

lemma PuzzleSync_Init_inv:
  assumes "client_inv mh present c"
  shows "client_inv mh present (PuzzleSync_Init mh c)"
proof (cases "puzzleInputFn (cl_offsets c) = 0")
  case False
  let ?c = "c\<lparr>cl_puzzle := (cl_puzzle c)\<lparr>pz_hookInstalled := True\<rparr>\<rparr>"
  obtain ok calls where i: "install_hook mh (puzzleInputFn (cl_offsets c)) (cl_hooks c) = (ok, calls)" by force
  show ?thesis
  proof (cases ok)
    case True
    then have "PuzzleSync_Init mh c = ?c\<lparr>cl_hooks := calls\<rparr>"
      using i False by (simp add: PuzzleSync_Init_def HookPuzzleInput_def ScanForPuzzleHook_def)
    then show ?thesis
      using client_inv_hooks[OF client_inv_puzzle_flag[OF assms], of "puzzleInputFn (cl_offsets c)" ok calls] i False
      by (simp add: hook_owned_def Let_def)
  next
    case ok: False
    with client_inv_hooks[OF assms i] i False show ?thesis
      by (simp add: PuzzleSync_Init_def HookPuzzleInput_def ScanForPuzzleHook_def)
  qed
qed (use assms in \<open>simp add: PuzzleSync_Init_def HookPuzzleInput_def ScanForPuzzleHook_def\<close>)

lemma install_all_inv: "client_inv mh present (install_all mh present (Client_init m g))"
proof -
  define c where "c = (let c = Session_Init (Client_init m g);
          c = c\<lparr>cl_hooks := snd (InstallRenderHook mh present (cl_hooks c))\<rparr>
      in InventoryHook_Init mh c)"
  have c: "client_inv mh present c"
    unfolding c_def Let_def by (intro InventoryHook_Init_inv InstallRenderHook_inv Session_Init_inv)
  obtain ok cs calls where i: "InstallHooks mh (cl_offsets c) (cl_combat c, cl_hooks c) = (ok, cs, calls)"
    by (metis prod_cases3)
  have "install_all mh present (Client_init m g)
      = PuzzleSync_Init mh (CutsceneSync_Init mh (c\<lparr>cl_combat := cs, cl_hooks := calls\<rparr>))"
    using i by (simp add: install_all_def c_def Let_def)
  then show ?thesis
    using InstallHooks_inv[OF i c] by (simp add: CutsceneSync_Init_inv PuzzleSync_Init_inv)
qed

lemma reachable_inv: "reachable J mh sinf cosf present c \<Longrightarrow> client_inv mh present c"
  by (induction rule: reachable.induct) (auto intro: install_all_inv client_step_inv)

end
