(* ===== verification/System_Props.thy ===== *)
theory System_Props
  imports System Session_Props
begin

text \<open>
  What holds of the plugin as a whole, in every state its steps can reach: the singletons agree
  with each other, nothing the network sends writes the game's memory, and the shutdown restores
  every function the plugin has redirected.
\<close>

section \<open>Agreement of the singletons\<close>

definition idle_client :: Client where
  "idle_client = install_all (\<lambda>_. True) (Some 0x5000) (Client_init demo_vm GameOffsets_init)"

lemma idle_reachable: "reachable demo_json (\<lambda>_. True) id id (Some 0x5000) idle_client"
  unfolding idle_client_def by (rule reach_start)

definition token_client :: Client where
  "token_client = idle_client\<lparr>cl_puzzle := OnPuzzleToken ''altar'' ''p2'' 15000 [''p2'', ''p1''] (cl_puzzle idle_client)\<rparr>"

lemma token_reachable: "reachable demo_json (\<lambda>_. True) id id (Some 0x5000) token_client"
  using reach_step[OF idle_reachable step_packet[OF demo_token_handled[of "\<lambda>_. True" 3 idle_client]]]
  by (simp add: token_client_def)

text \<open>C1: in every state the plugin can reach, whatever the order of packets, frames, key strokes,
  button clicks, hooked calls and game moves: the session, the player sync and the combat sync hold
  the same local id; the player sync is suspended exactly while a cutscene is on; in a session, the
  host flag that gates damage is the one the session shows; the token's countdown is never negative
  and all puzzle fields are blank without a puzzle; the tables of remotes and enemies are ordered
  maps.\<close>

lemma reachable_agreement:
  assumes "reachable J mh sinf cosf present c"
  shows "localId (cl_players c) = ss_localId (cl_session c)
    \<and> cs_localId (cl_combat c) = ss_localId (cl_session c)
    \<and> suspended (cl_players c) = cu_active (cl_cutscene c)
    \<and> (status (cl_session c) = InSession \<longrightarrow> isHost (cl_session c) = cs_isHost (cl_combat c))
    \<and> 0 \<le> sint (tokenTimeRemaining (cl_puzzle c))
    \<and> (puzzleActive (cl_puzzle c) \<or> puzzleId (cl_puzzle c) = [] \<and> controllerId (cl_puzzle c) = []
         \<and> pz_queue (cl_puzzle c) = [] \<and> tokenTimeRemaining (cl_puzzle c) = 0)
    \<and> smap_wf (remotes (cl_players c)) \<and> smap_wf (enemies (cl_combat c))"
  using reachable_inv[OF assms]
  by (auto simp: client_inv_def inv_defs(1-5) puzzle_ok_def word_sle_eq no_slots_def no_enemy_slots_def)

lemma reachable_agreement_witness:
  "0 \<le> sint (tokenTimeRemaining (cl_puzzle token_client)) \<and> smap_wf (remotes (cl_players token_client))
   \<and> suspended (cl_players token_client) = cu_active (cl_cutscene token_client)"
  using reachable_agreement[OF token_reachable] by blast

section \<open>The game's memory\<close>

lemma set_host_vm [simp]: "cl_vm (set_host mh b c) = cl_vm c"
  by (simp add: set_host_def Let_def split: prod.split)

lemma client_send_vm: "client_send J ty d c = Some c' \<Longrightarrow> cl_vm c' = cl_vm c"
  by (auto simp: client_send_def)

lemma apply_state_vm: "apply_state J now d c = Some c' \<Longrightarrow> cl_vm c' = cl_vm c"
  by (auto simp: apply_state_def)

lemma handler_vm:
  "on_handshake_ack J d c = Some c' \<Longrightarrow> cl_vm c' = cl_vm c"
  "on_join_ack J mh now d c = Some c' \<Longrightarrow> cl_vm c' = cl_vm c"
  "on_join_denied J d c = Some c' \<Longrightarrow> cl_vm c' = cl_vm c"
  "on_player_join J now d c = Some c' \<Longrightarrow> cl_vm c' = cl_vm c"
  "on_player_leave J d c = Some c' \<Longrightarrow> cl_vm c' = cl_vm c"
  "on_animation_update J d c = Some c' \<Longrightarrow> cl_vm c' = cl_vm c"
  "on_host_reassign J mh d c = Some c' \<Longrightarrow> cl_vm c' = cl_vm c"
  "on_loot_taken J d c = Some c' \<Longrightarrow> cl_vm c' = cl_vm c"
  "on_cutscene J b d c = Some c' \<Longrightarrow> cl_vm c' = cl_vm c"
  "on_puzzle_start J d c = Some c' \<Longrightarrow> cl_vm c' = cl_vm c"
  "on_puzzle_token J d c = Some c' \<Longrightarrow> cl_vm c' = cl_vm c"
  "on_puzzle_end J d c = Some c' \<Longrightarrow> cl_vm c' = cl_vm c"
  "on_kick J d c = Some c' \<Longrightarrow> cl_vm c' = cl_vm c"
  "on_server_info J d c = Some c' \<Longrightarrow> cl_vm c' = cl_vm c"
  by (auto simp: on_handshake_ack_def on_join_ack_def on_join_denied_def on_player_join_def on_player_leave_def
      on_animation_update_def on_host_reassign_def on_loot_taken_def on_cutscene_def on_puzzle_start_def
      on_puzzle_token_def on_puzzle_end_def on_kick_def on_server_info_def session_send_def Let_def
      dest!: client_send_vm apply_state_vm split: if_splits)

lemma OnPacket_vm:
  assumes "client_inv mh present c" "OnPacket J mh now ty d c = Some c'"
  shows "cl_vm c' = cl_vm c"
proof (cases "ty = RPC_CALL")
  case True
  with assms(2) have "on_rpc_call J d c = Some c'" by (simp add: OnPacket_def)
  from ensuresD[OF on_rpc_call_inv[OF assms(1)] this] show ?thesis by simp
next
  case False
  with assms(2) show ?thesis
    by (cases ty) (auto simp: OnPacket_def dest: handler_vm apply_state_vm split: if_splits)
qed

text \<open>C13: mirroring never happens: in every state the plugin can reach, handling a packet (a state
  update, damage, an enemy update, a skill) and running the per-frame pump leave every byte of the
  game's memory as it was. No code ever fills the entity slot of a remote player or of an enemy, so
  each write is skipped.\<close>

lemma network_never_writes_memory:
  assumes "reachable J mh sinf cosf present c"
    and "OnPacket J mh now ty d c = Some c1 \<or> Session_Tick J now c = Some c1"
  shows "cl_vm c1 = cl_vm c"
proof -
  have "calm mh present (cl_vm c) c" using reachable_inv[OF assms(1)] by (simp add: calm_def)
  from Session_Tick_calm[OF this] have "Session_Tick J now c = Some c1 \<Longrightarrow> calm mh present (cl_vm c) c1"
    by (rule ensuresD)
  with assms(2) OnPacket_vm[OF reachable_inv[OF assms(1)], of J now ty d c1] show ?thesis
    by (auto simp: calm_def)
qed

lemma network_never_writes_memory_witness:
  "\<exists>c1. OnPacket demo_json (\<lambda>_. True) 4 PUZZLE_TOKEN demo_token token_client = Some c1
     \<and> cl_vm c1 = cl_vm token_client"
proof -
  note run = demo_token_handled[of "\<lambda>_. True" 4 token_client]
  show ?thesis
    by (rule exI, rule conjI, rule run, rule network_never_writes_memory[OF token_reachable], rule disjI1, rule run)
qed

section \<open>Shutdown\<close>

text \<open>The client of \<open>Shutdown\<close> right before \<open>MH_Uninitialize\<close>.\<close>

definition shutdown_client :: "Client \<Rightarrow> Client" where
  "shutdown_client c = Session_Shutdown (InventoryHook_Shutdown (CutsceneSync_Shutdown (PuzzleSync_Shutdown c)))"

lemma Shutdown_client:
  "g_initialized pl \<Longrightarrow> pl_client (Shutdown pl)
     = (let c = shutdown_client (pl_client pl) in c\<lparr>cl_hooks := cl_hooks c @ [MH_Uninitialize]\<rparr>)"
  by (simp add: Shutdown_def shutdown_client_def Let_def)

text \<open>Each part disables what it owns and leaves the other hooks and the other parts alone.\<close>

lemma part_shutdown:
  "hook_live mh a (cl_hooks (PuzzleSync_Shutdown c)) \<longleftrightarrow> hook_live mh a (cl_hooks c)
     \<and> \<not> (pz_hookInstalled (cl_puzzle c) \<and> puzzleInputFn (cl_offsets c) \<noteq> 0 \<and> a = puzzleInputFn (cl_offsets c))"
  "hook_live mh a (cl_hooks (CutsceneSync_Shutdown c)) \<longleftrightarrow> hook_live mh a (cl_hooks c)
     \<and> \<not> (cu_hookInstalled (cl_cutscene c) \<and> cutsceneFn (cl_offsets c) \<noteq> 0 \<and> a = cutsceneFn (cl_offsets c))"
  "hook_live mh a (cl_hooks (InventoryHook_Shutdown c)) \<longleftrightarrow> hook_live mh a (cl_hooks c)
     \<and> \<not> (itemUseFn (cl_offsets c) \<noteq> 0 \<and> a = itemUseFn (cl_offsets c))"
  "hook_live mh a (cl_hooks (Session_Shutdown c)) \<longleftrightarrow> hook_live mh a (cl_hooks c)
     \<and> \<not> (hooksInstalled (cl_combat c) \<and> (a = attackTriggerFn (cl_offsets c)
            \<or> skillTriggerFn (cl_offsets c) \<noteq> 0 \<and> a = skillTriggerFn (cl_offsets c)))"
  by (auto simp: PuzzleSync_Shutdown_def CutsceneSync_Shutdown_def InventoryHook_Shutdown_def
      Session_Shutdown_def RemoveHooks_def Let_def hook_live_append)

lemma part_shutdown_frame:
  "cl_offsets (PuzzleSync_Shutdown c) = cl_offsets c" "cl_offsets (CutsceneSync_Shutdown c) = cl_offsets c"
  "cl_offsets (InventoryHook_Shutdown c) = cl_offsets c"
  "cl_cutscene (PuzzleSync_Shutdown c) = cl_cutscene c" "cl_combat (PuzzleSync_Shutdown c) = cl_combat c"
  "cl_combat (CutsceneSync_Shutdown c) = cl_combat c" "cl_combat (InventoryHook_Shutdown c) = cl_combat c"
  by (simp_all add: PuzzleSync_Shutdown_def CutsceneSync_Shutdown_def InventoryHook_Shutdown_def)

lemma shutdown_hooks:
  "hook_live mh a (cl_hooks (shutdown_client c)) \<longleftrightarrow> hook_live mh a (cl_hooks c)
     \<and> \<not> (pz_hookInstalled (cl_puzzle c) \<and> puzzleInputFn (cl_offsets c) \<noteq> 0 \<and> a = puzzleInputFn (cl_offsets c))
     \<and> \<not> (cu_hookInstalled (cl_cutscene c) \<and> cutsceneFn (cl_offsets c) \<noteq> 0 \<and> a = cutsceneFn (cl_offsets c))
     \<and> \<not> (itemUseFn (cl_offsets c) \<noteq> 0 \<and> a = itemUseFn (cl_offsets c))
     \<and> \<not> (hooksInstalled (cl_combat c) \<and> (a = attackTriggerFn (cl_offsets c)
            \<or> skillTriggerFn (cl_offsets c) \<noteq> 0 \<and> a = skillTriggerFn (cl_offsets c)))"
  unfolding shutdown_client_def part_shutdown part_shutdown_frame by blast

lemma Session_Shutdown_off:
  "ss_client (cl_session c) \<Longrightarrow> \<not> ws_running (cl_ws (Session_Shutdown c))"
  "status (cl_session (Session_Shutdown c)) = Disconnected"
  by (simp_all add: Session_Shutdown_def Let_def Disconnect_def CloseSocket_def split: prod.split)

lemma shutdown_session: "cl_session (InventoryHook_Shutdown (CutsceneSync_Shutdown (PuzzleSync_Shutdown c))) = cl_session c"
  by (simp add: PuzzleSync_Shutdown_def CutsceneSync_Shutdown_def InventoryHook_Shutdown_def)

text \<open>C6: unloading the plugin is clean up to the renderer: from every state it can reach, when
  \<open>MH_Uninitialize\<close> is called every redirected engine function (attack, skill, item use, cutscene,
  puzzle input) has already been restored, the worker thread has been told to stop and the session is
  disconnected; the one detour still in place is that of \<open>Present\<close>, which nothing disables before,
  although \<open>RemoveRenderHook\<close> has by then destroyed what it draws with.\<close>

lemma shutdown_restores_engine:
  assumes "reachable J mh sinf cosf present (pl_client pl)" and "g_initialized pl"
    and "present = Some p"
    and "p \<notin> {itemUseFn g, attackTriggerFn g, skillTriggerFn g, cutsceneFn g, puzzleInputFn g}"
    and "g = cl_offsets (pl_client pl)"
  shows "\<exists>calls. cl_hooks (pl_client (Shutdown pl)) = calls @ [MH_Uninitialize]
    \<and> (\<forall>a. hook_live mh a calls \<longleftrightarrow> a = p \<and> hook_live mh p (cl_hooks (pl_client pl)))
    \<and> \<not> ws_running (cl_ws (pl_client (Shutdown pl)))
    \<and> status (cl_session (pl_client (Shutdown pl))) = Disconnected
    \<and> \<not> g_imguiInit (fst (pl_render (Shutdown pl))) \<and> \<not> g_initialized (Shutdown pl) \<and> g_realDxgi (pl_dxgi (Shutdown pl)) = 0"
proof -
  let ?c = "pl_client pl"
  have inv: "client_inv mh present ?c" using assms(1) by (rule reachable_inv)
  then have owned: "hook_live mh a (cl_hooks ?c) \<Longrightarrow> hook_owned present ?c a" for a
    by (simp add: client_inv_def hooks_owned_def)
  have live: "hook_live mh a (cl_hooks (shutdown_client ?c)) \<longleftrightarrow> a = p \<and> hook_live mh p (cl_hooks ?c)" for a
    unfolding shutdown_hooks using owned[of a] assms(3,4) unfolding assms(5) hook_owned_def Let_def by auto
  have off: "\<not> ws_running (cl_ws (shutdown_client ?c))" "status (cl_session (shutdown_client ?c)) = Disconnected"
    unfolding shutdown_client_def
    by (rule Session_Shutdown_off; use inv in \<open>simp add: shutdown_session client_inv_client\<close>)+
  have "\<not> g_imguiInit (fst (pl_render (Shutdown pl))) \<and> \<not> g_initialized (Shutdown pl) \<and> g_realDxgi (pl_dxgi (Shutdown pl)) = 0"
    using assms(2) by (simp add: Shutdown_def RemoveRenderHook_def ShutdownDxgiProxy_def Let_def split: prod.split)
  with live off show ?thesis
    by (intro exI[of _ "cl_hooks (shutdown_client ?c)"]) (simp add: Shutdown_client[OF assms(2)] Let_def)
qed

definition demo_plugin :: Plugin where
  "demo_plugin = \<lparr>g_initialized = True, pl_render = (RenderHook_init\<lparr>g_imguiInit := True\<rparr>, gfx_init), pl_client = token_client, pl_dxgi = DxgiProxy_init\<rparr>"

lemma idle_offset_fields:
  "itemUseFn GameOffsets_init = 0" "inventoryArrayPtr GameOffsets_init = 0" "itemCountPtr GameOffsets_init = 0"
  "attackTriggerFn GameOffsets_init = 0" "cutsceneFn GameOffsets_init = 0" "playerBasePtr GameOffsets_init = 0"
  "puzzleInputFn GameOffsets_init = 0" "cinematicFlagPtr GameOffsets_init = 0" "skillTriggerFn GameOffsets_init = 0"
  by (simp_all add: GameOffsets_init_def)

lemma idle_offsets: "cl_offsets idle_client = GameOffsets_init"
  by (simp add: idle_client_def install_all_def Session_Init_def Client_init_def InventoryHook_Init_def
      inventoryResolved_def InstallHooks_def CutsceneSync_Init_def HookCutsceneFunction_def
      ScanForCinematicFlag_def GetLocalPlayerBase_def PuzzleSync_Init_def HookPuzzleInput_def ScanForPuzzleHook_def
      idle_offset_fields Let_def)

lemma shutdown_restores_engine_witness:
  "\<exists>calls. cl_hooks (pl_client (Shutdown demo_plugin)) = calls @ [MH_Uninitialize]
    \<and> \<not> hook_live (\<lambda>_. True) 0x6000 calls \<and> \<not> ws_running (cl_ws (pl_client (Shutdown demo_plugin)))"
proof -
  have c: "pl_client demo_plugin = token_client" "g_initialized demo_plugin" by (simp_all add: demo_plugin_def)
  have g: "GameOffsets_init = cl_offsets (pl_client demo_plugin)"
    by (simp add: c token_client_def idle_offsets)
  from shutdown_restores_engine[OF token_reachable[folded c(1)] c(2) refl _ g]
  show ?thesis by (auto simp: GameOffsets_init_def)
qed

end
