(* ===== verification/Combat_Props.thy ===== *)
theory Combat_Props
  imports Combat_Sync Player_Apply
begin

text \<open>
  What the combat sync promises: the host decides the damage of an attack, every client takes it
  off the first enemy it concerns and never below zero, and a skill that one client uses shows up
  unchanged in the memory of the others.
\<close>

section \<open>Host-side damage\<close>

lemma trunc_rem_5: "trunc_rem a 5 \<in> {-4, -3, -2, -1, 0, 1, 2, 3, 4}"
proof -
  have "\<And>b :: int. b mod 5 \<in> {0, 1, 2, 3, 4}" by auto
  from this[of a] this[of "- a"] show ?thesis by (auto simp: trunc_rem_def)
qed

text \<open>The nine products and sums that can occur, on binary32.\<close>

lemma f32_small_ints:
  "f32_of_int (-4) = 3229614080"
  "f32_of_int (-3) = 3225419776"
  "f32_of_int (-2) = 3221225472"
  "f32_of_int (-1) = 3212836864"
  "f32_of_int 0 = 0"
  "f32_of_int 1 = 1065353216"
  "f32_of_int 2 = 1073741824"
  "f32_of_int 3 = 1077936128"
  "f32_of_int 4 = 1082130432"
  "f32_of_int 6 = 1086324736"
  "f32_of_int 8 = 1090519040"
  "f32_of_int 10 = 1092616192"
  "f32_of_int 12 = 1094713344"
  "f32_of_int 14 = 1096810496"
  "f32_of_int 16 = 1098907648"
  "f32_of_int 18 = 1099956224"
  by (simp_all add: f32_eval)

lemma f32_small_muls:
  "f32_mul 3229614080 f32_2 = 3238002688"
  "f32_mul 3225419776 f32_2 = 3233808384"
  "f32_mul 3221225472 f32_2 = 3229614080"
  "f32_mul 3212836864 f32_2 = 3221225472"
  "f32_mul 0 f32_2 = 0"
  "f32_mul 1065353216 f32_2 = 1073741824"
  "f32_mul 1073741824 f32_2 = 1082130432"
  "f32_mul 1077936128 f32_2 = 1086324736"
  "f32_mul 1082130432 f32_2 = 1090519040"
  by (simp_all add: f32_eval)

lemma f32_small_adds:
  "f32_add f32_10 3238002688 = 1073741824"
  "f32_add f32_10 3233808384 = 1082130432"
  "f32_add f32_10 3229614080 = 1086324736"
  "f32_add f32_10 3221225472 = 1090519040"
  "f32_add f32_10 0 = 1092616192"
  "f32_add f32_10 1073741824 = 1094713344"
  "f32_add f32_10 1082130432 = 1096810496"
  "f32_add f32_10 1086324736 = 1098907648"
  "f32_add f32_10 1090519040 = 1099956224"
  by (simp_all add: f32_eval)

lemma attack_damage_value: "attack_damage i = f32_of_int (10 + 2 * trunc_rem (sint i) 5)"
  using trunc_rem_5[of "sint i"]
  by (auto simp: attack_damage_def f32_small_ints f32_small_muls f32_small_adds)

lemma f32_finite_damage: "f32_isfinite (attack_damage i)"
  using trunc_rem_5[of "sint i"]
  by (auto simp: attack_damage_value f32_small_ints f32_isfinite_def f32_abs_bits_def f32_inf_bits_def)

lemma damage_json_fields:
  assumes "json_laws J"
  shows "value_str J (damage_json J src t d a) ''type'' [] = Some ''damage''"
    and "value_str J (damage_json J src t d a) ''sourceId'' [] = Some src"
    and "value_u64 J (damage_json J src t d a) ''targetEntityId'' 0 = Some t"
    and "f32_isfinite d \<Longrightarrow> value_f32 J (damage_json J src t d a) ''damage'' f32_0 = Some d"
  by (simp_all add: damage_json_def json_laws.value_eqs[OF assms] json_laws.obj_eqs[OF assms]
      json_laws.get_eqs[OF assms])

text \<open>C5: the host adjudicates: an attack RPC makes the host, and nobody else, queue one packet, the
  damage RPC for the same source and target with \<open>10 + 2 * (anim_id % 5)\<close> points (C++ remainder,
  so between 2 and 18 for every animation id), and any client that handles that packet applies
  exactly this damage to its mirrors of the target.\<close>

lemma host_adjudicates:
  assumes "json_laws J" and "cs_client cs"
    and "value_str J rpc ''sourceId'' [] = Some src"
    and "value_u64 J rpc ''targetEntityId'' 0 = Some t"
    and "value_i32 J rpc ''anim_id'' 0 = Some a"
    and "HandleAttackRpc J rpc cs w = Some w'"
  shows "if cs_isHost cs then
      \<exists>d f dmg. w' = w\<lparr>sendQueue := sendQueue w @ [f]\<rparr> \<and> SerializePacket J RPC_CALL d = Some f
        \<and> value_str J d ''type'' [] = Some ''damage'' \<and> value_str J d ''sourceId'' [] = Some src
        \<and> dmg = 10 + 2 * trunc_rem (sint a) 5 \<and> 2 \<le> dmg \<and> dmg \<le> 18
        \<and> (\<forall>g m cs'. HandleDamageRpc J g d (m, cs')
             = (let (m', es) = damage_first g t (f32_of_int dmg) (m, enemies cs') in Some (m', cs'\<lparr>enemies := es\<rparr>)))
    else w' = w"
proof (cases "cs_isHost cs")
  case True
  let ?d = "damage_json J src t (attack_damage a) a" and ?dmg = "10 + 2 * trunc_rem (sint a) 5"
  from assms(2-6) True obtain f where f: "SerializePacket J RPC_CALL ?d = Some f"
    "w' = w\<lparr>sendQueue := sendQueue w @ [f]\<rparr>"
    by (auto simp: HandleAttackRpc_def Send_def)
  note fields = damage_json_fields[OF assms(1)]
  have range: "2 \<le> ?dmg" "?dmg \<le> 18" using trunc_rem_5[of "sint a"] by auto
  have "HandleDamageRpc J g ?d (m, cs')
      = (let (m', es) = damage_first g t (f32_of_int ?dmg) (m, enemies cs') in Some (m', cs'\<lparr>enemies := es\<rparr>))" for g m cs'
    using fields(4)[OF f32_finite_damage] by (simp add: HandleDamageRpc_def fields(3) attack_damage_value split: prod.split)
  with f range fields(1,2) True show ?thesis
    by (simp only: if_True, intro exI[of _ ?d] exI[of _ f] exI[of _ ?dmg]) simp
next
  case False
  with assms(6) show ?thesis by (simp add: HandleAttackRpc_def)
qed

definition demo_attack :: jv where
  "demo_attack = JObj [(''sourceId'', JStr ''p2''), (''targetEntityId'', JInt 77), (''anim_id'', JInt 13)]"

lemma host_adjudicates_witness:
  "\<exists>w' d dmg. HandleAttackRpc demo_json demo_attack (CombatSync_init\<lparr>cs_client := True, cs_isHost := True\<rparr>) WsClient_init = Some w'
     \<and> value_str demo_json d ''type'' [] = Some ''damage'' \<and> dmg = 10 + 2 * trunc_rem (sint (13 :: i32)) 5
     \<and> 2 \<le> dmg \<and> dmg \<le> 18 \<and> length (sendQueue w') = 1"
proof -
  let ?cs = "CombatSync_init\<lparr>cs_client := True, cs_isHost := True\<rparr>"
  have v: "value_str demo_json demo_attack ''sourceId'' [] = Some ''p2''"
    "value_u64 demo_json demo_attack ''targetEntityId'' 0 = Some 77"
    "value_i32 demo_json demo_attack ''anim_id'' 0 = Some 13"
    by (simp_all add: demo_attack_def demo_json_def jv_lib_def jv_value_def)
  have "HandleAttackRpc demo_json demo_attack ?cs WsClient_init \<noteq> None"
    by (simp add: HandleAttackRpc_def v Send_def SerializePacket_def) (simp add: demo_json_def jv_lib_def)
  then obtain w' where run: "HandleAttackRpc demo_json demo_attack ?cs WsClient_init = Some w'" by blast
  from host_adjudicates[OF json_laws_demo _ v run] obtain d f dmg where
    "w' = WsClient_init\<lparr>sendQueue := sendQueue WsClient_init @ [f]\<rparr>"
    "value_str demo_json d ''type'' [] = Some ''damage''" "dmg = 10 + 2 * trunc_rem (sint (13 :: i32)) 5"
    "2 \<le> dmg" "dmg \<le> 18"
    by auto
  with run show ?thesis
    by (intro exI[of _ w'] exI[of _ d] exI[of _ dmg]) (simp add: WsClient_init_def)
qed

section \<open>Applying damage\<close>

definition hit :: "GameOffsets \<Rightarrow> vm \<Rightarrow> u64 \<Rightarrow> EnemyMirror \<Rightarrow> bool" where
  "hit g m t e \<longleftrightarrow> em_entityBase e \<noteq> 0 \<and> ReadU64 m (em_entityBase e) (offEntityId g) = t"

definition wounded :: "f32 \<Rightarrow> EnemyMirror \<Rightarrow> EnemyMirror" where
  "wounded dmg e = e\<lparr>em_health := f32_max f32_0 (f32_sub (em_health e) dmg)\<rparr>"

lemma damage_first_Cons:
  "damage_first g t dmg (m, (i, e) # es) =
     (if hit g m t e then
        (WriteFloat m (em_entityBase (wounded dmg e)) (offHealth g) (em_health (wounded dmg e)), (i, wounded dmg e) # es)
      else (fst (damage_first g t dmg (m, es)), (i, e) # snd (damage_first g t dmg (m, es))))"
  by (simp add: hit_def wounded_def Let_def split: prod.split)

lemma damage_first_spec:
  "damage_first g t dmg (m, es) =
     (case find (\<lambda>k. hit g m t (snd (es ! k))) [0..<length es] of
        None \<Rightarrow> (m, es)
      | Some k \<Rightarrow> let e = wounded dmg (snd (es ! k)) in
          (WriteFloat m (em_entityBase e) (offHealth g) (em_health e), es[k := (fst (es ! k), e)]))"
proof (induction es arbitrary: m)
  case (Cons p es)
  obtain i e where p: "p = (i, e)" by force
  have up: "[0..<length (p # es)] = 0 # map Suc [0..<length es]" by (simp add: map_Suc_upt upt_conv_Cons del: upt_Suc)
  have fm: "find P (map Suc xs) = map_option Suc (find (\<lambda>k. P (Suc k)) xs)" for P :: "nat \<Rightarrow> bool" and xs
    by (induction xs) auto
  show ?case
    unfolding up
    by (simp add: p damage_first_Cons Let_def fm Cons.IH del: damage_first.simps split: option.split)
qed simp

lemma wounded_health:
  "f32_le f32_0 (em_health (wounded dmg e))"
  "f32_isfinite (em_health e) \<Longrightarrow> f32_le f32_0 (em_health e) \<Longrightarrow> f32_le f32_0 dmg
     \<Longrightarrow> f32_le (em_health (wounded dmg e)) (em_health e)"
proof -
  show "f32_le f32_0 (em_health (wounded dmg e))" by (simp add: wounded_def)
  assume a: "f32_isfinite (em_health e)" "f32_le f32_0 (em_health e)" "f32_le f32_0 dmg"
  then have "\<not> f32_is_nan dmg" "0 \<le> f32_num dmg" by (simp_all add: f32_le_def)
  from f32_sub_le[OF a(1) this] a(2) show "f32_le (em_health (wounded dmg e)) (em_health e)"
    by (auto simp: wounded_def f32_max_def f32_le_def)
qed

text \<open>C29: a damage RPC wounds one enemy: the first mirror, in the order of the map, whose entity in
  memory carries the target's id loses the damage and never drops below zero (nor above what it had,
  for a health and a damage that are numbers at least zero), its new health is what is written to the
  entity, every other mirror stays as it was; when no mirror matches, nothing changes.\<close>

lemma damage_wounds_first:
  assumes "value_u64 J rpc ''targetEntityId'' 0 = Some t" and "value_f32 J rpc ''damage'' f32_0 = Some dmg"
  shows "HandleDamageRpc J g rpc (m, cs) = Some
     (case find (\<lambda>k. hit g m t (snd (enemies cs ! k))) [0..<length (enemies cs)] of
        None \<Rightarrow> (m, cs)
      | Some k \<Rightarrow> let (i, e) = enemies cs ! k; e' = wounded dmg e in
          (WriteFloat m (em_entityBase e) (offHealth g) (em_health e'), cs\<lparr>enemies := (enemies cs)[k := (i, e')]\<rparr>))
    \<and> (\<forall>e. f32_le f32_0 (em_health (wounded dmg e))
         \<and> (f32_isfinite (em_health e) \<longrightarrow> f32_le f32_0 (em_health e) \<longrightarrow> f32_le f32_0 dmg
              \<longrightarrow> f32_le (em_health (wounded dmg e)) (em_health e)))"
proof -
  have base: "em_entityBase (wounded dmg e) = em_entityBase e" for e by (simp add: wounded_def)
  show ?thesis
    using wounded_health assms
    by (auto simp: HandleDamageRpc_def damage_first_spec base Let_def split: option.split prod.split)
qed

definition demo_enemies :: "(string, EnemyMirror) smap" where
  "demo_enemies = [(''a'', EnemyMirror_init\<lparr>em_id := ''a'', em_health := f32_10\<rparr>),
     (''b'', EnemyMirror_init\<lparr>em_id := ''b'', em_health := f32_10, em_entityBase := 0x3000\<rparr>)]"

definition demo_damage :: jv where
  "demo_damage = JObj [(''targetEntityId'', JInt 0), (''damage'', JF32 f32_100)]"

lemma demo_enemy_id: "ReadU64 demo_vm 0x3000 (offEntityId demo_offsets) = 0"
  using demo_readable[of "0x3000" 8]
  by (simp add: ReadU64_def demo_fields SafeRead_def SafeReadRaw_def load_bytes_def upt_8 demo_traps)
     (simp add: demo_vm_def)

lemma damage_wounds_first_witness:
  "\<exists>m' es. HandleDamageRpc demo_json demo_offsets demo_damage (demo_vm, CombatSync_init\<lparr>enemies := demo_enemies\<rparr>)
     = Some (m', CombatSync_init\<lparr>enemies := es\<rparr>)
     \<and> em_health (snd (es ! 0)) = f32_10 \<and> em_health (snd (es ! 1)) = f32_0"
proof -
  let ?cs = "CombatSync_init\<lparr>enemies := demo_enemies\<rparr>"
  have v: "value_u64 demo_json demo_damage ''targetEntityId'' 0 = Some 0"
    "value_f32 demo_json demo_damage ''damage'' f32_0 = Some f32_100"
    by (simp_all add: demo_damage_def demo_json_def jv_lib_def jv_value_def)
  have found: "find (\<lambda>k. hit demo_offsets demo_vm 0 (snd (demo_enemies ! k))) [0..<length demo_enemies] = Some 1"
    by (simp add: demo_enemies_def hit_def EnemyMirror_init_def upt_rec demo_enemy_id)
  have "f32_max 0 (f32_sub f32_10 f32_100) = 0" by (simp add: f32_max_def f32_eval)
  then have "em_health (wounded f32_100 (snd (demo_enemies ! 1))) = 0"
    by (simp add: wounded_def demo_enemies_def)
  with damage_wounds_first[OF v, of demo_offsets demo_vm ?cs] found show ?thesis
    by (auto simp: Let_def demo_enemies_def)
qed

section \<open>Enemy updates\<close>

definition entry_id :: "'j json_lib \<Rightarrow> 'j \<Rightarrow> string option" where
  "entry_id J e = value_str J e ''id'' []"

text \<open>The mirrors of the ids in \<open>K\<close>, and everything that is not a mirror, are as before.\<close>

definition keeps_enemies :: "string set \<Rightarrow> CombatSync \<Rightarrow> CombatSync \<Rightarrow> bool" where
  "keeps_enemies K a b \<longleftrightarrow> b = a\<lparr>enemies := enemies b\<rparr> \<and> (\<forall>k \<in> K. smap_find k (enemies b) = smap_find k (enemies a))"

lemma keeps_enemies_refl: "keeps_enemies K a a"
  by (simp add: keeps_enemies_def)

lemma keeps_enemies_trans:
  assumes "keeps_enemies K a b" "keeps_enemies K b c"
  shows "keeps_enemies K a c"
proof -
  have "c = a\<lparr>enemies := enemies c\<rparr>"
    using assms by (cases a; cases b; cases c) (simp add: keeps_enemies_def)
  with assms show ?thesis by (simp add: keeps_enemies_def)
qed

lemma update_enemy_keeps:
  assumes "\<forall>k \<in> K. entry_id J e \<noteq> Some k"
  shows "ensures (\<lambda>s. keeps_enemies K cs (snd s)) (update_enemy J g e (m, cs))"
proof -
  have store: "ensures (\<lambda>s. keeps_enemies K cs (snd s)) (Some (m', cs\<lparr>enemies := smap_put i en (enemies cs)\<rparr>))"
    if "value_str J e ''id'' [] = Some i" for m' i en
    using assms that by (auto simp: ensures_def entry_id_def keeps_enemies_def sm.find_put)
  show ?thesis
    unfolding update_enemy_def Let_def prod.case
    by (rule ensures_val, rule ensures_if, rule ensures_Some, simp add: keeps_enemies_refl,
        rule ensures_val, rule ensures_val, rule ensures_val, rule ensures_val, rule store)
qed

text \<open>An enemy update touches what it names: on the host it changes nothing at all; on a guest
  every mirror whose id is not among the entries keeps its health, position and animation, and the
  flags and the local id of the combat sync stay as they were, whatever the entries hold.\<close>

lemma enemy_update_frame:
  assumes "HandleEnemyUpdate J g d (m, cs) = Some (m', cs')"
  shows "(cs_isHost cs \<longrightarrow> m' = m \<and> cs' = cs)
    \<and> (\<forall>k. (\<forall>e \<in> set (j_elems J (j_at J d ''enemies'')). entry_id J e \<noteq> Some k)
          \<longrightarrow> smap_find k (enemies cs') = smap_find k (enemies cs))
    \<and> cs' = cs\<lparr>enemies := enemies cs'\<rparr>"
proof -
  let ?es = "j_elems J (j_at J d ''enemies'')"
  let ?K = "{k. \<forall>e \<in> set ?es. entry_id J e \<noteq> Some k}"
  have "ensures (\<lambda>s. keeps_enemies ?K cs (snd s)) (foldM (update_enemy J g) ?es (m, cs))"
  proof (rule ensures_foldM)
    fix e and s :: "vm \<times> CombatSync"
    assume e: "e \<in> set ?es" and q: "keeps_enemies ?K cs (snd s)"
    have "ensures (\<lambda>t. keeps_enemies ?K (snd s) (snd t)) (update_enemy J g e (fst s, snd s))"
      using e by (intro update_enemy_keeps) blast
    then show "ensures (\<lambda>t. keeps_enemies ?K cs (snd t)) (update_enemy J g e s)"
      unfolding surjective_pairing[symmetric] by (rule ensures_mono) (use q keeps_enemies_trans in blast)
  qed (simp add: keeps_enemies_refl)
  from ensuresD[OF this, of "(m', cs')"] have "keeps_enemies ?K cs cs' \<and> (cs_isHost cs \<longrightarrow> m' = m \<and> cs' = cs)"
    using assms by (auto simp: HandleEnemyUpdate_def Let_def keeps_enemies_refl split: if_splits)
  then show ?thesis unfolding keeps_enemies_def by blast
qed

definition demo_update :: jv where
  "demo_update = JObj [(''enemies'', JArr [JObj [(''id'', JStr ''b''), (''health'', JF32 f32_2)]])]"

lemma enemy_update_frame_witness:
  "\<exists>m' cs'. HandleEnemyUpdate demo_json demo_offsets demo_update (demo_vm, CombatSync_init\<lparr>enemies := demo_enemies\<rparr>)
       = Some (m', cs')
     \<and> smap_find ''a'' (enemies cs') = smap_find ''a'' demo_enemies"
proof -
  let ?cs = "CombatSync_init\<lparr>enemies := demo_enemies\<rparr>"
  have "HandleEnemyUpdate demo_json demo_offsets demo_update (demo_vm, ?cs) \<noteq> None"
    by (simp add: HandleEnemyUpdate_def demo_update_def demo_json_def jv_lib_def jv_value_def update_enemy_def
        CombatSync_init_def Let_def)
  then obtain m' cs' where run: "HandleEnemyUpdate demo_json demo_offsets demo_update (demo_vm, ?cs) = Some (m', cs')"
    by auto
  from enemy_update_frame[OF this] have
    "(\<forall>e \<in> set (j_elems demo_json (j_at demo_json demo_update ''enemies'')). entry_id demo_json e \<noteq> Some ''a'')
       \<longrightarrow> smap_find ''a'' (enemies cs') = smap_find ''a'' (enemies ?cs)" by blast
  then have "smap_find ''a'' (enemies cs') = smap_find ''a'' demo_enemies"
    by (simp add: demo_update_def demo_json_def jv_lib_def jv_value_def entry_id_def)
  with run show ?thesis by blast
qed

section \<open>Skills\<close>

text \<open>What the server relays: the caster's RPC with the caster's id added.\<close>

definition relayed :: "'j json_lib \<Rightarrow> string \<Rightarrow> 'j \<Rightarrow> 'j" where
  "relayed J src rpc = j_set J rpc ''sourceId'' (j_str J src)"

lemma relayed_skill_fields:
  fixes J :: "'j json_lib" and src :: string and sk ph te :: i32 and tp :: Vec3
  assumes "json_laws J" "f32_isfinite (vec_x tp)" "f32_isfinite (vec_y tp)" "f32_isfinite (vec_z tp)"
  defines "d \<equiv> relayed J src (skill_json J sk ph tp te)"
  shows "value_str J d ''sourceId'' [] = Some src" "value_i32 J d ''skillId'' 0 = Some sk"
    "value_i32 J d ''phase'' 0 = Some ph" "value_i32 J d ''targetEntity'' 0 = Some te"
    "j_contains J d ''targetPos''" "value_xyz J (j_at J d ''targetPos'') = Some tp"
  by (simp_all add: d_def relayed_def skill_json_def j_i32_def value_xyz_def j_xyz_def assms(2-4)
      json_laws.value_eqs[OF assms(1)] json_laws.set_eqs[OF assms(1)] json_laws.obj_eqs[OF assms(1)]
      json_laws.get_eqs[OF assms(1)])

definition skill_component :: "GameOffsets \<Rightarrow> addr \<Rightarrow> addr" where
  "skill_component g base = base + ucast (skillComponentOffset g)"

definition skill_cells :: "GameOffsets \<Rightarrow> addr \<Rightarrow> addr list" where
  "skill_cells g base = (let sc = skill_component g base in [sc, sc + 4, sc + 0xC, sc + 0x10, sc + 0x14, sc + 0x18])"

lemma skill_writes:
  fixes m :: vm and sk ph te :: i32 and tp :: Vec3
  assumes "sc \<noteq> 0" "list_all (accessible 4 m) [sc, sc + 4, sc + 0xC, sc + 0x10, sc + 0x14, sc + 0x18]"
  defines "m' \<equiv> WriteVec3 (WriteInt (WriteInt (WriteInt m sc 0x00 sk) sc 0x04 ph) sc 0x0C te) sc 0x10 tp"
  shows "ReadInt m' sc 0x00 = sk" "ReadInt m' sc 0x04 = ph" "ReadInt m' sc 0x0C = te" "ReadVec3 m' sc 0x10 = tp"
  using assms(1,2)
  by (simp_all add: m'_def ReadInt_def ReadVec3_def WriteInt_def WriteVec3_def Let_def separate_def add.assoc
      cell32.read_write_same cell32.read_write_separate)

text \<open>A skill shows up at the other clients as it was cast: when the RPC the caster sends has been
  relayed with the caster's id, a client that knows the caster's entity in accessible memory writes the
  skill component so that reading it back the way the caster's own client reads its component gives the
  skill, the phase, the target and the target position of the cast.\<close>

lemma skill_shows_at_peer:
  assumes "json_laws J" and "f32_isfinite (vec_x tp)" "f32_isfinite (vec_y tp)" "f32_isfinite (vec_z tp)"
    and "src \<noteq> []" "src \<noteq> cs_localId cs" "remoteResolver cs"
    and "resolver src \<noteq> 0" "skillComponentOffset g \<noteq> 0" "IsReadable m (resolver src) 0x800"
    and "skill_component g (resolver src) \<noteq> 0" "list_all (accessible 4 m) (skill_cells g (resolver src))"
  shows "\<exists>m'. HandleSkillRpc J g resolver (relayed J src (skill_json J sk ph tp te)) cs m = Some m'
    \<and> ReadInt m' (skill_component g (resolver src)) 0x00 = sk
    \<and> ReadInt m' (skill_component g (resolver src)) 0x04 = ph
    \<and> ReadInt m' (skill_component g (resolver src)) 0x0C = te
    \<and> ReadVec3 m' (skill_component g (resolver src)) 0x10 = tp"
proof -
  let ?sc = "skill_component g (resolver src)"
  let ?m = "WriteVec3 (WriteInt (WriteInt (WriteInt m ?sc 0x00 sk) ?sc 0x04 ph) ?sc 0x0C te) ?sc 0x10 tp"
  have run: "HandleSkillRpc J g resolver (relayed J src (skill_json J sk ph tp te)) cs m = Some ?m"
    using assms(5-10)
    by (simp add: HandleSkillRpc_def relayed_skill_fields[OF assms(1-4)] skill_component_def Let_def)
  have "list_all (accessible 4 m) [?sc, ?sc + 4, ?sc + 0xC, ?sc + 0x10, ?sc + 0x14, ?sc + 0x18]"
    using assms(12) by (simp add: skill_cells_def Let_def)
  note cells = skill_writes[OF assms(11) this, of sk ph te tp]
  from run cells show ?thesis by blast
qed

lemma skill_shows_at_peer_witness:
  "\<exists>m'. HandleSkillRpc demo_json (demo_offsets\<lparr>skillComponentOffset := 0x80\<rparr>) (\<lambda>_. 0x3000)
      (relayed demo_json ''p2'' (skill_json demo_json 7 2 Vec3_zero 9))
      (CombatSync_init\<lparr>cs_localId := ''p1'', remoteResolver := True\<rparr>) demo_vm = Some m'
    \<and> ReadInt m' (skill_component (demo_offsets\<lparr>skillComponentOffset := 0x80\<rparr>) 0x3000) 0x00 = 7"
proof -
  let ?g = "demo_offsets\<lparr>skillComponentOffset := 0x80\<rparr>"
    and ?cs = "CombatSync_init\<lparr>cs_localId := ''p1'', remoteResolver := True\<rparr>"
  have "list_all (accessible 4 demo_vm) (skill_cells ?g 0x3000)"
    by (simp add: skill_cells_def skill_component_def accessible_def demo_readable demo_traps)
  then show ?thesis
    using skill_shows_at_peer[OF json_laws_demo, of Vec3_zero "''p2''" ?cs "\<lambda>_. 0x3000" ?g demo_vm 7 2 9]
    by (auto simp: Vec3_zero_def demo_readable skill_component_def f32_isfinite_def f32_abs_bits_def f32_inf_bits_def)
qed

end
