(* ===== verification/Scanner_Props.thy ===== *)
theory Scanner_Props
  imports Scanner Player_Apply
begin

text \<open>
  What the offset scanner promises: the signature search finds the first occurrence and reads
  nothing outside the module, the compiler of signature texts inverts their rendering and accepts
  every signature of the client, what an outgoing frame reads of an entity whose layout was found by the
  heuristic walk lies inside the memory that was checked but for the equipment block, which may pass its
  end by 8 bytes, and a cache file gives back what was saved.
\<close>

section \<open>Signature search\<close>

definition module_image :: "vm \<Rightarrow> ModuleRange \<Rightarrow> byte list" where
  "module_image m r = load_bytes (vm_bytes m) (mod_base r) (unat (mod_size r))"

definition occurs_at :: "byte list \<Rightarrow> CompiledPattern \<Rightarrow> nat \<Rightarrow> bool" where
  "occurs_at img p i \<longleftrightarrow> i + length (pat_bytes p) \<le> length img
     \<and> list_all (\<lambda>j. pat_mask p ! j \<longrightarrow> img ! (i + j) = pat_bytes p ! j) [0..<length (pat_bytes p)]"

lemma pattern_at_iff:
  "length ks = length xs \<Longrightarrow>
     pattern_at b a xs ks \<longleftrightarrow> (\<forall>j < length xs. ks ! j \<longrightarrow> b (a + of_nat j) = xs ! j)"
proof (induction b a xs ks rule: pattern_at.induct)
  case (1 b a x xs k ks)
  have all: "(\<forall>j < length (x # xs). P j) \<longleftrightarrow> P 0 \<and> (\<forall>j < length xs. P (Suc j))" for P
    by (simp add: All_less_Suc2)
  have "pattern_at b (a + 1) xs ks \<longleftrightarrow> (\<forall>j < length xs. ks ! j \<longrightarrow> b (a + of_nat (Suc j)) = xs ! j)"
    if "\<not> (k \<and> b a \<noteq> x)" using "1.IH"[OF that] "1.prems" by (simp add: add.assoc)
  then show ?case unfolding all by auto
qed auto

lemma find_shift: "find P (map Suc xs) = map_option Suc (find (\<lambda>k. P (Suc k)) xs)"
  by (induction xs) auto

lemma scan_from_find:
  "scan_from b p a n = (case find (\<lambda>i. pattern_at b (a + of_nat i) (pat_bytes p) (pat_mask p)) [0..<n] of
     None \<Rightarrow> 0 | Some i \<Rightarrow> a + of_nat i)"
proof (induction n arbitrary: a)
  case (Suc n)
  have up: "[0..<Suc n] = 0 # map Suc [0..<n]" by (simp add: map_Suc_upt upt_conv_Cons del: upt_Suc)
  show ?case unfolding up by (simp add: find_shift Suc.IH ac_simps split: option.split)
qed simp

lemma find_cong_on: "(\<And>x. x \<in> set xs \<Longrightarrow> P x = Q x) \<Longrightarrow> find P xs = find Q xs"
  by (induction xs) auto

lemma find_append_none: "(\<And>x. x \<in> set ys \<Longrightarrow> \<not> P x) \<Longrightarrow> find P (xs @ ys) = find P xs"
  by (induction xs) (auto simp: find_None_iff)

text \<open>C30: the signature search is the naive one, done right: \<open>ScanPattern\<close> returns the address of the
  first position of the module image at which every unmasked byte of the pattern occurs, and 0 when
  there is none; it depends on no byte outside the module, also when the pattern is longer than the
  module.\<close>

lemma ScanPattern_first_occurrence:
  assumes "mod_base r \<noteq> 0" and "pat_bytes p \<noteq> []" and "length (pat_mask p) = length (pat_bytes p)"
  shows "ScanPattern m r p =
    (case find (occurs_at (module_image m r) p) [0..<Suc (unat (mod_size r))] of
       None \<Rightarrow> 0 | Some i \<Rightarrow> mod_base r + of_nat i)"
proof -
  let ?n = "unat (mod_size r)" and ?l = "length (pat_bytes p)"
  have len: "length (module_image m r) = ?n" by (simp add: module_image_def load_bytes_def)
  show ?thesis
  proof (cases "?n < ?l")
    case True
    then have "find (occurs_at (module_image m r) p) [0..<Suc ?n] = None"
      by (auto simp: find_None_iff occurs_at_def len)
    with True assms show ?thesis by (simp add: ScanPattern_def Let_def)
  next
    case False
    have img: "module_image m r ! (i + j) = vm_bytes m (mod_base r + of_nat i + of_nat j)" if "i + j < ?n" for i j
      using that by (simp add: module_image_def load_bytes_def add.assoc)
    have same: "pattern_at (vm_bytes m) (mod_base r + of_nat i) (pat_bytes p) (pat_mask p)
        = occurs_at (module_image m r) p i" if "i \<in> set [0..<Suc (?n - ?l)]" for i
    proof -
      have "i + ?l \<le> ?n" using that False by (simp add: less_Suc_eq_le del: upt_Suc)
      then show ?thesis
        unfolding pattern_at_iff[OF assms(3)] occurs_at_def len by (auto simp: list_all_iff img)
    qed
    have split: "[0..<Suc ?n] = [0..<Suc (?n - ?l)] @ [Suc (?n - ?l)..<Suc ?n]"
      using upt_add_eq_append[of 0 "Suc (?n - ?l)" ?l] False by simp
    have "find (occurs_at (module_image m r) p) [0..<Suc ?n]
        = find (occurs_at (module_image m r) p) [0..<Suc (?n - ?l)]"
      unfolding split by (rule find_append_none) (auto simp: occurs_at_def len)
    moreover have "find (\<lambda>i. pattern_at (vm_bytes m) (mod_base r + of_nat i) (pat_bytes p) (pat_mask p)) [0..<Suc (?n - ?l)]
        = find (occurs_at (module_image m r) p) [0..<Suc (?n - ?l)]"
      by (rule find_cong_on) (rule same)
    ultimately show ?thesis using False assms(1,2)
      by (simp add: ScanPattern_def Let_def scan_from_find del: upt_Suc)
  qed
qed

lemma ScanPattern_first_occurrence_witness:
  "ScanPattern (demo_vm\<lparr>vm_bytes := (\<lambda>a. if a = 0x4002 \<or> a = 0x4005 then 0x48 else 7)\<rparr>)
     \<lparr>mod_base = 0x4000, mod_size = 8\<rparr> \<lparr>pat_bytes = [0x48, 0, 7], pat_mask = [True, False, True]\<rparr> = 0x4002"
proof -
  let ?m = "demo_vm\<lparr>vm_bytes := (\<lambda>a. if a = 0x4002 \<or> a = 0x4005 then 0x48 else 7)\<rparr>"
    and ?r = "\<lparr>mod_base = 0x4000, mod_size = 8\<rparr>"
    and ?p = "\<lparr>pat_bytes = [0x48, 0, 7], pat_mask = [True, False, True]\<rparr> :: CompiledPattern"
  have "module_image ?m ?r = [7, 7, 0x48, 7, 7, 0x48, 7, 7]"
    by (simp add: module_image_def load_bytes_def upt_rec)
  moreover have "find (occurs_at [7, 7, 0x48, 7, 7, 0x48, 7, 7] ?p) [0..<Suc 8] = Some 2"
    by (simp add: occurs_at_def upt_rec)
  ultimately show ?thesis using ScanPattern_first_occurrence[of ?r ?p ?m] by simp
qed

section \<open>Signature texts\<close>

definition hex_upper :: string where
  "hex_upper = ''0123456789ABCDEF''"

definition hex2 :: "byte \<Rightarrow> string" where
  "hex2 b = [hex_upper ! unat (drop_bit 4 b), hex_upper ! unat (and b 0xF)]"

definition token_of :: "byte \<Rightarrow> bool \<Rightarrow> string" where
  "token_of b k = (if k then hex2 b else ''??'')"

fun join_spaces :: "string list \<Rightarrow> string" where
  "join_spaces [] = []"
| "join_spaces [t] = t"
| "join_spaces (t # ts) = t @ CHR '' '' # join_spaces ts"

definition pattern_text :: "CompiledPattern \<Rightarrow> string" where
  "pattern_text p = join_spaces (map2 token_of (pat_bytes p) (pat_mask p))"

text \<open>The hidden bytes are stored as zero.\<close>

definition pattern_wf :: "CompiledPattern \<Rightarrow> bool" where
  "pattern_wf p \<longleftrightarrow> length (pat_mask p) = length (pat_bytes p)
     \<and> list_all2 (\<lambda>b k. k \<or> b = 0) (pat_bytes p) (pat_mask p)"

lemma split_token: "list_all (\<lambda>c. \<not> is_space c) t \<Longrightarrow> split_tokens acc (t @ cs) = split_tokens (acc @ t) cs"
  by (induction t arbitrary: acc) auto

lemma split_join:
  assumes "list_all (\<lambda>t. t \<noteq> [] \<and> list_all (\<lambda>c. \<not> is_space c) t) ts"
  shows "split_tokens [] (join_spaces ts) = ts"
  using assms
proof (induction ts rule: join_spaces.induct)
  case (2 t)
  then show ?case using split_token[of t "[]" "[]"] by simp
next
  case (3 t t' ts)
  have "is_space (CHR '' '')" by (simp add: is_space_def)
  with 3 show ?case using split_token[of t "[]" "CHR '' '' # join_spaces (t' # ts)"] by simp
qed simp

lemma hex_digit_table:
  "list_all (\<lambda>i. hex_value (hex_upper ! i) = Some i \<and> \<not> is_space (hex_upper ! i)
     \<and> hex_upper ! i \<noteq> CHR ''-'' \<and> hex_upper ! i \<noteq> CHR ''+'' \<and> hex_upper ! i \<noteq> CHR ''?'') [0..<16]"
  by code_simp

lemma hex_digit:
  assumes "i < 16"
  shows "hex_value (hex_upper ! i) = Some i" "\<not> is_space (hex_upper ! i)" "hex_upper ! i \<noteq> CHR ''-''"
    "hex_upper ! i \<noteq> CHR ''+''" "hex_upper ! i \<noteq> CHR ''?''"
  using hex_digit_table assms by (auto simp: list_all_iff)

lemma byte_nibbles: "unat (drop_bit 4 (b :: byte)) < 16" "unat (and b 0xF) < 16"
  "unat (drop_bit 4 b) * 16 + unat (and b 0xF) = unat b"
proof -
  have d: "unat (drop_bit 4 b) = unat b div 16" by (simp add: drop_bit_eq_div unat_div)
  have "and b 0xF = take_bit 4 b" by (simp add: take_bit_eq_mask mask_eq_exp_minus_1)
  then have m: "unat (and b 0xF) = unat b mod 16" by (simp add: unsigned_take_bit_eq take_bit_eq_mod unat_mod_distrib)
  have "unat b < 256" using unsigned_less[of b, where ?'a = nat] by simp
  with d m show "unat (drop_bit 4 b) < 16" "unat (and b 0xF) < 16"
    "unat (drop_bit 4 b) * 16 + unat (and b 0xF) = unat b" by auto
qed

lemma stoul16_hex: "stoul16 (hex2 b) = Some (ucast b)"
proof -
  note n = byte_nibbles[of b]
  have "unat b < 2 ^ 32" using unsigned_less[of b, where ?'a = nat] by simp
  with n(3) hex_digit[OF n(1)] hex_digit[OF n(2)] show ?thesis
    by (simp add: hex2_def stoul16_def strip_0x_def)
qed

lemma ucast_byte: "ucast (ucast b :: u32) = (b :: byte)"
  by (rule bit_word_eqI) (simp add: bit_ucast_iff)

lemma compile_tokens_text:
  assumes "length ks = length bs" "list_all2 (\<lambda>b k. k \<or> b = 0) bs ks"
  shows "compile_tokens (map2 token_of bs ks) p
    = Some \<lparr>pat_bytes = pat_bytes p @ bs, pat_mask = pat_mask p @ ks\<rparr>"
  using assms
proof (induction bs ks arbitrary: p rule: list_induct2')
  case (4 b bs k ks)
  have tok: "hex2 b \<noteq> ''?''" "hex2 b \<noteq> ''??''"
    using hex_digit(5)[OF byte_nibbles(1)[of b]] by (simp_all add: hex2_def)
  show ?case
  proof (cases k)
    case True
    with 4 tok show ?thesis by (simp add: token_of_def stoul16_hex ucast_byte)
  next
    case False
    with 4 show ?thesis by (simp add: token_of_def)
  qed
qed auto

lemma pattern_round_trip:
  assumes "pattern_wf p"
  shows "CompilePattern (pattern_text p) = Some p"
proof -
  have "t \<noteq> [] \<and> list_all (\<lambda>c. \<not> is_space c) t" if "t = token_of b k" for t b k
    using hex_digit(2)[OF byte_nibbles(1)[of b]] hex_digit(2)[OF byte_nibbles(2)[of b]]
    by (simp add: that token_of_def hex2_def) (simp add: is_space_def)
  then have "split_tokens [] (pattern_text p) = map2 token_of (pat_bytes p) (pat_mask p)"
    unfolding pattern_text_def by (intro split_join) (auto simp: list_all_iff)
  with assms show ?thesis by (simp add: CompilePattern_def pattern_wf_def compile_tokens_text)
qed

text \<open>Signature texts are parsed as they are written: for every pattern, of any length, compiling
  its rendering as two-digit hex bytes and \<open>??\<close> wildcards separated by spaces gives the pattern
  back.\<close>

lemma signature_round_trip:
  assumes "pattern_wf p"
  shows "CompilePattern (pattern_text p) = Some p"
  using assms by (rule pattern_round_trip)

lemma signature_round_trip_witness:
  "CompilePattern (pattern_text \<lparr>pat_bytes = [0x48, 0, 0x0F], pat_mask = [True, False, True]\<rparr>)
     = Some \<lparr>pat_bytes = [0x48, 0, 0x0F], pat_mask = [True, False, True]\<rparr>"
  by (rule signature_round_trip) (simp add: pattern_wf_def)

text \<open>The seven signatures of the client, as patterns.\<close>

lemma signature_texts:
  "kPlayerBaseSig = pattern_text \<lparr>pat_bytes = [0x48, 0x8B, 0x05, 0, 0, 0, 0, 0x48, 0x85, 0xC0, 0x74, 0, 0x48, 0x8B],
     pat_mask = [True, True, True, False, False, False, False, True, True, True, True, False, True, True]\<rparr>"
  "kInventorySig = pattern_text \<lparr>pat_bytes = [0x48, 0x8D, 0x8F, 0, 0, 0, 0, 0xE8, 0, 0, 0, 0, 0x8B, 0x87],
     pat_mask = [True, True, True, False, False, False, False, True, False, False, False, False, True, True]\<rparr>"
  "kItemUseSig = pattern_text \<lparr>pat_bytes = [0x40, 0x53, 0x48, 0x83, 0xEC, 0, 0x48, 0x8B, 0xD9, 0x8B, 0x49],
     pat_mask = [True, True, True, True, True, False, True, True, True, True, True]\<rparr>"
  "kAttackSig = pattern_text \<lparr>pat_bytes = [0x48, 0x89, 0x5C, 0x24, 0, 0x57, 0x48, 0x83, 0xEC, 0, 0x8B, 0xFA, 0x48, 0x8B, 0xD9, 0x83],
     pat_mask = [True, True, True, True, False, True, True, True, True, False, True, True, True, True, True, True]\<rparr>"
  "kSkillSig = pattern_text \<lparr>pat_bytes = [0x48, 0x89, 0x5C, 0x24, 0, 0x48, 0x89, 0x6C, 0x24, 0, 0x57, 0x48, 0x83, 0xEC, 0, 0x8B, 0xEA, 0x48, 0x8B, 0xD9],
     pat_mask = [True, True, True, True, False, True, True, True, True, False, True, True, True, True, False, True, True, True, True, True]\<rparr>"
  "kCutsceneSig = pattern_text \<lparr>pat_bytes = [0x48, 0x89, 0x5C, 0x24, 0, 0x48, 0x89, 0x6C, 0x24, 0, 0x57, 0x48, 0x83, 0xEC, 0, 0x0F, 0xB6, 0xEA],
     pat_mask = [True, True, True, True, False, True, True, True, True, False, True, True, True, True, False, True, True, True]\<rparr>"
  "kPuzzleSig = pattern_text \<lparr>pat_bytes = [0x40, 0x55, 0x53, 0x56, 0x57, 0x48, 0x8D, 0x6C, 0x24, 0, 0x48, 0x81, 0xEC, 0, 0, 0, 0, 0x8B, 0xF2],
     pat_mask = [True, True, True, True, True, True, True, True, True, False, True, True, True, False, False, False, False, True, True]\<rparr>"
  by (simp_all add: signature_defs pattern_text_def token_of_def hex2_def hex_upper_def)

lemma signatures_compile:
  "CompilePattern kPlayerBaseSig \<noteq> None" "CompilePattern kInventorySig \<noteq> None" "CompilePattern kItemUseSig \<noteq> None"
  "CompilePattern kAttackSig \<noteq> None" "CompilePattern kSkillSig \<noteq> None" "CompilePattern kCutsceneSig \<noteq> None"
  "CompilePattern kPuzzleSig \<noteq> None"
  unfolding signature_texts by (subst pattern_round_trip; simp add: pattern_wf_def)+

lemma scan_signatures_some: "scan_signatures m r g \<noteq> None"
  using signatures_compile by (auto simp: scan_signatures_def ScanPattern_ida_def Let_def)

lemma scan_signatures_layout:
  assumes "scan_signatures m r g = Some g'"
  shows "offPositionX g' = offPositionX g \<and> offHealth g' = offHealth g \<and> offAnimId g' = offAnimId g"
  using assms
  by (auto simp: scan_signatures_def Let_def if_distrib[of offPositionX] if_distrib[of offHealth]
      if_distrib[of offAnimId] split del: if_split cong: if_cong)

section \<open>The heuristic walk\<close>

lemma find_off_spec:
  "find_off P off hi = Some o' \<Longrightarrow> hi < 2 ^ 32 \<Longrightarrow> P o' \<and> off \<le> unat o' \<and> unat o' < hi \<and> 4 dvd (unat o' - off)"
proof (induction P off hi rule: find_off.induct)
  case (1 P off hi)
  show ?case
  proof (cases "off < hi \<and> P (of_nat off)")
    case True
    then have "off < 2 ^ 32" using "1.prems"(2) by simp
    then have "unat (of_nat off :: u32) = off" by (simp add: unat_of_nat take_bit_nat_eq_self)
    moreover from True "1.prems"(1) have "o' = of_nat off" by (simp add: find_off.simps[of P off])
    ultimately show ?thesis using True by simp
  next
    case False
    with "1.prems"(1) have lt: "off < hi" and np: "\<not> P (of_nat off)" and rest: "find_off P (off + 4) hi = Some o'"
      by (auto simp: find_off.simps[of P off] split: if_splits)
    from "1.IH"[OF lt np rest "1.prems"(2)] have h: "P o'" "off + 4 \<le> unat o'" "unat o' < hi" "4 dvd (unat o' - (off + 4))"
      by auto
    then have "unat o' - off = unat o' - (off + 4) + 4" by simp
    with h show ?thesis by (metis add_leD1 dvd_add dvd_refl)
  qed
qed

lemma unat_add_small:
  fixes a b :: u32
  assumes "unat a + unat b < 2 ^ 32"
  shows "unat (a + b) = unat a + unat b"
  using assms by (simp add: unat_word_ariths)

text \<open>What one outgoing frame reads: blocks of the local player's entity, each an offset and a number
  of bytes, and of the mount's entity.\<close>

definition core_blocks :: "GameOffsets \<Rightarrow> (u32 \<times> nat) list" where
  "core_blocks g = [(offPositionX g, 12), (offVelocityX g, 12), (offRotationYaw g, 4), (offRotationPitch g, 4),
     (offHealth g, 4), (offMaxHealth g, 4), (offAnimId g, 4), (offAnimTime g, 4), (offBlendWeight g, 4),
     (offMoveFlags g, 4), (offCombatFlags g, 4), (traversalFlagsOffset g, 4), (traversalTargetPosOffset g, 12),
     (skillComponentOffset g, 0x24), (vfxComponentOffset g, 0x20), (statusComponentOffset g, 0x24),
     (mountEntityPtrOffset g, 8), (dodgeComponentOffset g, 8)]"

definition equipment_block :: "GameOffsets \<Rightarrow> u32 \<times> nat" where
  "equipment_block g = (equipmentComponentOffset g, 0x0C)"

definition mount_blocks :: "GameOffsets \<Rightarrow> (u32 \<times> nat) list" where
  "mount_blocks g = [(offEntityId g, 8), (offAnimId g, 4), (offAnimTime g, 4), (offPositionX g, 12)]"

definition block_bytes :: "addr \<Rightarrow> u32 \<times> nat \<Rightarrow> addr list" where
  "block_bytes e b = map (\<lambda>k. e + ucast (fst b) + of_nat k) [0..<snd b]"

definition frame_bytes_read :: "vm \<Rightarrow> GameOffsets \<Rightarrow> addr list" where
  "frame_bytes_read m g =
     (let base = GetLocalPlayerBase m g; mount = SafeRead 8 m (base + ucast (mountEntityPtrOffset g))
      in block_bytes (playerBasePtr g) (0, 8)
         @ concat (map (block_bytes base) (equipment_block g # core_blocks g))
         @ concat (map (block_bytes mount) (mount_blocks g)))"

definition same_on :: "addr list \<Rightarrow> vm \<Rightarrow> vm \<Rightarrow> bool" where
  "same_on as m m' \<longleftrightarrow> m' = m\<lparr>vm_bytes := vm_bytes m'\<rparr> \<and> list_all (\<lambda>a. vm_bytes m' a = vm_bytes m a) as"

lemma IsReadable_same: "same_on as m m' \<Longrightarrow> IsReadable m' = IsReadable m"
proof -
  assume "same_on as m m'"
  then have "vm_query m' = vm_query m" unfolding same_on_def by (metis (no_types) vm.select_convs(2) vm.surjective vm.update_convs(1))
  then show ?thesis by (simp add: IsReadable_def fun_eq_iff)
qed

lemma SafeRead_same:
  assumes "same_on as m m'" "set (block_bytes e b) \<subseteq> set as" "k + j \<le> snd b"
  shows "SafeRead j m' (e + ucast (fst b) + of_nat k) = SafeRead j m (e + ucast (fst b) + of_nat k)"
proof -
  obtain bs where m': "m' = m\<lparr>vm_bytes := bs\<rparr>" using assms(1) by (auto simp: same_on_def)
  let ?a = "e + ucast (fst b) + of_nat k :: addr"
  have "bs (?a + of_nat i) = vm_bytes m (?a + of_nat i)" if "i < j" for i
  proof -
    have "?a + of_nat i = e + ucast (fst b) + of_nat (k + i)" by (simp add: ac_simps)
    moreover have "e + ucast (fst b) + of_nat (k + i) \<in> set (block_bytes e b)"
      using that assms(3) unfolding block_bytes_def set_map by (intro imageI) simp
    ultimately have "?a + of_nat i \<in> set as" using assms(2) by (metis subsetD)
    with assms(1) m' show ?thesis by (simp add: same_on_def list_all_iff)
  qed
  then have "load_bytes bs ?a j = load_bytes (vm_bytes m) ?a j" by (simp add: load_bytes_def)
  then show ?thesis unfolding SafeRead_def SafeReadRaw_def m' by (simp add: IsReadable_def split: option.split)
qed


lemma block_read:
  assumes "same_on (block_bytes (playerBasePtr g) (0, 8) @ concat (map (block_bytes base) bs) @ rest) m m'"
    and "(o', n) \<in> set bs" "k + j \<le> n"
  shows "SafeRead j m' (base + ucast o' + of_nat k) = SafeRead j m (base + ucast o' + of_nat k)"
  using SafeRead_same[OF assms(1), of base "(o', n)" k j] assms(2,3) by auto


lemma ReadLocalGameplay_same:
  assumes core: "\<And>o' n k j. (o', n) \<in> set (equipment_block g # core_blocks g) \<Longrightarrow> k + j \<le> n \<Longrightarrow>
      (SafeRead j m' (base + ucast o' + of_nat k) :: 32 word) = SafeRead j m (base + ucast o' + of_nat k)"
    and ptr: "(SafeRead 8 m' (base + ucast (mountEntityPtrOffset g)) :: 64 word)
      = SafeRead 8 m (base + ucast (mountEntityPtrOffset g))"
    and mount: "\<And>mp. mp = SafeRead 8 m (base + ucast (mountEntityPtrOffset g)) \<Longrightarrow>
      ReadVec3 m' mp (offPositionX g) = ReadVec3 m mp (offPositionX g) \<and> ReadU64 m' mp (offEntityId g) = ReadU64 m mp (offEntityId g)
      \<and> ReadInt m' mp (offAnimId g) = ReadInt m mp (offAnimId g) \<and> ReadFloat m' mp (offAnimTime g) = ReadFloat m mp (offAnimTime g)
      \<and> IsReadable m' mp 0x400 = IsReadable m mp 0x400"
  shows "ReadLocalGameplay m' g base = ReadLocalGameplay m g base"
proof -
  have r: "(SafeRead 4 m' (base + ucast o' + x) :: 32 word) = SafeRead 4 m (base + ucast o' + x)"
    if "(o', n) \<in> set (equipment_block g # core_blocks g)" "unat x + 4 \<le> n" for o' n and x :: addr
    using core[OF that(1), of "unat x" 4] that(2) by simp
  have r0: "(SafeRead 4 m' (base + ucast o') :: 32 word) = SafeRead 4 m (base + ucast o')"
    if "(o', n) \<in> set (equipment_block g # core_blocks g)" "4 \<le> n" for o' n
    using core[OF that(1), of 0 4] that(2) by simp
  have r': "(SafeRead 4 m' (x + (base + ucast o')) :: 32 word) = SafeRead 4 m (x + (base + ucast o'))"
    if "(o', n) \<in> set (equipment_block g # core_blocks g)" "unat x + 4 \<le> n" for o' n and x :: addr
    using r[OF that] by (simp add: add.commute)
  note bs = equipment_block_def core_blocks_def
  have trav: "ReadU32 m' base (traversalFlagsOffset g) = ReadU32 m base (traversalFlagsOffset g)"
    "ReadInt m' base (offAnimId g) = ReadInt m base (offAnimId g)"
    "ReadFloat m' base (offAnimTime g) = ReadFloat m base (offAnimTime g)"
    "ReadFloat m' base (offHealth g) = ReadFloat m base (offHealth g)"
    by (simp_all add: ReadU32_def ReadInt_def ReadFloat_def r0[of _ 4] bs)
  have vec: "ReadVec3 m' base (traversalTargetPosOffset g) = ReadVec3 m base (traversalTargetPosOffset g)"
    "ReadVec3 m' base (offPositionX g) = ReadVec3 m base (offPositionX g)"
    by (simp_all add: ReadVec3_def r0[of _ 12] r[of _ 12] bs)
  have skill: "ReadVec3 m' (base + ucast (skillComponentOffset g)) 0x10 = ReadVec3 m (base + ucast (skillComponentOffset g)) 0x10"
    "k \<in> {0, 4, 8, 0xC, 0x1C, 0x20} \<Longrightarrow> ReadInt m' (base + ucast (skillComponentOffset g)) k = ReadInt m (base + ucast (skillComponentOffset g)) k" for k
    by (auto simp: ReadVec3_def ReadInt_def r0[of _ "0x24"] r[of _ "0x24"] r'[of _ "0x24"] bs)
  have ids: "read_ids m' (base + ucast (vfxComponentOffset g)) 0 = read_ids m (base + ucast (vfxComponentOffset g)) 0"
    "read_ids m' (base + ucast (statusComponentOffset g)) 4 = read_ids m (base + ucast (statusComponentOffset g)) 4"
    "ReadU32 m' (base + ucast (statusComponentOffset g)) 0 = ReadU32 m (base + ucast (statusComponentOffset g)) 0"
    by (simp_all add: read_ids_def ReadInt_def ReadU32_def upt_8 r0[of _ "0x20"] r[of _ "0x20"] r0[of _ "0x24"] r[of _ "0x24"] bs)
  have equip: "k \<in> {0, 4, 8} \<Longrightarrow> ReadInt m' (base + ucast (equipmentComponentOffset g)) k = ReadInt m (base + ucast (equipmentComponentOffset g)) k" for k
    by (auto simp: ReadInt_def r0[of _ "0xC"] r[of _ "0xC"] bs)
  have dodge: "k \<in> {0, 4} \<Longrightarrow> ReadFloat m' (base + ucast (dodgeComponentOffset g)) k = ReadFloat m (base + ucast (dodgeComponentOffset g)) k" for k
    by (auto simp: ReadFloat_def r0[of _ 8] r[of _ 8] bs)
  have "read_traversal m' g base = read_traversal m g base" by (simp add: fun_eq_iff read_traversal_def trav vec Let_def)
  moreover have "read_skill m' g base = read_skill m g base" by (simp add: fun_eq_iff read_skill_def skill)
  moreover have "read_vfx m' g base = read_vfx m g base" by (simp add: fun_eq_iff read_vfx_def ids)
  moreover have "read_status m' g base = read_status m g base" by (simp add: fun_eq_iff read_status_def ids)
  moreover have "read_equipment m' g base = read_equipment m g base" by (simp add: fun_eq_iff read_equipment_def equip)
  moreover have "read_mount m' g base = read_mount m g base"
    by (simp add: fun_eq_iff read_mount_def ptr mount[OF refl] Let_def)
  moreover have "read_dodge m' g base = read_dodge m g base" by (simp add: fun_eq_iff read_dodge_def dodge)
  moreover have "read_death m' g base = read_death m g base" by (simp add: fun_eq_iff read_death_def vec trav)
  moreover have "read_interaction m' g base = read_interaction m g base" by (simp add: fun_eq_iff read_interaction_def skill)
  ultimately show ?thesis by (simp only: ReadLocalGameplay_def)
qed

lemma frame_reads:
  assumes "same_on (frame_bytes_read m g) m m'" and "base = GetLocalPlayerBase m g"
    and "mp = SafeRead 8 m (base + ucast (mountEntityPtrOffset g))" and "k + j \<le> n"
  shows "(o', n) \<in> set (equipment_block g # core_blocks g) \<Longrightarrow>
      SafeRead j m' (base + ucast o' + of_nat k) = SafeRead j m (base + ucast o' + of_nat k)"
    and "(o', n) \<in> set (mount_blocks g) \<Longrightarrow>
      SafeRead j m' (mp + ucast o' + of_nat k) = SafeRead j m (mp + ucast o' + of_nat k)"
    and "n = 8 \<Longrightarrow> SafeRead j m' (playerBasePtr g + of_nat k) = SafeRead j m (playerBasePtr g + of_nat k)"
proof -
  have read: "SafeRead j m' (e + ucast o' + of_nat k) = SafeRead j m (e + ucast o' + of_nat k)"
    if "set (block_bytes e (o', n)) \<subseteq> set (frame_bytes_read m g)" for e o'
    using SafeRead_same[OF assms(1) that, of k j] assms(4) by simp
  show "SafeRead j m' (base + ucast o' + of_nat k) = SafeRead j m (base + ucast o' + of_nat k)"
    if "(o', n) \<in> set (equipment_block g # core_blocks g)"
    by (rule read) (use that assms(2) in \<open>auto simp: frame_bytes_read_def Let_def\<close>)
  show "SafeRead j m' (mp + ucast o' + of_nat k) = SafeRead j m (mp + ucast o' + of_nat k)"
    if "(o', n) \<in> set (mount_blocks g)"
    by (rule read) (use that assms(2,3) in \<open>auto simp: frame_bytes_read_def Let_def\<close>)
  show "SafeRead j m' (playerBasePtr g + of_nat k) = SafeRead j m (playerBasePtr g + of_nat k)" if "n = 8"
    using read[of "playerBasePtr g" 0] that by (auto simp: frame_bytes_read_def Let_def)
qed

lemma frame_reads_same:
  assumes "same_on (frame_bytes_read m g) m m'"
  shows "SendLocalState J m' g now st = SendLocalState J m g now st"
proof -
  let ?base = "GetLocalPlayerBase m g"
  let ?mount = "SafeRead 8 m (?base + ucast (mountEntityPtrOffset g)) :: addr"
  note core = frame_reads(1)[OF assms refl refl] and mnt = frame_reads(2)[OF assms refl refl]
  have "(SafeRead 8 m' (playerBasePtr g) :: 64 word) = SafeRead 8 m (playerBasePtr g)"
    using frame_reads(3)[OF assms refl refl, of 0 8 8] by simp
  then have base: "GetLocalPlayerBase m' g = ?base" by (simp add: GetLocalPlayerBase_def)
  have r: "(SafeRead 4 m' (?base + ucast o' + x) :: 32 word) = SafeRead 4 m (?base + ucast o' + x)"
    if "(o', n) \<in> set (core_blocks g)" "unat x + 4 \<le> n" for o' n and x :: addr
    using core[of "unat x" 4 n o'] that by simp
  have r0: "(SafeRead 4 m' (?base + ucast o') :: 32 word) = SafeRead 4 m (?base + ucast o')"
    if "(o', n) \<in> set (core_blocks g)" "4 \<le> n" for o' n
    using core[of 0 4 n o'] that by simp
  have "ReadVec3 m' ?base (offPositionX g) = ReadVec3 m ?base (offPositionX g)"
    "ReadVec3 m' ?base (offVelocityX g) = ReadVec3 m ?base (offVelocityX g)"
    "ReadFloat m' ?base (offRotationYaw g) = ReadFloat m ?base (offRotationYaw g)"
    "ReadFloat m' ?base (offRotationPitch g) = ReadFloat m ?base (offRotationPitch g)"
    "ReadFloat m' ?base (offHealth g) = ReadFloat m ?base (offHealth g)"
    "ReadFloat m' ?base (offMaxHealth g) = ReadFloat m ?base (offMaxHealth g)"
    "read_anim m' g ?base = read_anim m g ?base"
    by (simp_all add: ReadVec3_def ReadFloat_def read_anim_def ReadInt_def ReadU32_def
        r0[of _ 12] r[of _ 12] r0[of _ 4] core_blocks_def)
  moreover have "ReadLocalGameplay m' g ?base = ReadLocalGameplay m g ?base"
  proof (rule ReadLocalGameplay_same)
    show "(SafeRead j m' (?base + ucast o' + of_nat k) :: 32 word) = SafeRead j m (?base + ucast o' + of_nat k)"
      if "(o', n) \<in> set (equipment_block g # core_blocks g)" "k + j \<le> n" for o' n k j using core[OF that(2,1)] .
    show "(SafeRead 8 m' (?base + ucast (mountEntityPtrOffset g)) :: 64 word) = ?mount"
      using core[of 0 8 8 "mountEntityPtrOffset g"] by (simp add: core_blocks_def)
    have m4: "(SafeRead 4 m' (?mount + ucast o' + x) :: 32 word) = SafeRead 4 m (?mount + ucast o' + x)"
      if "(o', n) \<in> set (mount_blocks g)" "unat x + 4 \<le> n" for o' n and x :: addr
      using mnt[of "unat x" 4 n o'] that by simp
    have m0: "(SafeRead 4 m' (?mount + ucast o') :: 32 word) = SafeRead 4 m (?mount + ucast o')"
      if "(o', n) \<in> set (mount_blocks g)" "4 \<le> n" for o' n
      using mnt[of 0 4 n o'] that by simp
    have entity: "(SafeRead 8 m' (?mount + ucast (offEntityId g)) :: 64 word) = SafeRead 8 m (?mount + ucast (offEntityId g))"
      using mnt[of 0 8 8 "offEntityId g"] by (simp add: mount_blocks_def)
    show "ReadVec3 m' mp (offPositionX g) = ReadVec3 m mp (offPositionX g) \<and> ReadU64 m' mp (offEntityId g) = ReadU64 m mp (offEntityId g)
      \<and> ReadInt m' mp (offAnimId g) = ReadInt m mp (offAnimId g) \<and> ReadFloat m' mp (offAnimTime g) = ReadFloat m mp (offAnimTime g)
      \<and> IsReadable m' mp 0x400 = IsReadable m mp 0x400" if "mp = ?mount" for mp
      unfolding that using entity
      by (simp add: ReadVec3_def ReadU64_def ReadInt_def ReadFloat_def IsReadable_same[OF assms]
          m0[of _ 12] m4[of _ 12] m0[of _ 4] mount_blocks_def)
  qed
  ultimately show ?thesis
    by (cases st) (simp add: SendLocalState_def base Let_def)
qed

lemma derived_offsets_fields [simp]:
  "offPositionX (derived_offsets g) = offPositionX g" "offVelocityX (derived_offsets g) = offVelocityX g"
  "offRotationYaw (derived_offsets g) = offRotationYaw g" "offRotationPitch (derived_offsets g) = offRotationPitch g"
  "offHealth (derived_offsets g) = offHealth g" "offMaxHealth (derived_offsets g) = offMaxHealth g"
  "offAnimId (derived_offsets g) = offAnimId g" "offAnimTime (derived_offsets g) = offAnimTime g"
  "offBlendWeight (derived_offsets g) = offBlendWeight g" "offMoveFlags (derived_offsets g) = offVelocityX g + 0x0C"
  "offCombatFlags (derived_offsets g) = offAnimId g + 0x10" "offEntityId (derived_offsets g) = 0x08"
  "traversalFlagsOffset (derived_offsets g) = offVelocityX g + 0x0C + 0x04"
  "traversalTargetPosOffset (derived_offsets g) = offVelocityX g + 0x20"
  "mountEntityPtrOffset (derived_offsets g) = offPositionX g + 0x100"
  "skillComponentOffset (derived_offsets g) = offHealth g + 0x40" "statusComponentOffset (derived_offsets g) = offHealth g + 0x10"
  "vfxComponentOffset (derived_offsets g) = offPositionX g + 0x80" "equipmentComponentOffset (derived_offsets g) = offHealth g + 0x80"
  "dodgeComponentOffset (derived_offsets g) = offVelocityX g + 0x30"
  by (simp_all add: derived_offsets_def Let_def)

lemma WalkEntityLayout_found:
  assumes "WalkEntityLayout m e g = (True, g')" "offPositionX g = 0" "offHealth g = 0" "offAnimId g = 0"
  shows "\<exists>p h a. find_off (plausible_position m e) 0x10 0x600 = Some p
    \<and> find_off (plausible_health m e) (unat (p + 0x30)) 0x780 = Some h
    \<and> find_off (plausible_anim m e) (unat p) 0x780 = Some a \<and> IsReadable m e 0x800
    \<and> g' = derived_offsets (g\<lparr>offPositionX := p, offVelocityX := p + 0x10, offRotationYaw := p + 0x24,
          offRotationPitch := p + 0x24 + 4, offHealth := h, offMaxHealth := h + 4, offAnimId := a,
          offAnimTime := a + 4, offBlendWeight := a + 8\<rparr>)"
  using assms
  by (auto simp: WalkEntityLayout_def Let_def split: if_splits option.splits)

text \<open>C31: where an accepted layout lies: when the walk over an entity succeeds (from offsets that are still
  unset), the position, health and animation fields pass their tests on the entity's memory and the
  health comes at least 0x30 bytes after the position. What an outgoing frame then reads of the entity
  is the blocks of \<open>core_blocks\<close>, all of which end within the 0x800 bytes that \<open>IsReadable\<close> has checked,
  and the equipment block, which ends 0x8C bytes after the health offset and that is at most 0x77C: so
  within them only up to a health offset of 0x774, and up to 8 bytes behind them otherwise. It reads
  nothing else: the frame sent is the same on every memory with the same bytes there, in the pointer to
  the player and in the mount's own blocks.\<close>

lemma layout_inside_checked_region:
  assumes "WalkEntityLayout m e g = (True, g')" and "offPositionX g = 0" "offHealth g = 0" "offAnimId g = 0"
  shows "IsReadable m e 0x800 \<and> plausible_position m e (offPositionX g') \<and> plausible_health m e (offHealth g')
    \<and> plausible_anim m e (offAnimId g') \<and> 0x10 \<le> unat (offPositionX g')
    \<and> unat (offPositionX g') + 0x30 \<le> unat (offHealth g') \<and> unat (offPositionX g') \<le> unat (offAnimId g')
    \<and> list_all (\<lambda>(o', n). unat o' + n \<le> 0x800) (core_blocks g')
    \<and> (case equipment_block g' of (o', n) \<Rightarrow> unat o' + n = unat (offHealth g') + 0x8C) \<and> unat (offHealth g') \<le> 0x77C
    \<and> (same_on (frame_bytes_read m1 g') m1 m2 \<longrightarrow> SendLocalState J m2 g' now st = SendLocalState J m1 g' now st)"
proof -
  from WalkEntityLayout_found[OF assms] obtain p h a where
    f: "find_off (plausible_position m e) 0x10 0x600 = Some p"
      "find_off (plausible_health m e) (unat (p + 0x30)) 0x780 = Some h"
      "find_off (plausible_anim m e) (unat p) 0x780 = Some a"
    and r: "IsReadable m e 0x800"
    and g': "g' = derived_offsets (g\<lparr>offPositionX := p, offVelocityX := p + 0x10, offRotationYaw := p + 0x24,
          offRotationPitch := p + 0x24 + 4, offHealth := h, offMaxHealth := h + 4, offAnimId := a,
          offAnimTime := a + 4, offBlendWeight := a + 8\<rparr>)"
    by blast
  from find_off_spec[OF f(1)] have p: "plausible_position m e p" "0x10 \<le> unat p" "unat p < 0x600"
    and p4: "4 dvd (unat p - 0x10)" by auto
  have add_p: "unat (p + k) = unat p + unat k" if "unat k \<le> 0x1000" for k
    using p(3) that by (intro unat_add_small) simp
  from find_off_spec[OF f(2)] add_p[of "0x30"] have h: "plausible_health m e h" "unat p + 0x30 \<le> unat h" "unat h < 0x780"
    and h4: "4 dvd (unat h - (unat p + 0x30))" by auto
  from p(2) h(2) p4 h4 have "4 dvd unat h" by presburger
  with h(3) have h77C: "unat h \<le> 0x77C" by presburger
  from find_off_spec[OF f(3)] have a: "plausible_anim m e a" "unat p \<le> unat a" "unat a < 0x780" by auto
  have add_h: "unat (h + k) = unat h + unat k" if "unat k \<le> 0x1000" for k
    using h(3) that by (intro unat_add_small) simp
  have add_a: "unat (a + k) = unat a + unat k" if "unat k \<le> 0x1000" for k
    using a(3) that by (intro unat_add_small) simp
  have p2: "unat (p + 0x24 + 4) = unat p + 0x28" "unat (p + 0x10 + 0x0C) = unat p + 0x1C"
    "unat (p + 0x10 + 0x0C + 0x04) = unat p + 0x20" "unat (p + 0x10 + 0x20) = unat p + 0x30"
    "unat (p + 0x10 + 0x30) = unat p + 0x40"
    using add_p[of "0x28"] add_p[of "0x1C"] add_p[of "0x20"] add_p[of "0x30"] add_p[of "0x40"] by (simp_all add: add.assoc)
  show ?thesis
  proof (intro conjI impI)
    show "list_all (\<lambda>(o', n). unat o' + n \<le> 0x800) (core_blocks g')"
      using p(3) h(3) a(3) add_h[of 4] add_h[of "0x40"] add_h[of "0x10"] add_a[of 4] add_a[of 8] add_a[of "0x10"]
        add_p[of "0x10"] add_p[of "0x24"] add_p[of "0x80"] add_p[of "0x100"] p2
      by (simp add: g' core_blocks_def)
    show "SendLocalState J m2 g' now st = SendLocalState J m1 g' now st" if "same_on (frame_bytes_read m1 g') m1 m2"
      using frame_reads_same[OF that] .
  qed (use r p h h77C a add_h[of "0x80"] in \<open>simp_all add: g' equipment_block_def\<close>)
qed

definition walk_vm :: vm where
  "walk_vm = demo_vm\<lparr>vm_bytes := (\<lambda>a. if a = 0x3012 \<or> a = 0x3046 then 0x80
     else if a = 0x3013 \<or> a = 0x3047 then 0x3F else if a = 0x3048 then 5 else 0)\<rparr>"

lemma walk_readable: "IsReadable walk_vm a sz = IsReadable demo_vm a sz"
  by (simp add: IsReadable_def walk_vm_def)

lemma walk_traps: "vm_rd_trap walk_vm a n = None"
  by (simp add: walk_vm_def demo_vm_def)

lemma walk_read4: "a \<noteq> 0 \<Longrightarrow> a + 4 \<le> 0x10000 \<Longrightarrow> SafeRead 4 walk_vm a
    = of_le [vm_bytes walk_vm a, vm_bytes walk_vm (a + 1), vm_bytes walk_vm (a + 2), vm_bytes walk_vm (a + 3)]"
  using demo_readable[of a 4]
  by (simp add: SafeRead_def SafeReadRaw_def load_bytes_def upt_4 walk_readable walk_traps)

lemma walk_reads:
  "SafeRead 4 walk_vm 0x3010 = (f32_1 :: 32 word)"
  "SafeRead 4 walk_vm 0x3014 = (0 :: 32 word)"
  "SafeRead 4 walk_vm 0x3018 = (0 :: 32 word)"
  "SafeRead 4 walk_vm 0x301C = (0 :: 32 word)"
  "SafeRead 4 walk_vm 0x3020 = (0 :: 32 word)"
  "SafeRead 4 walk_vm 0x3024 = (0 :: 32 word)"
  "SafeRead 4 walk_vm 0x3028 = (0 :: 32 word)"
  "SafeRead 4 walk_vm 0x302C = (0 :: 32 word)"
  "SafeRead 4 walk_vm 0x3030 = (0 :: 32 word)"
  "SafeRead 4 walk_vm 0x3034 = (0 :: 32 word)"
  "SafeRead 4 walk_vm 0x3038 = (0 :: 32 word)"
  "SafeRead 4 walk_vm 0x303C = (0 :: 32 word)"
  "SafeRead 4 walk_vm 0x3040 = (0 :: 32 word)"
  "SafeRead 4 walk_vm 0x3044 = (f32_1 :: 32 word)"
  "SafeRead 4 walk_vm 0x3048 = (5 :: 32 word)"
  "SafeRead 4 walk_vm 0x304C = (0 :: 32 word)"
  "SafeRead 4 walk_vm 0x3050 = (0 :: 32 word)"
  by (simp_all add: walk_read4) (simp_all add: walk_vm_def)

lemma walk_found:
  "find_off (plausible_position walk_vm 0x3000) 0x10 0x600 = Some 0x10"
  "find_off (plausible_health walk_vm 0x3000) 0x40 0x780 = Some 0x40"
  "find_off (plausible_anim walk_vm 0x3000) 0x10 0x780 = Some 0x48"
proof -
  have coord: "LooksLikeWorldCoord 0" "LooksLikeWorldCoord f32_1" "\<not> f32_eq f32_1 0" "f32_isfinite 0" "f32_isfinite f32_1"
    "f32_lt 0 f32_1" "f32_le f32_1 f32_1e6" "f32_le 0 0" "f32_le 0 f32_1"
    by (simp_all add: LooksLikeWorldCoord_def f32_fabs_def f32_eval)
  have pos: "plausible_position walk_vm 0x3000 0x10"
    by (simp add: plausible_position_def Let_def walk_reads coord)
  have health: "plausible_health walk_vm 0x3000 0x40"
    by (simp add: plausible_health_def Let_def walk_reads coord)
  have anim: "\<not> plausible_anim walk_vm 0x3000 0x10" "\<not> plausible_anim walk_vm 0x3000 0x14"
    "\<not> plausible_anim walk_vm 0x3000 0x18" "\<not> plausible_anim walk_vm 0x3000 0x1C"
    "\<not> plausible_anim walk_vm 0x3000 0x20" "\<not> plausible_anim walk_vm 0x3000 0x24"
    "\<not> plausible_anim walk_vm 0x3000 0x28" "\<not> plausible_anim walk_vm 0x3000 0x2C"
    "\<not> plausible_anim walk_vm 0x3000 0x30" "\<not> plausible_anim walk_vm 0x3000 0x34"
    "\<not> plausible_anim walk_vm 0x3000 0x38" "\<not> plausible_anim walk_vm 0x3000 0x3C"
    "\<not> plausible_anim walk_vm 0x3000 0x40" "\<not> plausible_anim walk_vm 0x3000 0x44"
    "plausible_anim walk_vm 0x3000 0x48"
    by (simp_all add: plausible_anim_def Let_def walk_reads coord word_sless_alt)
  show "find_off (plausible_position walk_vm 0x3000) 0x10 0x600 = Some 0x10"
    by (subst find_off.simps) (simp add: pos)
  show "find_off (plausible_health walk_vm 0x3000) 0x40 0x780 = Some 0x40"
    by (subst find_off.simps) (simp add: health)
  show "find_off (plausible_anim walk_vm 0x3000) 0x10 0x780 = Some 0x48"
    by (simp add: find_off.simps anim)
qed

lemma layout_inside_checked_region_witness:
  "let g = snd (WalkEntityLayout walk_vm 0x3000 GameOffsets_init) in unat (offHealth g) = 0x40
     \<and> list_all (\<lambda>(o', n). unat o' + n \<le> 0x800) (core_blocks g)
     \<and> (case equipment_block g of (o', n) \<Rightarrow> unat o' + n = 0xCC)"
proof -
  let ?g = "snd (WalkEntityLayout walk_vm 0x3000 GameOffsets_init)"
  have ok: "fst (WalkEntityLayout walk_vm 0x3000 GameOffsets_init)" "offHealth ?g = 0x40"
    by (simp_all add: WalkEntityLayout_def Let_def walk_found walk_readable demo_readable GameOffsets_init_def)
  then have "WalkEntityLayout walk_vm 0x3000 GameOffsets_init = (True, ?g)" by (metis prod.collapse)
  from layout_inside_checked_region[OF this, of walk_vm walk_vm] ok(2) show ?thesis
    by (simp add: GameOffsets_init_def Let_def split_beta)
qed

section \<open>A layout at the end of the checked region\<close>

lemma find_off_first:
  assumes "P (of_nat t)" "4 dvd (t - lo)" "lo \<le> t" "t < hi" "\<And>k. lo \<le> k \<Longrightarrow> k < t \<Longrightarrow> 4 dvd (k - lo) \<Longrightarrow> \<not> P (of_nat k)"
  shows "find_off P lo hi = Some (of_nat t)"
  using assms
proof (induction P lo hi rule: find_off.induct)
  case (1 P off hi)
  show ?case
  proof (cases "off = t")
    case True
    with 1 show ?thesis by (simp add: find_off.simps[of P t])
  next
    case False
    with 1(4) have lt: "off < t" by simp
    with 1(6)[of off] have np: "\<not> P (of_nat off)" by simp
    have le: "off + 4 \<le> t" using lt 1(3) by presburger
    have "find_off P (off + 4) hi = Some (of_nat t)"
    proof (rule 1(1)[OF _ np 1(2) _ le 1(5)])
      show "off < hi" using lt 1(5) by simp
      show "4 dvd (t - (off + 4))" using le 1(3) by presburger
      fix k assume "off + 4 \<le> k" "k < t" "4 dvd (k - (off + 4))"
      moreover from this have "4 dvd (k - off)" by presburger
      ultimately show "\<not> P (of_nat k)" using 1(6)[of k] by simp
    qed
    with np lt 1(5) show ?thesis by (simp add: find_off.simps[of P off])
  qed
qed


text \<open>An entity at the end of readable memory, with a plausible health pair only at the last offset tried.\<close>

definition edge_vm :: vm where
  "edge_vm = demo_vm\<lparr>vm_bytes := (\<lambda>a. if a = 0x3012 \<or> a = 0x3782 then 0x80
       else if a = 0x3013 \<or> a = 0x3783 then 0x3F else if a = 0x3014 then 5 else if a = 0x37FC then 7 else 0),
     vm_query := (\<lambda>a. Some \<lparr>BaseAddress = 0, RegionSize = 0x3800, State = MEM_COMMIT, Protect = 0x04\<rparr>)\<rparr>"

lemma edge_readable: "IsReadable edge_vm a sz \<longleftrightarrow> a \<noteq> 0 \<and> a + sz \<le> 0x3800"
  by (simp add: IsReadable_def edge_vm_def MEM_COMMIT_def PAGE_GUARD_def readable_mask_def)

lemma edge_read4: "a \<noteq> 0 \<Longrightarrow> SafeRead 4 edge_vm a =
    (if a + 4 \<le> 0x3800 then of_le [vm_bytes edge_vm a, vm_bytes edge_vm (a + 1), vm_bytes edge_vm (a + 2), vm_bytes edge_vm (a + 3)] else 0)"
proof -
  have "vm_rd_trap edge_vm a n = None" for n by (simp add: edge_vm_def demo_vm_def)
  moreover have "replicate 4 (0 :: byte) = [0, 0, 0, 0]" by (simp add: numeral_eq_Suc)
  ultimately show "a \<noteq> 0 \<Longrightarrow> ?thesis" by (simp add: SafeRead_def SafeReadRaw_def load_bytes_def upt_4 edge_readable)
qed

lemma edge_zero:
  assumes "0x3015 \<le> a" "a \<le> 0x377C"
  shows "SafeRead 4 edge_vm a = (0 :: 32 word)"
proof -
  have "vm_bytes edge_vm b = 0" if "0x3015 \<le> b" "b < 0x3780" for b
    using that by (auto simp: edge_vm_def)
  moreover have "0x3015 \<le> a + j \<and> a + j < 0x3780" if "j \<le> 3" for j
  proof -
    have b: "0x3015 \<le> unat a" "unat a \<le> 0x377C" "unat j \<le> 3" using assms that by (simp_all add: word_le_nat_alt)
    then have "unat (a + j) = unat a + unat j" by (simp add: unat_word_ariths)
    with b show ?thesis by (simp add: word_le_nat_alt word_less_nat_alt)
  qed
  ultimately have "vm_bytes edge_vm (a + j) = 0" if "j \<le> 3" for j using that by blast
  from this[of 0] this[of 1] this[of 2] this[of 3] show ?thesis using assms by (subst edge_read4) auto
qed

lemma edge_no_health:
  assumes "0x40 \<le> k" "k \<le> 0x778"
  shows "\<not> plausible_health edge_vm 0x3000 (of_nat k)"
proof -
  have eq: "0x3000 + ucast (of_nat k :: u32) + 4 = (of_nat (0x3004 + k) :: addr)"
    using assms(2) by (simp add: unsigned_of_nat take_bit_nat_eq_self)
  have "SafeRead 4 edge_vm (of_nat (0x3004 + k)) = (0 :: 32 word)"
    by (rule edge_zero) (use assms in \<open>simp_all add: word_le_nat_alt unat_of_nat take_bit_nat_eq_self del: of_nat_add\<close>)
  with eq show ?thesis by (simp add: plausible_health_def Let_def f32_lt_def f32_eval del: of_nat_add)
qed

lemma edge_reads:
  "SafeRead 4 edge_vm 0x3010 = (f32_1 :: 32 word)" "SafeRead 4 edge_vm 0x3014 = (5 :: 32 word)"
  "SafeRead 4 edge_vm 0x3018 = (0 :: 32 word)" "SafeRead 4 edge_vm 0x377C = (0 :: 32 word)"
  "SafeRead 4 edge_vm 0x3780 = (f32_1 :: 32 word)" "SafeRead 4 edge_vm 0x37FC = (7 :: 32 word)"
  "SafeRead 4 edge_vm 0x3800 = (0 :: 32 word)" "SafeRead 4 edge_vm 0x3804 = (0 :: 32 word)"
  by (simp_all add: edge_read4) (simp_all add: edge_vm_def)

lemma edge_walk:
  "fst (WalkEntityLayout edge_vm 0x3000 GameOffsets_init)"
  "offHealth (snd (WalkEntityLayout edge_vm 0x3000 GameOffsets_init)) = 0x77C"
  "equipmentComponentOffset (snd (WalkEntityLayout edge_vm 0x3000 GameOffsets_init)) = 0x7FC"
proof -
  have pos: "plausible_position edge_vm 0x3000 0x10"
    by (simp add: plausible_position_def Let_def edge_reads LooksLikeWorldCoord_def f32_fabs_def f32_eval)
  have "find_off (plausible_health edge_vm 0x3000) 0x40 0x780 = Some (of_nat 0x77C)"
  proof (rule find_off_first)
    show "plausible_health edge_vm 0x3000 (of_nat 0x77C)"
      by (simp add: plausible_health_def Let_def edge_reads f32_eval)
    show "\<not> plausible_health edge_vm 0x3000 (of_nat k)" if "0x40 \<le> k" "k < 0x77C" "4 dvd (k - 0x40)" for k
      by (rule edge_no_health) (use that in presburger)+
  qed simp_all
  moreover have "plausible_anim edge_vm 0x3000 0x14" "\<not> plausible_anim edge_vm 0x3000 0x10"
    by (simp_all add: plausible_anim_def Let_def edge_reads f32_eval word_sless_alt)
  then have "find_off (plausible_anim edge_vm 0x3000) 0x10 0x780 = Some 0x14" by (simp add: find_off.simps)
  moreover have "find_off (plausible_position edge_vm 0x3000) 0x10 0x600 = Some 0x10" by (subst find_off.simps) (simp add: pos)
  ultimately show "fst (WalkEntityLayout edge_vm 0x3000 GameOffsets_init)"
    "offHealth (snd (WalkEntityLayout edge_vm 0x3000 GameOffsets_init)) = 0x77C"
    "equipmentComponentOffset (snd (WalkEntityLayout edge_vm 0x3000 GameOffsets_init)) = 0x7FC"
    by (simp_all add: WalkEntityLayout_def Let_def edge_readable GameOffsets_init_def)
qed

text \<open>The bound is reached: here the walk succeeds, the entity is readable for exactly the 0x800 bytes that
  were checked, and of the equipment block only the weapon is inside: the stance and the off-hand item
  are read as 0 behind the end of readable memory.\<close>

lemma equipment_read_past_check:
  defines "g \<equiv> snd (WalkEntityLayout edge_vm 0x3000 GameOffsets_init)"
  shows "WalkEntityLayout edge_vm 0x3000 GameOffsets_init = (True, g) \<and> IsReadable edge_vm 0x3000 0x800
    \<and> \<not> IsReadable edge_vm 0x3000 0x801 \<and> (case equipment_block g of (o', n) \<Rightarrow> unat o' + n = 0x808)
    \<and> weapon_id (ReadLocalGameplay edge_vm g 0x3000) = 7 \<and> weapon_stance (ReadLocalGameplay edge_vm g 0x3000) = 0"
proof -
  have "WalkEntityLayout edge_vm 0x3000 GameOffsets_init = (True, g)" using edge_walk(1) by (simp add: g_def prod_eq_iff)
  moreover have e: "equipmentComponentOffset g = 0x7FC" using edge_walk(3) by (simp add: g_def)
  then have "weapon_id (read_equipment edge_vm g 0x3000 gp) = 7" "weapon_stance (read_equipment edge_vm g 0x3000 gp) = 0" for gp
    by (simp_all add: read_equipment_def ReadInt_def edge_reads)
  then have "weapon_id (ReadLocalGameplay edge_vm g 0x3000) = 7" "weapon_stance (ReadLocalGameplay edge_vm g 0x3000) = 0"
    by (simp_all add: ReadLocalGameplay_def read_mount_def read_dodge_def read_death_def read_interaction_def Let_def)
  ultimately show ?thesis using e by (simp add: edge_readable equipment_block_def)
qed

section \<open>The offset cache\<close>

lemma put_all_object:
  assumes "json_laws J" "j_is_object J j \<or> j = j_null J"
  shows "j_is_object J (put_all J kvs j) \<or> put_all J kvs j = j_null J"
    and "j_contains J (put_all J kvs j) k \<longleftrightarrow> k \<in> fst ` set kvs \<or> j_contains J j k"
    and "distinct (map fst kvs) \<Longrightarrow> j_at J (put_all J kvs j) k = (case map_of kvs k of Some v \<Rightarrow> v | None \<Rightarrow> j_at J j k)"
  using assms(2)
proof (induction kvs arbitrary: j)
  case Nil
  { case 1 then show ?case by simp next case 2 then show ?case by simp next case 3 then show ?case by simp }
next
  case (Cons kv kvs)
  obtain k' v where kv: "kv = (k', v)" by force
  note set = json_laws.set_eqs[OF assms(1)]
  {
    case 1
    with Cons.IH(1)[of "j_set J j k' v"] show ?case by (simp add: kv set)
  next
    case 2
    with Cons.IH(2)[of "j_set J j k' v"] show ?case by (auto simp: kv set)
  next
    case 3
    then have "map_of kvs k' = None" by (simp add: kv map_of_eq_None_iff)
    with 3 Cons.IH(3)[of "j_set J j k' v"] show ?case
      by (cases "k = k'") (simp_all add: kv set split: option.split)
  }
qed

lemma saved_keys: "distinct (map fst (saved_offsets J g))"
  by (simp add: saved_offsets_def)

lemma saved_at:
  assumes "json_laws J"
  shows "j_contains J (put_all J (saved_offsets J g) (j_null J)) k \<longleftrightarrow> map_of (saved_offsets J g) k \<noteq> None"
    and "map_of (saved_offsets J g) k = Some v \<Longrightarrow> j_at J (put_all J (saved_offsets J g) (j_null J)) k = v"
  using put_all_object(2,3)[OF assms, of "j_null J" "saved_offsets J g" k] saved_keys[of J g]
    json_laws.null_contains[OF assms] by (auto simp: map_of_eq_None_iff)

lemma rd_saved:
  assumes "json_laws J"
  shows "map_of (saved_offsets J g) k = Some (j_int J (uint (v :: u64)))
      \<Longrightarrow> rd64 J (put_all J (saved_offsets J g) (j_null J)) k upd1 g0 = Some (upd1 (\<lambda>_. v) g0)"
    and "map_of (saved_offsets J g) k = Some (j_int J (uint (w :: u32)))
      \<Longrightarrow> rd32 J (put_all J (saved_offsets J g) (j_null J)) k upd2 g0 = Some (upd2 (\<lambda>_. w) g0)"
  using saved_at[OF assms, of g k] json_laws.get_eqs[OF assms] by (simp_all add: rd64_def rd32_def)

text \<open>What the cache does not keep.\<close>

definition keep_unsaved :: "GameOffsets \<Rightarrow> GameOffsets \<Rightarrow> GameOffsets" where
  "keep_unsaved g0 g = g\<lparr>cutsceneFn := cutsceneFn g0, cinematicFlagPtr := cinematicFlagPtr g0,
     entityListPtr := entityListPtr g0,
     puzzleInputFn := puzzleInputFn g0, puzzleTriggerFn := puzzleTriggerFn g0\<rparr>"

lemma saved_values:
  "map_of (saved_offsets J g) ''playerBasePtr'' = Some (j_int J (uint (playerBasePtr g)))"
  "map_of (saved_offsets J g) ''inventoryArrayPtr'' = Some (j_int J (uint (inventoryArrayPtr g)))"
  "map_of (saved_offsets J g) ''itemCountPtr'' = Some (j_int J (uint (itemCountPtr g)))"
  "map_of (saved_offsets J g) ''itemUseFn'' = Some (j_int J (uint (itemUseFn g)))"
  "map_of (saved_offsets J g) ''attackTriggerFn'' = Some (j_int J (uint (attackTriggerFn g)))"
  "map_of (saved_offsets J g) ''skillTriggerFn'' = Some (j_int J (uint (skillTriggerFn g)))"
  "map_of (saved_offsets J g) ''offPositionX'' = Some (j_int J (uint (offPositionX g)))"
  "map_of (saved_offsets J g) ''offVelocityX'' = Some (j_int J (uint (offVelocityX g)))"
  "map_of (saved_offsets J g) ''offRotationYaw'' = Some (j_int J (uint (offRotationYaw g)))"
  "map_of (saved_offsets J g) ''offRotationPitch'' = Some (j_int J (uint (offRotationPitch g)))"
  "map_of (saved_offsets J g) ''offHealth'' = Some (j_int J (uint (offHealth g)))"
  "map_of (saved_offsets J g) ''offMaxHealth'' = Some (j_int J (uint (offMaxHealth g)))"
  "map_of (saved_offsets J g) ''offAnimId'' = Some (j_int J (uint (offAnimId g)))"
  "map_of (saved_offsets J g) ''offAnimTime'' = Some (j_int J (uint (offAnimTime g)))"
  "map_of (saved_offsets J g) ''offMoveFlags'' = Some (j_int J (uint (offMoveFlags g)))"
  "map_of (saved_offsets J g) ''offCombatFlags'' = Some (j_int J (uint (offCombatFlags g)))"
  "map_of (saved_offsets J g) ''offBlendWeight'' = Some (j_int J (uint (offBlendWeight g)))"
  "map_of (saved_offsets J g) ''offEntityId'' = Some (j_int J (uint (offEntityId g)))"
  "map_of (saved_offsets J g) ''traversalFlagsOffset'' = Some (j_int J (uint (traversalFlagsOffset g)))"
  "map_of (saved_offsets J g) ''traversalTargetPosOffset'' = Some (j_int J (uint (traversalTargetPosOffset g)))"
  "map_of (saved_offsets J g) ''skillComponentOffset'' = Some (j_int J (uint (skillComponentOffset g)))"
  "map_of (saved_offsets J g) ''vfxComponentOffset'' = Some (j_int J (uint (vfxComponentOffset g)))"
  "map_of (saved_offsets J g) ''statusComponentOffset'' = Some (j_int J (uint (statusComponentOffset g)))"
  "map_of (saved_offsets J g) ''equipmentComponentOffset'' = Some (j_int J (uint (equipmentComponentOffset g)))"
  "map_of (saved_offsets J g) ''mountEntityPtrOffset'' = Some (j_int J (uint (mountEntityPtrOffset g)))"
  "map_of (saved_offsets J g) ''dodgeComponentOffset'' = Some (j_int J (uint (dodgeComponentOffset g)))"
  "map_of (saved_offsets J g) ''itemStride'' = Some (j_int J (uint (itemStride g)))"
  "map_of (saved_offsets J g) ''offItemId'' = Some (j_int J (uint (offItemId g)))"
  "map_of (saved_offsets J g) ''offItemQuantity'' = Some (j_int J (uint (offItemQuantity g)))"
  "map_of (saved_offsets J g) ''offItemDurability'' = Some (j_int J (uint (offItemDurability g)))"
  "map_of (saved_offsets J g) ''offItemFlags'' = Some (j_int J (uint (offItemFlags g)))"
  "map_of (saved_offsets J g) ''offItemNameHash'' = Some (j_int J (uint (offItemNameHash g)))"
  by (simp_all add: saved_offsets_def)

lemma load_saved:
  assumes "json_laws J"
  shows "load_offsets J (put_all J (saved_offsets J g) (j_null J)) g0 = Some (keep_unsaved g0 g)"
proof -
  have "load_offsets J (put_all J (saved_offsets J g) (j_null J)) g0 = Some (g0\<lparr>
    playerBasePtr := playerBasePtr g, inventoryArrayPtr := inventoryArrayPtr g, itemCountPtr := itemCountPtr g, itemUseFn := itemUseFn g, attackTriggerFn := attackTriggerFn g, skillTriggerFn := skillTriggerFn g, offPositionX := offPositionX g, offVelocityX := offVelocityX g, offRotationYaw := offRotationYaw g, offRotationPitch := offRotationPitch g, offHealth := offHealth g, offMaxHealth := offMaxHealth g, offAnimId := offAnimId g, offAnimTime := offAnimTime g, offMoveFlags := offMoveFlags g, offCombatFlags := offCombatFlags g, offBlendWeight := offBlendWeight g, offEntityId := offEntityId g, traversalFlagsOffset := traversalFlagsOffset g, traversalTargetPosOffset := traversalTargetPosOffset g, skillComponentOffset := skillComponentOffset g, vfxComponentOffset := vfxComponentOffset g, statusComponentOffset := statusComponentOffset g, equipmentComponentOffset := equipmentComponentOffset g, mountEntityPtrOffset := mountEntityPtrOffset g, dodgeComponentOffset := dodgeComponentOffset g, itemStride := itemStride g, offItemId := offItemId g, offItemQuantity := offItemQuantity g, offItemDurability := offItemDurability g, offItemFlags := offItemFlags g, offItemNameHash := offItemNameHash g\<rparr>)"
    unfolding load_offsets_def by (simp add: rd_saved[OF assms] saved_values)
  then show ?thesis by (simp add: keep_unsaved_def)
qed

text \<open>C32: the offset cache gives back what was saved: loading the document that was saved for the same
  executable restores every saved field, whatever the offsets were before, with the player's address
  moved along with the module; the remaining absolute addresses come back as they were in the process
  that saved them, and the cutscene and puzzle addresses are not in the cache at all.\<close>

lemma offset_cache_round_trip:
  assumes "json_laws J" and "mod_base r \<noteq> 0" "mod_base r \<le> playerBasePtr g" and "mod_base r' \<noteq> 0"
  shows "LoadFromCache J (Some (SaveOffsetCache J hash r g)) hash r' g0
    = (let g' = keep_unsaved g0 (g\<lparr>playerBasePtr := mod_base r' + (playerBasePtr g - mod_base r)\<rparr>)
       in Some (playerLayoutResolved g', g'))"
proof -
  note laws = json_laws.set_eqs[OF assms(1)] json_laws.get_eqs[OF assms(1)]
  have g': "(keep_unsaved g0 g)\<lparr>playerBasePtr := x\<rparr> = keep_unsaved g0 (g\<lparr>playerBasePtr := x\<rparr>)" for x
    by (simp add: keep_unsaved_def)
  show ?thesis
    using assms(2-4)
    by (simp add: LoadFromCache_def SaveOffsetCache_def Let_def laws load_saved[OF assms(1)] g')
qed

lemma offset_cache_round_trip_witness:
  "LoadFromCache demo_json (Some (SaveOffsetCache demo_json ''ab'' \<lparr>mod_base = 0x1000, mod_size = 9\<rparr>
      (demo_offsets\<lparr>playerBasePtr := 0x1234\<rparr>))) ''ab'' \<lparr>mod_base = 0x7000, mod_size = 9\<rparr> GameOffsets_init
    = (let g' = keep_unsaved GameOffsets_init (demo_offsets\<lparr>playerBasePtr := 0x7234\<rparr>) in Some (True, g'))"
  using offset_cache_round_trip[OF json_laws_demo, of "\<lparr>mod_base = 0x1000, mod_size = 9\<rparr>"
      "demo_offsets\<lparr>playerBasePtr := 0x1234\<rparr>" "\<lparr>mod_base = 0x7000, mod_size = 9\<rparr>" "''ab''" GameOffsets_init]
  by (simp add: playerLayoutResolved_def keep_unsaved_def demo_fields)

section \<open>The cache key\<close>

text \<open>Every handle is given back on every path, only the first MiB counts, and two different
  digests of one length never give the same key.\<close>

lemma GameBinaryHash_balanced: "snd (GameBinaryHash E k) = k"
  by (auto simp: GameBinaryHash_def Let_def split: option.split)

lemma GameBinaryHash_first_MiB:
  "take (1024 * 1024) xs = take (1024 * 1024) ys \<Longrightarrow>
     fst (GameBinaryHash (E\<lparr>exe_file := Some xs\<rparr>) k) = fst (GameBinaryHash (E\<lparr>exe_file := Some ys\<rparr>) k)"
  by (simp add: GameBinaryHash_def Let_def)

lemma distinct_hex: "distinct hex_digits" "length hex_digits = 16"
  by (simp_all add: hex_digits_def)

lemma BytesToHex_Cons [simp]:
  "BytesToHex [] = []"
  "BytesToHex (b # bs) = hex_digits ! unat (drop_bit 4 b) # hex_digits ! unat (and b 0xF) # BytesToHex bs"
  by (simp_all add: BytesToHex_def)

lemma hex_digit_inj: "i < 16 \<Longrightarrow> j < 16 \<Longrightarrow> hex_digits ! i = hex_digits ! j \<Longrightarrow> i = j"
  using nth_eq_iff_index_eq[OF distinct_hex(1), of i j] by (simp add: distinct_hex(2))

lemma hex_byte_inj:
  assumes "hex_digits ! unat (drop_bit 4 (x :: byte)) = hex_digits ! unat (drop_bit 4 y)"
    and "hex_digits ! unat (and x 0xF) = hex_digits ! unat (and y 0xF)"
  shows "x = y"
proof -
  have "unat x = unat y"
    using hex_digit_inj[OF byte_nibbles(1)[of x] byte_nibbles(1)[of y] assms(1)]
      hex_digit_inj[OF byte_nibbles(2)[of x] byte_nibbles(2)[of y] assms(2)]
      byte_nibbles(3)[of x] byte_nibbles(3)[of y] by simp
  then show ?thesis by (simp add: word_unat_eq_iff)
qed

lemma BytesToHex_inj: "BytesToHex xs = BytesToHex ys \<Longrightarrow> xs = ys"
proof (induction xs arbitrary: ys)
  case Nil
  then show ?case by (cases ys) simp_all
next
  case (Cons x xs)
  then obtain y ys' where y: "ys = y # ys'" by (cases ys) simp_all
  with Cons.prems have h: "hex_digits ! unat (drop_bit 4 x) = hex_digits ! unat (drop_bit 4 y)"
    "hex_digits ! unat (and x 0xF) = hex_digits ! unat (and y 0xF)" "BytesToHex xs = BytesToHex ys'"
    by (simp_all only: BytesToHex_Cons list.inject)
  with y hex_byte_inj[OF h(1,2)] Cons.IH[OF h(3)] show ?case by simp
qed

text \<open>The key is empty exactly when a step failed or the digest is empty, and two executables whose digests
  were computed share a key only if they share the digest.\<close>

lemma GameBinaryHash_key:
  assumes "fst (GameBinaryHash E k) = fst (GameBinaryHash E' k')" and "fst (GameBinaryHash E k) \<noteq> []"
  shows "\<exists>xs ys d. exe_file E = Some xs \<and> exe_file E' = Some ys
    \<and> md5_digest E (take (1024 * 1024) xs) = Some d \<and> md5_digest E' (take (1024 * 1024) ys) = Some d"
  using assms by (auto simp: GameBinaryHash_def Let_def dest!: BytesToHex_inj split: option.splits if_splits)

end
