(* ===== verification/Inventory_Props.thy ===== *)
theory Inventory_Props
  imports Inventory_Hook Scanner Player_Apply
begin

text \<open>
  What the inventory hook promises: the beacon lands in the first free slot and nothing else
  changes, it is appended once, and using it opens the overlay and nothing of the game.
\<close>

section \<open>The cells of the inventory\<close>

definition beacon_slot :: "vm \<Rightarrow> GameOffsets \<Rightarrow> addr" where
  "beacon_slot m g = (SafeRead 8 m (inventoryArrayPtr g) :: addr)
     + scast (SafeRead 4 m (itemCountPtr g) :: i32) * ucast (itemStride g)"

definition beacon_cells :: "vm \<Rightarrow> GameOffsets \<Rightarrow> addr list" where
  "beacon_cells m g = (let s = beacon_slot m g in [s, s + 0x08, s + 0x0C, s + 0x10, s + 0x14])"

text \<open>The slot is mapped and can be written, and lies apart from the counter and the array pointer.\<close>

definition inventory_writable :: "vm \<Rightarrow> GameOffsets \<Rightarrow> bool" where
  "inventory_writable m g \<longleftrightarrow> IsReadable m (beacon_slot m g) (ucast (itemStride g))
     \<and> list_all (accessible 4 m) (itemCountPtr g # beacon_cells m g)
     \<and> list_all (\<lambda>a. separate a 4 (itemCountPtr g) 4) (beacon_cells m g)
     \<and> list_all (\<lambda>a. separate a 4 (inventoryArrayPtr g) 8) (itemCountPtr g # beacon_cells m g)"

definition has_room :: "vm \<Rightarrow> GameOffsets \<Rightarrow> bool" where
  "has_room m g \<longleftrightarrow> inventoryResolved g \<and> (SafeRead 8 m (inventoryArrayPtr g) :: addr) \<noteq> 0
     \<and> 0 \<le> sint (SafeRead 4 m (itemCountPtr g) :: i32) \<and> sint (SafeRead 4 m (itemCountPtr g) :: i32) \<le> 2000"

section \<open>Appending\<close>

text \<open>The memory after the six writes, as a chain of cell writes.\<close>

definition appended :: "vm \<Rightarrow> GameOffsets \<Rightarrow> vm" where
  "appended m g = (let s = beacon_slot m g; n = SafeRead 4 m (itemCountPtr g) :: i32 in
     SafeWrite 4 (SafeWrite 4 (SafeWrite 4 (SafeWrite 4 (SafeWrite 4 (SafeWrite 4 m
       s MULTIPLAYER_BEACON_ID) (s + 0x08) (1 :: i32)) (s + 0x0C) (9999 :: i32)) (s + 0x10) (0 :: i32))
       (s + 0x14) MULTIPLAYER_BEACON_NAME_HASH) (itemCountPtr g) (n + 1))"

lemma AppendBeaconItem_appended:
  assumes "g = ResolveInventoryFields g0" "has_room m g" "inventory_writable m g" "\<not> beaconAppended ih"
  shows "AppendBeaconItem g (m, ih) = (True, appended m g, ih\<lparr>beaconAppended := True\<rparr>)"
proof -
  have off: "offItemId g = 0" "offItemQuantity g = 0x08" "offItemDurability g = 0x0C" "offItemFlags g = 0x10"
    "offItemNameHash g = 0x14"
    by (simp_all add: assms(1) ResolveInventoryFields_def)
  have nz: "beacon_slot m g \<noteq> 0" using assms(3) by (auto simp: inventory_writable_def IsReadable_def)
  have c: "itemCountPtr g \<noteq> 0" using assms(2) by (simp add: has_room_def inventoryResolved_def)
  have room: "inventoryResolved g" "(SafeRead 8 m (inventoryArrayPtr g) :: addr) \<noteq> 0"
    "\<not> (SafeRead 4 m (itemCountPtr g) :: i32) <s 0" "\<not> 2000 <s (SafeRead 4 m (itemCountPtr g) :: i32)"
    using assms(2) by (simp_all add: has_room_def word_sless_alt)
  have r: "IsReadable m (beacon_slot m g) (ucast (itemStride g))" using assms(3) by (simp add: inventory_writable_def)
  show ?thesis
    using room r assms(4) nz c
    by (simp add: AppendBeaconItem_def beacon_writes_def appended_def Let_def off WriteInt_def WriteU32_def
        beacon_slot_def)
qed

lemma beacon_cells_apart:
  "separate (s :: addr) 4 (s + 0x08) 4" "separate (s :: addr) 4 (s + 0x0C) 4" "separate (s :: addr) 4 (s + 0x10) 4"
  "separate (s :: addr) 4 (s + 0x14) 4" "separate (s + 0x08 :: addr) 4 (s + 0x0C) 4" "separate (s + 0x08 :: addr) 4 (s + 0x10) 4"
  "separate (s + 0x08 :: addr) 4 (s + 0x14) 4" "separate (s + 0x0C :: addr) 4 (s + 0x10) 4"
  "separate (s + 0x0C :: addr) 4 (s + 0x14) 4" "separate (s + 0x10 :: addr) 4 (s + 0x14) 4"
  by (simp_all add: separate_def)

lemma appended_reads:
  assumes "inventory_writable m g"
  shows "SafeRead 4 (appended m g) (beacon_slot m g) = MULTIPLAYER_BEACON_ID"
    "SafeRead 4 (appended m g) (itemCountPtr g) = (SafeRead 4 m (itemCountPtr g) :: i32) + 1"
    "SafeRead 8 (appended m g) (inventoryArrayPtr g) = (SafeRead 8 m (inventoryArrayPtr g) :: addr)"
  using assms beacon_cells_apart[of "beacon_slot m g"]
  by (simp_all add: appended_def Let_def inventory_writable_def beacon_cells_def separate_sym
      cell32.read_write_same cell32.read_write_separate SafeRead_SafeWrite_separate)

lemma appended_outside:
  "list_all (\<lambda>a. 4 \<le> unat (x - a)) (itemCountPtr g # beacon_cells m g) \<Longrightarrow> vm_bytes (appended m g) x = vm_bytes m x"
  by (simp add: appended_def beacon_cells_def Let_def SafeWrite_bytes_outside)

lemma beacon_slot_filled:
  assumes "g = ResolveInventoryFields g0" and "has_room m g" and "inventory_writable m g" and "\<not> beaconAppended ih"
  shows "\<exists>m' ih'. AppendBeaconItem g (m, ih) = (True, m', ih')
    \<and> ReadSlotItemId m' g (SafeRead 4 m (itemCountPtr g)) = MULTIPLAYER_BEACON_ID
    \<and> SafeRead 4 m' (itemCountPtr g) = (SafeRead 4 m (itemCountPtr g) :: i32) + 1
    \<and> (\<forall>x. list_all (\<lambda>a. 4 \<le> unat (x - a)) (itemCountPtr g # beacon_cells m g) \<longrightarrow> vm_bytes m' x = vm_bytes m x)
    \<and> (\<forall>m2. AppendBeaconItem g (m2, ih') = (True, m2, ih'))"
proof -
  let ?ih = "ih\<lparr>beaconAppended := True\<rparr>"
  have id: "offItemId g = 0" "inventoryArrayPtr g \<noteq> 0" "itemStride g \<noteq> 0" "(SafeRead 8 m (inventoryArrayPtr g) :: addr) \<noteq> 0"
    using assms(1,2) by (simp_all add: ResolveInventoryFields_def has_room_def inventoryResolved_def)
  have "beacon_slot m g \<noteq> 0" using assms(3) by (auto simp: inventory_writable_def IsReadable_def)
  then have "ReadSlotItemId (appended m g) g (SafeRead 4 m (itemCountPtr g)) = MULTIPLAYER_BEACON_ID"
    using id appended_reads[OF assms(3)] by (simp add: ReadSlotItemId_def ReadInt_def Let_def beacon_slot_def)
  with AppendBeaconItem_appended[OF assms] appended_reads(2)[OF assms(3)] appended_outside show ?thesis
    by (intro exI[of _ "appended m g"] exI[of _ ?ih]) (auto simp: AppendBeaconItem_def)
qed

text \<open>C33: the beacon goes into the first free slot: with a resolved inventory that has room and whose
  slot can be written, \<open>AppendBeaconItem\<close> puts the beacon's id into the slot with the index of the old
  item count, counts one item more, leaves the array pointer and every byte outside the five fields of
  that slot and the counter as they were, and a second call changes nothing.\<close>

lemma beacon_appended_once:
  assumes "g = ResolveInventoryFields g0" and "has_room m g" and "inventory_writable m g" and "\<not> beaconAppended ih"
  shows "\<exists>m' ih'. AppendBeaconItem g (m, ih) = (True, m', ih')
    \<and> ReadSlotItemId m' g (SafeRead 4 m (itemCountPtr g)) = MULTIPLAYER_BEACON_ID
    \<and> SafeRead 4 m' (itemCountPtr g) = (SafeRead 4 m (itemCountPtr g) :: i32) + 1
    \<and> (\<forall>x. list_all (\<lambda>a. 4 \<le> unat (x - a)) (itemCountPtr g # beacon_cells m g) \<longrightarrow> vm_bytes m' x = vm_bytes m x)
    \<and> (\<forall>m2. AppendBeaconItem g (m2, ih') = (True, m2, ih'))"
  using assms by (rule beacon_slot_filled)

definition bag_vm :: vm where
  "bag_vm = demo_vm\<lparr>vm_bytes := (\<lambda>a. if a = 0x5001 then 0x60 else if a = 0x5008 then 2 else 0)\<rparr>"

definition bag_offsets :: GameOffsets where
  "bag_offsets = ResolveInventoryFields (GameOffsets_init\<lparr>inventoryArrayPtr := 0x5000, itemCountPtr := 0x5008\<rparr>)"

lemma bag_fields:
  "inventoryArrayPtr bag_offsets = 0x5000" "itemCountPtr bag_offsets = 0x5008" "itemStride bag_offsets = 0x40"
  by (simp_all add: bag_offsets_def ResolveInventoryFields_def)

lemma bag_env: "IsReadable bag_vm a sz = IsReadable demo_vm a sz" "vm_rd_trap bag_vm a n = None" "vm_wr_trap bag_vm a n = None"
  by (simp_all add: bag_vm_def IsReadable_def) (simp_all add: demo_vm_def)

lemma bag_reads: "(SafeRead 8 bag_vm 0x5000 :: addr) = 0x6000" "(SafeRead 4 bag_vm 0x5008 :: i32) = 2"
  using demo_readable[of "0x5000" 8] demo_readable[of "0x5008" 4]
  by (simp_all add: SafeRead_def SafeReadRaw_def load_bytes_def upt_4 upt_8 bag_env) (simp_all add: bag_vm_def)

lemma bag_ok: "has_room bag_vm bag_offsets" "inventory_writable bag_vm bag_offsets"
  by (simp_all add: has_room_def inventory_writable_def inventoryResolved_def beacon_cells_def beacon_slot_def
      bag_fields bag_reads bag_env accessible_def demo_readable separate_def Let_def)

lemma beacon_appended_once_witness:
  "\<exists>m' ih'. AppendBeaconItem bag_offsets (bag_vm, InventoryHook_init) = (True, m', ih')
    \<and> ReadSlotItemId m' bag_offsets 2 = MULTIPLAYER_BEACON_ID \<and> (SafeRead 4 m' 0x5008 :: i32) = 3"
  using beacon_appended_once[OF bag_offsets_def bag_ok, of InventoryHook_init]
  by (auto simp: bag_fields bag_reads InventoryHook_init_def)

lemma InventoryHook_Init_appends:
  assumes "inventoryResolved (cl_offsets c)" "AppendBeaconItem (cl_offsets c) (cl_vm c, cl_inventory c) = (True, m, ih)"
  shows "cl_vm (InventoryHook_Init mh c) = m \<and> cl_offsets (InventoryHook_Init mh c) = cl_offsets c
    \<and> cl_modal (InventoryHook_Init mh c) = cl_modal c \<and> cl_session (InventoryHook_Init mh c) = cl_session c"
proof -
  obtain ok calls where "InstallUseHook mh c = (ok, c\<lparr>cl_hooks := calls\<rparr>)"
  proof (cases "itemUseFn (cl_offsets c) = 0")
    case True
    then have "InstallUseHook mh c = (False, c\<lparr>cl_hooks := cl_hooks c\<rparr>)" by (simp add: InstallUseHook_def)
    with that show ?thesis by blast
  next
    case False
    then have "InstallUseHook mh c = (fst (install_hook mh (itemUseFn (cl_offsets c)) (cl_hooks c)),
        c\<lparr>cl_hooks := snd (install_hook mh (itemUseFn (cl_offsets c)) (cl_hooks c))\<rparr>)"
      by (simp add: InstallUseHook_def split: prod.split)
    with that show ?thesis by blast
  qed
  with assms show ?thesis by (simp add: InventoryHook_Init_def Let_def)
qed

text \<open>C34: the beacon works from the bag: once it has been appended, the player's use of that slot opens
  the overlay (on the page of a running session when there is one) and reaches neither the game's own
  item code nor its memory, while the use of a slot that holds any other item goes to the game and
  leaves the overlay alone.\<close>

lemma beacon_opens_overlay:
  assumes "cl_offsets c = ResolveInventoryFields g0" and "has_room (cl_vm c) (cl_offsets c)"
    and "inventory_writable (cl_vm c) (cl_offsets c)" and "\<not> beaconAppended (cl_inventory c)"
    and "n = SafeRead 4 (cl_vm c) (itemCountPtr (cl_offsets c))" and "c' = InventoryHook_Init mh c"
  shows "HookedUseItem (Some orig) n c' = c'\<lparr>cl_modal := Modal_Open (status (cl_session c)) (cl_modal c)\<rparr>
    \<and> Modal_IsOpen (cl_modal (HookedUseItem (Some orig) n c'))
    \<and> (\<forall>i. ReadSlotItemId (cl_vm c') (cl_offsets c') i \<noteq> MULTIPLAYER_BEACON_ID
          \<longrightarrow> HookedUseItem (Some orig) i c' = c'\<lparr>cl_vm := orig i (cl_vm c')\<rparr>)"
proof -
  let ?g = "cl_offsets c"
  have res: "inventoryResolved ?g" using assms(2) by (simp add: has_room_def)
  from beacon_slot_filled[OF assms(1-4)] obtain m' ih' where
    app: "AppendBeaconItem ?g (cl_vm c, cl_inventory c) = (True, m', ih')"
    and slot: "ReadSlotItemId m' ?g n = MULTIPLAYER_BEACON_ID"
    unfolding assms(5) by blast
  from InventoryHook_Init_appends[OF res app, of mh, folded assms(6)] slot
  have use: "HookedUseItem (Some orig) n c' = c'\<lparr>cl_modal := Modal_Open (status (cl_session c)) (cl_modal c)\<rparr>"
    by (simp add: HookedUseItem_def)
  have "Modal_IsOpen (Modal_Open s md)" for s md by (simp add: Modal_IsOpen_def Modal_Open_def)
  with use show ?thesis by (simp add: HookedUseItem_def)
qed

definition bag_client :: Client where
  "bag_client = Client_init bag_vm bag_offsets"

lemma beacon_opens_overlay_witness:
  "Modal_IsOpen (cl_modal (HookedUseItem (Some (\<lambda>_ m. m)) 2 (InventoryHook_Init (\<lambda>_. True) bag_client)))"
proof -
  have c: "cl_offsets bag_client = bag_offsets" "cl_vm bag_client = bag_vm" "\<not> beaconAppended (cl_inventory bag_client)"
    by (simp_all add: bag_client_def Client_init_def InventoryHook_init_def)
  show ?thesis
    using beacon_opens_overlay[of bag_client _ 2 _ "\<lambda>_. True" "\<lambda>_ m. m", OF _ _ _ c(3) _ refl] bag_ok
    by (simp add: c bag_fields bag_reads bag_offsets_def[symmetric]) (use bag_offsets_def in blast)
qed

end
