(* ===== verification/Hotkey.thy ===== *)
theory Hotkey
  imports Inventory_Hook
begin

text \<open>
  The F9 fallback of \<open>client/src/inventory/inventory_hook.cpp\<close>: \<open>HotkeyThread\<close> owns a hidden window,
  registers F9 for it and dispatches its messages until the queue ends; \<open>Shutdown\<close> destroys the window.
\<close>

section \<open>The window\<close>

record HotkeyWindow =
  g_hotkeyWnd :: addr
  hk_registered :: bool

definition HotkeyWindow_init :: HotkeyWindow where
  "HotkeyWindow_init = \<lparr>g_hotkeyWnd = 0, hk_registered = False\<rparr>"

text \<open>The message loop: what \<open>GetMessageW\<close> returns until it returns 0 or an error.\<close>

fun hotkey_messages :: "(u32 \<times> u64) list \<Rightarrow> Client \<Rightarrow> Client" where
  "hotkey_messages [] c = c"
| "hotkey_messages ((msg, wParam) # ms) c = hotkey_messages ms (snd (HotkeyWndProc msg wParam c))"

text \<open>\<open>created\<close>: what \<open>CreateWindowExW\<close> returns; \<open>registered\<close>: \<open>RegisterHotKey\<close> succeeds. The first
  component is the thread's exit code.\<close>

definition HotkeyThread ::
  "addr \<Rightarrow> bool \<Rightarrow> (u32 \<times> u64) list \<Rightarrow> HotkeyWindow \<times> Client \<Rightarrow> nat \<times> HotkeyWindow \<times> Client" where
  "HotkeyThread created registered msgs st =
     (let (hk, c) = st; hk = hk\<lparr>g_hotkeyWnd := created\<rparr>
      in if created = 0 then (1, hk, c)
         else (0, hk\<lparr>hk_registered := registered\<rparr>, hotkey_messages msgs c))"

definition Hotkey_Shutdown :: "HotkeyWindow \<Rightarrow> HotkeyWindow" where
  "Hotkey_Shutdown hk =
     (if g_hotkeyWnd hk \<noteq> 0 then hk\<lparr>hk_registered := False, g_hotkeyWnd := 0\<rparr> else hk)"

section \<open>F9 toggles\<close>

definition is_hotkey :: "u32 \<times> u64 \<Rightarrow> bool" where
  "is_hotkey mw \<longleftrightarrow> fst mw = WM_HOTKEY \<and> snd mw = kHotkeyId"

lemma toggle_modal_open [simp]: "Modal_IsOpen (cl_modal (toggle_modal c)) \<longleftrightarrow> \<not> Modal_IsOpen (cl_modal c)"
  by (simp add: toggle_modal_def Modal_Toggle_def Modal_IsOpen_def Modal_Open_def Modal_Close_def)

lemma hotkey_messages_open:
  "Modal_IsOpen (cl_modal (hotkey_messages msgs c))
     \<longleftrightarrow> Modal_IsOpen (cl_modal c) \<noteq> odd (length (filter is_hotkey msgs))"
  by (induction msgs c rule: hotkey_messages.induct) (auto simp: HotkeyWndProc_def is_hotkey_def)

lemma hotkey_messages_only_modal:
  "\<exists>md. hotkey_messages msgs c = c\<lparr>cl_modal := md\<rparr>"
proof (induction msgs c rule: hotkey_messages.induct)
  case (1 c)
  show ?case by (rule exI[of _ "cl_modal c"]) simp
next
  case (2 msg wParam ms c)
  then obtain md where "hotkey_messages ms (snd (HotkeyWndProc msg wParam c)) = snd (HotkeyWndProc msg wParam c)\<lparr>cl_modal := md\<rparr>" ..
  then show ?case by (auto simp: HotkeyWndProc_def toggle_modal_def)
qed

text \<open>The F9 fallback: whatever messages reach the hidden window, the overlay is open afterwards
  exactly when it was before and F9 came an even number of times, or it was closed and F9 came an odd
  number of times; nothing else of the client changes. Without a window the thread ends at once with
  code 1 and the overlay is left as it was; after the shutdown there is neither window nor hotkey.\<close>

lemma hotkey_toggles_overlay:
  "(case HotkeyThread wnd ok msgs (HotkeyWindow_init, c) of (code, hk, c') \<Rightarrow>
     (Modal_IsOpen (cl_modal c') \<longleftrightarrow>
        Modal_IsOpen (cl_modal c) \<noteq> (wnd \<noteq> 0 \<and> odd (length (filter is_hotkey msgs))))
     \<and> (\<exists>md. c' = c\<lparr>cl_modal := md\<rparr>)
     \<and> code = (if wnd = 0 then 1 else 0)
     \<and> Hotkey_Shutdown hk = HotkeyWindow_init)"
  using hotkey_messages_open[of msgs c] hotkey_messages_only_modal[of msgs c]
  by (auto simp: HotkeyThread_def Hotkey_Shutdown_def HotkeyWindow_init_def Let_def intro: exI[of _ "cl_modal c"])

end
