(* ===== verification/Plugin_Props.thy ===== *)
theory Plugin_Props
  imports Plugin
begin

text \<open>
  The life of the dxgi proxy (\<open>client/src/proxy/dxgi_proxy.cpp\<close>) over any sequence of calls: the library
  is loaded once, and its exports are forwarded to until the plugin shuts down.
\<close>

datatype proxy_event =
    EvInit addr "addr \<Rightarrow> string \<Rightarrow> addr" \<comment> \<open>\<open>InitDxgiProxy\<close>, with what the system would answer now\<close>
  | EvForward addr "addr \<Rightarrow> string \<Rightarrow> addr" string \<comment> \<open>an exported function is called\<close>
  | EvShutdown

fun proxy_step :: "proxy_event \<Rightarrow> DxgiProxy \<Rightarrow> DxgiProxy" where
  "proxy_step (EvInit lib getProc) dx = snd (InitDxgiProxy lib getProc dx)"
| "proxy_step (EvForward lib getProc name) dx = snd (proxy_forward lib getProc name (\<lambda>_. 0) dx)"
| "proxy_step EvShutdown dx = ShutdownDxgiProxy dx"

fun proxy_run :: "proxy_event list \<Rightarrow> DxgiProxy \<Rightarrow> DxgiProxy" where
  "proxy_run [] dx = dx"
| "proxy_run (e # es) dx = proxy_run es (proxy_step e dx)"

lemma forward_state: "snd (proxy_forward lib getProc name call dx) = snd (InitDxgiProxy lib getProc dx)"
  by (simp add: proxy_forward_def InitDxgiProxy_def Let_def)

lemma init_once: "dx_called dx \<Longrightarrow> InitDxgiProxy lib getProc dx = (g_realDxgi dx \<noteq> 0, dx)"
  by (simp add: InitDxgiProxy_def)

lemma proxy_run_called:
  "dx_called dx \<Longrightarrow> proxy_run es dx = (if EvShutdown \<in> set es then dx\<lparr>g_realDxgi := 0\<rparr> else dx)"
proof (induction es arbitrary: dx)
  case (Cons e es)
  then have "proxy_step e dx = (if e = EvShutdown then dx\<lparr>g_realDxgi := 0\<rparr> else dx)"
    by (cases e) (auto simp: forward_state init_once ShutdownDxgiProxy_def)
  with Cons show ?case by auto
qed simp

lemma map_of_table: "map_of (map (\<lambda>n. (n, f n)) ns) n = (if n \<in> set ns then Some (f n) else None)"
  by (induction ns) auto

text \<open>C37: the first call decides what the proxy is for the rest of the process. After it, and after any
  further calls, each of the six exports is forwarded to the address the first loaded library gave for
  it, whatever \<open>LoadLibraryW\<close> and \<open>GetProcAddress\<close> would answer later; it returns \<open>E_FAIL\<close> without a call
  when that library did not load (the load is not tried again), has no such export, or has been
  released by a shutdown.\<close>

lemma proxy_forwards_first_library:
  assumes "name \<in> set dxgi_exports"
  shows "fst (proxy_forward lib' getProc' name call
      (proxy_run es (snd (InitDxgiProxy lib getProc DxgiProxy_init))))
    = (if lib = 0 \<or> getProc lib name = 0 \<or> EvShutdown \<in> set es then E_FAIL else call (getProc lib name))"
proof -
  let ?dx = "snd (InitDxgiProxy lib getProc DxgiProxy_init)"
  have c: "dx_called ?dx" and l: "g_realDxgi ?dx = lib"
    and t: "lib \<noteq> 0 \<Longrightarrow> dx_table ?dx = map (\<lambda>n. (n, getProc lib n)) dxgi_exports"
    by (simp_all add: InitDxgiProxy_def DxgiProxy_init_def DoInit_def Let_def)
  show ?thesis
    using assms l t by (auto simp: proxy_run_called[OF c] proxy_forward_def init_once c Let_def map_of_table)
qed

lemma proxy_forwards_first_library_witness:
  "fst (proxy_forward 0 (\<lambda>_ _. 0) ''CreateDXGIFactory1'' (\<lambda>f. ucast f + 7)
      (proxy_run [EvInit 5 (\<lambda>_ _. 0)] (snd (InitDxgiProxy 0x180000000 (\<lambda>_ _. 0x10) DxgiProxy_init)))) = 0x17
   \<and> fst (proxy_forward 5 (\<lambda>_ _. 9) ''CreateDXGIFactory1'' (\<lambda>f. ucast f + 7)
      (proxy_run [EvShutdown] (snd (InitDxgiProxy 0x180000000 (\<lambda>_ _. 0x10) DxgiProxy_init)))) = E_FAIL"
proof -
  have "''CreateDXGIFactory1'' \<in> set dxgi_exports" by (simp add: dxgi_exports_def)
  note use = proxy_forwards_first_library[OF this]
  show ?thesis by (simp add: use del: proxy_run.simps)
qed

end
