(* ===== verification/Ws_Worker.thy ===== *)
theory Ws_Worker
  imports Ws_Client
begin

text \<open>
  \<open>WsClient::WorkerLoop\<close> as a whole: connect, run the session, wait, connect again. The number of
  rounds and, in each, of receive iterations is bounded by fuel; the waits are reported in order.
\<close>

section \<open>The worker\<close>

text \<open>
  \<open>run r i\<close> is what the other threads leave in \<open>running_\<close> when it is read the \<open>i\<close>-th time during and
  after the wait of round \<open>r\<close>; when they have cleared it, that was \<open>Disconnect\<close>. The result lists, for
  each wait, its length and the 100 ms naps actually slept.
\<close>

fun worker_rounds ::
  "nat \<Rightarrow> nat \<Rightarrow> sock_env \<Rightarrow> 'j json_lib \<Rightarrow> ('j, 'a) on_packet \<Rightarrow> (WsClient \<times> 'a \<Rightarrow> (WsClient \<times> 'a) option)
    \<Rightarrow> (WsClient \<times> 'a \<Rightarrow> WsClient \<times> 'a) \<Rightarrow> (nat \<Rightarrow> nat \<Rightarrow> bool) \<Rightarrow> int \<Rightarrow> 'a rx_state
    \<Rightarrow> (int \<times> nat) list \<times> 'a loop_result" where
  "worker_rounds 0 fuel E J onPacket onConnected onDisconnected run backoffMs st = ([], Again [] st)"
| "worker_rounds (Suc rounds) fuel E J onPacket onConnected onDisconnected run backoffMs st =
     (if \<not> ws_running (fst (snd st)) then ([], Return True st)
      else case DoConnectOnce fuel E J onPacket onConnected onDisconnected st of
        Return clean (io, w, a) \<Rightarrow>
          (let backoffMs = (if clean then initial_backoff else backoffMs)
           in if \<not> ws_running w then ([], Return True (io, w, a))
              else let naps = sleeps (run 0) backoffMs 0 0;
                       w = (if run 0 naps then w else Disconnect w)
                   in case worker_rounds rounds fuel E J onPacket onConnected onDisconnected
                             (\<lambda>r. run (Suc r)) (next_backoff backoffMs) (io, w, a) of
                        (ds, r) \<Rightarrow> ((backoffMs, naps) # ds, r))
      | r \<Rightarrow> ([], r))"

definition WorkerLoop ::
  "nat \<Rightarrow> nat \<Rightarrow> sock_env \<Rightarrow> 'j json_lib \<Rightarrow> ('j, 'a) on_packet \<Rightarrow> (WsClient \<times> 'a \<Rightarrow> (WsClient \<times> 'a) option)
    \<Rightarrow> (WsClient \<times> 'a \<Rightarrow> WsClient \<times> 'a) \<Rightarrow> bool \<Rightarrow> (nat \<Rightarrow> nat \<Rightarrow> bool) \<Rightarrow> 'a rx_state
    \<Rightarrow> (int \<times> nat) list \<times> 'a loop_result" where
  "WorkerLoop rounds fuel E J onPacket onConnected onDisconnected wsaStarted run st =
     (if \<not> wsaStarted then ([], Return False st)
      else worker_rounds rounds fuel E J onPacket onConnected onDisconnected run initial_backoff st)"

text \<open>The waits are a run of the schedule.\<close>

lemma worker_rounds_delays:
  "\<exists>rs. map fst (fst (worker_rounds n fuel E J p oc od run b st)) = worker_delays b rs"
proof (induction n arbitrary: b st run)
  case 0
  show ?case by (rule exI[of _ "[]"]) simp
next
  case (Suc n)
  have nil: "\<exists>rs. [] = worker_delays b rs" by (rule exI[of _ "[]"]) simp
  show ?case
  proof (cases "DoConnectOnce fuel E J p oc od st")
    case (Return clean st')
    obtain io w a where st': "st' = (io, w, a)" by (cases st') auto
    let ?b = "if clean then initial_backoff else b"
    let ?k = "sleeps (run 0) ?b 0 0"
    let ?r = "worker_rounds n fuel E J p oc od (\<lambda>r. run (Suc r)) (next_backoff ?b)
               (io, if run 0 ?k then w else Disconnect w, a)"
    obtain rs where "map fst (fst ?r) = worker_delays (next_backoff ?b) rs" using Suc.IH by blast
    then have "?b # map fst (fst ?r) = worker_delays b (clean # rs)" by (simp add: Let_def)
    then have "\<exists>rs. ?b # map fst (fst ?r) = worker_delays b rs" by (rule exI)
    with Return st' nil show ?thesis
      by (cases "ws_running (fst (snd st)) \<and> ws_running w") (auto simp: Let_def split: prod.split)
  qed (use nil in simp_all)
qed

text \<open>A server that cannot be reached: no round gets past \<open>connect\<close>.\<close>

lemma worker_rounds_unreachable:
  assumes "tcp_ans E = (\<lambda>_. None)" "ws_running w" "500 \<le> b" "b \<le> 30000"
    "\<And>r i. run r i \<longleftrightarrow> r < R"
  shows "\<exists>ds w'. worker_rounds (Suc (Suc R)) fuel E J p oc od run b (io, w, a)
           = (ds, Return True (io\<lparr>io_step := io_step io + Suc R\<rparr>, w', a))
         \<and> map fst ds = worker_delays b (replicate (Suc R) False) \<and> \<not> ws_running w'"
  using assms(2-)
proof (induction R arbitrary: b io run)
  case 0
  then have "run 0 = (\<lambda>_. False)" by auto
  with 0 assms(1) show ?case by (simp add: DoConnectOnce_def Disconnect_def CloseSocket_def)
next
  case (Suc R)
  have run: "run 0 = (\<lambda>_. True)" using Suc.prems(4) by auto
  let ?io = "io\<lparr>io_step := Suc (io_step io)\<rparr>"
  have next_run: "run (Suc r) i \<longleftrightarrow> r < R" for r i using Suc.prems(4) by simp
  note IH = Suc.IH[of "next_backoff b" "\<lambda>r. run (Suc r)" ?io, OF Suc.prems(1)
      next_backoff_range[OF Suc.prems(2,3), THEN conjunct1]
      next_backoff_range[OF Suc.prems(2,3), THEN conjunct2] next_run]
  obtain ds w' where "worker_rounds (Suc (Suc R)) fuel E J p oc od (\<lambda>r. run (Suc r)) (next_backoff b) (?io, w, a)
           = (ds, Return True (?io\<lparr>io_step := io_step ?io + Suc R\<rparr>, w', a))"
    and "map fst ds = worker_delays (next_backoff b) (replicate (Suc R) False)" and "\<not> ws_running w'"
    using IH by (elim exE conjE)
  with Suc.prems(1) assms(1) run show ?case
    by (subst worker_rounds.simps) (simp add: DoConnectOnce_def del: worker_rounds.simps)
qed

section \<open>Stopping\<close>

lemma sleeps_upper: "waited < b \<Longrightarrow> sleeps run b waited k \<le> k + nat ((b - waited + 99) div 100)"
proof (induction run b waited k rule: sleeps.induct)
  case (1 run b waited k)
  show ?case
  proof (cases "run k")
    case False
    then show ?thesis by (simp add: sleeps.simps[of run b waited k])
  next
    case True
    have step: "sleeps run b waited k = sleeps run b (waited + 100) (Suc k)"
      using 1(2) True by (simp add: sleeps.simps[of run b waited k])
    show ?thesis
    proof (cases "waited + 100 < b")
      case True
      with 1 \<open>run k\<close> have "sleeps run b (waited + 100) (Suc k) \<le> Suc k + nat ((b - (waited + 100) + 99) div 100)" by simp
      moreover have "Suc k + nat ((b - (waited + 100) + 99) div 100) = k + nat ((b - waited + 99) div 100)"
        using True by (simp add: nat_add_distrib[symmetric] div_add_self1[symmetric])
      ultimately show ?thesis using step by simp
    next
      case False
      then have "sleeps run b (waited + 100) (Suc k) = Suc k" by (simp add: sleeps.simps[of run b "waited + 100"])
      moreover have "1 \<le> (b - waited + 99) div 100" using 1(2) by simp
      ultimately show ?thesis using step by linarith
    qed
  qed
qed

lemma worker_rounds_naps:
  "500 \<le> b \<Longrightarrow> b \<le> 30000 \<Longrightarrow>
   list_all (\<lambda>(d, naps). 500 \<le> d \<and> d \<le> 30000 \<and> naps \<le> 300) (fst (worker_rounds n fuel E J p oc od run b st))"
proof (induction n arbitrary: b st run)
  case (Suc n)
  show ?case
  proof (cases "DoConnectOnce fuel E J p oc od st")
    case (Return clean st')
    let ?b = "if clean then initial_backoff else b"
    have b: "500 \<le> ?b" "?b \<le> 30000" using Suc.prems by (simp_all add: initial_backoff_def)
    have "sleeps (run 0) ?b 0 0 \<le> nat ((?b + 99) div 100)" using sleeps_upper[of 0 ?b "run 0" 0] b by simp
    also have "\<dots> \<le> 300" using b by simp
    finally have "sleeps (run 0) ?b 0 0 \<le> 300" .
    moreover obtain io w a where st': "st' = (io, w, a)" by (cases st') auto
    moreover note Suc.IH[OF next_backoff_range[OF b, THEN conjunct1] next_backoff_range[OF b, THEN conjunct2],
        of "\<lambda>r. run (Suc r)" "(io, if run 0 (sleeps (run 0) ?b 0 0) then w else Disconnect w, a)"]
    ultimately show ?thesis using Return b
      by (simp add: Let_def split_beta del: if_split cong: if_cong)
  qed simp_all
qed simp

lemma sleeps_stop: "\<not> run j \<Longrightarrow> k \<le> j \<Longrightarrow> sleeps run b waited k \<le> j"
proof (induction run b waited k rule: sleeps.induct)
  case (1 run b waited k)
  show ?case
  proof (cases "waited < b \<and> run k")
    case True
    with 1 have "Suc k \<le> j" by (cases "k = j") auto
    with 1 True show ?thesis by (simp add: sleeps.simps[of run b waited k])
  next
    case False
    with 1 show ?thesis by (subst sleeps.simps) auto
  qed
qed

text \<open>C11: the worker ends. Whatever the schedule of the other threads: a wait of \<open>b\<close> ms takes at most
  \<open>b / 100\<close> naps (rounded up), and none after the one during which \<open>running_\<close> is cleared; once it is
  cleared, the receive loop returns at its next iteration without touching the socket and the worker at
  its next test. Against a server that cannot be reached and with \<open>running_\<close> cleared in the wait of
  round \<open>R\<close>, the worker returns after exactly \<open>R + 1\<close> attempts and waits, of 500 ms doubled each time up
  to 30 s. So the \<open>join\<close> in \<open>Connect\<close> and in the destructor comes back, as long as the
  blocking calls of the socket return.\<close>

lemma worker_stops:
  assumes "0 < b" "\<not> flag j" "k \<le> j" "\<not> ws_running w0"
    and "tcp_ans E = (\<lambda>_. None)" "ws_running w" "\<And>r i. run r i \<longleftrightarrow> r < R"
  shows "(sleeps any b 0 k \<le> k + nat ((b + 99) div 100) \<and> sleeps flag b 0 k \<le> j)
    \<and> ReceiveLoop (Suc fuel) E' J p rx (io, w0, a) = Return True (io, w0, a)
    \<and> WorkerLoop (Suc rounds) fuel E' J p oc od True run' (io, w0, a) = ([], Return True (io, w0, a))
    \<and> (\<exists>ds w'. WorkerLoop (Suc (Suc R)) fuel E J p oc od True run (io, w, a)
           = (ds, Return True (io\<lparr>io_step := io_step io + Suc R\<rparr>, w', a))
         \<and> map fst ds = map (\<lambda>k. min 30000 (500 * 2 ^ k)) [0..<Suc R] \<and> \<not> ws_running w')"
proof (intro conjI)
  show "sleeps any b 0 k \<le> k + nat ((b + 99) div 100)" and "sleeps flag b 0 k \<le> j"
    using sleeps_upper[of 0 b any k] sleeps_stop[of flag j k b 0] assms(1-3) by simp_all
  show "ReceiveLoop (Suc fuel) E' J p rx (io, w0, a) = Return True (io, w0, a)"
    using assms(4) by (simp add: receive_iter_def)
  show "WorkerLoop (Suc rounds) fuel E' J p oc od True run' (io, w0, a) = ([], Return True (io, w0, a))"
    using assms(4) by (simp add: WorkerLoop_def)
  have b: "(500::int) \<le> initial_backoff" "initial_backoff \<le> 30000" by (simp_all add: initial_backoff_def)
  show "\<exists>ds w'. WorkerLoop (Suc (Suc R)) fuel E J p oc od True run (io, w, a)
           = (ds, Return True (io\<lparr>io_step := io_step io + Suc R\<rparr>, w', a))
         \<and> map fst ds = map (\<lambda>k. min 30000 (500 * 2 ^ k)) [0..<Suc R] \<and> \<not> ws_running w'"
    using worker_rounds_unreachable[of E w initial_backoff run R fuel J p oc od io a, OF assms(5,6) b assms(7)]
      worker_delays_failures[of initial_backoff "Suc R"] b
    unfolding WorkerLoop_def by (simp add: initial_backoff_def del: worker_rounds.simps upt_Suc)
qed

lemma worker_stops_witness:
  "sleeps (\<lambda>i. i < 5) 30000 0 0 \<le> 5
   \<and> (\<exists>ds w'. WorkerLoop 4 0 (demo_env\<lparr>tcp_ans := \<lambda>_. None\<rparr>) demo_json (\<lambda>_ _ s. Some s) Some id True (\<lambda>r _. r < 2)
           (demo_io, WsClient_init\<lparr>ws_running := True\<rparr>, ())
         = (ds, Return True (demo_io\<lparr>io_step := io_step demo_io + 3\<rparr>, w', ()))
       \<and> map fst ds = [500, 1000, 2000] \<and> \<not> ws_running w')"
  using worker_stops[of 30000 "\<lambda>i. i < 5" 5 0 WsClient_init "demo_env\<lparr>tcp_ans := \<lambda>_. None\<rparr>"
      "WsClient_init\<lparr>ws_running := True\<rparr>" "\<lambda>r _. r < 2" 2 "\<lambda>_. True" 0 demo_env demo_json
      "\<lambda>_ _ s. Some s" "[]" demo_io "()" 0 Some id "\<lambda>_ _. True"]
  by (simp add: WsClient_init_def numeral_nat upt_rec del: worker_rounds.simps)

text \<open>The worker keeps to the schedule whatever happens on the wire: the waits of any run of
  \<open>WorkerLoop\<close> are those of the backoff schedule for some outcomes of the sessions, and each of them is
  between half a second and thirty seconds.\<close>

lemma worker_waits_scheduled:
  "(\<exists>rs. map fst (fst (WorkerLoop n fuel E J p oc od ok run st)) = worker_delays initial_backoff rs)
   \<and> list_all (\<lambda>(d, naps). 500 \<le> d \<and> d \<le> 30000 \<and> naps \<le> 300) (fst (WorkerLoop n fuel E J p oc od ok run st))"
  (is "(\<exists>rs. map fst (fst ?r) = _) \<and> _")
proof
  obtain rs where rs: "map fst (fst ?r) = worker_delays initial_backoff rs"
    using worker_rounds_delays[of n fuel E J p oc od run initial_backoff st]
  proof (cases ok)
    case False
    with that[of "[]"] show ?thesis by (simp add: WorkerLoop_def)
  qed (auto simp: WorkerLoop_def intro: that)
  then show "\<exists>rs. map fst (fst ?r) = worker_delays initial_backoff rs" by blast
  show "list_all (\<lambda>(d, naps). 500 \<le> d \<and> d \<le> 30000 \<and> naps \<le> 300) (fst ?r)"
    using worker_rounds_naps[of initial_backoff n fuel E J p oc od run st]
    by (simp add: WorkerLoop_def initial_backoff_def)
qed

section \<open>The program behind the callbacks\<close>

text \<open>
  What the client needs of the program it serves: a set \<open>R\<close> of states that does not look at the client
  record and that the three callbacks do not leave. The worker then does not leave it either, whatever the
  socket does, however the threads stop it and however long it runs.
\<close>

locale ws_program =
  fixes onPacket :: "('j, 'a) on_packet"
    and onConnected :: "WsClient \<times> 'a \<Rightarrow> (WsClient \<times> 'a) option"
    and onDisconnected :: "WsClient \<times> 'a \<Rightarrow> WsClient \<times> 'a"
    and R :: "WsClient \<times> 'a \<Rightarrow> bool"
  assumes client_free: "R (w, a) \<Longrightarrow> R (w', a)"
    and packet_keeps: "R wa \<Longrightarrow> onPacket ty d wa = Some wa' \<Longrightarrow> R wa'"
    and connected_keeps: "R wa \<Longrightarrow> onConnected wa = Some wa' \<Longrightarrow> R wa'"
    and disconnected_keeps: "R wa \<Longrightarrow> R (onDisconnected wa)"
begin

definition ends_in :: "'a loop_result \<Rightarrow> bool" where
  "ends_in r \<longleftrightarrow> (case r of Again _ st \<Rightarrow> R (snd st) | Return _ st \<Rightarrow> R (snd st) | Crash \<Rightarrow> True)"

lemma ends_in_simps [simp]: "ends_in (Again rx st) = R (snd st)" "ends_in (Return b st) = R (snd st)" "ends_in Crash"
  by (simp_all add: ends_in_def)

lemma handle_event_keeps:
  "R (snd st) \<Longrightarrow> handle_event E J onPacket ev st = Some st' \<Longrightarrow> R (snd st')"
  by (cases st) (auto simp: handle_event_def Let_def intro: packet_keeps split: ws_event.splits prod.splits if_splits)

lemma dispatch_rx_keeps: "R (snd st) \<Longrightarrow> ends_in (dispatch_rx E J onPacket rx st)"
proof -
  assume r: "R (snd st)"
  have "R (snd st')" if "foldM (handle_event E J onPacket) evs st = Some st'" for evs st'
    by (rule foldM_invariant[OF that, where P = "\<lambda>st. R (snd st)"]) (auto intro: r handle_event_keeps)
  then show ?thesis by (auto simp: dispatch_rx_def split: prod.split option.split rx_end.split)
qed

lemma receive_iter_keeps:
  assumes "R (snd st)"
  shows "ends_in (receive_iter E J onPacket rx st)"
proof -
  obtain io w a where st: "st = (io, w, a)" by (cases st) auto
  have r: "R (w', a)" for w' using assms st client_free by simp
  then have "ends_in (dispatch_rx E J onPacket rx' (io', w', a))" for rx' io' w'
    by (simp add: dispatch_rx_keeps)
  with r st show ?thesis
    by (auto simp: receive_iter_def FlushSendQueue_def Let_def split: recv_answer.split)
qed

lemma ReceiveLoop_keeps: "R (snd st) \<Longrightarrow> ends_in (ReceiveLoop fuel E J onPacket rx st)"
proof (induction fuel arbitrary: rx st)
  case (Suc fuel)
  from receive_iter_keeps[OF Suc.prems, of E J rx] Suc.IH show ?case
    by (auto split: loop_result.split)
qed simp

lemma DoConnectOnce_keeps:
  assumes "R (snd st)"
  shows "ends_in (DoConnectOnce fuel E J onPacket onConnected onDisconnected st)"
proof -
  obtain io w a where st: "st = (io, w, a)" by (cases st) auto
  have r: "R (w', a)" for w' using assms st client_free by simp
  have loop: "ends_in (ReceiveLoop fuel E J onPacket [] (io', wa))" if "onConnected (w', a) = Some wa" for io' w' wa
    using ReceiveLoop_keeps[of "(io', wa)" fuel E J "[]"] connected_keeps[OF r that] by simp
  have closed: "R (CloseSocket w2, a2)" if "onDisconnected (w', a') = (w2, a2)" "R (w1, a')" for w1 w' a' w2 a2
    using disconnected_keeps[OF client_free[OF that(2)], of w'] that(1) by (auto intro: client_free)
  have finish: "ends_in (case ReceiveLoop fuel E J onPacket [] (io', wa) of
        Return clean (io, w, a) \<Rightarrow>
          (let (w, a) = onDisconnected (w\<lparr>ws_connected := False\<rparr>, a) in Return clean (io, CloseSocket w, a))
      | r \<Rightarrow> r)" if "onConnected (w', a) = Some wa" for io' w' wa
    using loop[OF that, of io'] closed by (cases "ReceiveLoop fuel E J onPacket [] (io', wa)") (auto split: prod.split)
  show ?thesis
    unfolding DoConnectOnce_def st by (auto simp: Let_def r finish split: option.split prod.split)
qed

lemma worker_rounds_keeps:
  "R (snd st) \<Longrightarrow> ends_in (snd (worker_rounds n fuel E J onPacket onConnected onDisconnected run b st))"
proof (induction n arbitrary: run b st)
  case (Suc n)
  have once: "ends_in (DoConnectOnce fuel E J onPacket onConnected onDisconnected st)"
    by (rule DoConnectOnce_keeps[OF Suc.prems])
  show ?case
  proof (cases "DoConnectOnce fuel E J onPacket onConnected onDisconnected st")
    case (Return clean st')
    obtain io w a where st': "st' = (io, w, a)" by (cases st') auto
    have r: "R (w', a)" for w' using once Return st' client_free by simp
    have "ends_in (snd (worker_rounds n fuel E J onPacket onConnected onDisconnected run' b' (io', w', a)))" for run' b' io' w'
      by (rule Suc.IH) (simp add: r)
    with Return st' r Suc.prems show ?thesis by (simp add: Let_def split_beta)
  qed (use once Suc.prems in simp_all)
qed simp

lemma WorkerLoop_keeps:
  "R (snd st) \<Longrightarrow> ends_in (snd (WorkerLoop n fuel E J onPacket onConnected onDisconnected started run st))"
  by (auto simp: WorkerLoop_def intro: worker_rounds_keeps)

end

end
