(* ===== verification/Ws_Queue.thy ===== *)
theory Ws_Queue
  imports Ws_Client
begin

text \<open>
  The send queue of \<open>client/src/net/client.cpp\<close> under concurrency. \<open>Send\<close> is called by the game's
  threads, the render thread and the callbacks; the worker thread empties the queue. The mutex makes
  \<open>Send\<close>'s push and the \<open>swap\<close> of \<open>FlushSendQueue\<close> atomic; everything else the worker does runs in
  between, so a run is a sequence of the steps below, taken in any order the threads allow. Two
  questions: does every packet arrive once and in order, and what becomes of it when the socket
  does not take the bytes.
\<close>

section \<open>The worker and the producers as a step relation\<close>

text \<open>\<open>fq_local\<close> is the local queue of \<open>FlushSendQueue\<close>; \<open>fq_flushing\<close>: the worker is inside it.\<close>

record flush_state =
  fq_ws :: WsClient
  fq_local :: "string list"
  fq_flushing :: bool
  fq_io :: sock_io

datatype 'j flush_act =
    Push PacketType 'j   \<comment> \<open>\<open>Send\<close>, on any thread\<close>
  | SwapQueue            \<comment> \<open>worker, head of \<open>FlushSendQueue\<close>\<close>
  | SendFront            \<comment> \<open>worker, one round of its loop\<close>
  | FlushDone            \<comment> \<open>worker, the loop ends\<close>
  | Answer string        \<comment> \<open>worker, \<open>ReceiveLoop\<close> answers a ping\<close>

definition swap_queue :: "WsClient \<Rightarrow> string list \<times> WsClient" where
  "swap_queue w = (sendQueue w, w\<lparr>sendQueue := []\<rparr>)"

inductive flush_step ::
  "sock_env \<Rightarrow> 'j json_lib \<Rightarrow> 'j flush_act \<Rightarrow> flush_state \<Rightarrow> flush_state \<Rightarrow> bool" for E J where
  push: "Send J ty d (fq_ws s) = Some w \<Longrightarrow> flush_step E J (Push ty d) s (s\<lparr>fq_ws := w\<rparr>)"
| swap: "\<not> fq_flushing s \<Longrightarrow> ws_running (fq_ws s) \<Longrightarrow> swap_queue (fq_ws s) = (local, w) \<Longrightarrow>
    flush_step E J SwapQueue s (s\<lparr>fq_ws := w, fq_local := local, fq_flushing := True\<rparr>)"
| front: "fq_flushing s \<Longrightarrow> fq_local s = p # ps \<Longrightarrow>
    flush_step E J SendFront s (s\<lparr>fq_local := ps, fq_io := snd (SendFrame E p (fq_io s))\<rparr>)"
| over: "fq_flushing s \<Longrightarrow> fq_local s = [] \<Longrightarrow> flush_step E J FlushDone s (s\<lparr>fq_flushing := False\<rparr>)"
| answer: "\<not> fq_flushing s \<Longrightarrow>
    flush_step E J (Answer p) s (s\<lparr>fq_io := snd (SendFrame E p (fq_io s))\<rparr>)"

inductive_cases flush_stepE: "flush_step E J a s s'"

inductive flush_run ::
  "sock_env \<Rightarrow> 'j json_lib \<Rightarrow> flush_state \<Rightarrow> 'j flush_act list \<Rightarrow> flush_state \<Rightarrow> bool" for E J s where
  start: "flush_run E J s [] s"
| more: "flush_run E J s acts t \<Longrightarrow> flush_step E J a t u \<Longrightarrow> flush_run E J s (acts @ [a]) u"

text \<open>What a run put into the queue and which pings it answered, read off its steps.\<close>

fun act_pushed :: "'j json_lib \<Rightarrow> 'j flush_act \<Rightarrow> string list" where
  "act_pushed J (Push ty d) = (case SerializePacket J ty d of None \<Rightarrow> [] | Some f \<Rightarrow> [f])"
| "act_pushed J _ = []"

fun act_answered :: "'j flush_act \<Rightarrow> string list" where
  "act_answered (Answer p) = [p]"
| "act_answered _ = []"

definition pushed :: "'j json_lib \<Rightarrow> 'j flush_act list \<Rightarrow> string list" where
  "pushed J acts = concat (map (act_pushed J) acts)"

definition answered :: "'j flush_act list \<Rightarrow> string list" where
  "answered acts = concat (map act_answered acts)"

definition wire_size :: "string list \<Rightarrow> nat" where
  "wire_size ps = sum_list (map (\<lambda>p. length p + 14) ps)"

lemma pushed_snoc [simp]: "pushed J [] = []" "pushed J (acts @ [a]) = pushed J acts @ act_pushed J a"
  by (simp_all add: pushed_def)

lemma answered_snoc [simp]: "answered [] = []" "answered (acts @ [a]) = answered acts @ act_answered a"
  by (simp_all add: answered_def)

lemma wire_size_simps [simp]:
  "wire_size [] = 0" "wire_size (p # ps) = length p + 14 + wire_size ps"
  "wire_size (ps @ qs) = wire_size ps + wire_size qs"
  by (simp_all add: wire_size_def)

section \<open>First in, first out, whatever the schedule\<close>

text \<open>The messages on the wire, each marked as a packet of the queue or an answer to a ping.\<close>

definition on_wire :: "byte list \<Rightarrow> (bool \<times> string) list \<Rightarrow> bool" where
  "on_wire wire ms \<longleftrightarrow> parse_stream wire = (map (EvMessage \<circ> snd) ms, RxMore, [])
     \<and> length wire \<le> wire_size (map snd ms)"

lemma on_wire_Nil: "on_wire [] []"
  by (simp add: on_wire_def)

lemma on_wire_snoc:
  assumes "on_wire wire ms" "length mk = 4" "wire_size (map snd ms) + length p + 14 < 2 ^ 62"
  shows "on_wire (wire @ frame_bytes mk p) (ms @ [(b, p)])"
proof -
  have len: "length (frame_bytes mk p) \<le> length p + 14" by (rule frame_bytes_length[OF assms(2)])
  have f: "parse_stream (frame_bytes mk p) = ([EvMessage p], RxMore, [])"
    using parse_stream_frames[of p "[]" mk] assms(2,3) by simp
  have "length wire + length (frame_bytes mk p) < 2 ^ 63"
    using assms(1,3) len by (simp add: on_wire_def)
  from parse_stream_append[OF this] f assms(1) len show ?thesis
    by (simp add: on_wire_def)
qed

lemma SendFrame_out:
  "accepting E \<Longrightarrow> io_out (snd (SendFrame E p io))
    = io_out io @ frame_bytes (map (rd_ans E (io_step io)) [0..<4]) p"
  by (simp add: SendFrame_def SendAll_accepting)

lemma wire_size_parts:
  "wire_size (map snd (filter fst ms)) + wire_size (map snd (filter (Not \<circ> fst) ms)) = wire_size (map snd ms)"
  by (induction ms) auto

definition queue_inv :: "'j json_lib \<Rightarrow> byte list \<Rightarrow> 'j flush_act list \<Rightarrow> flush_state \<Rightarrow> bool" where
  "queue_inv J out acts s \<longleftrightarrow>
     (\<exists>wire ms. io_out (fq_io s) = out @ wire \<and> on_wire wire ms
        \<and> map snd (filter fst ms) @ fq_local s @ sendQueue (fq_ws s) = pushed J acts
        \<and> map snd (filter (Not \<circ> fst) ms) = answered acts)
     \<and> (\<not> fq_flushing s \<longrightarrow> fq_local s = [])"

lemma queue_inv_step:
  assumes inv: "queue_inv J out acts s" and st: "flush_step E J a s t" and E: "accepting E"
    and sz: "wire_size (pushed J (acts @ [a])) + wire_size (answered (acts @ [a])) < 2 ^ 62"
  shows "queue_inv J out (acts @ [a]) t"
proof -
  from inv obtain wire ms where o: "io_out (fq_io s) = out @ wire" and w: "on_wire wire ms"
    and q: "map snd (filter fst ms) @ fq_local s @ sendQueue (fq_ws s) = pushed J acts"
    and an: "map snd (filter (Not \<circ> fst) ms) = answered acts"
    and idle: "\<not> fq_flushing s \<Longrightarrow> fq_local s = []"
    by (auto simp: queue_inv_def)
  let ?mk = "map (rd_ans E (io_step (fq_io s))) [0..<4]"
  have total: "wire_size (map snd ms) + wire_size (fq_local s @ sendQueue (fq_ws s))
      = wire_size (pushed J acts) + wire_size (answered acts)"
    using wire_size_parts[of ms] unfolding q[symmetric] an[symmetric] by simp
  from st show ?thesis
  proof (cases rule: flush_step.cases)
    case (push ty d w')
    then have "sendQueue w' = sendQueue (fq_ws s) @ act_pushed J a"
      by (auto simp: Send_def split: Option.bind_splits)
    with push o w an idle q[symmetric] show ?thesis by (auto simp: queue_inv_def)
  next
    case (swap local w')
    then show ?thesis using o w q an idle by (auto simp: queue_inv_def swap_queue_def)
  next
    case (front p ps)
    have "on_wire (wire @ frame_bytes ?mk p) (ms @ [(True, p)])"
      by (rule on_wire_snoc[OF w]) (use total sz front in simp_all)
    moreover have "io_out (snd (SendFrame E p (fq_io s))) = out @ wire @ frame_bytes ?mk p"
      using o E by (simp add: SendFrame_out)
    ultimately show ?thesis
      using front q an unfolding queue_inv_def
      by (intro conjI exI[of _ "wire @ frame_bytes ?mk p"] exI[of _ "ms @ [(True, p)]"]) auto
  next
    case over
    then show ?thesis using o w q an by (auto simp: queue_inv_def)
  next
    case (answer p)
    have "on_wire (wire @ frame_bytes ?mk p) (ms @ [(False, p)])"
      by (rule on_wire_snoc[OF w]) (use total sz answer in simp_all)
    moreover have "io_out (snd (SendFrame E p (fq_io s))) = out @ wire @ frame_bytes ?mk p"
      using o E by (simp add: SendFrame_out)
    ultimately show ?thesis
      using answer q an idle unfolding queue_inv_def
      by (intro conjI exI[of _ "wire @ frame_bytes ?mk p"] exI[of _ "ms @ [(False, p)]"]) auto
  qed
qed

lemma queue_inv_run:
  assumes "flush_run E J s acts t" "accepting E" "queue_inv J out [] s"
    "wire_size (pushed J acts) + wire_size (answered acts) < 2 ^ 62"
  shows "queue_inv J out acts t"
  using assms
proof (induction rule: flush_run.induct)
  case (more acts t a u)
  then have "queue_inv J out acts t" by simp
  with more show ?case by (intro queue_inv_step) auto
qed

text \<open>C17: first in, first out under every interleaving: however the pushes of the producers, the
  swap and the sends of the worker and its answers to pings are interleaved, on a socket that accepts
  bytes the wire holds whole frames only; the packets among them, followed by what is in the worker's
  local queue and then by what is in the shared queue, are exactly the packets pushed, in the order
  they were pushed, and the rest are the answers, in order: nothing is lost, doubled or overtaken.\<close>

lemma queue_fifo_interleaved:
  assumes "flush_run E J s acts t" "accepting E"
    and "sendQueue (fq_ws s) = []" "fq_local s = []"
    and "wire_size (pushed J acts) + wire_size (answered acts) < 2 ^ 62"
  shows "\<exists>wire ms. io_out (fq_io t) = io_out (fq_io s) @ wire
    \<and> parse_stream wire = (map (EvMessage \<circ> snd) ms, RxMore, [])
    \<and> map snd (filter fst ms) @ fq_local t @ sendQueue (fq_ws t) = pushed J acts
    \<and> map snd (filter (Not \<circ> fst) ms) = answered acts"
proof -
  have "queue_inv J (io_out (fq_io s)) [] s"
    using assms(3,4) on_wire_Nil by (force simp: queue_inv_def)
  from queue_inv_run[OF assms(1,2) this assms(5)] show ?thesis
    by (auto simp: queue_inv_def on_wire_def)
qed

section \<open>The worker drains the queue\<close>

lemma flush_run_Cons:
  assumes "flush_step E J a s t" "flush_run E J t acts u"
  shows "flush_run E J s (a # acts) u"
  using assms(2)
proof (induction rule: flush_run.induct)
  case start
  from flush_run.more[OF flush_run.start assms(1)] show ?case by simp
next
  case (more acts v b u)
  from flush_run.more[OF more(3,2)] show ?case by simp
qed

lemma flush_run_trans:
  assumes "flush_run E J t acts' u" "flush_run E J s acts t"
  shows "flush_run E J s (acts @ acts') u"
  using assms
proof (induction rule: flush_run.induct)
  case (more acts' v b u)
  from flush_run.more[OF more(3)[OF more(4)] more(2)] show ?case by simp
qed simp

lemma drain_local:
  "fq_flushing s \<Longrightarrow> flush_run E J s (replicate (length (fq_local s)) SendFront @ [FlushDone])
     (s\<lparr>fq_local := [], fq_io := send_frames E (fq_local s) (fq_io s), fq_flushing := False\<rparr>)"
proof (induction "fq_local s" arbitrary: s)
  case Nil
  then have "flush_step E J FlushDone s (s\<lparr>fq_flushing := False\<rparr>)" by (intro flush_step.over) simp_all
  from flush_run_Cons[OF this flush_run.start] Nil show ?case by (cases s) simp
next
  case (Cons p ps)
  let ?s = "s\<lparr>fq_local := ps, fq_io := snd (SendFrame E p (fq_io s))\<rparr>"
  have "flush_step E J SendFront s ?s" using Cons by (intro flush_step.front) auto
  from flush_run_Cons[OF this Cons.hyps(1)[of ?s]] Cons show ?case
    by (simp flip: Cons.hyps(2))
qed

text \<open>\<open>FlushSendQueue\<close> is the run of the worker's steps that no push interrupts.\<close>

lemma FlushSendQueue_run:
  assumes "FlushSendQueue E (fq_ws s, fq_io s) = (w, io)" "\<not> fq_flushing s" "fq_local s = []"
    and "ws_running (fq_ws s)"
  shows "flush_run E J s (SwapQueue # replicate (length (sendQueue (fq_ws s))) SendFront @ [FlushDone])
    (s\<lparr>fq_ws := w, fq_io := io\<rparr>)"
proof -
  let ?w = "fq_ws s\<lparr>sendQueue := []\<rparr>"
  let ?s = "s\<lparr>fq_ws := ?w, fq_local := sendQueue (fq_ws s), fq_flushing := True\<rparr>"
  have "flush_step E J SwapQueue s ?s"
    using assms by (intro flush_step.swap) (simp_all add: swap_queue_def)
  from flush_run_Cons[OF this drain_local[of ?s E J]] assms show ?thesis
    by (cases s) (auto simp: FlushSendQueue_def Let_def)
qed

text \<open>C18: no packet is stuck: from every state of such a run in which the client is still running,
  the worker alone, in at most one step per packet waiting and three more, reaches a state in which
  everything that was ever pushed is on the wire, in order, and both queues are empty.\<close>

lemma queue_drains:
  assumes "flush_run E J s acts t" "accepting E"
    and "sendQueue (fq_ws s) = []" "fq_local s = []" "\<not> fq_flushing s" "ws_running (fq_ws t)"
    and "wire_size (pushed J acts) + wire_size (answered acts) < 2 ^ 62"
  shows "\<exists>acts' u wire ms. flush_run E J t acts' u \<and> set acts' \<subseteq> {SwapQueue, SendFront, FlushDone}
    \<and> length acts' \<le> length (fq_local t) + length (sendQueue (fq_ws t)) + 3
    \<and> fq_local u = [] \<and> sendQueue (fq_ws u) = []
    \<and> io_out (fq_io u) = io_out (fq_io s) @ wire
    \<and> parse_stream wire = (map (EvMessage \<circ> snd) ms, RxMore, [])
    \<and> map snd (filter fst ms) = pushed J acts"
proof -
  define t1 where "t1 = (if fq_flushing t then t\<lparr>fq_local := [], fq_io := send_frames E (fq_local t) (fq_io t),
    fq_flushing := False\<rparr> else t)"
  define a1 :: "'a flush_act list" where
    "a1 = (if fq_flushing t then replicate (length (fq_local t)) SendFront @ [FlushDone] else [])"
  have r1: "flush_run E J t a1 t1"
    using drain_local[of t E J] flush_run.start[of E J t] by (simp add: t1_def a1_def)
  have "queue_inv J (io_out (fq_io s)) [] s"
    using assms(3,4) on_wire_Nil by (force simp: queue_inv_def)
  from queue_inv_run[OF assms(1,2) this assms(7)]
  have l1: "fq_local t1 = []" "\<not> fq_flushing t1" "fq_ws t1 = fq_ws t"
    by (auto simp: t1_def queue_inv_def)
  obtain w io where fl: "FlushSendQueue E (fq_ws t1, fq_io t1) = (w, io)" by force
  define a2 :: "'a flush_act list" where
    "a2 = SwapQueue # replicate (length (sendQueue (fq_ws t1))) SendFront @ [FlushDone]"
  let ?u = "t1\<lparr>fq_ws := w, fq_io := io\<rparr>"
  have r2: "flush_run E J t1 a2 ?u"
    using FlushSendQueue_run[OF fl l1(2,1)] assms(6) l1(3) by (simp add: a2_def)
  have quiet: "set (a1 @ a2) \<subseteq> {SwapQueue, SendFront, FlushDone}"
    by (auto simp: a1_def a2_def)
  have "act_pushed J a = [] \<and> act_answered a = []" if "a \<in> set (a1 @ a2)" for a
    using quiet that by auto
  then have none: "pushed J (acts @ a1 @ a2) = pushed J acts" "answered (acts @ a1 @ a2) = answered acts"
    by (simp_all add: pushed_def answered_def del: set_append) (auto simp: o_def)
  have run: "flush_run E J s (acts @ a1 @ a2) ?u"
    by (rule flush_run_trans[OF flush_run_trans[OF r2 r1] assms(1)])
  have "queue_inv J (io_out (fq_io s)) (acts @ a1 @ a2) ?u"
    by (rule queue_inv_run[OF run assms(2)]) (use assms(7) none in \<open>simp_all add: \<open>queue_inv J (io_out (fq_io s)) [] s\<close>\<close>)
  moreover have "fq_local ?u = []" "sendQueue (fq_ws ?u) = []"
    using fl l1 by (auto simp: FlushSendQueue_def Let_def)
  moreover have "length (a1 @ a2) \<le> length (fq_local t) + length (sendQueue (fq_ws t)) + 3"
    using l1(3) by (simp add: a1_def a2_def)
  ultimately show ?thesis
    using flush_run_trans[OF r2 r1] quiet none unfolding queue_inv_def on_wire_def
    by (intro exI[of _ "a1 @ a2"] exI[of _ ?u]) auto
qed

section \<open>A socket that does not take the bytes\<close>

lemma SendFrame_prefix:
  "\<exists>part mk. length mk = 4 \<and> prefix part (frame_bytes mk p)
     \<and> io_out (snd (SendFrame E p io)) = io_out io @ part"
proof -
  obtain ok io' where r: "SendFrame E p io = (ok, io')" by force
  let ?mk = "map (rd_ans E (io_step io)) [0..<4]"
  from send_from_out[of E "frame_bytes ?mk p" 0 io ok io'] r obtain k where
    "io_out io' = io_out io @ take k (frame_bytes ?mk p)"
    by (auto simp: SendFrame_def SendAll_def)
  with r show ?thesis
    by (intro exI[of _ "take k (frame_bytes ?mk p)"] exI[of _ ?mk]) (simp add: take_is_prefix)
qed

lemma send_frames_prefixes:
  "\<exists>parts. io_out (send_frames E ps io) = io_out io @ concat parts
     \<and> list_all2 (\<lambda>part p. \<exists>mk. length mk = 4 \<and> prefix part (frame_bytes mk p)) parts ps"
proof (induction ps arbitrary: io)
  case (Cons p ps)
  from SendFrame_prefix[of p E io] obtain part mk where
    1: "length mk = 4" "prefix part (frame_bytes mk p)" "io_out (snd (SendFrame E p io)) = io_out io @ part"
    by blast
  from Cons[of "snd (SendFrame E p io)"] obtain parts where
    2: "io_out (send_frames E ps (snd (SendFrame E p io))) = io_out (snd (SendFrame E p io)) @ concat parts"
    "list_all2 (\<lambda>part p. \<exists>mk. length mk = 4 \<and> prefix part (frame_bytes mk p)) parts ps" by blast
  from 1 2 show ?case by (intro exI[of _ "part # parts"]) auto
qed simp

lemma send_frames_blocked:
  "(\<And>k. send_ans E k \<le> 0) \<Longrightarrow> io_out (send_frames E ps io) = io_out io"
proof (induction ps arbitrary: io)
  case (Cons p ps)
  have "io_out (snd (SendFrame E p io)) = io_out io"
    using Cons.prems by (simp add: SendFrame_def SendAll_def send_from.simps[of E _ 0] Let_def)
  with Cons show ?case by simp
qed simp

text \<open>C21: what a send error does to the queue: under every schedule of partial sends and errors
  \<open>FlushSendQueue\<close> empties the queue and puts one prefix of each packet's frame on the wire, and when the
  socket takes nothing (\<open>ReceiveLoop\<close> made it non-blocking, and \<open>SendAll\<close> gives up on
  \<open>WSAEWOULDBLOCK\<close>) the packets are gone without a byte sent.\<close>

lemma flush_forgets_failures:
  assumes "FlushSendQueue E (w, io) = (w', io')"
  shows "sendQueue w' = []
    \<and> (\<exists>parts. io_out io' = io_out io @ concat parts
        \<and> list_all2 (\<lambda>part p. \<exists>mk. length mk = 4 \<and> prefix part (frame_bytes mk p)) parts (sendQueue w))
    \<and> ((\<forall>k. send_ans E k \<le> 0) \<longrightarrow> io_out io' = io_out io)"
  using assms send_frames_prefixes[of E "sendQueue w" io] send_frames_blocked[of E "sendQueue w" io]
  by (auto simp: FlushSendQueue_def Let_def)

definition blocked_env :: sock_env where
  "blocked_env = demo_env\<lparr>send_ans := (\<lambda>k. if k = 1 then 4 else - 1)\<rparr>"

lemma flush_forgets_failures_witness:
  "let (w', io') = FlushSendQueue blocked_env (WsClient_init\<lparr>sendQueue := [''ab'', ''c'']\<rparr>, demo_io)
   in sendQueue w' = [] \<and> io_out io' = take 4 (frame_bytes [3, 4, 5, 6] ''c'')"
proof -
  obtain w' io' where r: "FlushSendQueue blocked_env (WsClient_init\<lparr>sendQueue := [''ab'', ''c'']\<rparr>, demo_io)
      = (w', io')" by force
  from flush_forgets_failures[OF r] have "sendQueue w' = []" by simp
  moreover have "io_out (snd (FlushSendQueue blocked_env (WsClient_init\<lparr>sendQueue := [''ab'', ''c'']\<rparr>, demo_io)))
      = take 4 (frame_bytes [3, 4, 5, 6] ''c'')" by code_simp
  ultimately show ?thesis using r by simp
qed

text \<open>A frame cut short swallows the start of the next: of the packets "hello" and "world!" the peer gets a
  message that is neither, when the first call of \<open>send\<close> takes two bytes and the second reports a full
  buffer.\<close>

definition cut_env :: sock_env where
  "cut_env = demo_env\<lparr>send_ans := (\<lambda>k. if k = 0 then 2 else if k = 1 then - 1 else 1000)\<rparr>"

lemma cut_frame_swallows_next:
  "parse_stream (io_out (snd (FlushSendQueue cut_env
       (WsClient_init\<lparr>sendQueue := [''hello'', ''world!'']\<rparr>, demo_io))))
   = ([EvMessage [CHR 0x89, CHR 0x8F, CHR ''w'', CHR ''o'', CHR 0xFB]], RxMore, [0x65, 0x62, 0x26])"
  by code_simp

section \<open>A run\<close>

definition demo_flush :: flush_state where
  "demo_flush = \<lparr>fq_ws = WsClient_init\<lparr>ws_running := True\<rparr>, fq_local = [], fq_flushing = False, fq_io = demo_io\<rparr>"

definition demo_acts :: "jv flush_act list" where
  "demo_acts = [Push PING JNull, Answer ''x'', SwapQueue, Push PONG JNull]"

definition demo_flush_end :: flush_state where
  "demo_flush_end = \<lparr>fq_ws = WsClient_init\<lparr>ws_running := True, sendQueue := [''{}'']\<rparr>,
     fq_local = [''{}''], fq_flushing = True, fq_io = snd (SendFrame demo_env ''x'' demo_io)\<rparr>"

lemma queue_demo_Serialize: "SerializePacket demo_json ty d = Some ''{}''"
  by (simp add: SerializePacket_def Let_def demo_json_def jv_lib_def)

lemma demo_Send: "Send demo_json ty d w = Some (w\<lparr>sendQueue := sendQueue w @ [''{}'']\<rparr>)"
  by (simp add: Send_def queue_demo_Serialize)

lemma demo_flush_run: "flush_run demo_env demo_json demo_flush demo_acts demo_flush_end"
proof -
  let ?w = "WsClient_init\<lparr>ws_running := True\<rparr>"
  let ?s1 = "demo_flush\<lparr>fq_ws := ?w\<lparr>sendQueue := [''{}'']\<rparr>\<rparr>"
  let ?s2 = "?s1\<lparr>fq_io := snd (SendFrame demo_env ''x'' demo_io)\<rparr>"
  let ?s3 = "?s2\<lparr>fq_ws := ?w, fq_local := [''{}''], fq_flushing := True\<rparr>"
  have w: "fq_ws demo_flush = ?w" "sendQueue ?w = []"
    by (simp_all add: demo_flush_def WsClient_init_def)
  have 4: "flush_run demo_env demo_json ?s3 [Push PONG JNull] demo_flush_end"
    by (rule flush_run_Cons[OF flush_step.push])
      (auto simp: demo_Send WsClient_init_def demo_flush_end_def demo_flush_def intro: flush_run.start)
  have 3: "flush_step demo_env demo_json SwapQueue ?s2 ?s3"
    by (rule flush_step.swap) (simp_all add: swap_queue_def demo_flush_def WsClient_init_def)
  have 2: "flush_step demo_env demo_json (Answer ''x'') ?s1 ?s2"
    using flush_step.answer[of ?s1 demo_env demo_json "''x''"] by (simp add: demo_flush_def)
  have 1: "flush_step demo_env demo_json (Push PING JNull) demo_flush ?s1"
    by (rule flush_step.push) (simp add: demo_Send w)
  show ?thesis
    unfolding demo_acts_def by (rule flush_run_Cons[OF 1 flush_run_Cons[OF 2 flush_run_Cons[OF 3 4]]])
qed

lemma demo_acts_size:
  "wire_size (pushed demo_json demo_acts) + wire_size (answered demo_acts) < 2 ^ 62"
  by (simp add: demo_acts_def pushed_def answered_def queue_demo_Serialize)

lemma demo_flush_idle: "sendQueue (fq_ws demo_flush) = []" "fq_local demo_flush = []" "\<not> fq_flushing demo_flush"
  by (simp_all add: demo_flush_def WsClient_init_def)

lemma queue_fifo_interleaved_witness:
  "\<exists>wire ms. io_out (fq_io demo_flush_end) = io_out (fq_io demo_flush) @ wire
    \<and> parse_stream wire = (map (EvMessage \<circ> snd) ms, RxMore, [])
    \<and> map snd (filter fst ms) @ [''{}''] @ [''{}''] = [''{}'', ''{}'']
    \<and> map snd (filter (Not \<circ> fst) ms) = [''x'']"
  using queue_fifo_interleaved[OF demo_flush_run accepting_demo demo_flush_idle(1,2) demo_acts_size]
  by (simp add: demo_flush_end_def demo_acts_def pushed_def answered_def queue_demo_Serialize)

lemma queue_drains_witness:
  "\<exists>acts' u wire ms. flush_run demo_env demo_json demo_flush_end acts' u
    \<and> set acts' \<subseteq> {SwapQueue, SendFront, FlushDone} \<and> length acts' \<le> 5
    \<and> fq_local u = [] \<and> sendQueue (fq_ws u) = []
    \<and> io_out (fq_io u) = io_out (fq_io demo_flush) @ wire
    \<and> parse_stream wire = (map (EvMessage \<circ> snd) ms, RxMore, [])
    \<and> map snd (filter fst ms) = [''{}'', ''{}'']"
proof -
  have run: "ws_running (fq_ws demo_flush_end)" "pushed demo_json demo_acts = [''{}'', ''{}'']"
    "length (fq_local demo_flush_end) + length (sendQueue (fq_ws demo_flush_end)) + 3 = 5"
    by (simp_all add: demo_flush_end_def demo_acts_def pushed_def queue_demo_Serialize)
  show ?thesis
    using queue_drains[OF demo_flush_run accepting_demo demo_flush_idle run(1) demo_acts_size]
    unfolding run .
qed

end
