(* ===== verification/Overlay_View.thy ===== *)
theory Overlay_View
  imports Modal_Ui
begin

text \<open>
  \<open>client/src/ui/modal.cpp\<close> as the user sees it: the calls each page makes on ImGui in one frame, in
  order, together with what the page does. ImGui's state is a stack of scopes (window, table, disabled
  part, font, colour) that a page opens and has to close again.
\<close>

section \<open>Calls on ImGui\<close>

datatype scope = SWindow | STable | SDisabled | SFont | SColor

datatype arg = AS string | AI i32 | AF f32 \<comment> \<open>arguments of a printf-like text\<close>

datatype clip = OpenClipboard | EmptyClipboard | SetClipboardData string | CloseClipboard

datatype draw =
    Open scope string
  | Close scope
  | Text string "arg list"
  | TextColored string "arg list"
  | TextDisabled string "arg list"
  | Separator | Spacing | SameLine
  | FontScale f32
  | Button string
  | InputText string nat string
  | InputInt string i32
  | Column string | HeadersRow | NextRow | ColumnIndex nat
  | ProgressBar f32 "(string \<times> arg list) option"
  | Clip clip

section \<open>The pages\<close>

abbreviation (input) f32_2_2 :: f32 where "f32_2_2 \<equiv> 1074580685"         \<comment> \<open>\<open>2.2f\<close>\<close>
abbreviation (input) f32_1000 :: f32 where "f32_1000 \<equiv> 1148846080"       \<comment> \<open>\<open>1000.f\<close>\<close>
abbreviation (input) f32_30000 :: f32 where "f32_30000 \<equiv> 1189765120"     \<comment> \<open>\<open>30000.f\<close>\<close>

text \<open>\<open>opened\<close>, \<open>allocated\<close>, \<open>locked\<close>: what \<open>OpenClipboard\<close>, \<open>GlobalAlloc\<close>, \<open>GlobalLock\<close> answer.\<close>

definition CopyToClipboard :: "bool \<Rightarrow> bool \<Rightarrow> bool \<Rightarrow> string \<Rightarrow> clip list" where
  "CopyToClipboard opened allocated locked text =
     (if \<not> opened then []
      else [OpenClipboard, EmptyClipboard]
        @ (if allocated \<and> locked then [SetClipboardData text] else [])
        @ [CloseClipboard])"

definition draw_MainMenu :: "ui \<Rightarrow> Client \<Rightarrow> draw list \<times> Client" where
  "draw_MainMenu u c =
     (let inSess = (status (cl_session c) = InSession);
          c = (if button u True ''Host Session'' then set_modal HOST_SETUP c else c);
          c = (if button u True ''Join Session'' then set_modal JOIN_SETUP c else c);
          c = (if button u inSess ''Leave Session'' then LeaveSession c else c)
      in ([Open SFont '''', TextColored ''Multiplayer'' [], Close SFont, Separator, Spacing,
           Button ''Host Session'', Button ''Join Session'']
          @ (if \<not> inSess then [Open SDisabled ''''] else [])
          @ [Button ''Leave Session'']
          @ (if \<not> inSess then [Close SDisabled] else [])
          @ [Spacing, TextDisabled ''Status: %s'' [AS (StatusLabel (status (cl_session c)))]], c))"

text \<open>The lines under both forms while connecting or after a failure.\<close>

definition draw_progress :: "Client \<Rightarrow> draw list" where
  "draw_progress c =
     (if status (cl_session c) = Connecting then [TextDisabled ''Connecting...'' []]
      else if status (cl_session c) = Failed then [TextColored ''%s'' [AS (lastError (cl_session c))]]
      else [])"

text \<open>The invite code of a session that is being hosted.\<close>

definition hosting :: "Client \<Rightarrow> bool" where
  "hosting c \<longleftrightarrow> status (cl_session c) = InSession \<and> isHost (cl_session c)"

definition draw_invite :: "clip list \<Rightarrow> ui \<Rightarrow> Client \<Rightarrow> draw list" where
  "draw_invite copied u c =
     (if hosting c then
        [Spacing, Separator, Text ''Your invite code:'' [], Open SColor '''', FontScale f32_2_2,
         Text ''%s'' [AS (inviteCode (cl_session c))], FontScale f32_1, Close SColor, Button ''Copy to clipboard'']
        @ (if button u True ''Copy to clipboard'' then map Clip copied else [])
        @ [SameLine, Button ''Enter Session'']
      else [])"

definition host_fields :: "ui \<Rightarrow> Modal \<Rightarrow> Modal" where
  "host_fields u md =
     md\<lparr>serverHost := fst (input_text u ''Server'' 128 (serverHost md)),
        serverPort := ui_input_int u ''Port'' (serverPort md),
        md_sessionName := fst (input_text u ''Session name (optional)'' 64 (md_sessionName md)),
        md_password := fst (input_text u ''Password (optional)'' 64 (md_password md))\<rparr>"

definition draw_HostSetup :: "clip list \<Rightarrow> ui \<Rightarrow> Client \<Rightarrow> (draw list \<times> Client) option" where
  "draw_HostSetup copied u c =
     do { let md0 = cl_modal c;
          let md = host_fields u md0;
          let c = c\<lparr>cl_modal := md\<rparr>;
          c \<leftarrow> (if button u True ''Start Hosting''
                then HostSession (serverHost md) (ucast (serverPort md)) (md_sessionName md) (md_password md) c
                else Some c);
          let c = (if button u True ''Back'' then set_modal MAIN_MENU c else c);
          let ds = [TextColored ''Host a Session'' [], Separator, Spacing,
              InputText ''Server'' 128 (serverHost md0), InputInt ''Port'' (serverPort md0),
              InputText ''Session name (optional)'' 64 (md_sessionName md0),
              InputText ''Password (optional)'' 64 (md_password md0),
              Spacing, Button ''Start Hosting'', SameLine, Button ''Back'']
            @ draw_progress c
            @ draw_invite copied u c;
          Some (ds, if hosting c \<and> button u True ''Enter Session'' then set_modal IN_SESSION c else c) }"

definition draw_JoinSetup :: "ui \<Rightarrow> Client \<Rightarrow> (draw list \<times> Client) option" where
  "draw_JoinSetup u c =
     do { let md0 = cl_modal c;
          let md = md0\<lparr>serverHost := fst (input_text u ''Server'' 128 (serverHost md0)),
                      serverPort := ui_input_int u ''Port'' (serverPort md0)\<rparr>;
          let (code, edited) = input_text u ''Invite code'' 8 (md_inviteCode md);
          let md = md\<lparr>md_inviteCode := (if edited then map to_upper code else code),
                      md_password := fst (input_text u ''Password (optional)'' 64 (md_password md))\<rparr>;
          let c = c\<lparr>cl_modal := md\<rparr>;
          c \<leftarrow> (if button u True ''Connect''
                then JoinSession (serverHost md) (ucast (serverPort md)) (md_inviteCode md) (md_password md) c
                else Some c);
          let c = (if button u True ''Back'' then set_modal MAIN_MENU c else c);
          let ds = [TextColored ''Join a Session'' [], Separator, Spacing,
              InputText ''Server'' 128 (serverHost md0), InputInt ''Port'' (serverPort md0),
              InputText ''Invite code'' 8 (md_inviteCode md0),
              InputText ''Password (optional)'' 64 (md_password md0),
              Spacing, Button ''Connect'', SameLine, Button ''Back'']
            @ draw_progress c;
          Some (ds, if status (cl_session c) = InSession then set_modal IN_SESSION c else c) }"

definition draw_player :: "RemotePlayer \<Rightarrow> draw list" where
  "draw_player p =
     (let frac = (if f32_lt f32_0 (maxHealth p) then f32_div (currentHealth p) (maxHealth p) else f32_0)
      in [NextRow, ColumnIndex 0, Text ''%s'' [AS (player_label p)], ColumnIndex 1, ProgressBar frac None,
          ColumnIndex 2, Text ''%d ms'' [AI (rp_ping p)],
          ColumnIndex 3, Text (if rp_isHost p then ''*'' else '''') []])"

definition draw_players :: "ui \<Rightarrow> Client \<Rightarrow> draw list" where
  "draw_players u c =
     (if ui_table u
      then [Open STable ''players'', Column ''Player'', Column ''Health'', Column ''Ping'', Column ''Host'', HeadersRow]
        @ concat (map draw_player (GetRemotePlayers (cl_players c))) @ [Close STable]
      else [])"

definition countdown_bar :: "i32 \<Rightarrow> f32" where
  "countdown_bar remainingMs =
     (let frac = (if 0 <s remainingMs then f32_div (f32_of_int (sint remainingMs)) f32_30000 else f32_0)
      in if f32_lt f32_1 frac then f32_1 else frac)"

definition draw_InSession :: "'j json_lib \<Rightarrow> ui \<Rightarrow> Client \<Rightarrow> (draw list \<times> Client) option" where
  "draw_InSession J u c =
     do { let s = cl_session c;
          let puzzle = puzzleActive (cl_puzzle c);
          let localControls = IsLocalController c;
          let remainingMs = tokenTimeRemaining (cl_puzzle c);
          let head = [TextColored ''Session'' [], Separator,
              (if isHost s then Text ''You are the host  (code: %s)'' [AS (inviteCode s)]
               else Text ''Connected to %s'' [AS (serverName s)]),
              TextDisabled ''Friendly fire: %s'' [AS (if friendlyFire s then ''ON'' else ''OFF'')], Spacing]
            @ draw_players u c;
          let token = (if puzzle then
              [Spacing, Separator, TextColored ''Puzzle Active'' [],
               Text ''Controller: %s'' [AS (controller_label c)],
               ProgressBar (countdown_bar remainingMs)
                 (Some (''%.1fs'', [AF (f32_div (f32_of_int (sint remainingMs)) f32_1000)]))]
              @ (if \<not> localControls then [Open SDisabled ''''] else [])
              @ [Button ''Pass Turn'']
              @ (if \<not> localControls then [Close SDisabled] else [])
            else []);
          c \<leftarrow> (if puzzle \<and> button u localControls ''Pass Turn'' then RequestPass J c else Some c);
          Some (head @ token @ [Spacing, Button ''Leave Session''],
                if button u True ''Leave Session'' then set_modal MAIN_MENU (LeaveSession c) else c) }"

text \<open>The frame: nothing while the overlay is closed; \<open>Begin\<close> may say that the window shows nothing.\<close>

definition draw_Modal ::
  "'j json_lib \<Rightarrow> clip list \<Rightarrow> ui \<Rightarrow> Client \<Rightarrow> (draw list \<times> Client) option" where
  "draw_Modal J copied u c =
     (if modal_state (cl_modal c) = CLOSED then Some ([], c)
      else
        do { let c = c\<lparr>cl_modal := Modal_ApplyTheme (cl_modal c)\<rparr>;
             (ds, c) \<leftarrow> (if ui_open u then
                (case modal_state (cl_modal c) of
                   MAIN_MENU \<Rightarrow> Some (draw_MainMenu u c)
                 | HOST_SETUP \<Rightarrow> draw_HostSetup copied u c
                 | JOIN_SETUP \<Rightarrow> draw_JoinSetup u c
                 | IN_SESSION \<Rightarrow> draw_InSession J u c
                 | _ \<Rightarrow> Some ([], c))
              else Some ([], c));
             Some (Open SWindow ''Crimson Desert Multiplayer'' # ds @ [Close SWindow], c) })"

section \<open>The pages do what the model of the state says\<close>

lemma draw_HostSetup_state: "map_option snd (draw_HostSetup copied u c) = RenderHostSetup u c"
  by (simp add: draw_HostSetup_def RenderHostSetup_def hosting_def host_fields_def Let_def map_option_bind comp_def)

lemma draw_Modal_state: "map_option snd (draw_Modal J copied u c) = Modal_Render J u c"
  by (auto simp: draw_Modal_def Modal_Render_def draw_MainMenu_def RenderMainMenu_def
      draw_HostSetup_def RenderHostSetup_def hosting_def host_fields_def draw_JoinSetup_def RenderJoinSetup_def draw_InSession_def RenderInSession_def
      Let_def map_option_bind comp_def split_beta split: ModalState.split)

section \<open>Scopes\<close>

fun scopes :: "draw list \<Rightarrow> scope list \<Rightarrow> scope list option" where
  "scopes [] st = Some st"
| "scopes (d # ds) st =
     (case d of
        Open k _ \<Rightarrow> scopes ds (k # st)
      | Close k \<Rightarrow> (case st of [] \<Rightarrow> None | k' # st' \<Rightarrow> if k' = k then scopes ds st' else None)
      | _ \<Rightarrow> scopes ds st)"

definition closed_scopes :: "draw list \<Rightarrow> bool" where
  "closed_scopes ds \<longleftrightarrow> (\<forall>st. scopes ds st = Some st)"

lemma scopes_append: "scopes (xs @ ys) st = Option.bind (scopes xs st) (scopes ys)"
  by (induction xs arbitrary: st) (auto split: draw.split list.split)

lemma closed_append [intro]: "closed_scopes xs \<Longrightarrow> closed_scopes ys \<Longrightarrow> closed_scopes (xs @ ys)"
  by (simp add: closed_scopes_def scopes_append)

lemma closed_wrap: "closed_scopes ds \<Longrightarrow> closed_scopes (Open k t # ds @ [Close k])"
  by (simp add: closed_scopes_def scopes_append)

lemma closed_concat: "(\<And>x. x \<in> set xs \<Longrightarrow> closed_scopes x) \<Longrightarrow> closed_scopes (concat xs)"
  by (induction xs) (auto simp: closed_scopes_def scopes_append)

lemma closed_MainMenu: "closed_scopes (fst (draw_MainMenu u c))"
  by (simp add: draw_MainMenu_def Let_def closed_scopes_def)

lemma closed_players: "closed_scopes (draw_players u c)"
proof -
  have "closed_scopes (draw_player p)" for p
    by (simp add: draw_player_def Let_def closed_scopes_def)
  then have "closed_scopes (concat (map draw_player ps))" for ps by (intro closed_concat) auto
  then show ?thesis by (simp add: draw_players_def closed_scopes_def scopes_append)
qed

lemma closed_HostSetup: "draw_HostSetup copied u c = Some (ds, c') \<Longrightarrow> closed_scopes ds"
proof -
  have "closed_scopes (map Clip ks)" for ks :: "clip list"
    unfolding closed_scopes_def by (induction ks) simp_all
  then show "draw_HostSetup copied u c = Some (ds, c') \<Longrightarrow> closed_scopes ds"
    by (auto simp: draw_HostSetup_def draw_progress_def draw_invite_def Let_def closed_scopes_def scopes_append)
qed

lemma closed_JoinSetup: "draw_JoinSetup u c = Some (ds, c') \<Longrightarrow> closed_scopes ds"
  by (auto simp: draw_JoinSetup_def draw_progress_def Let_def split_beta closed_scopes_def scopes_append)

lemma closed_InSession: "draw_InSession J u c = Some (ds, c') \<Longrightarrow> closed_scopes ds"
  using closed_players[of u c]
  by (auto simp: draw_InSession_def Let_def closed_scopes_def scopes_append)

lemma closed_Modal:
  assumes "draw_Modal J copied u c = Some (ds, c')"
  shows "closed_scopes ds"
proof (cases "modal_state (cl_modal c) = CLOSED")
  case True
  with assms show ?thesis by (simp add: draw_Modal_def closed_scopes_def)
next
  case False
  let ?c = "c\<lparr>cl_modal := Modal_ApplyTheme (cl_modal c)\<rparr>"
  from assms False obtain es where ds: "ds = Open SWindow ''Crimson Desert Multiplayer'' # es @ [Close SWindow]"
    and es: "(if ui_open u then
        (case modal_state (cl_modal ?c) of MAIN_MENU \<Rightarrow> Some (draw_MainMenu u ?c) | HOST_SETUP \<Rightarrow> draw_HostSetup copied u ?c
         | JOIN_SETUP \<Rightarrow> draw_JoinSetup u ?c | IN_SESSION \<Rightarrow> draw_InSession J u ?c | _ \<Rightarrow> Some ([], ?c))
      else Some ([], ?c)) = Some (es, c')"
    by (auto simp: draw_Modal_def Let_def)
  have "closed_scopes es"
    using es closed_MainMenu[of u ?c] closed_HostSetup[of copied u ?c es c']
      closed_JoinSetup[of u ?c es c'] closed_InSession[of J u ?c es c']
    by (auto simp: closed_scopes_def split: if_splits ModalState.splits)
  then show ?thesis unfolding ds by (rule closed_wrap)
qed

section \<open>Buttons\<close>

text \<open>The buttons a frame shows outside \<open>BeginDisabled\<close>.\<close>

fun enabled :: "bool \<Rightarrow> draw list \<Rightarrow> string list" where
  "enabled off [] = []"
| "enabled off (d # ds) =
     (case d of
        Open SDisabled _ \<Rightarrow> enabled True ds
      | Close SDisabled \<Rightarrow> enabled False ds
      | Button l \<Rightarrow> (if off then enabled off ds else l # enabled off ds)
      | _ \<Rightarrow> enabled off ds)"

definition same_clicks :: "string list \<Rightarrow> ui \<Rightarrow> ui \<Rightarrow> bool" where
  "same_clicks ls u u' \<longleftrightarrow> u' = u\<lparr>ui_click := ui_click u'\<rparr> \<and> list_all (\<lambda>l. ui_click u' l = ui_click u l) ls"

lemma same_clicks_inputs:
  assumes "same_clicks ls u u'"
  shows "input_text u' = input_text u" "ui_input_int u' = ui_input_int u" "ui_open u' = ui_open u"
    "ui_table u' = ui_table u" "l \<in> set ls \<Longrightarrow> ui_click u' l = ui_click u l"
proof -
  from assms have u: "u' = u\<lparr>ui_click := ui_click u'\<rparr>" by (simp add: same_clicks_def)
  show "input_text u' = input_text u" by (subst u) (simp add: input_text_def fun_eq_iff)
  show "ui_input_int u' = ui_input_int u" "ui_open u' = ui_open u" "ui_table u' = ui_table u" by (subst u; simp)+
  show "l \<in> set ls \<Longrightarrow> ui_click u' l = ui_click u l" using assms by (simp add: same_clicks_def list_all_iff)
qed

lemma enabled_players: "enabled off (draw_players u c @ ds) = enabled off ds"
proof -
  have "enabled off (draw_player p @ ds) = enabled off ds" for p ds
    by (simp add: draw_player_def Let_def)
  then have "enabled off (concat (map draw_player ps) @ ds) = enabled off ds" for ps ds
    by (induction ps arbitrary: ds) auto
  then show ?thesis by (simp add: draw_players_def)
qed

lemma enabled_progress: "enabled off (draw_progress c @ ds) = enabled off ds"
  by (simp add: draw_progress_def)

lemma enabled_copied: "enabled off (map Clip ks @ ds) = enabled off ds"
  by (induction ks) simp_all

lemma enabled_invite:
  "enabled False (draw_invite copied u c) = (if hosting c then [''Copy to clipboard'', ''Enter Session''] else [])"
  by (simp add: draw_invite_def enabled_copied)

lemma cl_session_set_modal [simp]: "cl_session (set_modal s c) = cl_session c"
  by (simp add: set_modal_def)

lemma clicks_MainMenu:
  assumes "same_clicks (enabled False (fst (draw_MainMenu u c))) u u'"
  shows "draw_MainMenu u' c = draw_MainMenu u c"
proof -
  have shown: "{''Host Session'', ''Join Session''} \<subseteq> set (enabled False (fst (draw_MainMenu u c)))"
    "status (cl_session c) = InSession \<Longrightarrow> ''Leave Session'' \<in> set (enabled False (fst (draw_MainMenu u c)))"
    by (simp_all add: draw_MainMenu_def Let_def)
  then have "ui_click u' ''Host Session'' = ui_click u ''Host Session''"
    "ui_click u' ''Join Session'' = ui_click u ''Join Session''"
    "status (cl_session c) = InSession \<Longrightarrow> ui_click u' ''Leave Session'' = ui_click u ''Leave Session''"
    using same_clicks_inputs(5)[OF assms] by simp_all
  then have "button u' (status (cl_session c) = InSession) ''Leave Session'' = button u (status (cl_session c) = InSession) ''Leave Session''"
    "button u' True ''Host Session'' = button u True ''Host Session''"
    "button u' True ''Join Session'' = button u True ''Join Session''"
    by (auto simp: button_def)
  then show ?thesis unfolding draw_MainMenu_def Let_def by simp
qed

lemma hosting_set_modal [simp]: "hosting (set_modal s c) = hosting c"
  by (simp add: hosting_def)

lemma HostSetup_shown:
  assumes "draw_HostSetup copied u c = Some (ds, c')"
  shows "{''Start Hosting'', ''Back''} \<subseteq> set (enabled False ds)
    \<and> (hosting c' \<longrightarrow> {''Copy to clipboard'', ''Enter Session''} \<subseteq> set (enabled False ds))"
  using assms by (auto simp: draw_HostSetup_def Let_def enabled_progress enabled_invite split: if_splits)

lemma clicks_HostSetup:
  assumes "draw_HostSetup copied u c = Some (ds, c')" "same_clicks (enabled False ds) u u'"
  shows "draw_HostSetup copied u' c = Some (ds, c')"
proof -
  note same = same_clicks_inputs[OF assms(2)]
  have start: "button u' True ''Start Hosting'' = button u True ''Start Hosting''" "button u' True ''Back'' = button u True ''Back''"
    and code: "hosting c' \<Longrightarrow> button u' True ''Copy to clipboard'' = button u True ''Copy to clipboard''
      \<and> button u' True ''Enter Session'' = button u True ''Enter Session''"
    using HostSetup_shown[OF assms(1)] same(5) by (auto simp: button_def)
  have "draw_invite copied u' c1 = draw_invite copied u c1" "(hosting c1 \<and> button u' True ''Enter Session'') = (hosting c1 \<and> button u True ''Enter Session'')"
    if "hosting c' = hosting c1" for c1
    using that code by (auto simp: draw_invite_def)
  note invite = this
  from assms(1) obtain c1 where c1: "(if button u True ''Start Hosting'' then HostSession
          (serverHost (host_fields u (cl_modal c))) (ucast (serverPort (host_fields u (cl_modal c))))
          (md_sessionName (host_fields u (cl_modal c))) (md_password (host_fields u (cl_modal c)))
          (c\<lparr>cl_modal := host_fields u (cl_modal c)\<rparr>)
        else Some (c\<lparr>cl_modal := host_fields u (cl_modal c)\<rparr>)) = Some c1"
    by (auto simp: draw_HostSetup_def Let_def)
  let ?c2 = "if button u True ''Back'' then set_modal MAIN_MENU c1 else c1"
  have "c' = (if hosting ?c2 \<and> button u True ''Enter Session'' then set_modal IN_SESSION ?c2 else ?c2)"
    using assms(1) c1 by (simp add: draw_HostSetup_def Let_def)
  then have "hosting c' = hosting ?c2" by (simp only: if_distrib[of hosting] hosting_set_modal if_cancel)
  from invite[OF this] have i: "draw_invite copied u' ?c2 = draw_invite copied u ?c2"
    "(hosting ?c2 \<and> button u' True ''Enter Session'') = (hosting ?c2 \<and> button u True ''Enter Session'')" .
  have "host_fields u' = host_fields u" by (simp add: host_fields_def same(1,2) fun_eq_iff)
  with i have "draw_HostSetup copied u' c = draw_HostSetup copied u c"
    by (simp only: draw_HostSetup_def Let_def start c1 Option.bind.simps)
  with assms(1) show ?thesis by simp
qed

lemma clicks_JoinSetup:
  assumes "draw_JoinSetup u c = Some (ds, c')" "same_clicks (enabled False ds) u u'"
  shows "draw_JoinSetup u' c = Some (ds, c')"
proof -
  note same = same_clicks_inputs[OF assms(2)]
  have "{''Connect'', ''Back''} \<subseteq> set (enabled False ds)"
    using assms(1) by (auto simp: draw_JoinSetup_def Let_def split_beta)
  then have "button u' True ''Connect'' = button u True ''Connect''" "button u' True ''Back'' = button u True ''Back''"
    using same(5) by (auto simp: button_def)
  with assms(1) show ?thesis by (simp only: draw_JoinSetup_def same(1,2))
qed

lemma InSession_shown:
  assumes "draw_InSession J u c = Some (ds, c')"
  shows "''Leave Session'' \<in> set (enabled False ds)
    \<and> (puzzleActive (cl_puzzle c) \<and> IsLocalController c \<longrightarrow> ''Pass Turn'' \<in> set (enabled False ds))"
  using assms by (auto simp: draw_InSession_def Let_def enabled_players)

lemma clicks_InSession:
  assumes "draw_InSession J u c = Some (ds, c')" "same_clicks (enabled False ds) u u'"
  shows "draw_InSession J u' c = Some (ds, c')"
proof -
  note same = same_clicks_inputs[OF assms(2)]
  have "button u' True ''Leave Session'' = button u True ''Leave Session''"
    "puzzleActive (cl_puzzle c) \<Longrightarrow> button u' (IsLocalController c) ''Pass Turn'' = button u (IsLocalController c) ''Pass Turn''"
    using InSession_shown[OF assms(1)] same(5) by (auto simp: button_def)
  moreover have "draw_players u' c = draw_players u c" by (simp add: draw_players_def same(4))
  ultimately show ?thesis using assms(1)
    unfolding draw_InSession_def Let_def by (cases "puzzleActive (cl_puzzle c)") simp_all
qed

lemma enabled_snoc_close: "enabled off (es @ [Close SWindow]) = enabled off es"
  by (induction es arbitrary: off) (auto split: draw.split scope.split)

lemma page_frame:
  assumes "draw_Modal J copied u c = Some (ds, c')" "modal_state (cl_modal c) \<noteq> CLOSED"
  obtains es where "ds = Open SWindow ''Crimson Desert Multiplayer'' # es @ [Close SWindow]"
    "enabled False ds = enabled False es"
    "(if ui_open u then
        (case modal_state (cl_modal (c\<lparr>cl_modal := Modal_ApplyTheme (cl_modal c)\<rparr>)) of
           MAIN_MENU \<Rightarrow> Some (draw_MainMenu u (c\<lparr>cl_modal := Modal_ApplyTheme (cl_modal c)\<rparr>))
         | HOST_SETUP \<Rightarrow> draw_HostSetup copied u (c\<lparr>cl_modal := Modal_ApplyTheme (cl_modal c)\<rparr>)
         | JOIN_SETUP \<Rightarrow> draw_JoinSetup u (c\<lparr>cl_modal := Modal_ApplyTheme (cl_modal c)\<rparr>)
         | IN_SESSION \<Rightarrow> draw_InSession J u (c\<lparr>cl_modal := Modal_ApplyTheme (cl_modal c)\<rparr>)
         | _ \<Rightarrow> Some ([], c\<lparr>cl_modal := Modal_ApplyTheme (cl_modal c)\<rparr>))
      else Some ([], c\<lparr>cl_modal := Modal_ApplyTheme (cl_modal c)\<rparr>)) = Some (es, c')"
  using assms that by (auto simp: draw_Modal_def Let_def enabled_snoc_close)

lemma clicks_Modal:
  assumes "draw_Modal J copied u c = Some (ds, c')" "same_clicks (enabled False ds) u u'"
  shows "draw_Modal J copied u' c = Some (ds, c')"
proof (cases "modal_state (cl_modal c) = CLOSED")
  case True
  with assms show ?thesis by (simp add: draw_Modal_def)
next
  case False
  let ?c = "c\<lparr>cl_modal := Modal_ApplyTheme (cl_modal c)\<rparr>"
  from page_frame[OF assms(1) False] obtain es where
    ds: "ds = Open SWindow ''Crimson Desert Multiplayer'' # es @ [Close SWindow]" "enabled False ds = enabled False es"
    and es: "(if ui_open u then
        (case modal_state (cl_modal ?c) of MAIN_MENU \<Rightarrow> Some (draw_MainMenu u ?c) | HOST_SETUP \<Rightarrow> draw_HostSetup copied u ?c
         | JOIN_SETUP \<Rightarrow> draw_JoinSetup u ?c | IN_SESSION \<Rightarrow> draw_InSession J u ?c | _ \<Rightarrow> Some ([], ?c))
      else Some ([], ?c)) = Some (es, c')" .
  have same: "same_clicks (enabled False es) u u'" using assms(2) ds(2) by simp
  have "(if ui_open u' then
        (case modal_state (cl_modal ?c) of MAIN_MENU \<Rightarrow> Some (draw_MainMenu u' ?c) | HOST_SETUP \<Rightarrow> draw_HostSetup copied u' ?c
         | JOIN_SETUP \<Rightarrow> draw_JoinSetup u' ?c | IN_SESSION \<Rightarrow> draw_InSession J u' ?c | _ \<Rightarrow> Some ([], ?c))
      else Some ([], ?c)) = Some (es, c')"
    using es same clicks_MainMenu[of u ?c u'] clicks_HostSetup[of copied u ?c es c' u']
      clicks_JoinSetup[of u ?c es c' u'] clicks_InSession[of J u ?c es c' u']
    unfolding same_clicks_inputs(3)[OF same] by (auto split: if_splits ModalState.splits)
  then show ?thesis using False ds(1) by (simp add: draw_Modal_def Let_def)
qed

text \<open>The page of each state as its user can use it: the buttons that can be pressed, and what the guarded
  ones do.\<close>

definition pass_packet :: "'j json_lib \<Rightarrow> Client \<Rightarrow> string option" where
  "pass_packet J c = SerializePacket J PUZZLE_PASS (j_obj J [(''puzzleId'', j_str J (puzzleId (cl_puzzle c)))])"

lemma MainMenu_buttons:
  assumes "draw_MainMenu u c = (ds, c')"
  shows "enabled False ds = [''Host Session'', ''Join Session'']
      @ (if status (cl_session c) = InSession then [''Leave Session''] else [])"
    and "status (cl_session c) = InSession \<and> ui_click u ''Leave Session'' \<Longrightarrow> status (cl_session c') = Disconnected"
    and "\<not> (status (cl_session c) = InSession \<and> ui_click u ''Leave Session'') \<Longrightarrow>
      cl_session c' = cl_session c \<and> cl_ws c' = cl_ws c \<and> cl_players c' = cl_players c"
  using assms by (auto simp: draw_MainMenu_def Let_def button_def set_modal_def LeaveSession_def split: if_splits)

lemma modal_state_set_modal: "modal_state (cl_modal (set_modal s c)) = s"
  by (simp add: set_modal_def)

lemma set_draw_invite:
  "Clip k \<in> set (draw_invite copied u c) \<longleftrightarrow> hosting c \<and> ui_click u ''Copy to clipboard'' \<and> k \<in> set copied"
  by (auto simp: draw_invite_def button_def)

lemma HostSetup_buttons:
  assumes "draw_HostSetup copied u c = Some (ds, c')" "modal_state (cl_modal c) = HOST_SETUP"
  shows "enabled False ds = [''Start Hosting'', ''Back''] @ (if hosting c' then [''Copy to clipboard'', ''Enter Session''] else [])"
    and "modal_state (cl_modal c') = IN_SESSION \<longleftrightarrow> hosting c' \<and> ui_click u ''Enter Session''"
    and "Clip k \<in> set ds \<longleftrightarrow> hosting c' \<and> ui_click u ''Copy to clipboard'' \<and> k \<in> set copied"
proof -
  let ?md = "host_fields u (cl_modal c)"
  from assms(1) obtain c1 where c1: "(if button u True ''Start Hosting'' then HostSession
          (serverHost ?md) (ucast (serverPort ?md)) (md_sessionName ?md) (md_password ?md) (c\<lparr>cl_modal := ?md\<rparr>)
        else Some (c\<lparr>cl_modal := ?md\<rparr>)) = Some c1"
    by (auto simp: draw_HostSetup_def Let_def)
  then have "modal_state (cl_modal c1) = HOST_SETUP"
    using assms(2) by (auto simp: HostSession_def host_fields_def Let_def split: if_splits)
  let ?c2 = "if button u True ''Back'' then set_modal MAIN_MENU c1 else c1"
  from \<open>modal_state (cl_modal c1) = HOST_SETUP\<close> have c2: "modal_state (cl_modal ?c2) \<noteq> IN_SESSION"
    by (simp add: set_modal_def)
  have c': "c' = (if hosting ?c2 \<and> button u True ''Enter Session'' then set_modal IN_SESSION ?c2 else ?c2)"
    and ds: "\<exists>pre. ds = pre @ draw_progress ?c2 @ draw_invite copied u ?c2
      \<and> (\<forall>xs. enabled False (pre @ xs) = [''Start Hosting'', ''Back''] @ enabled False xs) \<and> Clip k \<notin> set pre"
    using assms(1) c1 by (auto simp: draw_HostSetup_def Let_def)
  from c' have h: "hosting c' = hosting ?c2" by (simp only: if_distrib[of hosting] hosting_set_modal if_cancel)
  from ds obtain pre where ds: "ds = pre @ draw_progress ?c2 @ draw_invite copied u ?c2"
    and pre: "\<And>xs. enabled False (pre @ xs) = [''Start Hosting'', ''Back''] @ enabled False xs" "Clip k \<notin> set pre" by blast
  show "enabled False ds = [''Start Hosting'', ''Back''] @ (if hosting c' then [''Copy to clipboard'', ''Enter Session''] else [])"
    unfolding h ds pre(1) enabled_progress enabled_invite by simp
  have "Clip k \<notin> set (draw_progress ?c2)" by (simp add: draw_progress_def)
  then show "Clip k \<in> set ds \<longleftrightarrow> hosting c' \<and> ui_click u ''Copy to clipboard'' \<and> k \<in> set copied"
    using pre(2) unfolding h ds by (simp add: set_draw_invite del: if_split)
  show "modal_state (cl_modal c') = IN_SESSION \<longleftrightarrow> hosting c' \<and> ui_click u ''Enter Session''"
  proof (cases "hosting ?c2 \<and> ui_click u ''Enter Session''")
    case True
    then have "c' = set_modal IN_SESSION ?c2" unfolding c' button_def by (simp only: simp_thms if_True)
    with True h show ?thesis by (simp only: modal_state_set_modal simp_thms)
  next
    case False
    then have "c' = ?c2" unfolding c' button_def by (simp only: simp_thms if_False)
    with False h c2 show ?thesis by (simp only: simp_thms)
  qed
qed

lemma JoinSetup_buttons:
  assumes "draw_JoinSetup u c = Some (ds, c')" "modal_state (cl_modal c) = JOIN_SETUP"
  shows "enabled False ds = [''Connect'', ''Back'']"
    and "modal_state (cl_modal c') = IN_SESSION \<longleftrightarrow> status (cl_session c') = InSession"
  using assms by (auto simp: draw_JoinSetup_def Let_def split_beta enabled_progress[of False _ "[]", simplified]
      draw_progress_def button_def set_modal_def JoinSession_def split: if_splits)

lemma InSession_buttons:
  assumes "draw_InSession J u c = Some (ds, c')"
  shows "enabled False ds = (if IsLocalController c then [''Pass Turn''] else []) @ [''Leave Session'']"
    and "Button ''Pass Turn'' \<in> set ds \<longleftrightarrow> puzzleActive (cl_puzzle c)"
    and "if ui_click u ''Leave Session'' then status (cl_session c') = Disconnected \<and> modal_state (cl_modal c') = MAIN_MENU
      else cl_session c' = cl_session c \<and> cl_modal c' = cl_modal c"
proof -
  have active: "IsLocalController c \<Longrightarrow> puzzleActive (cl_puzzle c)" by (auto simp: IsLocalController_def Let_def split: if_splits)
  from assms show "enabled False ds = (if IsLocalController c then [''Pass Turn''] else []) @ [''Leave Session'']"
    using active by (auto simp: draw_InSession_def Let_def enabled_players)
  have "Button l \<notin> set (draw_players u c)" for l by (auto simp: draw_players_def draw_player_def Let_def)
  with assms show "Button ''Pass Turn'' \<in> set ds \<longleftrightarrow> puzzleActive (cl_puzzle c)"
    by (auto simp: draw_InSession_def Let_def split: if_splits)
  from assms obtain c1 where c1: "(if puzzleActive (cl_puzzle c) \<and> button u (IsLocalController c) ''Pass Turn''
      then RequestPass J c else Some c) = Some c1"
    and c': "c' = (if ui_click u ''Leave Session'' then set_modal MAIN_MENU (LeaveSession c1) else c1)"
    by (auto simp: draw_InSession_def button_def Let_def)
  have "cl_session c1 = cl_session c \<and> cl_modal c1 = cl_modal c"
    using c1 by (auto simp: RequestPass_def client_send_def Let_def split: if_splits)
  then show "if ui_click u ''Leave Session'' then status (cl_session c') = Disconnected \<and> modal_state (cl_modal c') = MAIN_MENU
      else cl_session c' = cl_session c \<and> cl_modal c' = cl_modal c"
    by (simp add: c' set_modal_def LeaveSession_def Let_def)
qed

lemma InSession_pass:
  assumes "draw_InSession J u c = Some (ds, c')"
  shows "\<exists>fs. sendQueue (cl_ws c') = sendQueue (cl_ws c) @ fs
      \<and> (if ui_click u ''Pass Turn'' \<and> IsLocalController c \<and> puzzleId (cl_puzzle c) \<noteq> [] \<and> ss_client (cl_session c)
         then map Some fs = [pass_packet J c] else fs = [])"
proof -
  from assms obtain c1 where c1: "(if puzzleActive (cl_puzzle c) \<and> button u (IsLocalController c) ''Pass Turn''
      then RequestPass J c else Some c) = Some c1"
    and c': "c' = (if ui_click u ''Leave Session'' then set_modal MAIN_MENU (LeaveSession c1) else c1)"
    by (auto simp: draw_InSession_def button_def Let_def)
  have "sendQueue (cl_ws c') = sendQueue (cl_ws c1)"
    by (simp add: c' set_modal_def LeaveSession_def Disconnect_def CloseSocket_def Let_def)
  with c1 show ?thesis
    by (auto simp: RequestPass_def client_send_def Send_def pass_packet_def button_def IsLocalController_def Let_def split: if_splits)
qed


section \<open>The countdown bar\<close>

lemma f32_div_nonneg:
  assumes "\<not> f32_is_nan a" "\<not> f32_neg a" "f32_isfinite b" "\<not> f32_neg b" "f32_num b \<noteq> 0"
  shows "\<not> f32_is_nan (f32_div a b) \<and> f32_le 0 (f32_div a b)"
proof -
  let ?k = "if f32_is_inf a then f32_inf_bits
    else f32_round_bits (nat \<bar>f32_num a\<bar> * 2 ^ 149) (nat \<bar>f32_num b\<bar>)"
  have k: "f32_div a b = f32_pack False ?k" "?k \<le> f32_inf_bits"
    using assms f32_round_bits_le_inf by (simp_all add: f32_div_def Let_def f32_isfinite_iff)
  then have "?k < 2 ^ 31" using f32_inf_bits_less by simp
  moreover from this k(2) have "\<not> f32_is_nan (f32_pack False ?k)"
    by (simp only: f32_is_nan_def f32_abs_bits_pack not_less)
  ultimately show ?thesis unfolding k(1) by (simp add: f32_le_def)
qed

lemma countdown_bar_unit: "f32_unit (countdown_bar r)"
proof (cases "0 <s r")
  case True
  let ?x = "f32_div (f32_of_int (sint r)) f32_30000"
  have "\<not> f32_neg (f32_of_int (sint r))"
    using True f32_round_bits_less by (simp add: f32_of_int_def f32_of_units_def word_sless_alt)
  then have "\<not> f32_is_nan ?x \<and> f32_le 0 ?x"
    by (intro f32_div_nonneg)
       (simp_all add: f32_of_int_def f32_isfinite_def f32_neg_def f32_num_def f32_abs_bits_def f32_mag_of_bits_def f32_inf_bits_def)
  moreover have "f32_le f32_0 f32_1" by (simp add: f32_le_def)
  ultimately show ?thesis using True
    by (auto simp: countdown_bar_def Let_def f32_unit_def f32_lt_def f32_le_def)
next
  case False
  then show ?thesis by (simp add: countdown_bar_def Let_def f32_unit_def f32_le_def f32_lt_def)
qed

section \<open>What a frame is\<close>

text \<open>C25: every frame of the overlay is well formed: on every page, for every input and in every state,
  each scope the page opens on ImGui's stack (window, table, disabled part, font, colour) it closes, in
  the right order, and none besides; the page does exactly what the state machine of the overlay says;
  and the bar that shows the time left to the controller is between 0 and 1 for every value of the
  countdown, negative ones included.\<close>

lemma overlay_frame_well_formed:
  assumes "draw_Modal J copied u c = Some (ds, c')"
  shows "scopes ds st = Some st \<and> Modal_Render J u c = Some c' \<and> f32_unit (countdown_bar r)"
proof -
  have "Modal_Render J u c = Some c'" using draw_Modal_state[of J copied u c] assms by simp
  with closed_Modal[OF assms] countdown_bar_unit show ?thesis by (simp add: closed_scopes_def)
qed

text \<open>C26: the buttons of a frame are guarded as meant, on every page and for every input. Main menu: "Leave
  Session" can be pressed exactly in a session, and outside one a click at its place changes nothing of
  the session, the connection and the players. Host page: "Copy to clipboard" and "Enter Session" are there
  exactly while this client hosts a session, and only then is the clipboard written or the session page
  entered. Join page: the session page is entered exactly when in a session. Session page: "Pass Turn" is
  drawn exactly while a puzzle is active and can be pressed exactly by the player who has the token; a
  press queues one \<open>PUZZLE_PASS\<close> for that puzzle, and nothing else that the page offers queues a packet.
  Clicks anywhere but on the buttons so listed change neither the frame nor the state.\<close>

lemma overlay_buttons_guarded:
  assumes "draw_Modal J copied u c = Some (ds, c')" and "ui_open u"
  shows "(case modal_state (cl_modal c) of
      MAIN_MENU \<Rightarrow>
        enabled False ds = [''Host Session'', ''Join Session''] @ (if status (cl_session c) = InSession then [''Leave Session''] else [])
        \<and> (if status (cl_session c) = InSession \<and> ui_click u ''Leave Session'' then status (cl_session c') = Disconnected
           else cl_session c' = cl_session c \<and> cl_ws c' = cl_ws c \<and> cl_players c' = cl_players c)
    | HOST_SETUP \<Rightarrow>
        enabled False ds = [''Start Hosting'', ''Back''] @ (if hosting c' then [''Copy to clipboard'', ''Enter Session''] else [])
        \<and> (modal_state (cl_modal c') = IN_SESSION \<longleftrightarrow> hosting c' \<and> ui_click u ''Enter Session'')
        \<and> (Clip k \<in> set ds \<longleftrightarrow> hosting c' \<and> ui_click u ''Copy to clipboard'' \<and> k \<in> set copied)
    | JOIN_SETUP \<Rightarrow>
        enabled False ds = [''Connect'', ''Back'']
        \<and> (modal_state (cl_modal c') = IN_SESSION \<longleftrightarrow> status (cl_session c') = InSession)
    | IN_SESSION \<Rightarrow>
        enabled False ds = (if IsLocalController c then [''Pass Turn''] else []) @ [''Leave Session'']
        \<and> (Button ''Pass Turn'' \<in> set ds \<longleftrightarrow> puzzleActive (cl_puzzle c))
        \<and> (\<exists>fs. sendQueue (cl_ws c') = sendQueue (cl_ws c) @ fs
            \<and> (if ui_click u ''Pass Turn'' \<and> IsLocalController c \<and> puzzleId (cl_puzzle c) \<noteq> [] \<and> ss_client (cl_session c)
               then map Some fs = [pass_packet J c] else fs = []))
        \<and> (if ui_click u ''Leave Session'' then status (cl_session c') = Disconnected \<and> modal_state (cl_modal c') = MAIN_MENU
           else cl_session c' = cl_session c \<and> modal_state (cl_modal c') = IN_SESSION)
    | _ \<Rightarrow> enabled False ds = [])
    \<and> (same_clicks (enabled False ds) u u' \<longrightarrow> draw_Modal J copied u' c = Some (ds, c'))"
    (is "?pages \<and> _")
proof (intro conjI impI)
  show "draw_Modal J copied u' c = Some (ds, c')" if "same_clicks (enabled False ds) u u'"
    using clicks_Modal[OF assms(1) that] .
  let ?c = "c\<lparr>cl_modal := Modal_ApplyTheme (cl_modal c)\<rparr>"
  have state: "modal_state (Modal_ApplyTheme (cl_modal c)) = modal_state (cl_modal c)" by (simp add: Modal_ApplyTheme_def)
  have same: "IsLocalController ?c = IsLocalController c" "pass_packet J ?c = pass_packet J c"
    by (simp_all add: IsLocalController_def pass_packet_def)
  show ?pages
  proof (cases "modal_state (cl_modal c) = CLOSED")
    case True
    with assms(1) show ?thesis by (simp add: draw_Modal_def)
  next
    case False
    from page_frame[OF assms(1) False] assms(2) obtain es where
      ds: "ds = Open SWindow ''Crimson Desert Multiplayer'' # es @ [Close SWindow]" "enabled False ds = enabled False es"
      and es: "(case modal_state (cl_modal ?c) of MAIN_MENU \<Rightarrow> Some (draw_MainMenu u ?c) | HOST_SETUP \<Rightarrow> draw_HostSetup copied u ?c
         | JOIN_SETUP \<Rightarrow> draw_JoinSetup u ?c | IN_SESSION \<Rightarrow> draw_InSession J u ?c | _ \<Rightarrow> Some ([], ?c)) = Some (es, c')" by auto
    have mem: "Clip k \<in> set ds \<longleftrightarrow> Clip k \<in> set es" "Button l \<in> set ds \<longleftrightarrow> Button l \<in> set es" for l by (simp_all add: ds(1))
    show ?thesis
    proof (cases "modal_state (cl_modal c)")
      case MAIN_MENU
      with es state have "draw_MainMenu u ?c = (es, c')" by simp
      from MainMenu_buttons[OF this] MAIN_MENU ds(2) show ?thesis by simp
    next
      case HOST_SETUP
      with es state have "draw_HostSetup copied u ?c = Some (es, c')" "modal_state (cl_modal ?c) = HOST_SETUP" by simp_all
      from HostSetup_buttons[OF this] HOST_SETUP ds(2) mem show ?thesis by simp
    next
      case JOIN_SETUP
      with es state have "draw_JoinSetup u ?c = Some (es, c')" "modal_state (cl_modal ?c) = JOIN_SETUP" by simp_all
      from JoinSetup_buttons[OF this] JOIN_SETUP ds(2) show ?thesis by simp
    next
      case IN_SESSION
      with es state have p: "draw_InSession J u ?c = Some (es, c')" by simp
      from InSession_buttons[OF p] InSession_pass[OF p] IN_SESSION ds(2) mem state same show ?thesis by (simp split: if_splits)
    qed (use es state False in \<open>simp_all add: ds\<close>)
  qed
qed

section \<open>A concrete page\<close>

definition menu_client :: Client where
  "menu_client = (let c = Client_init \<lparr>vm_bytes = (\<lambda>_. 0), vm_query = (\<lambda>_. None), vm_rd_trap = (\<lambda>_ _. None),
       vm_wr_trap = (\<lambda>_ _. None)\<rparr> GameOffsets_init in set_modal MAIN_MENU c)"

definition click_on :: "string \<Rightarrow> ui" where
  "click_on l = \<lparr>ui_click = (\<lambda>l'. l' = l), ui_input_text = (\<lambda>_ s. (s, False)), ui_input_int = (\<lambda>_ i. i),
     ui_open = True, ui_table = True\<rparr>"

lemma menu_frame:
  "draw_Modal demo_json [] (click_on []) menu_client
     = Some ([Open SWindow ''Crimson Desert Multiplayer'', Open SFont [], TextColored ''Multiplayer'' [], Close SFont,
         Separator, Spacing, Button ''Host Session'', Button ''Join Session'', Open SDisabled [],
         Button ''Leave Session'', Close SDisabled, Spacing, TextDisabled ''Status: %s'' [AS ''Disconnected''],
         Close SWindow], menu_client\<lparr>cl_modal := Modal_ApplyTheme (cl_modal menu_client)\<rparr>)"
  by (simp add: draw_Modal_def draw_MainMenu_def menu_client_def click_on_def button_def set_modal_def Client_init_def
      Modal_init_def Modal_ApplyTheme_def Session_init_def StatusLabel_def Let_def)

lemma overlay_frame_well_formed_witness:
  "\<exists>ds c'. draw_Modal demo_json [] (click_on []) menu_client = Some (ds, c')
     \<and> scopes ds [SWindow] = Some [SWindow] \<and> f32_unit (countdown_bar (- 5))"
  using overlay_frame_well_formed[OF menu_frame, of "[SWindow]" "- 5"] menu_frame by blast

lemma overlay_buttons_guarded_witness:
  "\<exists>ds c'. draw_Modal demo_json [] (click_on ''Leave Session'') menu_client = Some (ds, c')
     \<and> enabled False ds = [''Host Session'', ''Join Session''] \<and> cl_session c' = cl_session menu_client"
proof -
  have page: "modal_state (cl_modal menu_client) = MAIN_MENU" "status (cl_session menu_client) \<noteq> InSession" "ui_open (click_on [])"
    by (simp_all add: menu_client_def set_modal_def Client_init_def Session_init_def Let_def click_on_def)
  have other: "same_clicks [''Host Session'', ''Join Session''] (click_on []) (click_on ''Leave Session'')"
    by (simp add: same_clicks_def click_on_def)
  from overlay_buttons_guarded[OF menu_frame page(3), of "CloseClipboard" "click_on ''Leave Session''"] page(1,2) other
  show ?thesis by auto
qed

end
