(* ===== verification/Render_Props.thy ===== *)
theory Render_Props
  imports Render_Hook Player_Wire
begin

text \<open>
  The render hook over any sequence of frames, window messages and removals: what it holds of the
  graphics stack, where window messages go, and what is left when the plugin has been unloaded.
\<close>

section \<open>Runs\<close>

text \<open>The first argument counts the removals; \<open>step_other\<close> is whatever else the client does.\<close>

inductive render_run :: "'j json_lib \<Rightarrow> Client \<Rightarrow> nat \<Rightarrow> RenderHook \<times> gfx \<times> Client \<Rightarrow> bool"
  for J c0
where
  run_start: "render_run J c0 0 (RenderHook_init, gfx_init, c0)"
| run_frame: "render_run J c0 n s \<Longrightarrow> HookedPresent E J u now s = Some s' \<Longrightarrow> render_run J c0 n s'"
| run_message: "render_run J c0 n (h, gx, c) \<Longrightarrow> deliver h (wnd_proc gx w) msg wParam c = Some (on, c')
    \<Longrightarrow> render_run J c0 n (h, gx, c')"
| run_other: "render_run J c0 n (h, gx, c) \<Longrightarrow> render_run J c0 n (h, gx, c')"
| run_acquire: "render_run J c0 n (h, gx, c) \<Longrightarrow> AcquirePresentPointer hwnd created vtable gx = (ok, v, gx')
    \<Longrightarrow> render_run J c0 n (h, gx', c)"
| run_remove: "render_run J c0 n (h, gx, c) \<Longrightarrow> RemoveRenderHook (h, gx) = (h', gx')
    \<Longrightarrow> render_run J c0 (Suc n) (h', gx', c)"

section \<open>Resources\<close>

definition holds :: "addr \<Rightarrow> addr \<Rightarrow> int" where \<comment> \<open>the reference a global stands for\<close>
  "holds g x = (if x = g \<and> g \<noteq> 0 then 1 else 0)"

lemma holds_null [simp]: "holds 0 x = 0"
  by (simp add: holds_def)

lemma com_ref_fields [simp]:
  "wnd_proc (com_ref n x gx) = wnd_proc gx" "imgui_contexts (com_ref n x gx) = imgui_contexts gx"
  "own_windows (com_ref n x gx) = own_windows gx" "own_classes (com_ref n x gx) = own_classes gx"
  "com_refs (com_ref n x gx) = (\<lambda>y. com_refs gx y + n * holds x y)"
  by (auto simp: com_ref_def holds_def)

definition held_by :: "RenderHook \<Rightarrow> gfx \<Rightarrow> bool" where
  "held_by h gx \<longleftrightarrow> (\<forall>x. com_refs gx x = holds (g_device h) x + holds (g_context h) x + holds (g_rtv h) x)
     \<and> imgui_contexts gx = (if g_imguiInit h then 1 else 0) \<and> own_windows gx = 0 \<and> own_classes gx = 0
     \<and> (\<not> g_imguiInit h \<longrightarrow> g_device h = 0 \<and> g_context h = 0 \<and> g_rtv h = 0)"

lemma AcquirePresentPointer_same:
  assumes "AcquirePresentPointer hwnd created vtable gx = (ok, v, gx')"
  shows "gx' = gx"
proof -
  have "com_refs gx' = com_refs gx"
    using assms by (auto simp: AcquirePresentPointer_def Let_def split: if_splits prod.splits)
  moreover have "wnd_proc gx' = wnd_proc gx \<and> imgui_contexts gx' = imgui_contexts gx
      \<and> own_windows gx' = own_windows gx \<and> own_classes gx' = own_classes gx"
    using assms by (auto simp: AcquirePresentPointer_def Let_def split: if_splits prod.splits)
  ultimately show ?thesis by simp
qed

lemma CreateRenderTarget_fields:
  assumes "CreateRenderTarget E (h, gx) = (h', gx')" "g_rtv h = 0"
  shows "h' = h\<lparr>g_rtv := g_rtv h'\<rparr> \<and> com_refs gx' = (\<lambda>x. com_refs gx x + holds (g_rtv h') x)
    \<and> wnd_proc gx' = wnd_proc gx \<and> imgui_contexts gx' = imgui_contexts gx
    \<and> own_windows gx' = own_windows gx \<and> own_classes gx' = own_classes gx"
  using assms by (auto simp: CreateRenderTarget_def Let_def split: option.splits if_splits)

lemma InitImGui_fields:
  assumes "InitImGui E (h, gx, c) = (h', gx', c')" "held_by h gx"
  shows "(h' = h \<and> gx' = gx) \<or> (\<not> g_imguiInit h \<and> g_imguiInit h' \<and> g_hwnd h' = ans_hwnd E
    \<and> g_origWndProc h' = Some (wnd_proc gx (ans_hwnd E)) \<and> wnd_proc gx' = (wnd_proc gx)(ans_hwnd E := OurWndProc)
    \<and> com_refs gx' = (\<lambda>x. com_refs gx x + holds (g_device h') x + holds (g_context h') x + holds (g_rtv h') x)
    \<and> imgui_contexts gx' = imgui_contexts gx + 1 \<and> own_windows gx' = own_windows gx \<and> own_classes gx' = own_classes gx)"
proof (cases "g_imguiInit h \<or> ans_device E = None")
  case True
  with assms(1) show ?thesis by (auto simp: InitImGui_def split: option.splits)
next
  case False
  then obtain d where d: "ans_device E = Some d" and n: "\<not> g_imguiInit h" by auto
  let ?h = "h\<lparr>g_device := d, g_context := ans_context E, g_hwnd := ans_hwnd E\<rparr>"
  let ?g = "com_ref 1 (ans_context E) (com_ref 1 d gx)\<lparr>imgui_contexts := imgui_contexts gx + 1\<rparr>"
  obtain h1 gx1 where t: "CreateRenderTarget E (?h, ?g) = (h1, gx1)" by force
  have "g_rtv ?h = 0" using assms(2) n by (simp add: held_by_def)
  note f = CreateRenderTarget_fields[OF t this]
  have h1: "g_imguiInit h1 = g_imguiInit h" "g_device h1 = d" "g_context h1 = ans_context E" "g_hwnd h1 = ans_hwnd E"
    by (subst f[THEN conjunct1]; simp)+
  from assms(1) d n t have "h' = h1\<lparr>g_origWndProc := Some (wnd_proc gx1 (g_hwnd h1)), g_imguiInit := True\<rparr>"
    and "gx' = gx1\<lparr>wnd_proc := (wnd_proc gx1)(g_hwnd h1 := OurWndProc)\<rparr>"
    by (auto simp: InitImGui_def Let_def)
  with f h1 n show ?thesis by (auto simp: add.assoc)
qed

lemma InitImGui_held:
  assumes "held_by h gx" "InitImGui E (h, gx, c) = (h', gx', c')"
  shows "held_by h' gx'"
  using InitImGui_fields[OF assms(2,1)] assms(1) by (auto simp: held_by_def)

lemma RemoveRenderHook_fields:
  assumes "RemoveRenderHook (h, gx) = (h', gx')"
  shows "com_refs gx' = (\<lambda>x. com_refs gx x - holds (g_rtv h) x - holds (g_context h) x - holds (g_device h) x)
    \<and> imgui_contexts gx' = imgui_contexts gx - (if g_imguiInit h then 1 else 0)
    \<and> own_windows gx' = own_windows gx \<and> own_classes gx' = own_classes gx \<and> wnd_proc gx' = wnd_proc gx
    \<and> g_device h' = 0 \<and> g_context h' = 0 \<and> g_rtv h' = 0 \<and> \<not> g_imguiInit h'"
  using assms by (auto simp: RemoveRenderHook_def Let_def split: if_splits)

lemma RemoveRenderHook_held:
  assumes "held_by h gx" "RemoveRenderHook (h, gx) = (h', gx')"
  shows "held_by h' gx' \<and> \<not> g_imguiInit h'"
  using RemoveRenderHook_fields[OF assms(2)] assms(1) by (simp add: held_by_def)

lemma HookedPresent_init:
  "HookedPresent E J u now (h, gx, c) = Some (h', gx', c') \<Longrightarrow> \<exists>c1. InitImGui E (h, gx, c) = (h', gx', c1)"
  by (auto simp: HookedPresent_def Let_def split: prod.splits if_splits)

lemma render_run_held: "render_run J c0 n (h, gx, c) \<Longrightarrow> held_by h gx"
proof (induction n "(h, gx, c)" arbitrary: h gx c rule: render_run.induct)
  case run_start
  then show ?case by (simp add: held_by_def RenderHook_init_def gfx_init_def)
next
  case (run_frame n s E u now)
  obtain h0 gx0 cc where "s = (h0, gx0, cc)" by (cases s) auto
  with run_frame show ?case by (auto dest!: HookedPresent_init intro: InitImGui_held)
next
  case (run_acquire n h gx c hwnd created vtable ok v gx')
  then show ?case using AcquirePresentPointer_same by blast
next
  case (run_remove n h gx c h' gx')
  then show ?case using RemoveRenderHook_held by blast
qed auto

text \<open>A concrete run: one frame in which the graphics stack answers with five objects.\<close>

definition demo_gfx :: gfx_env where
  "demo_gfx = \<lparr>ans_device = Some 0x10, ans_context = 0x20, ans_hwnd = 0x30, ans_buffer = Some 0x40, ans_rtv = 0x50\<rparr>"

definition demo_hook :: RenderHook where
  "demo_hook = \<lparr>g_imguiInit = True, g_hwnd = 0x30, g_origWndProc = Some GameWndProc, g_device = 0x10,
     g_context = 0x20, g_rtv = 0x50\<rparr>"

definition demo_ui :: ui where
  "demo_ui = \<lparr>ui_click = (\<lambda>_. False), ui_input_text = (\<lambda>_ s. (s, False)), ui_input_int = (\<lambda>_ i. i),
     ui_open = True, ui_table = True\<rparr>"

definition demo_first :: Client where
  "demo_first = Client_init demo_vm GameOffsets_init"

lemma demo_overlay: "overlay_frame demo_json demo_ui t (demo_first\<lparr>cl_modal := Modal_ApplyTheme (cl_modal demo_first)\<rparr>)
    = Some (demo_first\<lparr>cl_modal := Modal_ApplyTheme (cl_modal demo_first)\<rparr>)"
  by (simp add: overlay_frame_def Session_Tick_def Modal_Render_def demo_first_def Client_init_def Session_init_def
      Modal_init_def Modal_ApplyTheme_def)

lemma demo_frame:
  obtains gx where "HookedPresent demo_gfx demo_json demo_ui t (RenderHook_init, gfx_init, demo_first)
    = Some (demo_hook, gx, demo_first\<lparr>cl_modal := Modal_ApplyTheme (cl_modal demo_first)\<rparr>)"
proof -
  have "fst (InitImGui demo_gfx (RenderHook_init, gfx_init, demo_first)) = demo_hook"
    and "snd (snd (InitImGui demo_gfx (RenderHook_init, gfx_init, demo_first)))
      = demo_first\<lparr>cl_modal := Modal_ApplyTheme (cl_modal demo_first)\<rparr>"
    by (simp_all add: InitImGui_def CreateRenderTarget_def Let_def demo_gfx_def demo_hook_def RenderHook_init_def gfx_init_def)
  then obtain gx where "InitImGui demo_gfx (RenderHook_init, gfx_init, demo_first)
      = (demo_hook, gx, demo_first\<lparr>cl_modal := Modal_ApplyTheme (cl_modal demo_first)\<rparr>)"
    by (cases "InitImGui demo_gfx (RenderHook_init, gfx_init, demo_first)") auto
  with that show ?thesis by (simp add: HookedPresent_def demo_hook_def demo_overlay)
qed

lemma demo_run:
  obtains gx c where "render_run demo_json demo_first 0 (demo_hook, gx, c)"
proof -
  obtain gx where "HookedPresent demo_gfx demo_json demo_ui 1 (RenderHook_init, gfx_init, demo_first)
    = Some (demo_hook, gx, demo_first\<lparr>cl_modal := Modal_ApplyTheme (cl_modal demo_first)\<rparr>)" by (rule demo_frame)
  with that run_frame[OF run_start] show ?thesis by blast
qed

text \<open>C27: the render hook owns what it says it owns: after any sequence of frames, messages, dummy swap
  chains and removals, whatever the graphics stack answers, the plugin has exactly one reference on the
  device, the context and the render target view its globals name and none on any other object, one
  ImGui context exactly while it is set up, and no dummy window or class left; so after a removal
  nothing is held at all.\<close>

lemma render_resources_balanced:
  assumes "render_run J c0 n (h, gx, c)"
  shows "(\<forall>x. com_refs gx x = holds (g_device h) x + holds (g_context h) x + holds (g_rtv h) x)
    \<and> imgui_contexts gx = (if g_imguiInit h then 1 else 0) \<and> own_windows gx = 0 \<and> own_classes gx = 0
    \<and> com_refs (snd (RemoveRenderHook (h, gx))) = (\<lambda>_. 0)
    \<and> imgui_contexts (snd (RemoveRenderHook (h, gx))) = 0"
proof -
  have held: "held_by h gx" using render_run_held[OF assms] .
  obtain h' gx' where r: "RemoveRenderHook (h, gx) = (h', gx')" by force
  from RemoveRenderHook_held[OF held r]
  have "com_refs gx' = (\<lambda>_. 0) \<and> imgui_contexts gx' = 0" by (auto simp: held_by_def)
  with held r show ?thesis by (simp add: held_by_def)
qed

lemma render_resources_balanced_witness:
  "\<exists>gx c. render_run demo_json demo_first 0 (demo_hook, gx, c)
     \<and> com_refs gx 0x10 = 1 \<and> com_refs gx 0x40 = 0 \<and> imgui_contexts gx = 1
     \<and> com_refs (snd (RemoveRenderHook (demo_hook, gx))) 0x10 = 0"
proof -
  obtain gx c where "render_run demo_json demo_first 0 (demo_hook, gx, c)" by (rule demo_run)
  with render_resources_balanced[OF this] show ?thesis
    by (auto simp: demo_hook_def holds_def)
qed

section \<open>Window messages\<close>

definition chained :: "RenderHook \<Rightarrow> gfx \<Rightarrow> bool" where
  "chained h gx \<longleftrightarrow> (if g_imguiInit h then g_origWndProc h = Some GameWndProc \<and> wnd_proc gx = (\<lambda>_. GameWndProc)(g_hwnd h := OurWndProc)
     else wnd_proc gx = (\<lambda>_. GameWndProc))"

lemma InitImGui_chained:
  assumes "chained h gx" "InitImGui E (h, gx, c) = (h', gx', c')" "held_by h gx"
  shows "chained h' gx'"
  using InitImGui_fields[OF assms(2,3)] assms(1) by (auto simp: chained_def split: if_splits)

lemma render_run_chained: "render_run J c0 n (h, gx, c) \<Longrightarrow> n = 0 \<Longrightarrow> chained h gx"
proof (induction n "(h, gx, c)" arbitrary: h gx c rule: render_run.induct)
  case run_start
  then show ?case by (simp add: chained_def RenderHook_init_def gfx_init_def)
next
  case (run_frame n s E u now)
  obtain h0 gx0 cc where "s = (h0, gx0, cc)" by (cases s) auto
  with run_frame render_run_held[of J c0 n h0 gx0] InitImGui_chained[of h0 gx0 E] show ?case
    by (auto dest!: HookedPresent_init)
next
  case (run_acquire n h gx c hwnd created vtable ok v gx')
  then show ?case using AcquirePresentPointer_same by blast
qed auto

text \<open>Until the hook is removed, no window message is lost or kept by mistake: a message to any window
  returns; it reaches the game's own procedure unless the window is the one the hook took over and
  the overlay keeps it, which it does for F9 (which toggles the overlay) and, while the overlay is open,
  for the nine mouse and keyboard messages; nothing but the overlay changes.\<close>

lemma window_messages_reach_game:
  assumes "render_run J c0 0 (h, gx, c)"
  shows "deliver h (wnd_proc gx w) msg wParam c = Some
    (if g_imguiInit h \<and> w = g_hwnd h then
       (if msg = WM_KEYDOWN \<and> wParam = VK_F9 then (False, toggle_modal c)
        else (\<not> (Modal_IsOpen (cl_modal c) \<and> msg \<in> set swallowed_messages), c))
     else (True, c))"
  using render_run_chained[OF assms refl]
  by (subst deliver.simps) (auto simp: chained_def HookedWndProc_def deliver.simps[of _ GameWndProc] split: if_splits)

lemma window_messages_reach_game_witness:
  "\<exists>(gx::gfx) c. deliver demo_hook (wnd_proc gx 0x30) WM_KEYDOWN VK_F9 c = Some (False, toggle_modal c)
     \<and> deliver demo_hook (wnd_proc gx 0x31) WM_KEYDOWN VK_F9 c = Some (True, c)"
proof -
  obtain gx c where "render_run demo_json demo_first 0 (demo_hook, gx, c)" by (rule demo_run)
  from window_messages_reach_game[OF this, of "0x30" WM_KEYDOWN VK_F9]
    window_messages_reach_game[OF this, of "0x31" WM_KEYDOWN VK_F9]
  have "deliver demo_hook (wnd_proc gx 0x30) WM_KEYDOWN VK_F9 c = Some (False, toggle_modal c)
     \<and> deliver demo_hook (wnd_proc gx 0x31) WM_KEYDOWN VK_F9 c = Some (True, c)"
    by (simp add: demo_hook_def)
  then show ?thesis by blast
qed

text \<open>Two procedures that name each other never return a message that is passed on.\<close>

lemma deliver_loops:
  assumes "deliver h p msg wParam c = Some r"
  shows "p = OurWndProc \<longrightarrow> g_origWndProc h = Some OurWndProc \<longrightarrow> \<not> fst (HookedWndProc msg wParam c)"
proof (rule deliver.raw_induct[OF _ assms, where P = "\<lambda>h p msg wParam c r. p = OurWndProc
      \<longrightarrow> g_origWndProc h = Some OurWndProc \<longrightarrow> \<not> fst (HookedWndProc msg wParam c)"])
  fix rec h p msg wParam c and r :: "bool \<times> Client"
  assume ih: "\<And>h p msg wParam c r. rec h p msg wParam c = Some r \<Longrightarrow>
      p = OurWndProc \<longrightarrow> g_origWndProc h = Some OurWndProc \<longrightarrow> \<not> fst (HookedWndProc msg wParam c)"
    and body: "(case p of GameWndProc \<Rightarrow> Some (True, c)
      | OurWndProc \<Rightarrow> (case HookedWndProc msg wParam c of
          (on, c) \<Rightarrow> if \<not> on then Some (False, c)
            else (case g_origWndProc h of None \<Rightarrow> None | Some q \<Rightarrow> rec h q msg wParam c))) = Some r"
  have "fst (HookedWndProc msg wParam c) \<Longrightarrow> HookedWndProc msg wParam c = (True, c)"
    by (auto simp: HookedWndProc_def split: if_splits)
  with ih[of h OurWndProc msg wParam c r] body
  show "p = OurWndProc \<longrightarrow> g_origWndProc h = Some OurWndProc \<longrightarrow> \<not> fst (HookedWndProc msg wParam c)"
    by auto
qed

text \<open>C28: unloading leaves the game's window with the plugin: \<open>RemoveRenderHook\<close> gives back everything
  but the window procedure, so the window still calls \<open>HookedWndProc\<close>, in a DLL that is about to be
  freed. And when a frame is presented after it (the hook of \<open>Present\<close> is disabled only later), the
  set-up runs again and takes its own procedure for the game's: from then on no message that the
  overlay does not keep ever returns.\<close>

lemma unload_leaves_window_procedure:
  assumes "render_run J c0 0 (h, gx, c)" and "g_imguiInit h"
    and "RemoveRenderHook (h, gx) = (h1, gx1)"
    and "HookedPresent E J u now (h1, gx1, c1) = Some (h2, gx2, c2)"
    and "ans_device E \<noteq> None" and "ans_hwnd E = g_hwnd h"
  shows "wnd_proc gx1 (g_hwnd h) = OurWndProc
    \<and> g_imguiInit h2 \<and> wnd_proc gx2 (g_hwnd h) = OurWndProc
    \<and> (fst (HookedWndProc msg wParam c3) \<longrightarrow> deliver h2 (wnd_proc gx2 (g_hwnd h)) msg wParam c3 = None)"
proof -
  from render_run_chained[OF assms(1) refl] assms(2) have w: "wnd_proc gx (g_hwnd h) = OurWndProc"
    by (simp add: chained_def)
  have r: "wnd_proc gx1 = wnd_proc gx" "\<not> g_imguiInit h1"
    using RemoveRenderHook_fields[OF assms(3)] by simp_all
  obtain c' where i: "InitImGui E (h1, gx1, c1) = (h2, gx2, c')" using HookedPresent_init[OF assms(4)] by blast
  have held: "held_by h1 gx1" using RemoveRenderHook_held[OF render_run_held[OF assms(1)] assms(3)] by simp
  have "g_imguiInit h2" using i assms(5) by (auto simp: InitImGui_def Let_def split: if_splits prod.splits)
  with InitImGui_fields[OF i held] assms(6) r w
  have s: "g_imguiInit h2 \<and> wnd_proc gx2 (g_hwnd h) = OurWndProc \<and> g_origWndProc h2 = Some OurWndProc"
    by auto
  then have "fst (HookedWndProc msg wParam c3) \<longrightarrow> deliver h2 OurWndProc msg wParam c3 = None"
    using deliver_loops[of h2 OurWndProc msg wParam c3] by (cases "deliver h2 OurWndProc msg wParam c3") auto
  with s w r show ?thesis by simp
qed

lemma unload_leaves_window_procedure_witness:
  "\<exists>h2 (gx2::gfx). deliver h2 (wnd_proc gx2 0x30) WM_KEYUP 0x41 demo_first = None"
proof -
  obtain gx c where run: "render_run demo_json demo_first 0 (demo_hook, gx, c)" by (rule demo_run)
  obtain h1 gx1 where r: "RemoveRenderHook (demo_hook, gx) = (h1, gx1)" by force
  let ?c = "demo_first\<lparr>cl_modal := Modal_ApplyTheme (cl_modal demo_first)\<rparr>"
  have "snd (snd (InitImGui demo_gfx (h1, gx1, demo_first))) = ?c \<and> g_imguiInit (fst (InitImGui demo_gfx (h1, gx1, demo_first)))"
    using RemoveRenderHook_fields[OF r]
    by (simp add: InitImGui_def Let_def demo_gfx_def split: prod.split)
  then obtain h2 gx2 where "HookedPresent demo_gfx demo_json demo_ui 1 (h1, gx1, demo_first) = Some (h2, gx2, ?c)"
    by (cases "InitImGui demo_gfx (h1, gx1, demo_first)") (auto simp: HookedPresent_def demo_overlay)
  note unload = unload_leaves_window_procedure[OF run _ r this, of WM_KEYUP "0x41" demo_first]
  have "fst (HookedWndProc WM_KEYUP 0x41 demo_first)"
    by (simp add: HookedWndProc_def demo_first_def Client_init_def Modal_init_def Modal_IsOpen_def
        WM_KEYUP_def WM_KEYDOWN_def)
  with unload have "deliver h2 (wnd_proc gx2 0x30) WM_KEYUP 0x41 demo_first = None"
    by (auto simp: demo_hook_def demo_gfx_def)
  then show ?thesis by blast
qed

end
