(* ===== verification/Logger.thy ===== *)
theory Logger
  imports Prelude
begin

text \<open>
  \<open>client/src/util/log.cpp\<close>: the logger. The file is a handle and the text written to it; the answers of
  Windows (the roaming folder, whether the file opens, the formatted time, what the C runtime writes for a
  line on a stream opened with \<open>ccs=UTF-8\<close>) are the arguments \<open>log_env\<close>. Every operation holds the mutex
  from its first statement to its end, so each is one step.
\<close>

section \<open>State and operations\<close>

record log_env =
  known_folder :: "string option"        \<comment> \<open>\<open>SHGetKnownFolderPath\<close>, when it succeeds\<close>
  wfopen :: "string \<Rightarrow> nat option"       \<comment> \<open>\<open>_wfopen(path, L"a, ccs=UTF-8")\<close>\<close>
  strf_time :: string                    \<comment> \<open>what \<open>strftime\<close> puts into \<open>ts\<close>\<close>
  put_line :: "string \<Rightarrow> string"          \<comment> \<open>what \<open>fputs\<close> appends to the file\<close>

record Logger =
  g_logFile :: "nat option"
  log_handles :: "nat list"   \<comment> \<open>handles the C runtime has open for the logger\<close>
  log_text :: string          \<comment> \<open>the text of \<open>client.log\<close>\<close>
  log_debug :: "string list"  \<comment> \<open>what \<open>OutputDebugStringA\<close> was given\<close>
  log_dirs :: "string list"   \<comment> \<open>\<open>CreateDirectoryW\<close> calls\<close>

definition Logger_init :: Logger where
  "Logger_init = \<lparr>g_logFile = None, log_handles = [], log_text = [], log_debug = [], log_dirs = []\<rparr>"

definition backslash :: char where "backslash = CHR 0x5C"

definition GetAppDataDir :: "log_env \<Rightarrow> Logger \<Rightarrow> string \<times> Logger" where
  "GetAppDataDir E l =
     (let dir = (case known_folder E of Some appData \<Rightarrow> appData | None \<Rightarrow> ''.'');
          dir = dir @ backslash # ''CDMultiplayer''
      in (dir, l\<lparr>log_dirs := log_dirs l @ [dir]\<rparr>))"

definition LogInit :: "log_env \<Rightarrow> Logger \<Rightarrow> Logger" where
  "LogInit E l =
     (if g_logFile l \<noteq> None then l
      else let (dir, l) = GetAppDataDir E l; path = dir @ backslash # ''client.log''
           in case wfopen E path of
                None \<Rightarrow> l\<lparr>g_logFile := None\<rparr>
              | Some f \<Rightarrow> l\<lparr>g_logFile := Some f, log_handles := f # log_handles l\<rparr>)"

definition LogShutdown :: "Logger \<Rightarrow> Logger" where
  "LogShutdown l =
     (case g_logFile l of
        None \<Rightarrow> l
      | Some f \<Rightarrow> l\<lparr>log_handles := remove1 f (log_handles l), g_logFile := None\<rparr>)"

text \<open>\<open>%s\<close> stops at the first zero character; \<open>_snprintf_s\<close> with \<open>_TRUNCATE\<close> fills at most
  \<open>sizeof(line) - 1\<close> characters.\<close>

definition c_str :: "string \<Rightarrow> string" where
  "c_str s = takeWhile (\<lambda>ch. ch \<noteq> CHR 0x00) s"

definition log_line :: "string \<Rightarrow> string \<Rightarrow> string \<Rightarrow> string" where
  "log_line ts level msg =
     take (1024 - 1) (''['' @ ts @ ''] ['' @ level @ ''] '' @ c_str msg @ [CHR 0x0A])"

definition LogLine :: "log_env \<Rightarrow> string \<Rightarrow> string \<Rightarrow> Logger \<Rightarrow> Logger" where
  "LogLine E level msg l =
     (let line = log_line (strf_time E) level msg;
          l = (if g_logFile l \<noteq> None then l\<lparr>log_text := log_text l @ put_line E line\<rparr> else l)
      in l\<lparr>log_debug := log_debug l @ [line]\<rparr>)"

section \<open>Lines\<close>

lemma length_log_line: "length (log_line ts level msg) \<le> 1023"
  by (simp add: log_line_def)

lemma c_str_short: "length (c_str msg) \<le> length msg"
  by (simp add: c_str_def length_takeWhile_le)

text \<open>A message that fits is logged in full, with its newline; a longer one loses its newline.\<close>

lemma log_line_fits:
  assumes "length ts + length level + length msg \<le> 1016"
  shows "log_line ts level msg = ''['' @ ts @ ''] ['' @ level @ ''] '' @ c_str msg @ [CHR 0x0A]"
  using assms c_str_short[of msg] by (simp add: log_line_def)

lemma log_line_cut:
  assumes "1017 \<le> length ts + length level + length (c_str msg)" "length ts + length level \<le> 1017"
  shows "log_line ts level msg
    = ''['' @ ts @ ''] ['' @ level @ ''] '' @ take (1017 - length ts - length level) (c_str msg)"
proof -
  have "1023 = length (''['' @ ts @ ''] ['' @ level @ ''] '') + (1017 - length ts - length level)"
    using assms(2) by simp
  then show ?thesis
    using assms unfolding log_line_def by (simp add: take_Cons' take_append)
qed

section \<open>Any sequence of calls\<close>

datatype log_op = Do_Init | Do_Shutdown | Do_Line string string

fun log_step :: "log_env \<times> log_op \<Rightarrow> Logger \<Rightarrow> Logger" where
  "log_step (E, Do_Init) l = LogInit E l"
| "log_step (E, Do_Shutdown) l = LogShutdown l"
| "log_step (E, Do_Line level msg) l = LogLine E level msg l"

text \<open>The specification: which lines go to the debugger, and which to the file: those between a \<open>LogInit\<close>
  whose file opens and the next \<open>LogShutdown\<close>.\<close>

definition log_path :: "log_env \<Rightarrow> string" where
  "log_path E = fst (GetAppDataDir E Logger_init) @ backslash # ''client.log''"

fun debug_lines :: "(log_env \<times> log_op) list \<Rightarrow> string list" where
  "debug_lines [] = []"
| "debug_lines ((E, Do_Line level msg) # ops) = log_line (strf_time E) level msg # debug_lines ops"
| "debug_lines (_ # ops) = debug_lines ops"

fun file_text :: "bool \<Rightarrow> (log_env \<times> log_op) list \<Rightarrow> string" where
  "file_text b [] = []"
| "file_text b ((E, Do_Init) # ops) = file_text (b \<or> wfopen E (log_path E) \<noteq> None) ops"
| "file_text b ((E, Do_Shutdown) # ops) = file_text False ops"
| "file_text b ((E, Do_Line level msg) # ops) =
     (if b then put_line E (log_line (strf_time E) level msg) else []) @ file_text b ops"

definition log_inv :: "Logger \<Rightarrow> bool" where
  "log_inv l \<longleftrightarrow> log_handles l = (case g_logFile l of None \<Rightarrow> [] | Some f \<Rightarrow> [f])"

lemma LogInit_effect:
  "log_inv l \<Longrightarrow> log_inv (LogInit E l)
     \<and> (g_logFile (LogInit E l) \<noteq> None \<longleftrightarrow> g_logFile l \<noteq> None \<or> wfopen E (log_path E) \<noteq> None)
     \<and> log_text (LogInit E l) = log_text l \<and> log_debug (LogInit E l) = log_debug l"
  by (auto simp: log_inv_def LogInit_def GetAppDataDir_def log_path_def Let_def split: option.splits)

lemma log_run_inv:
  "log_inv l \<Longrightarrow> (let m = fold log_step ops l in
     log_inv m \<and> log_debug m = log_debug l @ debug_lines ops
     \<and> log_text m = log_text l @ file_text (g_logFile l \<noteq> None) ops)"
proof (induction ops arbitrary: l)
  case Nil
  then show ?case by (simp add: Let_def)
next
  case (Cons op ops)
  obtain E o' where op: "op = (E, o')" by force
  show ?case
  proof (cases o')
    case Do_Init
    with op Cons.IH[of "LogInit E l"] LogInit_effect[OF Cons.prems] show ?thesis by (simp add: Let_def)
  next
    case Do_Shutdown
    have "log_inv (LogShutdown l)" "log_text (LogShutdown l) = log_text l"
      "log_debug (LogShutdown l) = log_debug l" "g_logFile (LogShutdown l) = None"
      using Cons.prems by (auto simp: log_inv_def LogShutdown_def split: option.splits)
    with op Do_Shutdown Cons.IH[of "LogShutdown l"] show ?thesis by (simp add: Let_def)
  next
    case (Do_Line level msg)
    have "log_inv (LogLine E level msg l)" "g_logFile (LogLine E level msg l) = g_logFile l"
      using Cons.prems by (auto simp: log_inv_def LogLine_def Let_def)
    with op Do_Line Cons.IH[of "LogLine E level msg l"] show ?thesis by (simp add: LogLine_def Let_def)
  qed
qed

text \<open>The log: over any sequence of calls from any threads, with any answers of Windows, the logger
  never holds more than the one file it will close, the debugger gets every line, each at most 1023
  characters, and the file exactly the lines logged while it was open, in order.\<close>

lemma log_file_gets_lines_while_open:
  "let l = fold log_step ops Logger_init in
     log_handles l = (case g_logFile l of None \<Rightarrow> [] | Some f \<Rightarrow> [f])
   \<and> log_debug l = debug_lines ops \<and> log_text l = file_text False ops
   \<and> list_all (\<lambda>line. length line \<le> 1023) (log_debug l)"
proof -
  have "list_all (\<lambda>line. length line \<le> 1023) (debug_lines ops)"
    using length_log_line by (induction ops rule: debug_lines.induct) simp_all
  moreover have "log_inv Logger_init" by (simp add: log_inv_def Logger_init_def)
  ultimately show ?thesis
    using log_run_inv[of Logger_init ops] by (simp add: Let_def log_inv_def Logger_init_def)
qed

end
