(* ===== verification/Json_Text.thy ===== *)
theory Json_Text
  imports Protocol
begin

text \<open>
  Text in JSON documents. \<open>nlohmann::json\<close> stores strings as they are given but accepts and writes only
  valid UTF-8: its parser rejects other input, and \<open>dump\<close> throws \<open>type_error.316\<close> on a document that
  holds another string. What the client may rely on is the locale \<open>json_text\<close>: which documents can be
  written (\<open>clean\<close>), in terms of the strings they were built from.
\<close>

section \<open>UTF-8\<close>

text \<open>The byte ranges that follow a lead byte (Unicode, table 3-7); \<open>utf8_from rs\<close> reads the rest of a text
  when bytes in the ranges \<open>rs\<close> are still due.\<close>

definition utf8_lead :: "nat \<Rightarrow> (nat \<times> nat) list option" where
  "utf8_lead b =
     (let tail = (0x80, 0xBF)
      in if b \<le> 0x7F then Some []
         else if b < 0xC2 then None
         else if b \<le> 0xDF then Some [tail]
         else if b = 0xE0 then Some [(0xA0, 0xBF), tail]
         else if b = 0xED then Some [(0x80, 0x9F), tail]
         else if b \<le> 0xEF then Some [tail, tail]
         else if b = 0xF0 then Some [(0x90, 0xBF), tail, tail]
         else if b \<le> 0xF3 then Some [tail, tail, tail]
         else if b = 0xF4 then Some [(0x80, 0x8F), tail, tail]
         else None)"

fun utf8_from :: "(nat \<times> nat) list \<Rightarrow> string \<Rightarrow> bool" where
  "utf8_from rs [] = (rs = [])"
| "utf8_from [] (c # cs) = (case utf8_lead (of_char c) of None \<Rightarrow> False | Some rs \<Rightarrow> utf8_from rs cs)"
| "utf8_from ((lo, hi) # rs) (c # cs) = (lo \<le> (of_char c :: nat) \<and> of_char c \<le> hi \<and> utf8_from rs cs)"

definition utf8 :: "string \<Rightarrow> bool" where
  "utf8 s = utf8_from [] s"

lemma utf8_ascii: "list_all (\<lambda>c. (of_char c :: nat) \<le> 0x7F) s \<Longrightarrow> utf8 s"
  unfolding utf8_def by (induction s) (simp_all add: utf8_lead_def Let_def)

lemma utf8_append: "utf8 s \<Longrightarrow> utf8 t \<Longrightarrow> utf8 (s @ t)"
proof -
  have "utf8_from rs s \<Longrightarrow> utf8_from [] t \<Longrightarrow> utf8_from rs (s @ t)" for rs
    by (induction rs s rule: utf8_from.induct) (auto split: option.splits)
  then show "utf8 s \<Longrightarrow> utf8 t \<Longrightarrow> utf8 (s @ t)" by (simp add: utf8_def)
qed

lemma utf8_examples: "utf8 [CHR 0xC3, CHR 0xA9]" "\<not> utf8 [CHR 0xE9]"
  by (simp_all add: utf8_def utf8_lead_def Let_def)

section \<open>The library\<close>

locale json_text = json_laws J for J :: "'j json_lib" +
  fixes clean :: "'j \<Rightarrow> bool"
  assumes dump_clean: "j_dump J j \<noteq> None \<longleftrightarrow> clean j"
    and parse_clean: "j_parse J s = Some j \<Longrightarrow> clean j"
    and clean_null: "clean (j_null J)"
    and clean_bool: "clean (j_bool J b)"
    and clean_int: "clean (j_int J i)"
    and clean_f32: "clean (j_f32 J x)"
    and clean_str: "clean (j_str J s) \<longleftrightarrow> utf8 s"
    and clean_arr: "clean (j_arr J xs) \<longleftrightarrow> list_all clean xs"
    and clean_obj: "list_all (\<lambda>(k, v). utf8 k \<and> clean v) fs \<Longrightarrow> clean (j_obj J fs)"
    and clean_set: "clean j \<Longrightarrow> utf8 k \<Longrightarrow> clean v \<Longrightarrow> clean (j_set J j k v)"
    and clean_at: "clean j \<Longrightarrow> j_contains J j k \<Longrightarrow> clean (j_at J j k)"
    and get_clean: "clean j \<Longrightarrow> get_str J j = Some s \<Longrightarrow> utf8 s"
begin

lemmas clean_intros = clean_null clean_bool clean_int clean_f32 clean_str[THEN iffD2] clean_obj clean_set

lemma utf8_names: "utf8 (PacketTypeToString ty)"
  by (rule utf8_ascii) (cases ty; simp add: PacketTypeToString_def kTable_def)

lemma SerializePacket_clean: "SerializePacket J ty j \<noteq> None \<longleftrightarrow> clean j"
proof -
  let ?p = "j_set J (j_set J (j_null J) ''t'' (j_str J (PacketTypeToString ty))) ''d'' j"
  have utf8: "utf8 ''t''" "utf8 ''d''" by (simp_all add: utf8_ascii)
  have "clean j" if "clean ?p" using clean_at[OF that, of "''d''"] by (simp add: set_eqs)
  moreover have "clean ?p" if "clean j" using that utf8 by (simp add: clean_intros utf8_names)
  ultimately have "clean ?p \<longleftrightarrow> clean j" by blast
  then show ?thesis using dump_clean[of ?p] by (simp add: SerializePacket_def Let_def)
qed

lemma DeserializePacket_clean: "DeserializePacket J raw = (ty, d) \<Longrightarrow> clean d"
  by (auto simp: DeserializePacket_def clean_null clean_obj clean_at parse_clean split: option.splits if_splits)

lemma value_str_clean: "clean d \<Longrightarrow> utf8 k' \<Longrightarrow> value_str J d k k' = Some s \<Longrightarrow> utf8 s"
  by (auto simp: value_str_eq intro: get_clean clean_at split: if_splits)

end

section \<open>A concrete instance\<close>

fun jv_clean :: "jv \<Rightarrow> bool" where
  "jv_clean (JStr s) = utf8 s"
| "jv_clean (JArr xs) = list_all jv_clean xs"
| "jv_clean (JObj fs) = list_all (\<lambda>kv. utf8 (fst kv) \<and> jv_clean (snd kv)) fs"
| "jv_clean _ = True"

definition jv_text_lib :: "(string \<Rightarrow> jv option) \<Rightarrow> (jv \<Rightarrow> string) \<Rightarrow> jv json_lib" where
  "jv_text_lib parse dump =
     jv_lib (\<lambda>s. case parse s of Some j \<Rightarrow> if jv_clean j then Some j else None | None \<Rightarrow> None)
       (\<lambda>j. if jv_clean j then Some (dump j) else None)"

lemma jv_clean_at: "jv_clean j \<Longrightarrow> jv_contains j k \<Longrightarrow> jv_clean (jv_at j k)"
  by (cases j) (auto simp: list_all_iff split: option.split dest!: map_of_SomeD)

lemma jv_clean_str: "jv_clean j \<Longrightarrow> jv_str j = Some s \<Longrightarrow> utf8 s"
  by (cases j) auto

lemma jv_clean_set: "jv_clean j \<Longrightarrow> utf8 k \<Longrightarrow> jv_clean v \<Longrightarrow> jv_clean (jv_set j k v)"
  by (cases j) auto

lemma jv_text_laws: "json_laws (jv_text_lib parse dump)"
  unfolding jv_text_lib_def by (rule jt.json_laws_axioms)

interpretation jtext: json_text "jv_text_lib parse dump" jv_clean for parse dump
proof (rule json_text.intro[OF jv_text_laws], unfold_locales)
  fix j :: jv and k s :: string
  show "j_contains (jv_text_lib parse dump) j k \<Longrightarrow> jv_clean j \<Longrightarrow> jv_clean (j_at (jv_text_lib parse dump) j k)"
    using jv_clean_at[of j k] by (simp add: jv_text_lib_def jv_lib_def)
  show "jv_clean j \<Longrightarrow> get_str (jv_text_lib parse dump) j = Some s \<Longrightarrow> utf8 s"
    using jv_clean_str[of j s] by (simp add: jv_text_lib_def jv_lib_def)
  fix v :: jv
  show "jv_clean j \<Longrightarrow> utf8 k \<Longrightarrow> jv_clean v \<Longrightarrow> jv_clean (j_set (jv_text_lib parse dump) j k v)"
    using jv_clean_set[of j k v] by (simp add: jv_text_lib_def jv_lib_def)
qed (auto simp: jv_text_lib_def jv_lib_def list_all_iff split: option.splits if_splits)

end
