(* ===== verification/Wire_Types.thy ===== *)
theory Wire_Types
  imports System Session_Props Json_Text
begin

text \<open>
  The types of the wire protocol (\<open>docs/protocol.md\<close>) as the client reads them, and progress: a message
  of its type is handled, in every reachable state in which the client's answers can be written, without
  an exception.
\<close>

section \<open>Types of JSON documents\<close>

text \<open>\<open>WRec\<close>: an object whose fields, where present, have the given types. \<open>WTest\<close>: the code looks at the
  kind of the value first, so another kind is as good as absent.\<close>

datatype wire_type =
    WBool | WI32 | WU32 | WU64 | WF32 | WStr | WI32s
  | WArr wire_type
  | WRec "(string \<times> wire_type) list"
  | WTest wire_type

fun of_kind :: "'j json_lib \<Rightarrow> wire_type \<Rightarrow> 'j \<Rightarrow> bool" where
  "of_kind J WBool j = j_is_boolean J j"
| "of_kind J WStr j = j_is_string J j"
| "of_kind J WI32s j = j_is_array J j"
| "of_kind J (WArr t) j = j_is_array J j"
| "of_kind J (WRec fs) j = j_is_object J j"
| "of_kind J _ j = True"

fun well_typed :: "'j json_lib \<Rightarrow> wire_type \<Rightarrow> 'j \<Rightarrow> bool" where
  "well_typed J WBool j = (get_bool J j \<noteq> None)"
| "well_typed J WI32 j = (get_i32 J j \<noteq> None)"
| "well_typed J WU32 j = (get_u32 J j \<noteq> None)"
| "well_typed J WU64 j = (get_u64 J j \<noteq> None)"
| "well_typed J WF32 j = (get_f32 J j \<noteq> None)"
| "well_typed J WStr j = (get_str J j \<noteq> None)"
| "well_typed J WI32s j = (get_i32s J j \<noteq> None)"
| "well_typed J (WArr t) j = list_all (well_typed J t) (j_elems J j)"
| "well_typed J (WRec fs) j =
     (j_is_object J j \<and> list_all (\<lambda>(k, t). j_contains J j k \<longrightarrow> well_typed J t (j_at J j k)) fs)"
| "well_typed J (WTest t) j = (of_kind J t j \<longrightarrow> well_typed J t j)"

section \<open>The payload of each message\<close>

definition xyz_fields :: "(string \<times> wire_type) list" where
  "xyz_fields = [(''x'', WF32), (''y'', WF32), (''z'', WF32)]"

definition anim_fields :: "(string \<times> wire_type) list" where
  "anim_fields = [(''anim_id'', WI32), (''anim_time'', WF32), (''move_flags'', WU32),
     (''combat_flags'', WU32), (''blend_weight'', WF32)]"

definition traversal_fields :: "(string \<times> wire_type) list" where
  "traversal_fields = [(''mode'', WI32), (''animId'', WI32), (''animTime'', WF32), (''progress'', WF32),
     (''targetPos'', WRec xyz_fields)]"

abbreviation "xyz_type \<equiv> WRec xyz_fields"
abbreviation "anim_type \<equiv> WRec anim_fields"
abbreviation "traversal_type \<equiv> WRec traversal_fields"

definition player_fields :: "(string \<times> wire_type) list" where
  "player_fields =
    [(''id'', WStr), (''name'', WStr), (''position'', xyz_type), (''velocity'', xyz_type), (''health'', WF32),
     (''maxHealth'', WF32), (''isHost'', WBool), (''ping'', WI32), (''inCutscene'', WTest WBool),
     (''animState'', anim_type), (''traversalState'', WTest traversal_type),
     (''skillId'', WI32), (''skillPhase'', WI32), (''skillAnimId'', WI32), (''skillTargetEntity'', WI32),
     (''skillTargetPos'', xyz_type), (''activeVfx'', WTest WI32s), (''statusFlags'', WU32),
     (''buffIds'', WTest WI32s), (''weaponId'', WI32), (''weaponStance'', WI32), (''offHandId'', WI32),
     (''isMounted'', WBool), (''mountEntityId'', WI32), (''mountAnimId'', WI32), (''mountAnimTime'', WF32),
     (''mountPosition'', xyz_type), (''dodgeDirection'', xyz_type), (''isDead'', WBool),
     (''respawnPosition'', xyz_type), (''interactionType'', WI32), (''interactionEntityId'', WI32)]"

definition enemy_fields :: "(string \<times> wire_type) list" where
  "enemy_fields = [(''id'', WStr), (''health'', WF32), (''maxHealth'', WF32), (''position'', xyz_type),
     (''animState'', anim_type)]"

definition rpc_fields :: "(string \<times> wire_type) list" where
  "rpc_fields = [(''type'', WStr), (''sourceId'', WStr), (''targetEntityId'', WU64), (''anim_id'', WI32),
     (''damage'', WF32), (''enemies'', WTest (WArr (WRec enemy_fields))), (''skillId'', WI32),
     (''phase'', WI32), (''targetEntity'', WI32), (''targetPos'', xyz_type)]"

definition players_field :: "string \<times> wire_type" where
  "players_field = (''players'', WTest (WArr (WRec player_fields)))"

definition payload_fields :: "PacketType \<Rightarrow> (string \<times> wire_type) list" where
  "payload_fields ty =
     (case ty of
        HANDSHAKE_ACK \<Rightarrow> [(''playerId'', WStr), (''serverName'', WStr)]
      | JOIN_ACK \<Rightarrow> [(''isHost'', WBool), (''friendlyFire'', WBool), (''inviteCode'', WStr),
          (''sessionName'', WStr), players_field]
      | JOIN_DENIED \<Rightarrow> [(''reason'', WStr)]
      | PLAYER_JOIN \<Rightarrow> [(''player'', WRec player_fields)]
      | PLAYER_LEAVE \<Rightarrow> [(''playerId'', WStr)]
      | STATE_UPDATE \<Rightarrow> [players_field]
      | ANIMATION_UPDATE \<Rightarrow> [(''playerId'', WStr), (''animState'', anim_type)]
      | RPC_CALL \<Rightarrow> rpc_fields
      | HOST_REASSIGN \<Rightarrow> [(''newHostId'', WStr)]
      | LOOT_TAKEN \<Rightarrow> [(''lootId'', WStr)]
      | CUTSCENE_START \<Rightarrow> [(''playerId'', WStr)]
      | CUTSCENE_END \<Rightarrow> [(''playerId'', WStr)]
      | PUZZLE_START \<Rightarrow> [(''puzzleId'', WStr)]
      | PUZZLE_TOKEN \<Rightarrow> [(''queue'', WTest (WArr WStr)), (''puzzleId'', WStr), (''controllerId'', WStr),
          (''remainingMs'', WI32)]
      | PUZZLE_END \<Rightarrow> [(''puzzleId'', WStr)]
      | KICK \<Rightarrow> [(''reason'', WStr)]
      | SERVER_INFO \<Rightarrow> [(''sessionName'', WStr)]
      | _ \<Rightarrow> [])"

lemmas field_defs = xyz_fields_def anim_fields_def traversal_fields_def player_fields_def enemy_fields_def
  rpc_fields_def

lemmas member_defs = field_defs[THEN arg_cong[where f = "\<lambda>fs. x \<in> set fs" for x]]

section \<open>Computations that return\<close>

text \<open>\<open>returns m\<close>: \<open>m\<close> throws no exception. The equations follow the syntax of the handlers; together
  with the types of the fields they reduce a handler to nothing.\<close>

definition returns :: "'a option \<Rightarrow> bool" where
  "returns m \<longleftrightarrow> m \<noteq> None"

named_theorems returns_simps

lemma returns_Some [returns_simps]: "returns (Some a)"
  by (simp add: returns_def)

lemma returns_bind [returns_simps]:
  "returns (Option.bind m f) \<longleftrightarrow> returns m \<and> (\<forall>a. m = Some a \<longrightarrow> returns (f a))"
  by (cases m) (simp_all add: returns_def)

lemma returns_if [returns_simps]:
  "returns (if b then m else n) \<longleftrightarrow> (b \<longrightarrow> returns m) \<and> (\<not> b \<longrightarrow> returns n)"
  by simp

lemma returns_foldM: "(\<And>x s. x \<in> set xs \<Longrightarrow> returns (f x s)) \<Longrightarrow> returns (foldM f xs s)"
  by (induction xs arbitrary: s) (auto simp: returns_simps)

text \<open>Reading a field of a record.\<close>

lemma rec_field:
  "well_typed J (WRec fs) d \<Longrightarrow> (k, t) \<in> set fs \<Longrightarrow> j_contains J d k \<Longrightarrow> well_typed J t (j_at J d k)"
  by (auto simp: list_all_iff)

lemma rec_test:
  "well_typed J (WRec fs) d \<Longrightarrow> (k, WTest t) \<in> set fs \<Longrightarrow> j_contains J d k \<Longrightarrow> of_kind J t (j_at J d k)
     \<Longrightarrow> well_typed J t (j_at J d k)"
  by (frule rec_field, assumption, assumption, simp)

lemma field_returns:
  assumes "well_typed J (WRec fs) d" "j_contains J d k"
  shows "(k, WBool) \<in> set fs \<Longrightarrow> returns (get_bool J (j_at J d k))"
    and "(k, WI32) \<in> set fs \<Longrightarrow> returns (get_i32 J (j_at J d k))"
    and "(k, WF32) \<in> set fs \<Longrightarrow> returns (get_f32 J (j_at J d k))"
    and "(k, WStr) \<in> set fs \<Longrightarrow> returns (get_str J (j_at J d k))"
    and "(k, WTest WBool) \<in> set fs \<Longrightarrow> j_is_boolean J (j_at J d k) \<Longrightarrow> returns (get_bool J (j_at J d k))"
    and "(k, WTest WI32s) \<in> set fs \<Longrightarrow> j_is_array J (j_at J d k) \<Longrightarrow> returns (get_i32s J (j_at J d k))"
  using rec_field[OF assms(1) _ assms(2)] by (fastforce simp: returns_def)+

context json_laws begin

lemma value_returns:
  assumes "well_typed J (WRec fs) d"
  shows "(k, WBool) \<in> set fs \<Longrightarrow> returns (value_bool J d k b)"
    and "(k, WI32) \<in> set fs \<Longrightarrow> returns (value_i32 J d k i)"
    and "(k, WU32) \<in> set fs \<Longrightarrow> returns (value_u32 J d k u)"
    and "(k, WU64) \<in> set fs \<Longrightarrow> returns (value_u64 J d k w)"
    and "(k, WF32) \<in> set fs \<Longrightarrow> returns (value_f32 J d k x)"
    and "(k, WStr) \<in> set fs \<Longrightarrow> returns (value_str J d k s)"
  using assms rec_field[OF assms, of k WBool] rec_field[OF assms, of k WI32] rec_field[OF assms, of k WU32]
    rec_field[OF assms, of k WU64] rec_field[OF assms, of k WF32] rec_field[OF assms, of k WStr]
  by (simp_all add: value_eqs returns_def)

lemma value_xyz_returns: "well_typed J xyz_type d \<Longrightarrow> returns (value_xyz J d)"
  by (simp add: value_xyz_def returns_simps value_returns[of xyz_fields] member_defs del: well_typed.simps)

end

section \<open>The player record\<close>

abbreviation "player_type \<equiv> WRec player_fields"

lemma player_rec:
  assumes "well_typed J player_type p"
  shows "j_contains J p ''position'' \<Longrightarrow> well_typed J xyz_type (j_at J p ''position'')"
    and "j_contains J p ''velocity'' \<Longrightarrow> well_typed J xyz_type (j_at J p ''velocity'')"
    and "j_contains J p ''skillTargetPos'' \<Longrightarrow> well_typed J xyz_type (j_at J p ''skillTargetPos'')"
    and "j_contains J p ''mountPosition'' \<Longrightarrow> well_typed J xyz_type (j_at J p ''mountPosition'')"
    and "j_contains J p ''dodgeDirection'' \<Longrightarrow> well_typed J xyz_type (j_at J p ''dodgeDirection'')"
    and "j_contains J p ''respawnPosition'' \<Longrightarrow> well_typed J xyz_type (j_at J p ''respawnPosition'')"
    and "j_contains J p ''animState'' \<Longrightarrow> well_typed J anim_type (j_at J p ''animState'')"
    and "j_contains J p ''traversalState'' \<Longrightarrow> j_is_object J (j_at J p ''traversalState'')
      \<Longrightarrow> well_typed J traversal_type (j_at J p ''traversalState'')"
  by (rule rec_field[OF assms] rec_test[OF assms]; simp add: player_fields_def)+

lemma traversal_pos:
  "well_typed J traversal_type t \<Longrightarrow> j_contains J t ''targetPos'' \<Longrightarrow> well_typed J xyz_type (j_at J t ''targetPos'')"
  by (erule rec_field) (simp_all add: traversal_fields_def)

context json_laws begin

lemma parse_traversal_returns:
  assumes "well_typed J player_type p"
  shows "returns (parse_traversal J p gp)"
  by (simp add: parse_traversal_def Let_def returns_simps player_rec[OF assms] traversal_pos value_xyz_returns
      value_returns[of traversal_fields] member_defs del: well_typed.simps)

lemma parse_groups_return:
  assumes "well_typed J player_type p"
  shows "returns (parse_skill J p gp)" "returns (parse_vfx J p gp)" "returns (parse_status J p gp)"
    "returns (parse_equipment J p gp)" "returns (parse_mount J p gp)" "returns (parse_dodge J p gp)"
    "returns (parse_death J p gp)" "returns (parse_respawn J p gp)" "returns (parse_interaction J p gp)"
  by (simp_all add: parse_skill_def parse_vfx_def parse_status_def parse_equipment_def parse_mount_def parse_dodge_def
    parse_death_def parse_respawn_def parse_interaction_def Let_def returns_simps player_rec[OF assms] value_xyz_returns
    value_returns[OF assms] field_returns[OF assms] value_returns[of xyz_fields] member_defs del: well_typed.simps)

lemma ParseGameplay_returns: "well_typed J player_type p \<Longrightarrow> returns (ParseGameplay J p gp)"
  by (simp add: ParseGameplay_def returns_simps parse_traversal_returns parse_groups_return del: well_typed.simps)


lemma parse_anim_state_returns: "well_typed J anim_type a \<Longrightarrow> returns (parse_anim_state J a rp)"
  by (simp add: parse_anim_state_def Let_def returns_simps value_returns[of anim_fields] member_defs del: well_typed.simps)

lemma update_remote_returns:
  assumes "well_typed J player_type p"
  shows "returns (update_remote J now i p rp)"
  by (simp add: update_remote_def Let_def returns_simps player_rec[OF assms] value_xyz_returns parse_anim_state_returns
      field_returns[OF assms] ParseGameplay_returns[OF assms] member_defs del: well_typed.simps)

lemma ApplyStateUpdate_returns:
  assumes "j_is_array J players \<Longrightarrow> well_typed J (WArr player_type) players"
  shows "returns (ApplyStateUpdate J now players ps)"
proof -
  have "returns (apply_player J now p ps)" if "well_typed J player_type p" for p ps
    by (simp add: apply_player_def returns_simps field_returns[OF that] update_remote_returns[OF that] member_defs
        del: well_typed.simps)
  with assms show ?thesis by (auto simp: ApplyStateUpdate_def list_all_iff intro!: returns_foldM returns_Some simp del: well_typed.simps(9))
qed

lemma ApplyAnimationUpdate_returns:
  "well_typed J anim_type a \<Longrightarrow> returns (ApplyAnimationUpdate J i a ps)"
  by (simp add: ApplyAnimationUpdate_def Let_def returns_simps value_returns[of anim_fields] member_defs
      del: well_typed.simps split: option.split)

section \<open>Calls\<close>

lemma update_enemy_returns:
  assumes "well_typed J (WRec enemy_fields) e"
  shows "returns (update_enemy J g e st)"
proof -
  have r: "j_contains J e ''position'' \<Longrightarrow> well_typed J xyz_type (j_at J e ''position'')"
    "j_contains J e ''animState'' \<Longrightarrow> well_typed J anim_type (j_at J e ''animState'')"
    by (rule rec_field[OF assms]; simp add: enemy_fields_def)+
  show ?thesis
    by (simp add: update_enemy_def Let_def returns_simps split_beta r value_xyz_returns value_returns[OF assms]
        value_returns[of anim_fields] member_defs del: well_typed.simps)
qed

end

text \<open>The two answers the handlers send: the join request, with the strings the user entered, and the
  host's answer to an attack, with the sender's id out of the message. They can be written when these
  strings are UTF-8; those of a message that was parsed are.\<close>

definition join_utf8 :: "Session \<Rightarrow> bool" where
  "join_utf8 s \<longleftrightarrow> utf8 (pendingPassword s)
     \<and> utf8 (if wantCreate s then pendingSessionName s else pendingInviteCode s)"

lemma join_utf8_update: "join_utf8 (s\<lparr>ss_localId := i, serverName := sn, status := st\<rparr>) = join_utf8 s"
  by (simp add: join_utf8_def)

context json_text begin

lemma join_request_clean: "clean (join_request J s) \<longleftrightarrow> join_utf8 s"
proof
  assume c: "clean (join_request J s)"
  show "join_utf8 s"
    using clean_at[OF c, of "''password''"] clean_at[OF c, of "''sessionName''"] clean_at[OF c, of "''inviteCode''"]
    by (cases "wantCreate s") (simp_all add: join_utf8_def join_request_def Let_def set_eqs obj_eqs clean_str)
next
  assume "join_utf8 s"
  then show "clean (join_request J s)"
    by (cases "wantCreate s") (simp_all add: join_request_def join_utf8_def Let_def clean_intros utf8_ascii)
qed

lemma damage_json_clean: "utf8 src \<Longrightarrow> clean (damage_json J src t x a)"
  by (simp add: damage_json_def j_i32_def clean_intros utf8_ascii)

lemma on_rpc_call_returns:
  assumes "well_typed J (WRec rpc_fields) d" and d: "clean d" and "cs_client (cl_combat c)"
  shows "returns (on_rpc_call J d c)"
proof -
  have pos: "j_contains J d ''targetPos'' \<Longrightarrow> well_typed J xyz_type (j_at J d ''targetPos'')"
    by (rule rec_field[OF assms(1)]; simp add: rpc_fields_def)
  have enemies: "j_contains J d ''enemies'' \<Longrightarrow> j_is_array J (j_at J d ''enemies'')
      \<Longrightarrow> well_typed J (WArr (WRec enemy_fields)) (j_at J d ''enemies'')"
    by (rule rec_test[OF assms(1)]; simp add: rpc_fields_def)
  note fields = value_returns[OF assms(1)]
  have answer: "returns (SerializePacket J RPC_CALL (damage_json J src t x a))" if "value_str J d ''sourceId'' [] = Some src" for src t x a
    unfolding returns_def SerializePacket_clean
    by (rule damage_json_clean, rule value_str_clean[OF d _ that]) (simp add: utf8_ascii)
  have "returns (HandleAttackRpc J d (cl_combat c) w)" for w
    using assms(3) by (auto simp: HandleAttackRpc_def Let_def returns_simps Send_def answer fields member_defs simp del: well_typed.simps)
  moreover have "returns (HandleDamageRpc J g d st)" for g st
    by (simp add: HandleDamageRpc_def Let_def returns_simps split_beta fields member_defs del: well_typed.simps)
  moreover have "returns (HandleEnemyUpdate J g d st)" for g st
    using enemies by (auto simp: HandleEnemyUpdate_def Let_def split_beta list_all_iff simp del: well_typed.simps(9)
        intro!: returns_foldM update_enemy_returns returns_Some)
  moreover have "returns (HandleSkillRpc J g rs d cs m)" for g rs cs m
    by (simp add: HandleSkillRpc_def Let_def returns_simps fields pos value_xyz_returns member_defs del: well_typed.simps)
  ultimately show ?thesis
    by (simp add: on_rpc_call_def returns_simps fields member_defs split_beta del: well_typed.simps)
qed

lemma get_strs_returns: "list_all (well_typed J WStr) qs \<Longrightarrow> returns (get_strs J qs)"
  by (induction qs) (auto simp: returns_def)


section \<open>Packets\<close>

lemma OnPacket_returns:
  assumes d: "well_typed J (WRec (payload_fields ty)) d" and clean: "clean d" and join: "join_utf8 (cl_session c)"
    and wired: "ss_client (cl_session c)" "cs_client (cl_combat c)"
  shows "returns (OnPacket J mh now ty d c)"
proof -
  note fields = value_returns[OF d]
  have players: "returns (apply_state J now (j_at J d ''players'') c')"
    if "j_contains J d ''players''" "players_field \<in> set (payload_fields ty)" for c'
  proof -
    have "j_is_array J (j_at J d ''players'') \<Longrightarrow> well_typed J (WArr player_type) (j_at J d ''players'')"
      by (rule rec_test[OF d _ that(1)]) (use that(2) in \<open>simp_all add: players_field_def\<close>)
    from ApplyStateUpdate_returns[OF this] show ?thesis by (simp add: apply_state_def returns_simps)
  qed
  have send: "returns (session_send J ty' j c')" if "ss_client (cl_session c')" "clean j" for ty' j c'
    using that SerializePacket_clean[of ty' j] by (simp add: session_send_def client_send_def Send_def returns_simps returns_def)
  note simps = returns_simps fields payload_fields_def Let_def
  show ?thesis
  proof (cases ty)
    case HANDSHAKE_ACK
    have "clean (join_request J ((cl_session c)\<lparr>ss_localId := i, serverName := sn, status := Connected\<rparr>))" for i sn
      unfolding join_request_clean join_utf8_update by (rule join)
    with HANDSHAKE_ACK show ?thesis using wired
      by (simp add: OnPacket_def on_handshake_ack_def send simps del: well_typed.simps)
  next
    case JOIN_ACK
    then show ?thesis
      by (simp add: OnPacket_def on_join_ack_def players simps split_beta del: well_typed.simps)
  next
    case JOIN_DENIED
    then show ?thesis by (simp add: OnPacket_def on_join_denied_def simps del: well_typed.simps)
  next
    case PLAYER_JOIN
    have p: "j_contains J d ''player'' \<Longrightarrow> well_typed J player_type (j_at J d ''player'')"
      by (rule rec_field[OF d]) (simp_all add: PLAYER_JOIN payload_fields_def)
    then have "j_contains J d ''player'' \<Longrightarrow> returns (apply_state J now (j_arr J [j_at J d ''player'']) c')" for c'
      by (simp add: apply_state_def returns_simps ApplyStateUpdate_returns elems_arr del: well_typed.simps(9))
    with PLAYER_JOIN p show ?thesis
      by (simp add: OnPacket_def on_player_join_def returns_simps Let_def value_returns[of player_fields] member_defs
          del: well_typed.simps)
  next
    case STATE_UPDATE
    then show ?thesis by (simp add: OnPacket_def players simps del: well_typed.simps)
  next
    case ANIMATION_UPDATE
    have "j_contains J d ''animState'' \<Longrightarrow> well_typed J anim_type (j_at J d ''animState'')"
      by (rule rec_field[OF d]) (simp_all add: ANIMATION_UPDATE payload_fields_def)
    moreover have "well_typed J anim_type (j_obj J [])"
      by (simp add: anim_fields_def obj_object contains_obj)
    ultimately show ?thesis using ANIMATION_UPDATE
      by (simp add: OnPacket_def on_animation_update_def ApplyAnimationUpdate_returns simps del: well_typed.simps)
  next
    case RPC_CALL
    then show ?thesis
      using on_rpc_call_returns[OF _ clean wired(2)] d by (simp add: OnPacket_def payload_fields_def del: well_typed.simps)
  next
    case PUZZLE_TOKEN
    have "j_contains J d ''queue'' \<Longrightarrow> j_is_array J (j_at J d ''queue'')
        \<Longrightarrow> well_typed J (WArr WStr) (j_at J d ''queue'')"
      by (rule rec_test[OF d]) (simp_all add: PUZZLE_TOKEN payload_fields_def)
    then show ?thesis using PUZZLE_TOKEN
      by (simp add: OnPacket_def on_puzzle_token_def get_strs_returns simps del: well_typed.simps(9))
  qed (simp_all add: OnPacket_def on_player_leave_def on_host_reassign_def on_loot_taken_def HandleLootTaken_def
      on_cutscene_def on_puzzle_start_def on_puzzle_end_def on_kick_def on_server_info_def simps del: well_typed.simps)
qed

text \<open>An answer that cannot be written is an exception of the handler.\<close>

lemma ack_throws:
  assumes "\<not> join_utf8 (cl_session c)"
  shows "OnPacket J mh now HANDSHAKE_ACK d c = None"
proof -
  have "SerializePacket J JOIN_REQUEST (join_request J ((cl_session c)\<lparr>ss_localId := i, serverName := sn, status := Connected\<rparr>)) = None" for i sn
    using SerializePacket_clean[of JOIN_REQUEST] assms join_request_clean join_utf8_update by metis
  then show ?thesis
    by (auto simp: OnPacket_def on_handshake_ack_def session_send_def client_send_def Send_def Let_def bind_eq_None_conv)
qed

end

text \<open>No handler changes what the join request is made of.\<close>

definition pending :: "Session \<Rightarrow> bool \<times> string \<times> string \<times> string" where
  "pending s = (wantCreate s, pendingSessionName s, pendingPassword s, pendingInviteCode s)"

lemma set_host_pending [simp]: "pending (cl_session (set_host mh b c)) = pending (cl_session c)"
  by (simp add: set_host_def pending_def split_beta Let_def)

lemma apply_state_pending: "apply_state J now d c = Some c' \<Longrightarrow> cl_session c' = cl_session c"
  by (auto simp: apply_state_def)

lemma session_send_session: "session_send J ty d c = Some c' \<Longrightarrow> cl_session c' = cl_session c"
  by (auto simp: session_send_def client_send_def split: if_splits)

lemma OnPacket_pending:
  assumes "OnPacket J mh now ty d c = Some c'"
  shows "pending (cl_session c') = pending (cl_session c)"
proof -
  have upd: "pending (s\<lparr>friendlyFire := ff, inviteCode := code\<rparr>) = pending s"
    "pending (s\<lparr>status := st\<rparr>) = pending s" "pending (s\<lparr>lastError := r\<rparr>) = pending s"
    "pending (s\<lparr>serverName := sn\<rparr>) = pending s"
    "pending (s\<lparr>ss_localId := i\<rparr>) = pending s" for s ff code sn st r i
    by (simp_all add: pending_def)
  show ?thesis
  proof (cases ty)
    case JOIN_ACK
    with assms show ?thesis
      by (auto simp: OnPacket_def on_join_ack_def upd Let_def dest!: apply_state_pending split: if_splits)
  next
    case RPC_CALL
    with assms have "on_rpc_call J d c = Some c'" by (simp add: OnPacket_def)
    moreover have "ensures (\<lambda>c'. cl_session c' = cl_session c) (on_rpc_call J d c)"
      unfolding on_rpc_call_def
      by (rule ensures_val, intro ensures_if) (auto simp: ensures_def)
    ultimately show ?thesis by (simp add: ensures_def)
  next
    case HANDSHAKE_ACK
    with assms have "on_handshake_ack J d c = Some c'" by (simp add: OnPacket_def)
    then obtain i sn r where "session_send J JOIN_REQUEST r (c\<lparr>cl_players := SetLocalId i (cl_players c),
        cl_combat := CombatSync_SetLocalId i (cl_combat c),
        cl_session := (cl_session c)\<lparr>ss_localId := i, serverName := sn, status := Connected\<rparr>\<rparr>) = Some c'"
      unfolding on_handshake_ack_def Let_def by (auto simp only: bind_eq_Some_conv)
    from session_send_session[OF this] show ?thesis by (simp add: upd)
  next
    case PLAYER_JOIN
    with assms show ?thesis
      by (auto simp: OnPacket_def on_player_join_def Let_def dest!: apply_state_pending split: if_splits)
  next
    case STATE_UPDATE
    with assms show ?thesis by (auto simp: OnPacket_def dest!: apply_state_pending split: if_splits)
  qed (use assms in \<open>auto simp: OnPacket_def upd on_join_denied_def on_player_leave_def on_animation_update_def
    on_host_reassign_def on_loot_taken_def on_cutscene_def on_puzzle_start_def on_puzzle_token_def on_puzzle_end_def
    on_kick_def on_server_info_def\<close>)
qed

lemma join_utf8_pending: "pending s' = pending s \<Longrightarrow> join_utf8 s' = join_utf8 s"
  by (auto simp: pending_def join_utf8_def)

section \<open>The receive loop on a typed stream\<close>

definition typed_event :: "'j json_lib \<Rightarrow> ws_event \<Rightarrow> bool" where
  "typed_event J ev =
     (case ev of
        EvPing _ \<Rightarrow> True
      | EvMessage payload \<Rightarrow>
          (case DeserializePacket J payload of
             (ty, d) \<Rightarrow> ty = UNKNOWN \<or> well_typed J (WRec (payload_fields ty)) d))"

lemma foldM_progress:
  "P s \<Longrightarrow> (\<And>x s. x \<in> set xs \<Longrightarrow> P s \<Longrightarrow> \<exists>t. f x s = Some t \<and> P t) \<Longrightarrow> \<exists>t. foldM f xs s = Some t \<and> P t"
proof (induction xs arbitrary: s)
  case (Cons x xs)
  from Cons.prems(2)[of x s] Cons.prems(1) obtain t where "f x s = Some t" "P t" by auto
  with Cons.IH[of t] Cons.prems(2) show ?case by simp
qed simp

definition serving :: "minhook \<Rightarrow> addr option \<Rightarrow> Client \<Rightarrow> bool" where
  "serving mh present c \<longleftrightarrow> client_inv mh present c \<and> join_utf8 (cl_session c)"

lemma handle_event_typed:
  assumes "json_text J clean" "typed_event J ev" "serving mh present (snd (snd st))"
  shows "\<exists>st'. handle_event E J (session_on_packet J mh now) ev st = Some st' \<and> serving mh present (snd (snd st'))"
proof -
  obtain io w c where st: "st = (io, w, c)" by (cases st)
  show ?thesis
  proof (cases ev)
    case (EvMessage payload)
    obtain ty d where p: "DeserializePacket J payload = (ty, d)" by force
    show ?thesis
    proof (cases "ty = UNKNOWN")
      case False
      let ?c = "c\<lparr>cl_ws := w\<rparr>"
      have inv: "client_inv mh present ?c" and join: "join_utf8 (cl_session ?c)" using assms(3) st by (simp_all add: serving_def)
      then have "wired ?c" by (simp add: client_inv_def)
      with False p EvMessage assms(2) join have "returns (OnPacket J mh now ty d ?c)"
        by (intro json_text.OnPacket_returns[OF assms(1)] json_text.DeserializePacket_clean[OF assms(1)])
          (simp_all add: typed_event_def wired_def del: well_typed.simps)
      then obtain c' where c': "OnPacket J mh now ty d ?c = Some c'" by (auto simp: returns_def)
      from ensuresD[OF OnPacket_inv[OF inv] c'] join join_utf8_pending[OF OnPacket_pending[OF c']]
      have "serving mh present c'" by (simp add: serving_def)
      with c' st p False EvMessage show ?thesis by (simp add: handle_event_def session_on_packet_def)
    qed (use st p EvMessage assms(3) in \<open>simp add: handle_event_def\<close>)
  qed (use st assms(3) in \<open>simp add: handle_event_def\<close>)
qed

text \<open>C9: well-typed messages do not go wrong: in every reachable state in which the strings of the join
  request (password, and session name or invite code) are UTF-8, when every message in the received
  bytes that decodes to a known packet has the fields of its type as \<open>docs/protocol.md\<close> gives them (each
  may be missing, none has another type), the receive loop handles all of them: no handler throws, in
  whatever order they come, and the client is again in a state that satisfies its invariant and in which
  these strings are UTF-8. The condition is needed: with a string of another encoding the answer to a
  \<open>HANDSHAKE_ACK\<close> cannot be written and its handler throws, whatever the message says. Of the library is
  assumed that it parses into and writes exactly the documents whose strings are UTF-8.\<close>

lemma typed_stream_handled:
  assumes "json_text J clean" and "reachable J mh sinf cosf present c" and "join_utf8 (cl_session c)"
    and "parse_stream rx = (evs, e, rest)" and "e \<noteq> RxThrow" and "list_all (typed_event J) evs"
  shows "(case dispatch_rx E J (session_on_packet J mh now) rx (io, w, c) of
      Crash \<Rightarrow> False
    | Again rx' (io', w', c') \<Rightarrow> rx' = rest \<and> client_inv mh present c' \<and> join_utf8 (cl_session c')
    | Return ok (io', w', c') \<Rightarrow> ok \<and> client_inv mh present c' \<and> join_utf8 (cl_session c'))
    \<and> (\<not> join_utf8 (cl_session c0) \<longrightarrow> OnPacket J mh now HANDSHAKE_ACK d c0 = None)"
proof (intro conjI impI)
  show "OnPacket J mh now HANDSHAKE_ACK d c0 = None" if "\<not> join_utf8 (cl_session c0)"
    using json_text.ack_throws[OF assms(1) that] .
  have "serving mh present c" using reachable_inv[OF assms(2)] assms(3) by (simp add: serving_def)
  then have "\<exists>st'. foldM (handle_event E J (session_on_packet J mh now)) evs (io, w, c) = Some st'
      \<and> serving mh present (snd (snd st'))"
    by (intro foldM_progress) (use assms(6) handle_event_typed[OF assms(1)] in \<open>auto simp: list_all_iff\<close>)
  with assms(4,5) show "case dispatch_rx E J (session_on_packet J mh now) rx (io, w, c) of
      Crash \<Rightarrow> False
    | Again rx' (io', w', c') \<Rightarrow> rx' = rest \<and> client_inv mh present c' \<and> join_utf8 (cl_session c')
    | Return ok (io', w', c') \<Rightarrow> ok \<and> client_inv mh present c' \<and> join_utf8 (cl_session c')"
    by (cases e) (auto simp: dispatch_rx_def serving_def)
qed

definition token_json :: "jv json_lib" where
  "token_json = jv_text_lib
     (\<lambda>s. if s = ''token'' then Some (JObj [(''t'', JStr ''PUZZLE_TOKEN''), (''d'', demo_token)]) else None) (\<lambda>_. ''{}'')"

lemma token_clean: "jv_clean (JObj [(''t'', JStr ''PUZZLE_TOKEN''), (''d'', demo_token)])"
  by (simp add: demo_token_def utf8_ascii)

lemma token_message: "DeserializePacket token_json ''token'' = (PUZZLE_TOKEN, demo_token)"
  using token_clean by (simp add: token_json_def jv_text_lib_def jv_lib_def DeserializePacket_def PacketTypeFromString_def kTable_def)

lemma token_typed: "typed_event token_json (EvMessage ''token'')"
  unfolding typed_event_def by (simp add: token_message payload_fields_def)
    (simp add: token_json_def jv_text_lib_def jv_lib_def demo_token_def)

lemma typed_stream_handled_witness:
  "dispatch_rx demo_env token_json (session_on_packet token_json (\<lambda>_. True) 3) (frame_bytes [1, 2, 3, 4] ''token'')
     (demo_io, WsClient_init, install_all (\<lambda>_. True) (Some 0x5000) (Client_init demo_vm GameOffsets_init)) \<noteq> Crash
   \<and> OnPacket token_json (\<lambda>_. True) 3 HANDSHAKE_ACK (JObj [])
       ((demo_client ''p1'')\<lparr>cl_session := (cl_session (demo_client ''p1''))\<lparr>pendingPassword := [CHR 0xE9]\<rparr>\<rparr>) = None"
proof -
  let ?c = "install_all (\<lambda>_. True) (Some 0x5000) (Client_init demo_vm GameOffsets_init)"
  have laws: "json_text token_json jv_clean" unfolding token_json_def by (rule jtext.json_text_axioms)
  have reach: "reachable token_json (\<lambda>_. True) id id (Some 0x5000) ?c" by (rule reach_start)
  have utf8: "join_utf8 (cl_session ?c)"
  proof -
    have fields: "itemUseFn GameOffsets_init = 0" "inventoryArrayPtr GameOffsets_init = 0" "itemCountPtr GameOffsets_init = 0"
      "attackTriggerFn GameOffsets_init = 0" "cutsceneFn GameOffsets_init = 0" "playerBasePtr GameOffsets_init = 0"
      "puzzleInputFn GameOffsets_init = 0" "cinematicFlagPtr GameOffsets_init = 0" "skillTriggerFn GameOffsets_init = 0"
      by (simp_all add: GameOffsets_init_def)
    show ?thesis
      by (simp add: join_utf8_def install_all_def Session_Init_def Client_init_def InventoryHook_Init_def Session_init_def
          inventoryResolved_def InstallHooks_def CutsceneSync_Init_def HookCutsceneFunction_def ScanForCinematicFlag_def
          GetLocalPlayerBase_def PuzzleSync_Init_def HookPuzzleInput_def ScanForPuzzleHook_def fields Let_def utf8_ascii)
  qed
  have ps: "parse_stream (frame_bytes [1, 2, 3, 4] ''token'') = ([EvMessage ''token''], RxMore, [])"
    using parse_stream_frames[of "''token''" "[]" "[1, 2, 3, 4]"] by simp
  have bad: "\<not> join_utf8 (cl_session ((demo_client ''p1'')\<lparr>cl_session := (cl_session (demo_client ''p1''))\<lparr>pendingPassword := [CHR 0xE9]\<rparr>\<rparr>))"
    using utf8_examples(2) by (simp add: join_utf8_def)
  from typed_stream_handled[OF laws reach utf8 ps, where E = demo_env and now = 3 and io = demo_io and w = WsClient_init and d = "JObj []"]
    token_typed bad show ?thesis
    by (auto split: loop_result.splits)
qed

end
