(* ===== verification/Worker_System.thy ===== *)
theory Worker_System
  imports Ws_Worker System_Props
begin

text \<open>
  The worker thread of \<open>net/client.cpp\<close> with the callbacks of \<open>session.cpp\<close>, against the transition system
  of the whole client: the worker's runs are runs of it.
\<close>

section \<open>The session is such a program\<close>

text \<open>The states: reachable in the transition system of the whole client, with the game's memory as it was.\<close>

definition in_reach ::
  "'j json_lib \<Rightarrow> minhook \<Rightarrow> (f32 \<Rightarrow> f32) \<Rightarrow> (f32 \<Rightarrow> f32) \<Rightarrow> addr option \<Rightarrow> vm \<Rightarrow> WsClient \<times> Client \<Rightarrow> bool" where
  "in_reach J mh sinf cosf present m wc \<longleftrightarrow>
     (let (w, c) = wc in reachable J mh sinf cosf present (c\<lparr>cl_ws := w\<rparr>) \<and> cl_vm c = m)"

interpretation sess: ws_program "session_on_packet J mh now" "session_on_connected J" session_on_disconnected
  "in_reach J mh sinf cosf present m" for J mh now sinf cosf present m
proof unfold_locales
  fix w w' c
  assume "in_reach J mh sinf cosf present m (w, c)"
  then have "reachable J mh sinf cosf present (c\<lparr>cl_ws := w\<rparr>)" "cl_vm c = m" by (simp_all add: in_reach_def)
  with reach_step[OF this(1) step_worker[of J mh sinf cosf "c\<lparr>cl_ws := w\<rparr>" w']]
  show "in_reach J mh sinf cosf present m (w', c)" by (simp add: in_reach_def)
next
  fix wc ty d wc'
  assume r: "in_reach J mh sinf cosf present m wc" and p: "session_on_packet J mh now ty d wc = Some wc'"
  obtain w c where wc: "wc = (w, c)" by force
  with p obtain c' where c': "OnPacket J mh now ty d (c\<lparr>cl_ws := w\<rparr>) = Some c'" "wc' = (cl_ws c', c')"
    by (auto simp: session_on_packet_def)
  from r wc have reach: "reachable J mh sinf cosf present (c\<lparr>cl_ws := w\<rparr>)" "cl_vm c = m" by (simp_all add: in_reach_def)
  from reach_step[OF reach(1) step_packet[OF c'(1)]] OnPacket_vm[OF reachable_inv[OF reach(1)] c'(1)] reach(2) c'(2)
  show "in_reach J mh sinf cosf present m wc'" by (simp add: in_reach_def)
next
  fix wc wc'
  assume r: "in_reach J mh sinf cosf present m wc" and p: "session_on_connected J wc = Some wc'"
  obtain w c where wc: "wc = (w, c)" by force
  with p obtain c' where c': "OnConnected J (c\<lparr>cl_ws := w\<rparr>) = Some c'" "wc' = (cl_ws c', c')"
    by (auto simp: session_on_connected_def)
  from r wc have reach: "reachable J mh sinf cosf present (c\<lparr>cl_ws := w\<rparr>)" "cl_vm c = m" by (simp_all add: in_reach_def)
  have "cl_vm c' = cl_vm c" using c'(1) by (auto simp: OnConnected_def session_send_def dest: client_send_vm split: if_splits)
  with reach_step[OF reach(1) step_connected[OF c'(1)]] reach(2) c'(2)
  show "in_reach J mh sinf cosf present m wc'" by (simp add: in_reach_def)
next
  fix wc
  assume "in_reach J mh sinf cosf present m wc"
  then show "in_reach J mh sinf cosf present m (session_on_disconnected wc)"
    by (cases wc) (simp add: in_reach_def session_on_disconnected_def OnDisconnected_def)
qed

text \<open>The worker thread refines the transition system of the client: started in a reachable state, however
  many rounds and iterations it runs, whatever the socket delivers, cuts or refuses and whenever it is told to
  stop, every state in which it stops or is interrupted is reachable, so all that holds of reachable states holds
  there, and it has not touched the game's memory.\<close>

lemma worker_stays_reachable:
  assumes "reachable J mh sinf cosf present (c\<lparr>cl_ws := w\<rparr>)"
    and "WorkerLoop rounds fuel E J (session_on_packet J mh now) (session_on_connected J) session_on_disconnected
           started run (io, w, c) = (waits, r)"
    and "r = Return clean (io', w', c') \<or> r = Again rx (io', w', c')"
  shows "reachable J mh sinf cosf present (c'\<lparr>cl_ws := w'\<rparr>) \<and> cl_vm c' = cl_vm c"
proof -
  have "in_reach J mh sinf cosf present (cl_vm c) (w, c)" using assms(1) by (simp add: in_reach_def)
  then have "ws_program.ends_in (in_reach J mh sinf cosf present (cl_vm c)) (snd (WorkerLoop rounds fuel E J
      (session_on_packet J mh now) (session_on_connected J) session_on_disconnected started run (io, w, c)))"
    by (intro sess.WorkerLoop_keeps) simp
  with assms(2,3) show ?thesis by (auto simp: sess.ends_in_simps in_reach_def)
qed

lemma worker_stays_reachable_witness:
  "\<exists>waits io' w' c'. WorkerLoop 3 5 (demo_env\<lparr>tcp_ans := \<lambda>_. None\<rparr>) demo_json (session_on_packet demo_json (\<lambda>_. True) 7)
       (session_on_connected demo_json) session_on_disconnected True (\<lambda>r i. r < 1)
       (demo_io, WsClient_init\<lparr>ws_running := True\<rparr>, idle_client) = (waits, Return True (io', w', c'))
     \<and> reachable demo_json (\<lambda>_. True) id id (Some 0x5000) (c'\<lparr>cl_ws := w'\<rparr>) \<and> cl_vm c' = cl_vm idle_client"
proof -
  let ?w = "WsClient_init\<lparr>ws_running := True\<rparr>"
  have start: "reachable demo_json (\<lambda>_. True) id id (Some 0x5000) (idle_client\<lparr>cl_ws := ?w\<rparr>)"
    using reach_step[OF idle_reachable step_worker] .
  obtain waits io' w' c' where run: "WorkerLoop 3 5 (demo_env\<lparr>tcp_ans := \<lambda>_. None\<rparr>) demo_json
      (session_on_packet demo_json (\<lambda>_. True) 7) (session_on_connected demo_json) session_on_disconnected True
      (\<lambda>r i. r < 1) (demo_io, ?w, idle_client) = (waits, Return True (io', w', c'))"
    using worker_rounds_unreachable[of "demo_env\<lparr>tcp_ans := \<lambda>_. None\<rparr>" ?w initial_backoff "\<lambda>r i. r < 1" 1 5 demo_json
        "session_on_packet demo_json (\<lambda>_. True) 7" "session_on_connected demo_json" session_on_disconnected demo_io idle_client]
    by (auto simp: WorkerLoop_def initial_backoff_def numeral_3_eq_3)
  from worker_stays_reachable[OF start run disjI1[OF refl]] run show ?thesis by blast
qed

end
