(* ===== verification/Ws_Close.thy ===== *)
theory Ws_Close
  imports Ws_Client
begin

text \<open>
  Stopping the client (\<open>client/src/net/client.cpp\<close>): \<open>Connect\<close> and the destructor call \<open>Disconnect\<close> and
  then join the worker. \<open>sock_\<close> is a plain member that both threads read and write, and \<open>CloseSocket\<close> tests,
  closes and resets it in three steps, so the two interleave. The connection is seen here as the handle and the
  call the worker is in; \<open>recv\<close> in \<open>Handshake\<close> blocks, until the peer answers or the handle is closed.
\<close>

section \<open>The two threads\<close>

datatype worker_pc =
    WTest          \<comment> \<open>\<open>WorkerLoop\<close>: before the test of \<open>running_\<close>\<close>
  | WConnecting    \<comment> \<open>in \<open>getaddrinfo\<close>, \<open>socket\<close>, \<open>connect\<close>\<close>
  | WGot u64       \<comment> \<open>connected, before \<open>sock_ = s\<close>\<close>
  | WShake         \<comment> \<open>before \<open>Handshake\<close> copies \<open>sock_\<close>\<close>
  | WRecv u64      \<comment> \<open>in the blocking calls of \<open>Handshake\<close>\<close>
  | WLoop          \<comment> \<open>in \<open>ReceiveLoop\<close>, which does not block\<close>
  | WClose | WCall | WReset \<comment> \<open>\<open>CloseSocket\<close>: before the test, the call, the reset\<close>
  | WWait          \<comment> \<open>\<open>WorkerLoop\<close>: after \<open>DoConnectOnce\<close>\<close>
  | WDone

datatype stopper_pc =
    SIdle                     \<comment> \<open>before \<open>Disconnect\<close>\<close>
  | SClose | SCall | SReset   \<comment> \<open>\<open>running_\<close> is false; \<open>CloseSocket\<close>: before the test, the call, the reset\<close>
  | SJoin                     \<comment> \<open>in \<open>worker_.join()\<close>\<close>
  | SJoined

record stop_state =
  st_running :: bool
  st_sock :: u64
  st_worker :: worker_pc
  st_stopper :: stopper_pc
  st_opened :: "u64 list"   \<comment> \<open>handles \<open>connect\<close> succeeded on\<close>
  st_closed :: "u64 list"   \<comment> \<open>arguments of \<open>closesocket\<close>, in order\<close>

definition stop_init :: stop_state where
  "stop_init = \<lparr>st_running = True, st_sock = INVALID_SOCKET, st_worker = WTest, st_stopper = SIdle,
     st_opened = [], st_closed = []\<rparr>"

text \<open>A handle the peer can still answer on.\<close>

definition live :: "stop_state \<Rightarrow> u64 \<Rightarrow> bool" where
  "live s h \<longleftrightarrow> h \<noteq> INVALID_SOCKET \<and> h \<notin> set (st_closed s)"

inductive stop_step :: "stop_state \<Rightarrow> stop_state \<Rightarrow> bool" where
  test: "st_worker s = WTest \<Longrightarrow> stop_step s (s\<lparr>st_worker := if st_running s then WConnecting else WDone\<rparr>)"
| refused: "st_worker s = WConnecting \<Longrightarrow> stop_step s (s\<lparr>st_worker := WWait\<rparr>)"
| connected: "st_worker s = WConnecting \<Longrightarrow> h \<noteq> INVALID_SOCKET \<Longrightarrow> h \<notin> set (st_opened s) \<Longrightarrow>
    stop_step s (s\<lparr>st_worker := WGot h, st_opened := st_opened s @ [h]\<rparr>)"
| publish: "st_worker s = WGot h \<Longrightarrow> stop_step s (s\<lparr>st_sock := h, st_worker := WShake\<rparr>)"
| shake: "st_worker s = WShake \<Longrightarrow> stop_step s (s\<lparr>st_worker := WRecv (st_sock s)\<rparr>)"
| answered: "st_worker s = WRecv h \<Longrightarrow> live s h \<Longrightarrow> pc \<in> {WLoop, WClose} \<Longrightarrow> stop_step s (s\<lparr>st_worker := pc\<rparr>)"
| aborted: "st_worker s = WRecv h \<Longrightarrow> \<not> live s h \<Longrightarrow> stop_step s (s\<lparr>st_worker := WClose\<rparr>)"
| iterate: "st_worker s = WLoop \<Longrightarrow> st_running s \<Longrightarrow> stop_step s s"
| loop_ends: "st_worker s = WLoop \<Longrightarrow> stop_step s (s\<lparr>st_worker := WClose\<rparr>)"
| w_close: "st_worker s = WClose \<Longrightarrow>
    stop_step s (s\<lparr>st_worker := if st_sock s \<noteq> INVALID_SOCKET then WCall else WWait\<rparr>)"
| w_call: "st_worker s = WCall \<Longrightarrow> stop_step s (s\<lparr>st_closed := st_closed s @ [st_sock s], st_worker := WReset\<rparr>)"
| w_reset: "st_worker s = WReset \<Longrightarrow> stop_step s (s\<lparr>st_sock := INVALID_SOCKET, st_worker := WWait\<rparr>)"
| wait: "st_worker s = WWait \<Longrightarrow> stop_step s (s\<lparr>st_worker := WTest\<rparr>)"
| disconnect: "st_stopper s = SIdle \<Longrightarrow> stop_step s (s\<lparr>st_running := False, st_stopper := SClose\<rparr>)"
| s_close: "st_stopper s = SClose \<Longrightarrow>
    stop_step s (s\<lparr>st_stopper := if st_sock s \<noteq> INVALID_SOCKET then SCall else SJoin\<rparr>)"
| s_call: "st_stopper s = SCall \<Longrightarrow> stop_step s (s\<lparr>st_closed := st_closed s @ [st_sock s], st_stopper := SReset\<rparr>)"
| s_reset: "st_stopper s = SReset \<Longrightarrow> stop_step s (s\<lparr>st_sock := INVALID_SOCKET, st_stopper := SJoin\<rparr>)"
| join: "st_stopper s = SJoin \<Longrightarrow> st_worker s = WDone \<Longrightarrow> stop_step s (s\<lparr>st_stopper := SJoined\<rparr>)"

inductive stop_reach :: "stop_state \<Rightarrow> bool" where
  at_start: "stop_reach stop_init"
| next_state: "stop_reach s \<Longrightarrow> stop_step s t \<Longrightarrow> stop_reach t"

section \<open>No handle is left open\<close>

definition holds_sock :: "worker_pc \<Rightarrow> bool" where
  "holds_sock pc \<longleftrightarrow> pc \<in> {WShake, WLoop, WClose, WCall, WReset} \<or> (\<exists>h. pc = WRecv h)"

definition stop_inv :: "stop_state \<Rightarrow> bool" where
  "stop_inv s \<longleftrightarrow>
     (st_running s \<longleftrightarrow> st_stopper s = SIdle)
   \<and> (st_sock s \<noteq> INVALID_SOCKET \<longrightarrow> holds_sock (st_worker s))
   \<and> (\<forall>h \<in> set (st_opened s). h \<in> set (st_closed s) \<or> st_worker s = WGot h \<or> st_sock s = h)
   \<and> (\<forall>h. st_worker s = WGot h \<longrightarrow> h \<noteq> INVALID_SOCKET)
   \<and> INVALID_SOCKET \<notin> set (st_opened s)
   \<and> (st_worker s = WReset \<or> st_stopper s = SReset \<longrightarrow> st_sock s = INVALID_SOCKET \<or> st_sock s \<in> set (st_closed s))
   \<and> (st_stopper s \<in> {SCall, SReset} \<longrightarrow> holds_sock (st_worker s) \<or> st_worker s \<in> {WWait, WTest, WDone})"

lemma stop_inv_init: "stop_inv stop_init"
  by (simp add: stop_inv_def stop_init_def)

lemma stop_inv_step: "stop_step s t \<Longrightarrow> stop_inv s \<Longrightarrow> stop_inv t"
  by (induction rule: stop_step.induct) (auto simp: stop_inv_def holds_sock_def)

lemma stop_reach_inv: "stop_reach s \<Longrightarrow> stop_inv s"
  by (induction rule: stop_reach.induct) (auto intro: stop_inv_init stop_inv_step)

section \<open>The join is bounded\<close>

fun worker_rank :: "worker_pc \<Rightarrow> nat" where
  "worker_rank WDone = 0" | "worker_rank WTest = 1" | "worker_rank WWait = 2" | "worker_rank WReset = 3"
| "worker_rank WCall = 4" | "worker_rank WClose = 5" | "worker_rank WLoop = 6" | "worker_rank (WRecv h) = 7"
| "worker_rank WShake = 8" | "worker_rank (WGot h) = 9" | "worker_rank WConnecting = 10"

definition stop_rank :: "stop_state \<Rightarrow> nat" where
  "stop_rank s = worker_rank (st_worker s) + (if st_stopper s = SJoined then 0 else 1)"

lemma worker_rank_le: "worker_rank pc \<le> 10"
  by (cases pc) simp_all

lemma stop_step_rank:
  "stop_step s t \<Longrightarrow> st_stopper s = SJoin \<Longrightarrow> \<not> st_running s \<Longrightarrow> stop_rank t < stop_rank s"
  by (induction rule: stop_step.induct) (auto simp: stop_rank_def)

lemma stop_step_exists:
  "st_stopper s = SJoin \<Longrightarrow> \<exists>t. stop_step s t"
proof (cases "st_worker s")
  case (WRecv h)
  then show ?thesis using answered[of s h WLoop] aborted[of s h] by (cases "live s h") auto
qed (auto intro: stop_step.intros)

text \<open>C19: stopping the client: once \<open>Disconnect\<close> is through, each step the two threads can take brings the end of
  the \<open>join\<close> nearer, there always is one, and there are at most eleven of them; and when the worker is done every
  handle it ever opened has been closed, by one thread or the other.\<close>

lemma stopping_ends_without_leak:
  assumes "stop_reach s"
  shows "(st_stopper s = SJoin \<longrightarrow> (\<exists>t. stop_step s t) \<and> (\<forall>t. stop_step s t \<longrightarrow> stop_rank t < stop_rank s)
      \<and> stop_rank s \<le> 11)
    \<and> (st_worker s = WDone \<longrightarrow> set (st_opened s) \<subseteq> set (st_closed s))"
proof (intro conjI impI)
  have inv: "stop_inv s" using stop_reach_inv[OF assms] .
  show "set (st_opened s) \<subseteq> set (st_closed s)" if "st_worker s = WDone"
    using inv that by (auto simp: stop_inv_def holds_sock_def)
  assume j: "st_stopper s = SJoin"
  then have "\<not> st_running s" using inv by (simp add: stop_inv_def)
  with j stop_step_rank show "\<forall>t. stop_step s t \<longrightarrow> stop_rank t < stop_rank s" by blast
  show "\<exists>t. stop_step s t" using stop_step_exists[OF j] .
  show "stop_rank s \<le> 11" using worker_rank_le[of "st_worker s"] by (simp add: stop_rank_def)
qed

section \<open>Two races\<close>

text \<open>\<open>Disconnect\<close> runs while the worker is connecting: it finds no socket.\<close>

definition missed :: "u64 \<Rightarrow> stop_state" where
  "missed h = \<lparr>st_running = False, st_sock = h, st_worker = WRecv h, st_stopper = SJoin, st_opened = [h], st_closed = []\<rparr>"

lemma missed_reach:
  assumes "h \<noteq> INVALID_SOCKET"
  shows "stop_reach (missed h)"
proof -
  note n = next_state
  have "stop_reach (stop_init\<lparr>st_worker := WConnecting\<rparr>)"
    using n[OF at_start test] by (simp add: stop_init_def)
  from n[OF this disconnect] have "stop_reach (stop_init\<lparr>st_worker := WConnecting, st_running := False, st_stopper := SClose\<rparr>)"
    by (simp add: stop_init_def)
  from n[OF this s_close] have "stop_reach (stop_init\<lparr>st_worker := WConnecting, st_running := False, st_stopper := SJoin\<rparr>)"
    by (simp add: stop_init_def)
  from n[OF this connected[of _ h]] assms
  have "stop_reach (stop_init\<lparr>st_worker := WGot h, st_running := False, st_stopper := SJoin, st_opened := [h]\<rparr>)"
    by (simp add: stop_init_def)
  from n[OF this publish[of _ h]]
  have "stop_reach (stop_init\<lparr>st_sock := h, st_worker := WShake, st_running := False, st_stopper := SJoin, st_opened := [h]\<rparr>)"
    by (simp add: stop_init_def)
  from n[OF this shake] show ?thesis by (simp add: stop_init_def missed_def)
qed

lemma missed_stuck:
  "stop_step (missed h) t \<Longrightarrow> \<exists>pc \<in> {WLoop, WClose}. live (missed h) h \<and> t = (missed h)\<lparr>st_worker := pc\<rparr>
     \<or> h = INVALID_SOCKET"
  by (erule stop_step.cases) (auto simp: missed_def live_def)

definition both_close :: "u64 \<Rightarrow> stop_state" where
  "both_close h = \<lparr>st_running = False, st_sock = h, st_worker = WLoop, st_stopper = SCall, st_opened = [h], st_closed = []\<rparr>"

lemma both_close_reach:
  assumes "h \<noteq> INVALID_SOCKET"
  shows "stop_reach (both_close h)"
proof -
  note n = next_state
  have "stop_reach (stop_init\<lparr>st_worker := WConnecting\<rparr>)"
    using n[OF at_start test] by (simp add: stop_init_def)
  from n[OF this connected[of _ h]] assms
  have "stop_reach (stop_init\<lparr>st_worker := WGot h, st_opened := [h]\<rparr>)" by (simp add: stop_init_def)
  from n[OF this publish[of _ h]]
  have "stop_reach (stop_init\<lparr>st_sock := h, st_worker := WShake, st_opened := [h]\<rparr>)" by (simp add: stop_init_def)
  from n[OF this shake] have "stop_reach (stop_init\<lparr>st_sock := h, st_worker := WRecv h, st_opened := [h]\<rparr>)"
    by (simp add: stop_init_def)
  from n[OF this answered[of _ h WLoop]] assms
  have "stop_reach (stop_init\<lparr>st_sock := h, st_worker := WLoop, st_opened := [h]\<rparr>)" by (simp add: stop_init_def live_def)
  from n[OF this disconnect]
  have "stop_reach (stop_init\<lparr>st_sock := h, st_worker := WLoop, st_running := False, st_stopper := SClose, st_opened := [h]\<rparr>)"
    by (simp add: stop_init_def)
  from n[OF this s_close] assms show ?thesis by (simp add: stop_init_def both_close_def)
qed

lemma both_close_twice:
  assumes "h \<noteq> INVALID_SOCKET"
  shows "stop_reach ((both_close h)\<lparr>st_worker := WReset, st_stopper := SReset, st_closed := [h, h]\<rparr>)"
proof -
  note n = next_state
  from n[OF both_close_reach[OF assms] loop_ends] have "stop_reach ((both_close h)\<lparr>st_worker := WClose\<rparr>)"
    by (simp add: both_close_def)
  from n[OF this w_close] assms have "stop_reach ((both_close h)\<lparr>st_worker := WCall\<rparr>)" by (simp add: both_close_def)
  from n[OF this w_call] have "stop_reach ((both_close h)\<lparr>st_worker := WReset, st_closed := [h]\<rparr>)"
    by (simp add: both_close_def)
  from n[OF this s_call] show ?thesis by (simp add: both_close_def)
qed

text \<open>C20: what can go wrong when the client is stopped: for every handle there is a schedule in which
  \<open>Disconnect\<close> comes while the worker is connecting, finds no socket and closes nothing, so that the \<open>join\<close>
  (on the render thread) waits for a worker that only the peer's answer to the handshake can move; and one in which
  both threads close the same handle, which by then may belong to somebody else.\<close>

lemma stopping_races:
  assumes "h \<noteq> INVALID_SOCKET"
  shows "(\<exists>s. stop_reach s \<and> st_stopper s = SJoin \<and> st_worker s = WRecv h \<and> st_closed s = []
      \<and> (\<forall>t. stop_step s t \<longrightarrow> (\<exists>pc \<in> {WLoop, WClose}. live s h \<and> t = s\<lparr>st_worker := pc\<rparr>)))
    \<and> (\<exists>s. stop_reach s \<and> st_closed s = [h, h])"
proof (rule conjI)
  have "\<forall>t. stop_step (missed h) t \<longrightarrow> (\<exists>pc \<in> {WLoop, WClose}. live (missed h) h \<and> t = (missed h)\<lparr>st_worker := pc\<rparr>)"
    using missed_stuck[of h] assms by blast
  with missed_reach[OF assms] show "\<exists>s. stop_reach s \<and> st_stopper s = SJoin \<and> st_worker s = WRecv h \<and> st_closed s = []
      \<and> (\<forall>t. stop_step s t \<longrightarrow> (\<exists>pc \<in> {WLoop, WClose}. live s h \<and> t = s\<lparr>st_worker := pc\<rparr>))"
    by (intro exI[of _ "missed h"]) (simp add: missed_def)
  show "\<exists>s. stop_reach s \<and> st_closed s = [h, h]"
    using both_close_twice[OF assms] by (intro exI conjI, assumption) simp
qed

lemma stopping_races_witness: "\<exists>s. stop_reach s \<and> st_closed s = [5, 5]"
  using stopping_races[of 5] by (simp add: INVALID_SOCKET_def)

lemma stopping_ends_without_leak_witness:
  "(\<exists>t. stop_step (missed 5) t) \<and> stop_rank (missed 5) \<le> 11"
  using stopping_ends_without_leak[OF missed_reach[of 5]] by (simp add: INVALID_SOCKET_def missed_def)

end
