(* ===== verification/Ws_Serve.thy ===== *)
theory Ws_Serve
  imports Ws_Client
begin

text \<open>
  A connection from end to end: what \<open>DoConnectOnce\<close> does with one connection, described by the transcript of
  its receive iterations. The transcript keeps three things apart that the code interleaves: the calls on
  the socket, the framing of the received bytes, and the calls of the program's callbacks.
\<close>

section \<open>Transcripts\<close>

text \<open>One iteration that goes on: the packets flushed, the bytes that \<open>recv\<close> then delivered, and what
  \<open>ReceiveLoop\<close> found in its buffer.\<close>

datatype iteration = Iteration (it_queue: "string list") (it_bytes: "byte list") (it_events: "ws_event list")

definition answer_bytes :: "recv_answer \<Rightarrow> byte list option" where
  "answer_bytes a = (case a of RecvData bs \<Rightarrow> Some bs | RecvEnd \<Rightarrow> None
     | RecvError e \<Rightarrow> if e = WSAEWOULDBLOCK then Some [] else None)"

fun pings :: "ws_event list \<Rightarrow> string list" where
  "pings [] = []"
| "pings (EvPing p # evs) = p # pings evs"
| "pings (EvMessage _ # evs) = pings evs"

fun packets :: "'j json_lib \<Rightarrow> ws_event list \<Rightarrow> (PacketType \<times> 'j) list" where
  "packets J [] = []"
| "packets J (EvPing _ # evs) = packets J evs"
| "packets J (EvMessage s # evs) =
     (let (ty, d) = DeserializePacket J s in if ty = UNKNOWN then packets J evs else (ty, d) # packets J evs)"

text \<open>The socket's side: the queued packets are sent, \<open>recv\<close> is called once, every ping is answered.\<close>

fun socket_run :: "sock_env \<Rightarrow> iteration list \<Rightarrow> sock_io \<Rightarrow> sock_io option" where
  "socket_run E [] io = Some io"
| "socket_run E (Iteration q bs evs # its) io =
     (let io = send_frames E q io
      in if answer_bytes (recv_ans E (io_step io)) = Some bs
         then socket_run E its (send_frames E (pings evs) (io\<lparr>io_step := Suc (io_step io)\<rparr>)) else None)"

text \<open>The program's side: the queue is taken, the callback is called with each packet.\<close>

fun program_run ::
  "'j json_lib \<Rightarrow> ('j, 'a) on_packet \<Rightarrow> iteration list \<Rightarrow> WsClient \<times> 'a \<Rightarrow> (WsClient \<times> 'a) option" where
  "program_run J p [] wa = Some wa"
| "program_run J p (Iteration q bs evs # its) (w, a) =
     (if ws_running w \<and> sendQueue w = q
      then Option.bind (foldM (\<lambda>(ty, d). p ty d) (packets J evs) (w\<lparr>sendQueue := []\<rparr>, a)) (program_run J p its)
      else None)"

abbreviation "received its \<equiv> concat (map it_bytes its)"
abbreviation "dispatched its \<equiv> concat (map it_events its)"

lemma handle_events:
  "foldM (handle_event E J p) evs (io, wa) =
     map_option (Pair (send_frames E (pings evs) io)) (foldM (\<lambda>(ty, d). p ty d) (packets J evs) wa)"
proof (induction evs arbitrary: io wa)
  case (Cons ev evs)
  show ?case
  proof (cases ev)
    case (EvPing s)
    then show ?thesis by (simp add: handle_event_def[of E J p "EvPing s"] Cons.IH)
  next
    case (EvMessage s)
    obtain ty d where d: "DeserializePacket J s = (ty, d)" by force
    show ?thesis
    proof (cases "ty = UNKNOWN")
      case False
      with EvMessage d show ?thesis
        by (cases "p ty d wa") (simp_all add: handle_event_def[of E J p "EvMessage s"] Cons.IH)
    qed (use EvMessage d in \<open>simp add: handle_event_def[of E J p "EvMessage s"] Cons.IH\<close>)
  qed
qed simp


text \<open>The framing: each iteration parses what the previous ones left over and what it received itself; only
  the last one may meet a close frame or an oversized one.\<close>

fun framing_run :: "byte list \<Rightarrow> iteration list \<Rightarrow> (rx_end \<times> byte list) option" where
  "framing_run rx [] = Some (RxMore, rx)"
| "framing_run rx (Iteration q bs evs # its) =
     (case parse_stream (rx @ bs) of (evs', e, rest) \<Rightarrow>
        if evs' \<noteq> evs then None
        else if e = RxMore then framing_run rest its
        else if its = [] then Some (e, rest) else None)"

lemma parse_stream_rest_length: "parse_stream xs = (evs, e, rest) \<Longrightarrow> length rest \<le> length xs"
proof (induction xs arbitrary: evs rule: parse_stream.induct)
  case (1 xs)
  show ?case
  proof (cases "parse_frame xs")
    case (Frame opcode payload n)
    show ?thesis
    proof (cases "opcode = 8")
      case False
      with 1(2) Frame obtain evs' where "parse_stream (drop n xs) = (evs', e, rest)"
        by (subst (asm) parse_stream.simps) (auto split: prod.splits)
      from 1(1)[OF Frame False this] show ?thesis by simp
    qed (use 1(2) Frame in \<open>simp add: parse_stream.simps[of xs]\<close>)
  qed (use 1(2) in \<open>simp_all add: parse_stream.simps[of xs]\<close>)
qed

lemma parse_stream_rest:
  assumes "parse_stream xs = (evs, RxMore, rest)" "length xs < 2 ^ 63"
  shows "parse_stream rest = ([], RxMore, rest)" "length rest \<le> length xs"
proof -
  from parse_stream_append[of xs "[]"] assms show "parse_stream rest = ([], RxMore, rest)"
    by (auto split: prod.splits)
  show "length rest \<le> length xs" using parse_stream_rest_length[OF assms(1)] .
qed

text \<open>So the parts do not matter: the events are those of all received bytes at once.\<close>

lemma framing_total:
  assumes "framing_run rx its = Some (e, rest)" "length rx + length (received its) < 2 ^ 63"
    and "parse_stream rx = ([], RxMore, rx)"
  shows "parse_stream (rx @ received its) = (dispatched its, e, rest)"
  using assms
proof (induction rx its rule: framing_run.induct)
  case (2 rx q bs evs its)
  obtain evs' e' rest' where ps: "parse_stream (rx @ bs) = (evs', e', rest')" by (metis prod_cases3)
  with 2(2) have evs: "evs' = evs" by (auto split: if_splits)
  have len: "length (rx @ bs) + length (received its) < 2 ^ 63" using 2(3) by simp
  show ?case
  proof (cases "e' = RxMore")
    case True
    with ps evs 2(2) have rest: "framing_run rest' its = Some (e, rest)" by simp
    have "length (rx @ bs) < 2 ^ 63" using len by simp
    from parse_stream_rest[OF ps[unfolded True] this] have r: "parse_stream rest' = ([], RxMore, rest')" "length rest' \<le> length (rx @ bs)" .
    have "parse_stream (rest' @ received its) = (dispatched its, e, rest)"
      by (rule 2(1)[OF ps[symmetric] refl _ True rest _ r(1)]) (use evs r(2) len in auto)
    with parse_stream_append[OF len] ps True evs show ?thesis by simp
  next
    case False
    with ps evs 2(2) have "its = []" "e' = e" "rest' = rest" by (auto split: if_splits)
    with ps evs show ?thesis by simp
  qed
qed simp


section \<open>\<open>ReceiveLoop\<close>\<close>

text \<open>How a run of the loop goes on from the state after the transcript. \<open>LastRecv\<close>: the queue was flushed
  once more and the answer of \<open>recv\<close> ended the loop.\<close>

definition loop_returns :: "sock_env \<Rightarrow> rx_end \<Rightarrow> 'a rx_state \<Rightarrow> bool \<Rightarrow> 'a rx_state \<Rightarrow> bool" where
  "loop_returns E e st ok st' \<longleftrightarrow>
     (let (io, w, a) = st
      in if e = RxClose \<or> \<not> ws_running w then ok \<and> st' = st
         else e = RxMore \<and>
           (let io = send_frames E (sendQueue w) io; ans = recv_ans E (io_step io)
            in answer_bytes ans = None \<and> (ok \<longleftrightarrow> ans = RecvEnd)
               \<and> st' = (io\<lparr>io_step := Suc (io_step io)\<rparr>, w\<lparr>sendQueue := []\<rparr>, a)))"

definition loop_throws :: "sock_env \<Rightarrow> 'j json_lib \<Rightarrow> ('j, 'a) on_packet \<Rightarrow> byte list \<Rightarrow> 'a rx_state \<Rightarrow> bool" where
  "loop_throws E J p rx st \<longleftrightarrow>
     (let (io, w, a) = st; io = send_frames E (sendQueue w) io
      in ws_running w \<and>
         (case answer_bytes (recv_ans E (io_step io)) of None \<Rightarrow> False
          | Some bs \<Rightarrow>
              (case parse_stream (rx @ bs) of (evs, e, rest) \<Rightarrow>
                 e = RxThrow \<or> foldM (\<lambda>(ty, d). p ty d) (packets J evs) (w\<lparr>sendQueue := []\<rparr>, a) = None)))"

text \<open>The result \<open>r\<close> of the loop, started with \<open>rx\<close> in its buffer, together with its transcript.\<close>

definition transcript_of ::
  "nat \<Rightarrow> sock_env \<Rightarrow> 'j json_lib \<Rightarrow> ('j, 'a) on_packet \<Rightarrow> byte list \<Rightarrow> 'a rx_state \<Rightarrow> 'a loop_result
    \<Rightarrow> iteration list \<Rightarrow> 'a rx_state \<Rightarrow> rx_end \<Rightarrow> byte list \<Rightarrow> bool" where
  "transcript_of fuel E J p rx st r its st' e rest \<longleftrightarrow>
     socket_run E its (fst st) = Some (fst st') \<and> program_run J p its (snd st) = Some (snd st')
     \<and> framing_run rx its = Some (e, rest)
     \<and> (case r of
          Again rx' st2 \<Rightarrow> e = RxMore \<and> rx' = rest \<and> st2 = st' \<and> length its = fuel
        | Return ok st2 \<Rightarrow> loop_returns E e st' ok st2
        | Crash \<Rightarrow> e = RxMore \<and> loop_throws E J p rest st')"

lemma receive_iter_eq:
  "receive_iter E J p rx (io, w, a) =
     (if \<not> ws_running w then Return True (io, w, a)
      else let io1 = send_frames E (sendQueue w) io; ans = recv_ans E (io_step io1);
               io2 = io1\<lparr>io_step := Suc (io_step io1)\<rparr>
           in case answer_bytes ans of
                None \<Rightarrow> Return (ans = RecvEnd) (io2, w\<lparr>sendQueue := []\<rparr>, a)
              | Some bs \<Rightarrow> dispatch_rx E J p (rx @ bs) (io2, w\<lparr>sendQueue := []\<rparr>, a))"
  by (auto simp: receive_iter_def FlushSendQueue_def answer_bytes_def Let_def split: recv_answer.split)

lemma dispatch_rx_eq:
  "dispatch_rx E J p rx (io, wa) =
     (let (evs, e, rest) = parse_stream rx
      in case foldM (\<lambda>(ty, d). p ty d) (packets J evs) wa of
           None \<Rightarrow> Crash
         | Some wa' \<Rightarrow>
             (let st = (send_frames E (pings evs) io, wa')
              in case e of RxMore \<Rightarrow> Again rest st | RxClose \<Rightarrow> Return True st | RxThrow \<Rightarrow> Crash))"
  by (cases "foldM (\<lambda>(ty, d). p ty d) (packets J (fst (parse_stream rx))) wa")
    (simp_all add: dispatch_rx_def handle_events split_beta Let_def)

lemma ReceiveLoop_transcript:
  "\<exists>its st' e rest. transcript_of fuel E J p rx st (ReceiveLoop fuel E J p rx st) its st' e rest"
proof (induction fuel arbitrary: rx st)
  case 0
  show ?case by (intro exI[of _ "[]"] exI[of _ st] exI[of _ RxMore] exI[of _ rx]) (simp add: transcript_of_def)
next
  case (Suc fuel)
  obtain io w a where st: "st = (io, w, a)" by (cases st)
  let ?io1 = "send_frames E (sendQueue w) io"
  let ?io2 = "?io1\<lparr>io_step := Suc (io_step ?io1)\<rparr>" and ?w = "w\<lparr>sendQueue := []\<rparr>"
  have stop: ?case if "transcript_of (Suc fuel) E J p rx st (ReceiveLoop (Suc fuel) E J p rx st) [] st RxMore rx"
    using that by blast
  show ?case
  proof (cases "ws_running w")
    case False
    with st show ?thesis by (intro stop) (simp add: transcript_of_def receive_iter_eq loop_returns_def)
  next
    case run: True
    show ?thesis
    proof (cases "answer_bytes (recv_ans E (io_step ?io1))")
      case None
      with st run show ?thesis
        by (intro stop) (simp add: transcript_of_def receive_iter_eq loop_returns_def Let_def)
    next
      case (Some bs)
      obtain evs e rest where ps: "parse_stream (rx @ bs) = (evs, e, rest)" by (metis prod_cases3)
      show ?thesis
      proof (cases "foldM (\<lambda>(ty, d). p ty d) (packets J evs) (?w, a)")
        case None
        with st run Some ps show ?thesis
          by (intro stop) (simp add: transcript_of_def receive_iter_eq dispatch_rx_eq loop_throws_def Let_def)
      next
        case wa: (Some wa)
        let ?st1 = "(send_frames E (pings evs) ?io2, wa)" and ?it = "Iteration (sendQueue w) bs evs"
        have iter: "receive_iter E J p rx st =
            (case e of RxMore \<Rightarrow> Again rest ?st1 | RxClose \<Rightarrow> Return True ?st1 | RxThrow \<Rightarrow> Crash)"
          using st run Some ps wa by (simp add: receive_iter_eq dispatch_rx_eq Let_def)
        show ?thesis
        proof (cases e)
          case RxMore
          obtain its st' e' rest' where t: "transcript_of fuel E J p rest ?st1 (ReceiveLoop fuel E J p rest ?st1) its st' e' rest'"
            using Suc.IH by blast
          have "transcript_of (Suc fuel) E J p rx st (ReceiveLoop (Suc fuel) E J p rx st) (?it # its) st' e' rest'"
            using t st run Some ps wa iter RxMore by (auto simp: transcript_of_def Let_def split: loop_result.splits)
          then show ?thesis by blast
        next
          case RxClose
          have "transcript_of (Suc fuel) E J p rx st (ReceiveLoop (Suc fuel) E J p rx st) [?it] ?st1 e rest"
            using st run Some ps wa iter RxClose by (simp add: transcript_of_def loop_returns_def Let_def)
          then show ?thesis by blast
        next
          case RxThrow
          with st run Some ps iter show ?thesis
            by (intro stop) (simp add: transcript_of_def loop_throws_def Let_def)
        qed
      qed
    qed
  qed
qed


section \<open>What goes over the wire\<close>

definition sent :: "iteration list \<Rightarrow> string list" where
  "sent its = concat (map (\<lambda>it. it_queue it @ pings (it_events it)) its)"

definition wire_frames :: "byte list list \<Rightarrow> string list \<Rightarrow> byte list" where
  "wire_frames mks ps = concat (map2 frame_bytes mks ps)"

definition masks_for :: "string list \<Rightarrow> byte list list \<Rightarrow> bool" where
  "masks_for ps mks \<longleftrightarrow> length mks = length ps \<and> list_all (\<lambda>m. length m = 4) mks"

lemma wire_append:
  "masks_for ps mks \<Longrightarrow> masks_for qs nks \<Longrightarrow>
     masks_for (ps @ qs) (mks @ nks) \<and> wire_frames (mks @ nks) (ps @ qs) = wire_frames mks ps @ wire_frames nks qs"
  by (simp add: masks_for_def wire_frames_def)

lemma send_frames_out:
  "accepting E \<Longrightarrow> \<exists>mks. masks_for ps mks \<and> io_out (send_frames E ps io) = io_out io @ wire_frames mks ps"
proof (induction ps arbitrary: io)
  case (Cons p ps)
  let ?mk = "map (rd_ans E (io_step io)) [0..<4]"
  from Cons obtain mks where "masks_for ps mks"
    "io_out (send_frames E ps (snd (SendFrame E p io))) = io_out (snd (SendFrame E p io)) @ wire_frames mks ps" by blast
  then show ?case using Cons.prems
    by (intro exI[of _ "?mk # mks"]) (simp add: masks_for_def wire_frames_def SendFrame_def SendAll_accepting)
qed (simp add: masks_for_def wire_frames_def)

lemma socket_run_out:
  "accepting E \<Longrightarrow> socket_run E its io = Some io' \<Longrightarrow>
     \<exists>mks. masks_for (sent its) mks \<and> io_out io' = io_out io @ wire_frames mks (sent its)"
proof (induction its arbitrary: io)
  case Nil
  then show ?case by (intro exI[of _ "[]"]) (simp add: sent_def masks_for_def wire_frames_def)
next
  case (Cons it its)
  obtain q bs evs where it: "it = Iteration q bs evs" by (cases it)
  let ?io1 = "send_frames E q io"
  let ?io2 = "send_frames E (pings evs) (?io1\<lparr>io_step := Suc (io_step ?io1)\<rparr>)"
  from Cons.prems(2) it have "socket_run E its ?io2 = Some io'" by (simp add: Let_def split: if_splits)
  from Cons.IH[OF Cons.prems(1) this] obtain mks where
    m: "masks_for (sent its) mks" "io_out io' = io_out ?io2 @ wire_frames mks (sent its)" by blast
  obtain nks where n: "masks_for q nks" "io_out ?io1 = io_out io @ wire_frames nks q"
    using send_frames_out[OF Cons.prems(1)] by blast
  obtain oks where o: "masks_for (pings evs) oks" "io_out ?io2 = io_out ?io1 @ wire_frames oks (pings evs)"
    using send_frames_out[OF Cons.prems(1), of "pings evs" "?io1\<lparr>io_step := Suc (io_step ?io1)\<rparr>"] by auto
  have "sent (it # its) = q @ pings evs @ sent its" by (simp add: sent_def it)
  with m n o wire_append[OF o(1) m(1)] wire_append[OF n(1), of "pings evs @ sent its" "oks @ mks"] show ?case
    by (intro exI[of _ "nks @ oks @ mks"]) simp
qed

section \<open>A connection\<close>

text \<open>C10: what a connection does, for every program behind the callbacks, every socket and any number of
  iterations. No callback is called unless the socket is connected and the handshake has succeeded;
  then \<open>onConnected\<close> comes first and sees the client connected. From then on the connection is a
  transcript of iterations: in each the queued packets go out, \<open>recv\<close> is called once and every ping is
  answered, and nothing else is done to the socket; the callback gets exactly the packets that the
  received messages decode to, in order. However the bytes were cut, the events are those of all received
  bytes parsed at once, and nothing behind a close frame is dispatched. On a socket that accepts bytes,
  the wire carries exactly the frames of the queued packets and the pings' answers. The connection ends
  with a close frame, when \<open>running_\<close> is cleared, or with the end or an error of the stream (the queue
  having been flushed once more), then \<open>onDisconnected\<close> is called once, the client no longer
  connected, and the socket is closed; or with an exception, of a callback or of an oversized frame.\<close>

lemma connection_served:
  assumes "DoConnectOnce fuel E J p oc od (io, w, a) = r" and "io0 = io\<lparr>io_step := Suc (io_step io)\<rparr>"
  shows "tcp_ans E (io_step io) = None \<and> r = Return False (io0, w, a)
    \<or> (\<exists>s io1. tcp_ans E (io_step io) = Some s \<and> Handshake E (w\<lparr>ws_sock := s\<rparr>) io0 = (False, io1)
        \<and> r = Return False (io1, CloseSocket (w\<lparr>ws_sock := s\<rparr>), a))
    \<or> (\<exists>s io1. tcp_ans E (io_step io) = Some s \<and> Handshake E (w\<lparr>ws_sock := s\<rparr>) io0 = (True, io1)
        \<and> oc (w\<lparr>ws_sock := s, ws_connected := True\<rparr>, a) = None \<and> r = Crash)
    \<or> (\<exists>s io1 wa its io2 wa2 e rest. tcp_ans E (io_step io) = Some s \<and> Handshake E (w\<lparr>ws_sock := s\<rparr>) io0 = (True, io1)
        \<and> oc (w\<lparr>ws_sock := s, ws_connected := True\<rparr>, a) = Some wa
        \<and> socket_run E its io1 = Some io2 \<and> program_run J p its wa = Some wa2
        \<and> (length (received its) < 2 ^ 63 \<longrightarrow> parse_stream (received its) = (dispatched its, e, rest))
        \<and> (accepting E \<longrightarrow> (\<exists>mks. masks_for (sent its) mks \<and> io_out io2 = io_out io1 @ wire_frames mks (sent its)))
        \<and> (case r of
             Again rx st \<Rightarrow> e = RxMore \<and> rx = rest \<and> st = (io2, wa2) \<and> length its = fuel
           | Return clean (io', w', a') \<Rightarrow>
               \<exists>w3 a3 w4. loop_returns E e (io2, wa2) clean (io', w3, a3)
                 \<and> od (w3\<lparr>ws_connected := False\<rparr>, a3) = (w4, a') \<and> w' = CloseSocket w4
           | Crash \<Rightarrow> e = RxMore \<and> loop_throws E J p rest (io2, wa2)))"
proof (cases "tcp_ans E (io_step io)")
  case None
  with assms show ?thesis by (simp add: DoConnectOnce_def)
next
  case s: (Some s)
  obtain ok io1 where h: "Handshake E (w\<lparr>ws_sock := s\<rparr>) io0 = (ok, io1)" by force
  show ?thesis
  proof (cases "\<not> ok \<or> oc (w\<lparr>ws_sock := s, ws_connected := True\<rparr>, a) = None")
    case True
    with assms s h show ?thesis by (cases ok) (auto simp: DoConnectOnce_def Let_def)
  next
    case False
    then obtain wa where wa: "ok" "oc (w\<lparr>ws_sock := s, ws_connected := True\<rparr>, a) = Some wa" by auto
    let ?loop = "ReceiveLoop fuel E J p [] (io1, wa)"
    obtain its io2 wa2 e rest where t: "transcript_of fuel E J p [] (io1, wa) ?loop its (io2, wa2) e rest"
      using ReceiveLoop_transcript[of fuel E J p "[]" "(io1, wa)"] by (metis prod.collapse)
    have r: "r = (case ?loop of Return clean (io, w, a) \<Rightarrow>
          (let (w, a) = od (w\<lparr>ws_connected := False\<rparr>, a) in Return clean (io, CloseSocket w, a)) | r \<Rightarrow> r)"
      using assms s h wa by (simp add: DoConnectOnce_def)
    have run: "socket_run E its io1 = Some io2" "program_run J p its wa = Some wa2" "framing_run [] its = Some (e, rest)"
      using t by (simp_all add: transcript_of_def)
    have parse: "length (received its) < 2 ^ 63 \<longrightarrow> parse_stream (received its) = (dispatched its, e, rest)"
      using framing_total[OF run(3)] by simp
    have wire: "accepting E \<longrightarrow> (\<exists>mks. masks_for (sent its) mks \<and> io_out io2 = io_out io1 @ wire_frames mks (sent its))"
      using socket_run_out run(1) by blast
    have "case r of
             Again rx st \<Rightarrow> e = RxMore \<and> rx = rest \<and> st = (io2, wa2) \<and> length its = fuel
           | Return clean (io', w', a') \<Rightarrow>
               \<exists>w3 a3 w4. loop_returns E e (io2, wa2) clean (io', w3, a3)
                 \<and> od (w3\<lparr>ws_connected := False\<rparr>, a3) = (w4, a') \<and> w' = CloseSocket w4
           | Crash \<Rightarrow> e = RxMore \<and> loop_throws E J p rest (io2, wa2)"
    proof (cases ?loop)
      case (Return clean st)
      obtain io3 w3 a3 where st: "st = (io3, w3, a3)" by (cases st)
      obtain w4 a4 where od: "od (w3\<lparr>ws_connected := False\<rparr>, a3) = (w4, a4)" by force
      have "r = Return clean (io3, CloseSocket w4, a4)" using r Return st od by simp
      moreover have "loop_returns E e (io2, wa2) clean (io3, w3, a3)" using t Return st by (simp add: transcript_of_def)
      ultimately show ?thesis using od by auto
    qed (use t r in \<open>auto simp: transcript_of_def\<close>)
    with s h[unfolded wa(1)[THEN eqTrueI]] wa(2) run(1,2) parse wire show ?thesis
      by (intro disjI2 exI[of _ s] exI[of _ io1] exI[of _ wa] exI[of _ its] exI[of _ io2] exI[of _ wa2] exI[of _ e]
          exI[of _ rest] conjI)
  qed
qed


text \<open>A server that answers every \<open>recv\<close> with the same 18 bytes: the headers of the handshake, and then,
  read as frames, a close frame of 84 bytes that arrives in pieces.\<close>

lemma handshake_demo_server: "fst (Handshake demo_server w io)"
proof -
  let ?req = "map byte_of_char (handshake_request w (RandomKey (map (rd_ans demo_server (io_step io)) [0..<16])))"
  have "accepting demo_server" by (simp add: accepting_def demo_server_def)
  then obtain io1 where s: "SendAll demo_server ?req io = (True, io1)"
    using send_from_ok[of demo_server ?req 0 io] by (cases "SendAll demo_server ?req io") (simp add: SendAll_def)
  have len: "length demo_answer \<le> 512" by (simp add: demo_answer_def CRLF_def)
  have c: "str_contains (CRLF @ CRLF) demo_answer" "str_contains ''101'' demo_answer"
    by (simp_all add: demo_answer_def CRLF_def)
  have "\<not> str_contains (CRLF @ CRLF) []" by (simp add: CRLF_def)
  moreover have "demo_answer \<noteq> []" by (simp add: demo_answer_def)
  ultimately have "fst (read_headers demo_server [] io1) = Some demo_answer"
    using len c by (simp add: read_headers.simps[of demo_server "[]"] read_headers.simps[of demo_server demo_answer]
        recv_demo_server Let_def)
  with s c show ?thesis by (auto simp: Handshake_def Let_def split: prod.splits option.splits)
qed

definition count_program :: "('j, nat) on_packet" where
  "count_program ty d wn = Some (fst wn, Suc (snd wn))"

lemma connection_served_witness:
  "\<exists>io1 its io2 wa2 e rest. Handshake demo_server (WsClient_init\<lparr>ws_sock := 5\<rparr>) (demo_io\<lparr>io_step := Suc (io_step demo_io)\<rparr>) = (True, io1)
     \<and> socket_run demo_server its io1 = Some io2
     \<and> program_run demo_json count_program its (WsClient_init\<lparr>ws_sock := 5, ws_connected := True\<rparr>, 0) = Some wa2
     \<and> (length (received its) < 2 ^ 63 \<longrightarrow> parse_stream (received its) = (dispatched its, e, rest))"
proof -
  have tcp: "tcp_ans demo_server k = Some 5" for k by (simp add: demo_server_def demo_env_def)
  have h: "Handshake demo_server w io \<noteq> (False, io1)" for w io io1 using handshake_demo_server[of w io] by auto
  let ?r = "DoConnectOnce 9 demo_server demo_json count_program Some id (demo_io, WsClient_init, 0)"
  from connection_served[of 9 demo_server demo_json count_program Some id demo_io WsClient_init 0 ?r, OF refl refl] show ?thesis
  proof (elim disjE exE conjE)
    fix s io1 wa its io2 wa2 e rest
    assume s: "tcp_ans demo_server (io_step demo_io) = Some s"
      and hs: "Handshake demo_server (WsClient_init\<lparr>ws_sock := s\<rparr>) (demo_io\<lparr>io_step := Suc (io_step demo_io)\<rparr>) = (True, io1)"
      and oc: "Some (WsClient_init\<lparr>ws_sock := s, ws_connected := True\<rparr>, 0) = Some wa"
      and run: "socket_run demo_server its io1 = Some io2" "program_run demo_json count_program its wa = Some wa2"
        "length (received its) < 2 ^ 63 \<longrightarrow> parse_stream (received its) = (dispatched its, e, rest)"
    from s tcp have s5: "s = 5" by simp
    with oc have wa: "wa = (WsClient_init\<lparr>ws_sock := 5, ws_connected := True\<rparr>, 0)" by simp
    from hs s5 run wa show ?thesis by blast
  qed (simp_all add: tcp h)
qed

end
