(* ===== verification/Spec2Isabelle.thy ===== *)
theory Spec2Isabelle
  imports Player_Live Session_Props Puzzle_Spec Puzzle_Race System_Props Combat_Props Scanner_Props
    Inventory_Props Hotkey Plugin_Props Ws_Worker Ws_Queue Overlay_View Render_Props Logger Wire_Types Worker_System Ws_Close Ws_Serve
begin

text \<open>
  A model of the C++ client of the multiplayer modification (\<open>src/client/src\<close>): a DLL that is loaded as
  \<open>dxgi.dll\<close>, finds the game's data structures by signature search, mirrors player, combat, cutscene
  and puzzle state over a WebSocket connection to a relay server, and draws an overlay.

  \<^bold>\<open>The parts and how they interact.\<close> \<open>dllmain.cpp\<close> loads the real \<open>dxgi.dll\<close>, resolves the offsets
  (\<open>game/scanner.cpp\<close>), starts the session and installs the hooks. From then on three threads share the
  singletons: the game's threads run into the detours (attack, skill, item use, cutscene, puzzle input);
  the render thread calls \<open>Session::Tick\<close> and draws the overlay from the \<open>Present\<close> hook and gets the
  window messages; the worker thread of \<open>net/client.cpp\<close> runs connect, handshake and the receive loop
  and hands every packet to \<open>Session::OnPacket\<close>, which dispatches to the player, combat, cutscene and
  puzzle sync. All of them read and write game memory through \<open>game/memory.cpp\<close> only.

  \<^bold>\<open>Theories and code.\<close>
  \<^item> \<open>Prelude\<close>: machine words, little-endian byte strings, monadic iteration, the \<open>ensures\<close> rules for code
    that may throw. \<open>Float32\<close>: IEEE single precision as 32-bit patterns. \<open>Std_Map\<close>: \<open>std::map\<close>.
    \<open>Json_Lib\<close>: the interface of the JSON library, its laws as the locale \<open>json_laws\<close>, and a concrete
    instance \<open>jv_lib\<close> that satisfies them; \<open>Json_Text\<close>: UTF-8, which documents the library can write, the
    locale \<open>json_text\<close>, and an instance \<open>jv_text_lib\<close>.
  \<^item> \<open>Offsets\<close>, \<open>Memory\<close>: \<open>game/offsets.h\<close>, \<open>game/memory.cpp\<close>. A memory \<open>vm\<close> is the bytes, the answers of
    \<open>VirtualQuery\<close> and the position, if any, at which an access traps; guarded reads and writes are total.
  \<^item> \<open>Protocol\<close>: \<open>net/protocol.cpp\<close>. \<open>Ws_Frame\<close>: Base64, frame builder and parser of \<open>net/client.cpp\<close>;
    \<open>Ws_Client\<close>: queue, sends, handshake, receive loop, reconnect schedule; \<open>Ws_Worker\<close>: the worker loop;
    \<open>Ws_Queue\<close>: the send queue with its producers and the worker interleaved step by step;
    \<open>Ws_Close\<close>: \<open>Disconnect\<close> and the join against the worker, step by step; \<open>Ws_Serve\<close>: a connection end to
    end, as a transcript of its receive iterations.
  \<^item> \<open>Player_Sync\<close>: \<open>sync/player_sync.cpp\<close>; \<open>Player_Wire\<close>: what goes over the wire and comes back;
    \<open>Player_Apply\<close>: interpolation and writes into remote entities; \<open>Player_Live\<close>: liveness of the sender.
  \<^item> \<open>Combat_Sync\<close>, \<open>Combat_Props\<close>: \<open>sync/combat_sync.cpp\<close>. \<open>Hooks\<close>: the MinHook calls of every subsystem and
    which functions are redirected after a history of them.
  \<^item> \<open>Client_State\<close>: the singletons gathered in one record \<open>Client\<close>, one field per singleton.
    \<open>Cutscene_Sync\<close>, \<open>Puzzle_Sync\<close>: \<open>sync/cutscene_sync.cpp\<close>, \<open>sync/puzzle_sync.cpp\<close>; \<open>Puzzle_Spec\<close>: the
    abstract token machine the puzzle sync refines; \<open>Puzzle_Race\<close>: the steps of the threads that share it.
  \<^item> \<open>Session\<close>, \<open>Session_Props\<close>: \<open>session.cpp\<close>, every packet handler, \<open>Tick\<close>, the callbacks of the client.
  \<^item> \<open>Modal_Ui\<close>: \<open>ui/modal.cpp\<close> and the window procedures; the user's input in a frame is an argument.
    \<open>Overlay_View\<close>: the calls each page makes on ImGui. \<open>Render_Hook\<close>, \<open>Render_Props\<close>: the set-up, the frame
    and the removal in \<open>hooks/render_hook.cpp\<close>, with the references, contexts and window procedures they own.
    \<open>Inventory_Hook\<close>, \<open>Hotkey\<close>, \<open>Inventory_Props\<close>: \<open>inventory/inventory_hook.cpp\<close>.
  \<^item> \<open>Scanner\<close>, \<open>Scanner_Props\<close>: \<open>game/scanner.cpp\<close>.
  \<^item> \<open>Plugin\<close>, \<open>Plugin_Props\<close>: \<open>dllmain.cpp\<close>, \<open>InstallRenderHook\<close> of \<open>hooks/render_hook.cpp\<close>,
    \<open>proxy/dxgi_proxy.cpp\<close>. \<open>Logger\<close>: \<open>util/log.cpp\<close>.
  \<^item> \<open>System\<close>: every entry point as one step of a transition system on \<open>Client\<close>, in any order, and the
    invariant of its reachable states; \<open>System_Props\<close>: what follows for the whole program.
    \<open>Wire_Types\<close>: the field types of \<open>docs/protocol.md\<close>, and that messages of these types are handled.
    \<open>Worker_System\<close>: the worker thread with the session's callbacks refines the transition system.

  \<^bold>\<open>Conventions.\<close> Definitions carry the names of the code, a class prefix added where two classes share
  one. \<open>None\<close> is an exception that leaves the function; the functions that catch one return a value.
  \<open>uintptr_t\<close>, \<open>int32_t\<close> and the like are words of their width; \<open>float\<close> is its bit pattern; a clock value
  of \<open>GetTickCount64\<close> is a natural number. \<open>client_step\<close> takes a handler as one step: the code's mutexes
  make the singletons' methods atomic, not the handlers; interleavings inside a handler are covered for the
  send queue (\<open>Ws_Queue\<close>), the stop of the client (\<open>Ws_Close\<close>) and the puzzle sync (\<open>Puzzle_Race\<close>) only.

  \<^bold>\<open>What the lemmas show.\<close> Wire: frames, packets, gameplay groups, signatures, Base64 and the offset cache
  are read back as they were written; received bytes mean the same however TCP cuts them, and a connection
  serves exactly what they decode to, between \<open>onConnected\<close> and \<open>onDisconnected\<close>. Queue: packets
  arrive once and in order under every interleaving of producers and worker while the socket takes the
  bytes, nothing is stuck, and what a send error loses; the join is bounded, no handle leaks, and
  the two races of \<open>CloseSocket\<close>. Sync: a state update reaches a peer as it was read from memory, is sent when
  the player moved and at most every 50 ms; the host alone adjudicates attacks; damage wounds one enemy;
  a skill shows up at the peers as it was cast. Puzzles: the sync refines the token machine, two players
  never both hold the gate, the countdown ends; no interleaving of the threads
  breaks the token, but one loses the countdown. Session: join requests, cutscene announcements, the
  behaviour after a kick, payloads that make a handler throw, and the types of those that never do, while
  the strings of the client's answers are UTF-8. System: the singletons agree in every reachable state, the
  worker thread stays within the reachable states, the network never writes game memory, unloading restores
  every function but \<open>Present\<close>. Worker: it stops. Overlay: frames are well formed, and which buttons each
  page enables and what they do. Render hook: every reference is given back, messages reach the game, but
  the window procedure is not restored. Scanner: the search finds the first occurrence, the layout found
  lies inside the checked memory but for the equipment block, the cache gives back what was saved.

  \<^bold>\<open>Bounds and fuel.\<close> \<open>ReceiveLoop\<close> and \<open>worker_rounds\<close> run as long as the connection or the client does, so
  they take a bound on their iterations and return \<open>Again\<close> with the state when it is used up; statements
  about them hold for every bound, and the theorem of \<open>Ws_Worker\<close> on its end gives the bound that is
  enough once the client is stopped. \<open>deliver\<close>, the chain of window
  procedures, may be endless and is a partial function. All other loops end and are recursive functions with a
  termination proof.

  \<^bold>\<open>Hypotheses.\<close> \<open>json_laws\<close> states the documented behaviour of the JSON library (objects, arrays, numbers
  and strings read back as stored, \<open>value\<close> throws on a non-object) and is proved of \<open>jv_lib\<close>. \<open>json_text\<close> adds
  what it documents of text: parsed documents hold UTF-8 only, and \<open>dump\<close> throws exactly on a document with
  another string; it is proved of \<open>jv_text_lib\<close>. Where \<open>SerializePacket\<close> may throw, its result is \<open>None\<close> and no
  statement assumes that it does not, unless it says so of the strings. The statements on the order of
  packets on the wire are for a socket that accepts bytes (\<open>accepting\<close>); \<open>Ws_Queue\<close> says what is lost
  otherwise. State updates carry finite floats (\<open>gp_finite\<close>), as a NaN is written as \<open>null\<close>. MinHook,
  sockets, Win32, the random device and the game's own functions are arguments and unconstrained.

  \<^bold>\<open>Not modelled.\<close> What Direct3D 11, DXGI and ImGui do with the calls they get, and the sizes and colours
  passed to ImGui. The calls of the logger in the other components: they change no state of theirs. The
  relay server (\<open>src/server\<close>, TypeScript). Build files.
\<close>

end
